(* ===== verification/Prelude.thy ===== *)
theory Prelude
  imports Main "HOL-Library.Word" "HOL-Library.Monad_Syntax" "HOL-Library.State_Monad"
begin

text \<open>
  The shared ground of the development: the machine types, single-bit access to a register
  (the SystemVerilog \<open>r[n]\<close> and the C masks of the drivers), the \<^verbatim>\<open>State_Monad\<close> vocabulary
  in which the bounded (polled) drivers are written, and the loop combinator \<open>c_loop\<close> for
  C loops that may run forever, with its total- and partial-correctness rules.

  The collections: \<open>bits\<close> holds the rules that turn masks into bits, \<open>run_simps\<close> the
  run equations of the monadic vocabulary and of the drivers' helpers.
\<close>

unbundle bit_operations_syntax

named_theorems bits
named_theorems run_simps

type_synonym byte = "8 word"
type_synonym u16 = "16 word"
type_synonym u32 = "32 word"

subsection \<open>Single bits of a register\<close>

text \<open>\<open>r[n] = b\<close> of SystemVerilog on a packed vector: every other bit is kept.\<close>

definition put_bit :: "nat \<Rightarrow> bool \<Rightarrow> 'a::len word \<Rightarrow> 'a word" where
  "put_bit n b w = (if b then set_bit n w else unset_bit n w)"

lemma bit_put_bit [simp, bits]:
  "bit (put_bit n b w) m = (if m = n then b \<and> n < LENGTH('a) else bit w m)"
  for w :: "'a::len word"
  by (auto simp: put_bit_def bit_set_bit_iff bit_unset_bit_iff dest: bit_imp_le_length)

lemma put_bit_same [simp]: "put_bit n b (put_bit n c w) = put_bit n b w"
  by (rule bit_word_eqI) auto

lemma put_bit_id: "n < LENGTH('a) \<Longrightarrow> bit w n = b \<Longrightarrow> put_bit n b w = w" for w :: "'a::len word"
  by (rule bit_word_eqI) auto

text \<open>The reduction \<open>^w\<close> of SystemVerilog: the exclusive or of all the bits of a byte.\<close>

definition xor_reduce :: "byte \<Rightarrow> bool" where
  "xor_reduce w = fold (\<lambda>i acc. acc \<noteq> bit w i) [0..<8] False"

lemma xor_reduce_0 [simp]: "xor_reduce 0 = False"
  by (simp add: xor_reduce_def upt_conv_Cons)

text \<open>Testing a mask of one bit, as the drivers do, is reading that bit.\<close>

lemma and_mask_bit:
  "(w AND 2 ^ n = 0) = (\<not> bit w n)" for w :: "'a::len word"
  by (rule and_exp_eq_0_iff_not_bit)

lemma byte_masks [bits]:
  fixes w :: byte
  shows "(w AND 0x80 = 0) = (\<not> bit w 7)" "(w AND 0x40 = 0) = (\<not> bit w 6)"
    "(w AND 0x20 = 0) = (\<not> bit w 5)" "(w AND 0x10 = 0) = (\<not> bit w 4)"
    "(w AND 0x08 = 0) = (\<not> bit w 3)" "(w AND 0x04 = 0) = (\<not> bit w 2)"
    "(w AND 0x02 = 0) = (\<not> bit w 1)" "(w AND 0x01 = 0) = (\<not> bit w 0)"
  using and_mask_bit [of w 7] and_mask_bit [of w 6] and_mask_bit [of w 5] and_mask_bit [of w 4]
    and_mask_bit [of w 3] and_mask_bit [of w 2] and_mask_bit [of w 1] and_mask_bit [of w 0]
  by simp_all

lemma byte_bit_cases [case_names b0 b1 b2 b3 b4 b5 b6 b7 out]:
  fixes n :: nat
  obtains "n = 0" | "n = 1" | "n = 2" | "n = 3" | "n = 4" | "n = 5" | "n = 6" | "n = 7" | "8 \<le> n"
  by linarith

lemma bit_byte_ge: "8 \<le> n \<Longrightarrow> \<not> bit w n" for w :: byte
  using bit_imp_le_length [of w n] by auto

lemma byte_eq_iff_bits:
  fixes v w :: byte
  shows "v = w \<longleftrightarrow> bit v 0 = bit w 0 \<and> bit v 1 = bit w 1 \<and> bit v 2 = bit w 2 \<and> bit v 3 = bit w 3 \<and>
     bit v 4 = bit w 4 \<and> bit v 5 = bit w 5 \<and> bit v 6 = bit w 6 \<and> bit v 7 = bit w 7" (is "_ = ?B")
proof
  assume ?B
  then have "bit v n = bit w n" for n
    by (cases n rule: byte_bit_cases) (auto simp: bit_byte_ge)
  then show "v = w" by (simp add: bit_eq_iff)
qed simp

subsection \<open>C loops that may run forever\<close>

text \<open>
  A C loop: the body either goes round again with a new state (\<open>Inl\<close>) or leaves the loop
  with a result (\<open>Inr\<close>). \<open>None\<close> is a loop, or an inner loop, that never ends.
\<close>

partial_function (option) c_loop :: "('s \<Rightarrow> ('s + 'r) option) \<Rightarrow> 's \<Rightarrow> 'r option" where
  "c_loop body s = (case body s of None \<Rightarrow> None
      | Some x \<Rightarrow> (case x of Inl s' \<Rightarrow> c_loop body s' | Inr r \<Rightarrow> Some r))"

declare c_loop.simps [code]

lemma c_loop_total:
  fixes m :: "'s \<Rightarrow> nat"
  assumes body: "\<And>s. I s \<Longrightarrow> \<exists>x. body s = Some x \<and>
      (case x of Inl s' \<Rightarrow> I s' \<and> m s' < m s | Inr r \<Rightarrow> Q r)"
    and start: "I s"
  shows "\<exists>r. c_loop body s = Some r \<and> Q r"
  using start
proof (induction "m s" arbitrary: s rule: less_induct)
  case less
  from body [OF less.prems] obtain x where x: "body s = Some x"
    and cases: "case x of Inl s' \<Rightarrow> I s' \<and> m s' < m s | Inr r \<Rightarrow> Q r" by blast
  show ?case
  proof (cases x)
    case (Inl s')
    with cases less.hyps obtain r where "c_loop body s' = Some r \<and> Q r" by auto
    with x Inl show ?thesis by (subst c_loop.simps) simp
  next
    case (Inr r)
    with x cases show ?thesis by (subst c_loop.simps) simp
  qed
qed

lemma c_loop_partial:
  assumes ret: "c_loop body s = Some r" and start: "I s"
    and inl: "\<And>s s'. I s \<Longrightarrow> body s = Some (Inl s') \<Longrightarrow> I s'"
    and inr: "\<And>s r. I s \<Longrightarrow> body s = Some (Inr r) \<Longrightarrow> Q r"
  shows "Q r"
proof -
  have "I s \<longrightarrow> Q r"
  proof (rule c_loop.raw_induct [where P = "\<lambda>bd s r. bd = body \<longrightarrow> I s \<longrightarrow> Q r", THEN mp, OF _ ret refl])
    fix loop bd s r
    assume IH: "\<And>bd s r. loop bd s = Some r \<Longrightarrow> bd = body \<longrightarrow> I s \<longrightarrow> Q r"
      and eq: "(case bd s of None \<Rightarrow> None
        | Some x \<Rightarrow> (case x of Inl s' \<Rightarrow> loop bd s' | Inr r \<Rightarrow> Some r)) = Some r"
    show "bd = body \<longrightarrow> I s \<longrightarrow> Q r"
      using eq IH inl inr by (fastforce split: option.splits sum.splits)
  qed
  with start show ?thesis by simp
qed

lemma c_loop_None:
  assumes start: "I s" and round: "\<And>s. I s \<Longrightarrow> \<exists>s'. body s = Some (Inl s') \<and> I s'"
  shows "c_loop body s = None"
proof (rule ccontr)
  assume "c_loop body s \<noteq> None"
  then obtain r where "c_loop body s = Some r" by blast
  then have False
    by (rule c_loop_partial [where I = I]) (use start round in fastforce)+
  then show False .
qed

text \<open>
  A loop whose body is a program of the state monad: \<open>None\<close> goes round again, \<open>Some\<close>
  leaves with a result. \<open>run\<close> embeds a program without loops among those that may not end.
\<close>

definition st_loop :: "('w, 'a option) state \<Rightarrow> 'w \<Rightarrow> ('a \<times> 'w) option" where
  "st_loop body = c_loop (\<lambda>w. case run_state body w of (x, w') \<Rightarrow>
     Some (case x of None \<Rightarrow> Inl w' | Some r \<Rightarrow> Inr (r, w')))"

definition run :: "('w, 'a) state \<Rightarrow> 'w \<Rightarrow> ('a \<times> 'w) option" where
  "run m w = Some (run_state m w)"

lemma run_unit:
  fixes m :: "('w, unit) state"
  obtains w' where "run_state m w = ((), w')"
  by (cases "run_state m w") simp

lemma run_simps_run [run_simps]: "run m w = Some (run_state m w)"
  by (simp add: run_def)

lemma st_loop_total:
  fixes m :: "'w \<Rightarrow> nat"
  assumes "\<And>w. I w \<Longrightarrow> case run_state body w of (None, w') \<Rightarrow> I w' \<and> m w' < m w | (Some r, w') \<Rightarrow> Q r w'"
    and "I w"
  shows "\<exists>r w'. st_loop body w = Some (r, w') \<and> Q r w'"
proof -
  have "\<exists>x. st_loop body w = Some x \<and> (case x of (r, w') \<Rightarrow> Q r w')"
    unfolding st_loop_def
  proof (rule c_loop_total [where I = I and m = m])
    fix w assume "I w"
    with assms(1) [of w] show "\<exists>x. (case run_state body w of (x, w') \<Rightarrow>
        Some (case x of None \<Rightarrow> Inl w' | Some r \<Rightarrow> Inr (r, w'))) = Some x \<and>
        (case x of Inl s' \<Rightarrow> I s' \<and> m s' < m w | Inr x \<Rightarrow> (case x of (r, w') \<Rightarrow> Q r w'))"
      by (auto split: prod.splits option.splits)
  qed (rule assms(2))
  then show ?thesis by auto
qed

lemma st_loop_partial:
  assumes "st_loop body w = Some (r, w')" "I w"
    and "\<And>w w'. I w \<Longrightarrow> run_state body w = (None, w') \<Longrightarrow> I w'"
    and "\<And>w r w'. I w \<Longrightarrow> run_state body w = (Some r, w') \<Longrightarrow> Q r w'"
  shows "Q r w'"
proof -
  have "case (r, w') of (r, w') \<Rightarrow> Q r w'"
    by (rule c_loop_partial [OF assms(1) [unfolded st_loop_def], where I = I])
      (use assms(2-4) in \<open>auto split: prod.splits option.splits\<close>)
  then show ?thesis by simp
qed

lemma st_loop_None:
  assumes "I w" "\<And>w. I w \<Longrightarrow> \<exists>w'. run_state body w = (None, w') \<and> I w'"
  shows "st_loop body w = None"
  unfolding st_loop_def by (rule c_loop_None [where I = I]) (use assms in \<open>force\<close>)+

subsection \<open>Triples\<close>

text \<open>
  \<open>triple P m Q\<close>: from every state in \<open>P\<close> the program \<open>m\<close> ends with a result and a state in
  \<open>Q\<close>. \<open>preserves I m\<close> is the triple of an invariant; its rules are collected in \<open>preserves_rules\<close>.
\<close>

definition triple :: "('s \<Rightarrow> bool) \<Rightarrow> ('s, 'a) state \<Rightarrow> ('a \<Rightarrow> 's \<Rightarrow> bool) \<Rightarrow> bool" where
  "triple P m Q \<longleftrightarrow> (\<forall>s. P s \<longrightarrow> (case run_state m s of (x, s') \<Rightarrow> Q x s'))"

abbreviation preserves :: "('s \<Rightarrow> bool) \<Rightarrow> ('s, 'a) state \<Rightarrow> bool" where
  "preserves I m \<equiv> triple I m (\<lambda>_. I)"

named_theorems preserves_rules

lemma tripleI: "(\<And>s x s'. P s \<Longrightarrow> run_state m s = (x, s') \<Longrightarrow> Q x s') \<Longrightarrow> triple P m Q"
  by (auto simp: triple_def)

lemma tripleD: "triple P m Q \<Longrightarrow> P s \<Longrightarrow> run_state m s = (x, s') \<Longrightarrow> Q x s'"
  by (auto simp: triple_def)

lemma triple_return: "(\<And>s. P s \<Longrightarrow> Q x s) \<Longrightarrow> triple P (State_Monad.return x) Q"
  by (auto simp: triple_def)

lemma triple_bind:
  "triple P m R \<Longrightarrow> (\<And>x. triple (R x) (f x) Q) \<Longrightarrow> triple P (State_Monad.bind m f) Q"
  by (fastforce simp: triple_def split: prod.splits)

lemma triple_State: "(\<And>s. P s \<Longrightarrow> case f s of (x, s') \<Rightarrow> Q x s') \<Longrightarrow> triple P (State f) Q"
  by (auto simp: triple_def)

lemma triple_cons: "triple P m Q \<Longrightarrow> (\<And>s. P' s \<Longrightarrow> P s) \<Longrightarrow> (\<And>x s. Q x s \<Longrightarrow> Q' x s) \<Longrightarrow> triple P' m Q'"
  by (fastforce simp: triple_def split: prod.splits)

lemma triple_pre: "triple P m Q \<Longrightarrow> (\<And>s. P' s \<Longrightarrow> P s) \<Longrightarrow> triple P' m Q"
  by (rule triple_cons)

lemma triple_if: "(b \<Longrightarrow> triple P m Q) \<Longrightarrow> (\<not> b \<Longrightarrow> triple P n Q) \<Longrightarrow> triple P (if b then m else n) Q"
  by simp

lemma triple_prod: "(\<And>a b. p = (a, b) \<Longrightarrow> triple P (f a b) Q) \<Longrightarrow> triple P (case p of (a, b) \<Rightarrow> f a b) Q"
  by (cases p) simp

lemma triple_option:
  "(x = None \<Longrightarrow> triple P m Q) \<Longrightarrow> (\<And>a. x = Some a \<Longrightarrow> triple P (f a) Q) \<Longrightarrow> triple P (case x of None \<Rightarrow> m | Some a \<Rightarrow> f a) Q"
  by (cases x) simp_all

lemma triple_conj: "triple P m Q \<Longrightarrow> triple P' m Q' \<Longrightarrow> triple (\<lambda>s. P s \<and> P' s) m (\<lambda>x s. Q x s \<and> Q' x s)"
  by (fastforce simp: triple_def split: prod.splits)

lemma preserves_bind [preserves_rules]:
  "preserves I m \<Longrightarrow> (\<And>x. preserves I (f x)) \<Longrightarrow> preserves I (State_Monad.bind m f)"
  by (rule triple_bind)

lemma preserves_return [preserves_rules]: "preserves I (State_Monad.return x)"
  by (rule triple_return)

lemma preserves_if [preserves_rules]: "preserves I m \<Longrightarrow> preserves I n \<Longrightarrow> preserves I (if b then m else n)"
  by simp

lemma preserves_prod [preserves_rules]: "(\<And>a b. preserves I (f a b)) \<Longrightarrow> preserves I (case p of (a, b) \<Rightarrow> f a b)"
  by (cases p) simp

lemma preserves_option [preserves_rules]:
  "preserves I m \<Longrightarrow> (\<And>a. preserves I (f a)) \<Longrightarrow> preserves I (case x of None \<Rightarrow> m | Some a \<Rightarrow> f a)"
  by (cases x) simp_all

text \<open>Carrying an invariant past a program that preserves it.\<close>

lemma triple_preserves: "preserves P m \<Longrightarrow> (\<And>x. triple P (f x) Q) \<Longrightarrow> triple P (State_Monad.bind m f) Q"
  by (rule triple_bind)

text \<open>A step whose effect does not matter, and a precondition that does not look at the state.\<close>

lemma triple_skip: "(\<And>x. triple (\<lambda>_. True) (f x) Q) \<Longrightarrow> triple P (State_Monad.bind m f) Q"
  by (rule triple_bind [where R = "\<lambda>_ _. True"]) (auto simp: triple_def)

lemma triple_pure: "(b \<Longrightarrow> triple (\<lambda>_. True) m Q) \<Longrightarrow> triple (\<lambda>_. b) m Q"
  by (auto simp: triple_def)

subsection \<open>Timed waits\<close>

text \<open>
  The wait of a driver for a condition: \<open>n + 1\<close> looks with a pause between them; the result is whether a look saw it.
  \<open>for (;;) { if (look) break; if (--timo < 0) break; delay; }\<close> is \<open>n = timo\<close>, and
  \<open>while (!look && --timo) delay;\<close> is \<open>n = timo - 1\<close>.
\<close>

fun wait_for :: "('d, bool) state \<Rightarrow> ('d, unit) state \<Rightarrow> nat \<Rightarrow> ('d, bool) state" where
  "wait_for look nap n = do {
     hit \<leftarrow> look;
     if hit then State_Monad.return True
     else (case n of 0 \<Rightarrow> State_Monad.return False | Suc k \<Rightarrow> do { nap; wait_for look nap k }) }"

declare wait_for.simps [simp del]

lemma wait_for_unit: "run_state (wait_for look nap n) () = (fst (run_state look ()), ())"
  by (induction n) (subst wait_for.simps, simp add: prod_eq_iff split: prod.splits)+

end
