(* ===== verification/Sci_Regs.thy ===== *)
theory Sci_Regs
  imports Prelude
begin

text \<open>
  The register file of the chip, \<^verbatim>\<open>src/src/sci_regs.sv\<close>: the five storage registers, the
  read multiplexer with its windows onto the engine, the strobes, and the clocked write with
  its three priorities (the RESET pin, an SCSI reset, the host; the engine's clears win a tie).
  The addresses and bit positions are those of \<^verbatim>\<open>src/src/wish5380_pkg.sv\<close>.
\<close>

subsection \<open>Addresses and bit positions\<close>

definition A_CSD :: "3 word" where "A_CSD = 0"
definition A_ODR :: "3 word" where "A_ODR = 0"
definition A_ICR :: "3 word" where "A_ICR = 1"
definition A_MR :: "3 word" where "A_MR = 2"
definition A_TCR :: "3 word" where "A_TCR = 3"
definition A_CSB :: "3 word" where "A_CSB = 4"
definition A_SER :: "3 word" where "A_SER = 4"
definition A_BSR :: "3 word" where "A_BSR = 5"
definition A_SDS :: "3 word" where "A_SDS = 5"
definition A_IDR :: "3 word" where "A_IDR = 6"
definition A_SDTR :: "3 word" where "A_SDTR = 6"
definition A_RPI :: "3 word" where "A_RPI = 7"
definition A_SDIR :: "3 word" where "A_SDIR = 7"

lemmas addr_defs = A_CSD_def A_ODR_def A_ICR_def A_MR_def A_TCR_def A_CSB_def A_SER_def A_BSR_def
  A_SDS_def A_IDR_def A_SDTR_def A_RPI_def A_SDIR_def

abbreviation (input) "ICR_RST_B \<equiv> (7::nat)"
abbreviation (input) "ICR_AIP_B \<equiv> (6::nat)"
abbreviation (input) "ICR_TEST_B \<equiv> (6::nat)"
abbreviation (input) "ICR_LA_B \<equiv> (5::nat)"
abbreviation (input) "ICR_ACK_B \<equiv> (4::nat)"
abbreviation (input) "ICR_BSY_B \<equiv> (3::nat)"
abbreviation (input) "ICR_SEL_B \<equiv> (2::nat)"
abbreviation (input) "ICR_ATN_B \<equiv> (1::nat)"
abbreviation (input) "ICR_DATA_B \<equiv> (0::nat)"
abbreviation (input) "MR_TARGET_B \<equiv> (6::nat)"
abbreviation (input) "MR_PAR_CHK_B \<equiv> (5::nat)"
abbreviation (input) "MR_PAR_INTR_B \<equiv> (4::nat)"
abbreviation (input) "MR_EOP_INTR_B \<equiv> (3::nat)"
abbreviation (input) "MR_MON_BSY_B \<equiv> (2::nat)"
abbreviation (input) "MR_DMA_B \<equiv> (1::nat)"
abbreviation (input) "MR_ARB_B \<equiv> (0::nat)"
abbreviation (input) "TCR_REQ_B \<equiv> (3::nat)"
abbreviation (input) "TCR_MSG_B \<equiv> (2::nat)"
abbreviation (input) "TCR_CD_B \<equiv> (1::nat)"
abbreviation (input) "TCR_IO_B \<equiv> (0::nat)"
abbreviation (input) "TCR_RW_MASK \<equiv> (0x0f::byte)"

subsection \<open>State and ports\<close>

record sci_regs =
  odr_q :: byte
  icr_q :: byte
  mr_q :: byte
  tcr_q :: byte
  ser_q :: byte

text \<open>The microprocessor port: one access per clock while \<open>stb_i\<close> is high.\<close>

record mpu_port =
  stb_i :: bool
  we_i :: bool
  dack_i :: bool
  adr_i :: "3 word"
  dat_i :: byte

text \<open>What the engine reports to the register file.\<close>

record engine_rep =
  aip_i :: bool
  la_i :: bool
  csd_i :: byte
  csb_i :: byte
  idr_i :: byte
  end_dma_i :: bool
  drq_i :: bool
  par_err_i :: bool
  irq_i :: bool
  phase_match_i :: bool
  busy_err_i :: bool
  atn_i :: bool
  ack_i :: bool

subsection \<open>Read\<close>

definition icr_rd :: "sci_regs \<Rightarrow> engine_rep \<Rightarrow> byte" where
  "icr_rd r e = put_bit ICR_LA_B (la_i e) (put_bit ICR_AIP_B (aip_i e) (icr_q r))"

definition bsr_rd :: "engine_rep \<Rightarrow> byte" where
  "bsr_rd e = put_bit 0 (ack_i e) (put_bit 1 (atn_i e) (put_bit 2 (busy_err_i e)
     (put_bit 3 (phase_match_i e) (put_bit 4 (irq_i e) (put_bit 5 (par_err_i e)
     (put_bit 6 (drq_i e) (put_bit 7 (end_dma_i e) 0)))))))"

definition regs_dat_o :: "sci_regs \<Rightarrow> engine_rep \<Rightarrow> mpu_port \<Rightarrow> byte" where
  "regs_dat_o r e p =
     (if dack_i p then idr_i e
      else if adr_i p = A_CSD then csd_i e
      else if adr_i p = A_ICR then icr_rd r e
      else if adr_i p = A_MR then mr_q r
      else if adr_i p = A_TCR then tcr_q r AND TCR_RW_MASK
      else if adr_i p = A_CSB then csb_i e
      else if adr_i p = A_BSR then bsr_rd e
      else if adr_i p = A_IDR then idr_i e
      else 0)"

subsection \<open>Strobes\<close>

definition decode :: "mpu_port \<Rightarrow> bool" where "decode p \<longleftrightarrow> stb_i p \<and> \<not> dack_i p"

definition csd_rd_o :: "mpu_port \<Rightarrow> bool" where
  "csd_rd_o p \<longleftrightarrow> decode p \<and> \<not> we_i p \<and> adr_i p = A_CSD"
definition rpi_o :: "mpu_port \<Rightarrow> bool" where
  "rpi_o p \<longleftrightarrow> decode p \<and> \<not> we_i p \<and> adr_i p = A_RPI"
definition sds_o :: "mpu_port \<Rightarrow> bool" where
  "sds_o p \<longleftrightarrow> decode p \<and> we_i p \<and> adr_i p = A_SDS"
definition sdtr_o :: "mpu_port \<Rightarrow> bool" where
  "sdtr_o p \<longleftrightarrow> decode p \<and> we_i p \<and> adr_i p = A_SDTR"
definition sdir_o :: "mpu_port \<Rightarrow> bool" where
  "sdir_o p \<longleftrightarrow> decode p \<and> we_i p \<and> adr_i p = A_SDIR"

lemmas strobe_defs = decode_def csd_rd_o_def rpi_o_def sds_o_def sdtr_o_def sdir_o_def

subsection \<open>Write\<close>

definition regs_reset :: sci_regs where
  "regs_reset = \<lparr>odr_q = 0, icr_q = 0, mr_q = 0, tcr_q = 0, ser_q = 0\<rparr>"

text \<open>The host's write: the \<open>unique case\<close> of \<open>sci_regs.sv\<close>. \<open>bsy_i\<close> is BSY on the bus.\<close>

definition regs_write :: "bool \<Rightarrow> mpu_port \<Rightarrow> sci_regs \<Rightarrow> sci_regs" where
  "regs_write bsy p r =
     (if dack_i p then r\<lparr>odr_q := dat_i p\<rparr>
      else if adr_i p = A_ODR then r\<lparr>odr_q := dat_i p\<rparr>
      else if adr_i p = A_ICR then r\<lparr>icr_q := dat_i p\<rparr>
      else if adr_i p = A_MR then r\<lparr>mr_q := (if bsy then dat_i p else put_bit MR_DMA_B False (dat_i p))\<rparr>
      else if adr_i p = A_TCR then r\<lparr>tcr_q := dat_i p\<rparr>
      else if adr_i p = A_SER then r\<lparr>ser_q := dat_i p\<rparr>
      else r)"

text \<open>
  One clock of the register file. The non-blocking assignments of the last two lines of the
  \<open>always_ff\<close> override bits of whatever the branches above assigned.
\<close>

definition regs_step :: "bool \<Rightarrow> bool \<Rightarrow> bool \<Rightarrow> bool \<Rightarrow> bool \<Rightarrow> mpu_port \<Rightarrow> sci_regs \<Rightarrow> sci_regs" where
  "regs_step rst sclr icr_clr_lo mr_dma_clr bsy p r =
     (if rst then regs_reset
      else
        let r1 = (if sclr then
                    \<lparr>odr_q = 0, icr_q = icr_q r AND push_bit ICR_RST_B 1, mr_q = 0, tcr_q = 0, ser_q = 0\<rparr>
                  else if stb_i p \<and> we_i p then regs_write bsy p r
                  else r);
            r2 = (if icr_clr_lo then r1\<lparr>icr_q := icr_q r1 AND 0xc0\<rparr> else r1)
        in if mr_dma_clr then r2\<lparr>mr_q := put_bit MR_DMA_B False (mr_q r2)\<rparr> else r2)"

subsection \<open>Facts about the register file\<close>

lemma bit_icr_rd [bits]:
  "bit (icr_rd r e) n = (if n = 5 then la_i e else if n = 6 then aip_i e else bit (icr_q r) n)"
  by (simp add: icr_rd_def)

lemma bsr_rd_bits [bits]:
  "bit (bsr_rd e) 7 = end_dma_i e" "bit (bsr_rd e) 6 = drq_i e" "bit (bsr_rd e) 5 = par_err_i e"
  "bit (bsr_rd e) 4 = irq_i e" "bit (bsr_rd e) 3 = phase_match_i e"
  "bit (bsr_rd e) 2 = busy_err_i e" "bit (bsr_rd e) 1 = atn_i e" "bit (bsr_rd e) 0 = ack_i e"
  by (simp_all add: bsr_rd_def)

lemma bit_mask_c0: "bit (w AND 0xc0) n = (bit w n \<and> (n = 7 \<or> n = 6))" for w :: byte
  by (cases n rule: byte_bit_cases) (simp_all add: bit_and_iff bit_byte_ge)

text \<open>Nothing the engine's own clears touch is ever set by them.\<close>

lemma regs_step_clear:
  "\<not> rst \<Longrightarrow> icr_clr_lo \<Longrightarrow> n < 6 \<Longrightarrow>
     \<not> bit (icr_q (regs_step rst sclr icr_clr_lo mr_dma_clr bsy p r)) n"
  by (auto simp: regs_step_def Let_def bit_mask_c0)

end
