(* ===== verification/Sci_Bus.thy ===== *)
theory Sci_Bus
  imports Sci_Regs
begin

text \<open>
  The engine of the chip, \<^verbatim>\<open>src/src/sci_bus.sv\<close>, and the wired-OR fabric it is attached to,
  \<^verbatim>\<open>src/src/scsi_fabric.sv\<close>: what the chip drives, what it reports, arbitration, the DMA
  handshake, selection, parity, loss of BSY, phase mismatch, bus reset and the interrupt latch.
  Combinational signals are functions of the registers, the engine state and the bus; the
  clocked blocks are the fields of \<open>bus_step\<close>.
\<close>

subsection \<open>The SCSI bus and the fabric\<close>

record scsi_t =
  l_rst :: bool
  l_bsy :: bool
  l_sel :: bool
  l_req :: bool
  l_ack :: bool
  l_atn :: bool
  l_msg :: bool
  l_cd :: bool
  l_io :: bool
  l_data :: byte
  l_dbp :: bool

definition scsi_idle :: scsi_t where
  "scsi_idle = \<lparr>l_rst = False, l_bsy = False, l_sel = False, l_req = False, l_ack = False,
     l_atn = False, l_msg = False, l_cd = False, l_io = False, l_data = 0, l_dbp = False\<rparr>"

definition scsi_or :: "scsi_t \<Rightarrow> scsi_t \<Rightarrow> scsi_t" where
  "scsi_or a b = \<lparr>l_rst = l_rst a \<or> l_rst b, l_bsy = l_bsy a \<or> l_bsy b, l_sel = l_sel a \<or> l_sel b,
     l_req = l_req a \<or> l_req b, l_ack = l_ack a \<or> l_ack b, l_atn = l_atn a \<or> l_atn b,
     l_msg = l_msg a \<or> l_msg b, l_cd = l_cd a \<or> l_cd b, l_io = l_io a \<or> l_io b,
     l_data = l_data a OR l_data b, l_dbp = l_dbp a \<or> l_dbp b\<rparr>"

definition scsi_fabric :: "scsi_t \<Rightarrow> scsi_t \<Rightarrow> scsi_t \<Rightarrow> scsi_t \<Rightarrow> scsi_t" where
  "scsi_fabric a b c d = scsi_or (scsi_or (scsi_or a b) c) d"

lemma scsi_or_sel [simp]:
  "l_rst (scsi_or a b) = (l_rst a \<or> l_rst b)" "l_bsy (scsi_or a b) = (l_bsy a \<or> l_bsy b)"
  "l_sel (scsi_or a b) = (l_sel a \<or> l_sel b)" "l_req (scsi_or a b) = (l_req a \<or> l_req b)"
  "l_ack (scsi_or a b) = (l_ack a \<or> l_ack b)" "l_atn (scsi_or a b) = (l_atn a \<or> l_atn b)"
  "l_msg (scsi_or a b) = (l_msg a \<or> l_msg b)" "l_cd (scsi_or a b) = (l_cd a \<or> l_cd b)"
  "l_io (scsi_or a b) = (l_io a \<or> l_io b)" "l_data (scsi_or a b) = l_data a OR l_data b"
  "l_dbp (scsi_or a b) = (l_dbp a \<or> l_dbp b)"
  by (simp_all add: scsi_or_def)

lemma scsi_or_idle [simp]: "scsi_or a scsi_idle = a" "scsi_or scsi_idle a = a"
  by (simp_all add: scsi_or_def scsi_idle_def)

lemma scsi_or_assoc: "scsi_or (scsi_or a b) c = scsi_or a (scsi_or b c)"
  by (simp add: scsi_or_def or.assoc disj_assoc)

lemma scsi_or_commute: "scsi_or a b = scsi_or b a"
  by (auto simp: scsi_or_def or.commute)

lemma scsi_or_self [simp]: "scsi_or a a = a"
  by (simp add: scsi_or_def)

subsection \<open>Engine state\<close>

datatype dma_state = D_IDLE | D_S_WANT | D_S_HAVE | D_S_HS | D_S_TREL | D_R_WANT | D_R_HAVE | D_R_HS

text \<open>
  \<open>free_cnt\<close> is a counter of just enough bits for \<open>N_MAX\<close> that stops there; it starts at
  zero, so it never wraps and is a natural number here.
\<close>

record sci_bus =
  req_q :: bool
  rst_q :: bool
  free_cnt :: nat
  arb_active :: bool
  la_q :: bool
  dma_st :: dma_state
  dma_tgt :: bool
  drq_q :: bool
  idr_q :: byte
  end_dma_q :: bool
  par_err_q :: bool
  busy_err_q :: bool
  irq_q :: bool

definition bus_reset :: sci_bus where
  "bus_reset = \<lparr>req_q = False, rst_q = False, free_cnt = 0, arb_active = False, la_q = False,
     dma_st = D_IDLE, dma_tgt = False, drq_q = False, idr_q = 0, end_dma_q = False,
     par_err_q = False, busy_err_q = False, irq_q = False\<rparr>"

text \<open>The two delays in clocks, from the clock period in picoseconds (the elaboration parameter).\<close>

definition T_BUS_FREE :: "nat \<Rightarrow> nat" where
  "T_BUS_FREE clk_period_ps = (400000 + clk_period_ps - 1) div clk_period_ps"
definition T_BUS_SETTLE :: "nat \<Rightarrow> nat" where
  "T_BUS_SETTLE clk_period_ps = (400000 + clk_period_ps - 1) div clk_period_ps"
definition N_MAX :: "nat \<Rightarrow> nat" where
  "N_MAX ps = (if T_BUS_FREE ps > T_BUS_SETTLE ps then T_BUS_FREE ps else T_BUS_SETTLE ps)"

lemma N_MAX_eq: "N_MAX ps = T_BUS_FREE ps" "N_MAX ps = T_BUS_SETTLE ps"
  by (simp_all add: N_MAX_def T_BUS_FREE_def T_BUS_SETTLE_def)

text \<open>The strobes and pins that reach the engine in one clock.\<close>

record strobes =
  csd_rd_i :: bool
  rpi_i :: bool
  sds_i :: bool
  sdtr_i :: bool
  sdir_i :: bool
  dack_rd_i :: bool
  dack_wr_i :: bool
  eop_i :: bool

subsection \<open>Combinational signals\<close>

definition target_mode :: "sci_regs \<Rightarrow> bool" where "target_mode r = bit (mr_q r) MR_TARGET_B"
definition dma_mode :: "sci_regs \<Rightarrow> bool" where "dma_mode r = bit (mr_q r) MR_DMA_B"
definition arbitrate :: "sci_regs \<Rightarrow> bool" where "arbitrate r = bit (mr_q r) MR_ARB_B"
definition monitor_bsy :: "sci_regs \<Rightarrow> bool" where "monitor_bsy r = bit (mr_q r) MR_MON_BSY_B"
definition par_chk :: "sci_regs \<Rightarrow> bool" where "par_chk r = bit (mr_q r) MR_PAR_CHK_B"
definition par_intr_en :: "sci_regs \<Rightarrow> bool" where "par_intr_en r = bit (mr_q r) MR_PAR_INTR_B"
definition eop_intr_en :: "sci_regs \<Rightarrow> bool" where "eop_intr_en r = bit (mr_q r) MR_EOP_INTR_B"
definition test_mode :: "sci_regs \<Rightarrow> bool" where "test_mode r = bit (icr_q r) ICR_TEST_B"

lemmas mode_defs = target_mode_def dma_mode_def arbitrate_def monitor_bsy_def par_chk_def
  par_intr_en_def eop_intr_en_def test_mode_def

definition phase_match_o :: "sci_regs \<Rightarrow> scsi_t \<Rightarrow> bool" where
  "phase_match_o r b \<longleftrightarrow> l_msg b = bit (tcr_q r) TCR_MSG_B \<and> l_cd b = bit (tcr_q r) TCR_CD_B
     \<and> l_io b = bit (tcr_q r) TCR_IO_B"

definition arbitrating :: "sci_regs \<Rightarrow> sci_bus \<Rightarrow> bool" where
  "arbitrating r e \<longleftrightarrow> arb_active e \<and> arbitrate r"
definition aip_o :: "sci_regs \<Rightarrow> sci_bus \<Rightarrow> bool" where "aip_o r e = arbitrating r e"
definition la_o :: "sci_regs \<Rightarrow> sci_bus \<Rightarrow> bool" where "la_o r e \<longleftrightarrow> la_q e \<and> arbitrate r"

definition drive_data :: "sci_regs \<Rightarrow> sci_bus \<Rightarrow> scsi_t \<Rightarrow> bool" where
  "drive_data r e b \<longleftrightarrow> arbitrating r e \<or>
     (bit (icr_q r) ICR_DATA_B \<and> (target_mode r \<or> (\<not> l_io b \<and> phase_match_o r b)))"

definition dma_ack :: "sci_regs \<Rightarrow> sci_bus \<Rightarrow> bool" where
  "dma_ack r e \<longleftrightarrow> dma_mode r \<and> \<not> dma_tgt e \<and> (dma_st e = D_S_HS \<or> dma_st e = D_R_HS)"
definition dma_req :: "sci_regs \<Rightarrow> sci_bus \<Rightarrow> bool" where
  "dma_req r e \<longleftrightarrow> dma_mode r \<and> dma_tgt e \<and> (dma_st e = D_S_HS \<or> dma_st e = D_R_WANT)"

definition drive_o :: "sci_regs \<Rightarrow> sci_bus \<Rightarrow> scsi_t \<Rightarrow> scsi_t" where
  "drive_o r e b =
     (let drv_en = \<not> test_mode r; tgt = target_mode r in
      \<lparr>l_rst = (drv_en \<and> bit (icr_q r) ICR_RST_B),
       l_bsy = (drv_en \<and> (bit (icr_q r) ICR_BSY_B \<or> arbitrating r e)),
       l_sel = (drv_en \<and> bit (icr_q r) ICR_SEL_B),
       l_req = (drv_en \<and> tgt \<and> (bit (tcr_q r) TCR_REQ_B \<or> dma_req r e)),
       l_ack = (drv_en \<and> \<not> tgt \<and> (bit (icr_q r) ICR_ACK_B \<or> dma_ack r e)),
       l_atn = (drv_en \<and> \<not> tgt \<and> bit (icr_q r) ICR_ATN_B),
       l_msg = (drv_en \<and> tgt \<and> bit (tcr_q r) TCR_MSG_B),
       l_cd = (drv_en \<and> tgt \<and> bit (tcr_q r) TCR_CD_B),
       l_io = (drv_en \<and> tgt \<and> bit (tcr_q r) TCR_IO_B),
       l_data = (if drv_en \<and> drive_data r e b then odr_q r else 0),
       l_dbp = (if drv_en \<and> drive_data r e b then \<not> xor_reduce (odr_q r) else False)\<rparr>)"

definition csb_o :: "scsi_t \<Rightarrow> byte" where
  "csb_o b = put_bit 7 (l_rst b) (put_bit 6 (l_bsy b) (put_bit 5 (l_req b) (put_bit 4 (l_msg b)
     (put_bit 3 (l_cd b) (put_bit 2 (l_io b) (put_bit 1 (l_sel b) (put_bit 0 (l_dbp b) 0)))))))"

definition bus_free :: "nat \<Rightarrow> sci_bus \<Rightarrow> scsi_t \<Rightarrow> bool" where
  "bus_free ps e b \<longleftrightarrow> T_BUS_FREE ps \<le> free_cnt e \<and> \<not> l_bsy b"
definition bsy_settled_false :: "nat \<Rightarrow> sci_bus \<Rightarrow> scsi_t \<Rightarrow> bool" where
  "bsy_settled_false ps e b \<longleftrightarrow> T_BUS_SETTLE ps \<le> free_cnt e \<and> \<not> l_bsy b"

definition drq_o :: "sci_regs \<Rightarrow> sci_bus \<Rightarrow> bool" where "drq_o r e \<longleftrightarrow> drq_q e \<and> dma_mode r"
definition end_dma_o :: "sci_regs \<Rightarrow> sci_bus \<Rightarrow> bool" where
  "end_dma_o r e \<longleftrightarrow> end_dma_q e \<and> dma_mode r"

definition req_ok :: "sci_regs \<Rightarrow> scsi_t \<Rightarrow> bool" where
  "req_ok r b \<longleftrightarrow> l_req b \<and> phase_match_o r b"
definition recv_latch :: "sci_regs \<Rightarrow> sci_bus \<Rightarrow> scsi_t \<Rightarrow> bool" where
  "recv_latch r e b \<longleftrightarrow> dma_st e = D_R_WANT \<and> (if dma_tgt e then l_ack b else req_ok r b)"

definition sel_match :: "sci_regs \<Rightarrow> scsi_t \<Rightarrow> bool" where
  "sel_match r b \<longleftrightarrow> l_sel b \<and> \<not> l_bsy b \<and> l_data b AND ser_q r \<noteq> 0"
definition sel_int :: "nat \<Rightarrow> sci_regs \<Rightarrow> sci_bus \<Rightarrow> scsi_t \<Rightarrow> bool" where
  "sel_int ps r e b \<longleftrightarrow> sel_match r b \<and> bsy_settled_false ps e b"

definition parity_bad :: "scsi_t \<Rightarrow> bool" where
  "parity_bad b \<longleftrightarrow> l_dbp b \<noteq> (\<not> xor_reduce (l_data b))"
definition busy_lost :: "nat \<Rightarrow> sci_regs \<Rightarrow> sci_bus \<Rightarrow> scsi_t \<Rightarrow> bool" where
  "busy_lost ps r e b \<longleftrightarrow> monitor_bsy r \<and> bsy_settled_false ps e b \<and> \<not> busy_err_q e"
definition phase_mismatch_int :: "sci_regs \<Rightarrow> sci_bus \<Rightarrow> scsi_t \<Rightarrow> bool" where
  "phase_mismatch_int r e b \<longleftrightarrow> dma_mode r \<and> \<not> target_mode r \<and> l_req b \<and> \<not> req_q e
     \<and> \<not> phase_match_o r b"
definition scsi_rst_int :: "sci_bus \<Rightarrow> scsi_t \<Rightarrow> bool" where
  "scsi_rst_int e b \<longleftrightarrow> l_rst b \<and> \<not> rst_q e"
definition eop_int :: "sci_regs \<Rightarrow> strobes \<Rightarrow> bool" where
  "eop_int r x \<longleftrightarrow> eop_intr_en r \<and> eop_i x \<and> dma_mode r"
definition parity_int :: "sci_regs \<Rightarrow> sci_bus \<Rightarrow> strobes \<Rightarrow> scsi_t \<Rightarrow> bool" where
  "parity_int r e x b \<longleftrightarrow> par_chk r \<and> par_intr_en r \<and> parity_bad b \<and> (csd_rd_i x \<or> recv_latch r e b)"

subsection \<open>The clocked blocks\<close>

definition free_cnt_next :: "nat \<Rightarrow> sci_bus \<Rightarrow> scsi_t \<Rightarrow> nat" where
  "free_cnt_next ps e b =
     (if l_bsy b then 0 else if free_cnt e \<noteq> N_MAX ps then free_cnt e + 1 else free_cnt e)"

text \<open>The pair \<open>(arb_active, la_q)\<close>.\<close>

definition arb_next :: "nat \<Rightarrow> sci_regs \<Rightarrow> sci_bus \<Rightarrow> scsi_t \<Rightarrow> bool \<times> bool" where
  "arb_next ps r e b =
     (if scsi_rst_int e b then (False, False)
      else if \<not> arbitrate r then (False, False)
      else (arb_active e \<or> (\<not> arb_active e \<and> bus_free ps e b \<and> \<not> l_sel b),
            la_q e \<or> (arb_active e \<and> l_sel b \<and> \<not> l_sel (drive_o r e b))))"

text \<open>The DMA handshake: the four registers \<open>(dma_st, dma_tgt, drq_q, idr_q)\<close>.\<close>

definition dma_next :: "sci_regs \<Rightarrow> sci_bus \<Rightarrow> strobes \<Rightarrow> scsi_t \<Rightarrow> dma_state \<times> bool \<times> bool \<times> byte" where
  "dma_next r e x b =
     (let st = dma_st e; tg = dma_tgt e; dq = drq_q e; id = idr_q e in
      if scsi_rst_int e b then (D_IDLE, False, False, 0)
      else if \<not> dma_mode r then (D_IDLE, tg, False, id)
      else case st of
        D_IDLE \<Rightarrow> if sds_i x then (D_S_WANT, target_mode r, True, id)
                  else if sdtr_i x then (D_R_WANT, True, dq, id)
                  else if sdir_i x then (D_R_WANT, False, dq, id)
                  else (st, tg, dq, id)
      | D_S_WANT \<Rightarrow> if dack_wr_i x then (D_S_HAVE, tg, False, id) else (st, tg, dq, id)
      | D_S_HAVE \<Rightarrow> if tg then (D_S_HS, tg, dq, id)
                    else if req_ok r b then (D_S_HS, tg, dq, id) else (st, tg, dq, id)
      | D_S_HS \<Rightarrow> if tg then (if l_ack b then (D_S_TREL, tg, dq, id) else (st, tg, dq, id))
                  else if \<not> l_req b then (D_S_WANT, tg, True, id) else (st, tg, dq, id)
      | D_S_TREL \<Rightarrow> if \<not> l_ack b then (D_S_WANT, tg, True, id) else (st, tg, dq, id)
      | D_R_WANT \<Rightarrow> if recv_latch r e b then (D_R_HAVE, tg, True, l_data b) else (st, tg, dq, id)
      | D_R_HAVE \<Rightarrow> if dack_rd_i x then (D_R_HS, tg, False, id) else (st, tg, dq, id)
      | D_R_HS \<Rightarrow> if (if tg then \<not> l_ack b else \<not> l_req b) then (D_R_WANT, tg, dq, id)
                  else (st, tg, dq, id))"

definition end_dma_next :: "sci_regs \<Rightarrow> sci_bus \<Rightarrow> strobes \<Rightarrow> scsi_t \<Rightarrow> bool" where
  "end_dma_next r e x b =
     (if scsi_rst_int e b then False
      else if \<not> dma_mode r then False
      else if eop_i x \<and> (dack_rd_i x \<or> dack_wr_i x) then True else end_dma_q e)"

definition par_err_next :: "nat \<Rightarrow> sci_regs \<Rightarrow> sci_bus \<Rightarrow> strobes \<Rightarrow> scsi_t \<Rightarrow> bool" where
  "par_err_next ps r e x b =
     (if scsi_rst_int e b then False
      else if rpi_i x then False
      else if par_chk r \<and> parity_bad b \<and> (csd_rd_i x \<or> recv_latch r e b \<or> sel_int ps r e b) then True
      else par_err_q e)"

definition busy_err_next :: "nat \<Rightarrow> sci_regs \<Rightarrow> sci_bus \<Rightarrow> strobes \<Rightarrow> scsi_t \<Rightarrow> bool" where
  "busy_err_next ps r e x b =
     (if scsi_rst_int e b then False
      else if rpi_i x then False
      else if busy_lost ps r e b then True else busy_err_q e)"

definition irq_next :: "nat \<Rightarrow> sci_regs \<Rightarrow> sci_bus \<Rightarrow> strobes \<Rightarrow> scsi_t \<Rightarrow> bool" where
  "irq_next ps r e x b =
     (if rpi_i x then False
      else if sel_int ps r e b \<or> eop_int r x \<or> scsi_rst_int e b \<or> parity_int r e x b
              \<or> phase_mismatch_int r e b \<or> busy_lost ps r e b then True
      else irq_q e)"

definition bus_step :: "nat \<Rightarrow> bool \<Rightarrow> sci_regs \<Rightarrow> strobes \<Rightarrow> scsi_t \<Rightarrow> sci_bus \<Rightarrow> sci_bus" where
  "bus_step ps rst r x b e =
     (if rst then bus_reset
      else
        let (arb, la) = arb_next ps r e b; (st, tg, dq, id) = dma_next r e x b in
        \<lparr>req_q = l_req b, rst_q = l_rst b, free_cnt = free_cnt_next ps e b,
         arb_active = arb, la_q = la, dma_st = st, dma_tgt = tg, drq_q = dq, idr_q = id,
         end_dma_q = end_dma_next r e x b, par_err_q = par_err_next ps r e x b,
         busy_err_q = busy_err_next ps r e x b, irq_q = irq_next ps r e x b\<rparr>)"

text \<open>What the engine reports to the register file.\<close>

definition report :: "sci_regs \<Rightarrow> sci_bus \<Rightarrow> scsi_t \<Rightarrow> engine_rep" where
  "report r e b = \<lparr>aip_i = aip_o r e, la_i = la_o r e, csd_i = l_data b, csb_i = csb_o b,
     idr_i = idr_q e, end_dma_i = end_dma_o r e, drq_i = drq_o r e, par_err_i = par_err_q e,
     irq_i = irq_q e, phase_match_i = phase_match_o r b, busy_err_i = busy_err_q e,
     atn_i = l_atn b, ack_i = l_ack b\<rparr>"

subsection \<open>Facts about the engine\<close>

lemma csb_o_bits [bits]:
  "bit (csb_o b) 7 = l_rst b" "bit (csb_o b) 6 = l_bsy b" "bit (csb_o b) 5 = l_req b"
  "bit (csb_o b) 4 = l_msg b" "bit (csb_o b) 3 = l_cd b" "bit (csb_o b) 2 = l_io b"
  "bit (csb_o b) 1 = l_sel b" "bit (csb_o b) 0 = l_dbp b"
  by (simp_all add: csb_o_def)

lemma bus_step_sel [simp]:
  "\<not> rst \<Longrightarrow> req_q (bus_step ps rst r x b e) = l_req b"
  "\<not> rst \<Longrightarrow> rst_q (bus_step ps rst r x b e) = l_rst b"
  "\<not> rst \<Longrightarrow> free_cnt (bus_step ps rst r x b e) = free_cnt_next ps e b"
  "\<not> rst \<Longrightarrow> arb_active (bus_step ps rst r x b e) = fst (arb_next ps r e b)"
  "\<not> rst \<Longrightarrow> la_q (bus_step ps rst r x b e) = snd (arb_next ps r e b)"
  "\<not> rst \<Longrightarrow> dma_st (bus_step ps rst r x b e) = fst (dma_next r e x b)"
  "\<not> rst \<Longrightarrow> dma_tgt (bus_step ps rst r x b e) = fst (snd (dma_next r e x b))"
  "\<not> rst \<Longrightarrow> drq_q (bus_step ps rst r x b e) = fst (snd (snd (dma_next r e x b)))"
  "\<not> rst \<Longrightarrow> idr_q (bus_step ps rst r x b e) = snd (snd (snd (dma_next r e x b)))"
  "\<not> rst \<Longrightarrow> end_dma_q (bus_step ps rst r x b e) = end_dma_next r e x b"
  "\<not> rst \<Longrightarrow> par_err_q (bus_step ps rst r x b e) = par_err_next ps r e x b"
  "\<not> rst \<Longrightarrow> busy_err_q (bus_step ps rst r x b e) = busy_err_next ps r e x b"
  "\<not> rst \<Longrightarrow> irq_q (bus_step ps rst r x b e) = irq_next ps r e x b"
  by (simp_all add: bus_step_def Let_def split: prod.splits)

text \<open>The control lines the chip drives do not depend on the bus: no line feeds back on itself.\<close>

lemma drive_o_ctrl:
  "l_rst (drive_o r e b) \<longleftrightarrow> \<not> test_mode r \<and> bit (icr_q r) ICR_RST_B"
  "l_bsy (drive_o r e b) \<longleftrightarrow> \<not> test_mode r \<and> (bit (icr_q r) ICR_BSY_B \<or> arbitrating r e)"
  "l_sel (drive_o r e b) \<longleftrightarrow> \<not> test_mode r \<and> bit (icr_q r) ICR_SEL_B"
  "l_req (drive_o r e b) \<longleftrightarrow> \<not> test_mode r \<and> target_mode r \<and> (bit (tcr_q r) TCR_REQ_B \<or> dma_req r e)"
  "l_ack (drive_o r e b) \<longleftrightarrow> \<not> test_mode r \<and> \<not> target_mode r \<and> (bit (icr_q r) ICR_ACK_B \<or> dma_ack r e)"
  "l_atn (drive_o r e b) \<longleftrightarrow> \<not> test_mode r \<and> \<not> target_mode r \<and> bit (icr_q r) ICR_ATN_B"
  "l_msg (drive_o r e b) \<longleftrightarrow> \<not> test_mode r \<and> target_mode r \<and> bit (tcr_q r) TCR_MSG_B"
  "l_cd (drive_o r e b) \<longleftrightarrow> \<not> test_mode r \<and> target_mode r \<and> bit (tcr_q r) TCR_CD_B"
  "l_io (drive_o r e b) \<longleftrightarrow> \<not> test_mode r \<and> target_mode r \<and> bit (tcr_q r) TCR_IO_B"
  by (simp_all add: drive_o_def Let_def)

lemma drive_o_data:
  "l_data (drive_o r e b) = (if \<not> test_mode r \<and> drive_data r e b then odr_q r else 0)"
  "l_dbp (drive_o r e b) \<longleftrightarrow> \<not> test_mode r \<and> drive_data r e b \<and> \<not> xor_reduce (odr_q r)"
  by (simp_all add: drive_o_def Let_def)

text \<open>And the data lines depend on the three phase lines only.\<close>

lemma drive_o_cong:
  "l_msg b = l_msg b' \<Longrightarrow> l_cd b = l_cd b' \<Longrightarrow> l_io b = l_io b' \<Longrightarrow> drive_o r e b = drive_o r e b'"
  by (simp add: drive_o_def drive_data_def phase_match_o_def Let_def)

end
