(* ===== verification/Wish5380.thy ===== *)
theory Wish5380
  imports Sci_Bus
begin

text \<open>
  The part, \<^verbatim>\<open>src/src/wish5380.sv\<close>: the register file and the engine joined, and the part on
  the fabric. A clock is \<open>wish5380_step\<close>; \<open>chip_reach\<close> is the runs of a chip under
  every host access and every behaviour of the rest of the bus. \<open>pair_step\<close> is two parts
  on one fabric, an initiator and a target.
\<close>

record chip =
  u_regs :: sci_regs
  u_bus :: sci_bus

definition strobes_of :: "mpu_port \<Rightarrow> bool \<Rightarrow> strobes" where
  "strobes_of p eop = \<lparr>csd_rd_i = csd_rd_o p, rpi_i = rpi_o p, sds_i = sds_o p, sdtr_i = sdtr_o p,
     sdir_i = sdir_o p, dack_rd_i = stb_i p \<and> \<not> we_i p \<and> dack_i p,
     dack_wr_i = stb_i p \<and> we_i p \<and> dack_i p, eop_i = eop\<rparr>"

definition chip_drive :: "chip \<Rightarrow> scsi_t \<Rightarrow> scsi_t" where
  "chip_drive c b = drive_o (u_regs c) (u_bus c) b"

definition chip_dat_o :: "mpu_port \<Rightarrow> scsi_t \<Rightarrow> chip \<Rightarrow> byte" where
  "chip_dat_o p b c = regs_dat_o (u_regs c) (report (u_regs c) (u_bus c) b) p"

definition wish5380_step :: "nat \<Rightarrow> bool \<Rightarrow> mpu_port \<Rightarrow> bool \<Rightarrow> scsi_t \<Rightarrow> chip \<Rightarrow> chip" where
  "wish5380_step ps rst p eop b c =
     (let r = u_regs c; e = u_bus c;
          lost = busy_lost ps r e b
      in \<lparr>u_regs = regs_step rst (scsi_rst_int e b) lost lost (l_bsy b) p r,
          u_bus = bus_step ps rst r (strobes_of p eop) b e\<rparr>)"

definition chip_reset :: chip where "chip_reset = \<lparr>u_regs = regs_reset, u_bus = bus_reset\<rparr>"

text \<open>An idle port, and the two kinds of access a host makes.\<close>

definition no_access :: mpu_port where
  "no_access = \<lparr>stb_i = False, we_i = False, dack_i = False, adr_i = 0, dat_i = 0\<rparr>"
definition host_read :: "3 word \<Rightarrow> mpu_port" where
  "host_read a = \<lparr>stb_i = True, we_i = False, dack_i = False, adr_i = a, dat_i = 0\<rparr>"
definition host_write :: "3 word \<Rightarrow> byte \<Rightarrow> mpu_port" where
  "host_write a v = \<lparr>stb_i = True, we_i = True, dack_i = False, adr_i = a, dat_i = v\<rparr>"
definition dack_read :: mpu_port where
  "dack_read = \<lparr>stb_i = True, we_i = False, dack_i = True, adr_i = 0, dat_i = 0\<rparr>"
definition dack_write :: "byte \<Rightarrow> mpu_port" where
  "dack_write v = \<lparr>stb_i = True, we_i = True, dack_i = True, adr_i = 0, dat_i = v\<rparr>"

lemmas port_defs = no_access_def host_read_def host_write_def dack_read_def dack_write_def

subsection \<open>The part on the fabric\<close>

text \<open>
  The bus the chip sees is the OR of what it drives and what everybody else drives (\<open>oth\<close>),
  and what it drives depends on what it sees. Two passes settle it: the first gives the
  control lines, the second the data lines that depend on them.
\<close>

definition settle :: "chip \<Rightarrow> scsi_t \<Rightarrow> scsi_t" where
  "settle c oth = (let b1 = scsi_or (chip_drive c oth) oth in scsi_or (chip_drive c b1) oth)"

lemma settle_ctrl:
  "l_msg (settle c oth) = (l_msg (chip_drive c b) \<or> l_msg oth)"
  "l_cd (settle c oth) = (l_cd (chip_drive c b) \<or> l_cd oth)"
  "l_io (settle c oth) = (l_io (chip_drive c b) \<or> l_io oth)"
  by (simp_all add: settle_def chip_drive_def Let_def drive_o_ctrl)

lemma settle_fixpoint_aux: "settle c oth = scsi_or (chip_drive c (settle c oth)) oth"
proof -
  let ?b1 = "scsi_or (chip_drive c oth) oth"
  have "drive_o (u_regs c) (u_bus c) (settle c oth) = drive_o (u_regs c) (u_bus c) ?b1"
    by (rule drive_o_cong) (simp_all add: settle_ctrl [of c oth oth])
  then show ?thesis by (simp add: settle_def Let_def chip_drive_def)
qed

lemma settle_unique_aux:
  assumes "b = scsi_or (chip_drive c b) oth"
  shows "b = settle c oth"
proof -
  have ctrl: "l_msg b = l_msg (settle c oth)" "l_cd b = l_cd (settle c oth)"
    "l_io b = l_io (settle c oth)"
    by (subst assms, simp add: settle_ctrl [of c oth b])+
  have "chip_drive c b = chip_drive c (settle c oth)"
    unfolding chip_drive_def by (rule drive_o_cong) (simp_all add: ctrl)
  with assms settle_fixpoint_aux [of c oth] show ?thesis by metis
qed

definition sys_step :: "nat \<Rightarrow> mpu_port \<Rightarrow> bool \<Rightarrow> scsi_t \<Rightarrow> chip \<Rightarrow> chip" where
  "sys_step ps p eop oth c = wish5380_step ps False p eop (settle c oth) c"

inductive chip_reach :: "nat \<Rightarrow> (scsi_t \<Rightarrow> bool) \<Rightarrow> chip \<Rightarrow> bool" for ps env where
  reset: "chip_reach ps env chip_reset"
| hard_reset: "chip_reach ps env c \<Longrightarrow> chip_reach ps env (wish5380_step ps True p eop b c)"
| clock: "chip_reach ps env c \<Longrightarrow> env oth \<Longrightarrow> chip_reach ps env (sys_step ps p eop oth c)"

lemma step_sel [simp]:
  "u_bus (wish5380_step ps rst p eop b c) = bus_step ps rst (u_regs c) (strobes_of p eop) b (u_bus c)"
  "u_regs (wish5380_step ps rst p eop b c) =
     regs_step rst (scsi_rst_int (u_bus c) b) (busy_lost ps (u_regs c) (u_bus c) b)
       (busy_lost ps (u_regs c) (u_bus c) b) (l_bsy b) p (u_regs c)"
  by (simp_all add: wish5380_step_def Let_def)

subsection \<open>The engine's invariant\<close>

text \<open>
  DRQ is up exactly in the two states that wait for the host, only a target waits for ACK to
  go, the counter stops at its limit, and LOST ARBITRATION is only ever reported by a chip
  that is arbitrating.
\<close>

definition eng_inv :: "nat \<Rightarrow> sci_bus \<Rightarrow> bool" where
  "eng_inv ps e \<longleftrightarrow> (drq_q e = (dma_st e = D_S_WANT \<or> dma_st e = D_R_HAVE))
     \<and> (dma_st e = D_S_TREL \<longrightarrow> dma_tgt e) \<and> free_cnt e \<le> N_MAX ps \<and> (la_q e \<longrightarrow> arb_active e)"

lemma eng_inv_reset: "eng_inv ps bus_reset"
  by (simp add: eng_inv_def bus_reset_def)

lemma dma_next_inv:
  assumes "drq_q e = (dma_st e = D_S_WANT \<or> dma_st e = D_R_HAVE)"
    and "dma_st e = D_S_TREL \<longrightarrow> dma_tgt e"
    and "dma_next r e x b = (st, tg, dq, idr)"
  shows "dq = (st = D_S_WANT \<or> st = D_R_HAVE) \<and> (st = D_S_TREL \<longrightarrow> tg)"
  using assms by (auto simp: dma_next_def Let_def split: if_splits dma_state.splits)

lemma eng_inv_step: "eng_inv ps e \<Longrightarrow> eng_inv ps (bus_step ps rst r x b e)"
proof (cases rst)
  case True
  then show ?thesis by (simp add: bus_step_def eng_inv_reset)
next
  case False
  assume inv: "eng_inv ps e"
  obtain st tg dq idr where d: "dma_next r e x b = (st, tg, dq, idr)" by (metis prod_cases4)
  have "dq = (st = D_S_WANT \<or> st = D_R_HAVE) \<and> (st = D_S_TREL \<longrightarrow> tg)"
    using inv d by (intro dma_next_inv) (auto simp: eng_inv_def)
  moreover have "free_cnt_next ps e b \<le> N_MAX ps"
    using inv by (auto simp: free_cnt_next_def eng_inv_def)
  moreover have "snd (arb_next ps r e b) \<longrightarrow> fst (arb_next ps r e b)"
    using inv by (auto simp: arb_next_def eng_inv_def)
  ultimately show ?thesis
    using False d unfolding eng_inv_def by simp
qed

lemma reach_eng_inv: "chip_reach ps env c \<Longrightarrow> eng_inv ps (u_bus c)"
  by (induction rule: chip_reach.induct)
    (simp_all add: chip_reset_def eng_inv_reset eng_inv_step sys_step_def)

end
