(* ===== verification/Chip_Pair.thy ===== *)
theory Chip_Pair
  imports Wish5380
begin

text \<open>
  Two parts on one fabric, one in the initiator role and one in the target role, moving bytes
  by DMA: the four-phase REQ/ACK handshake of \<^verbatim>\<open>src/src/sci_bus.sv\<close> seen from both ends, in
  either direction and with each host answering its DRQ when it likes.
\<close>

definition pair_bus :: "chip \<Rightarrow> chip \<Rightarrow> scsi_t" where
  "pair_bus ci ct = (let b0 = scsi_fabric (chip_drive ci scsi_idle) (chip_drive ct scsi_idle) scsi_idle scsi_idle
     in scsi_fabric (chip_drive ci b0) (chip_drive ct b0) scsi_idle scsi_idle)"

definition pair_step :: "nat \<Rightarrow> mpu_port \<Rightarrow> mpu_port \<Rightarrow> chip \<times> chip \<Rightarrow> chip \<times> chip" where
  "pair_step ps pi pt s =
     (case s of (ci, ct) \<Rightarrow> (wish5380_step ps False pi False (pair_bus ci ct) ci,
                           wish5380_step ps False pt False (pair_bus ci ct) ct))"

subsection \<open>The hosts\<close>

text \<open>
  A host answers DRQ and nothing else: in a clock where its chip raises DRQ, the sending host
  may write a byte with DACK and the receiving host may read one. Whether it does so in this
  clock is its own choice, given for every clock: the byte to write, if any, and whether to
  read. \<open>io\<close> is the direction: false when the initiator sends, true when the target does.
\<close>

definition giving :: "byte option \<Rightarrow> chip \<Rightarrow> mpu_port" where
  "giving w c = (case w of None \<Rightarrow> no_access
     | Some v \<Rightarrow> if drq_o (u_regs c) (u_bus c) then dack_write v else no_access)"

definition taking :: "bool \<Rightarrow> chip \<Rightarrow> mpu_port" where
  "taking r c = (if r \<and> drq_o (u_regs c) (u_bus c) then dack_read else no_access)"

definition sender :: "bool \<Rightarrow> chip \<times> chip \<Rightarrow> chip" where "sender io s = (if io then snd s else fst s)"
definition receiver :: "bool \<Rightarrow> chip \<times> chip \<Rightarrow> chip" where "receiver io s = (if io then fst s else snd s)"

text \<open>One clock: the bytes written by the sending host, those read by the other, the chips after it.\<close>

definition dma_clock ::
    "nat \<Rightarrow> bool \<Rightarrow> byte option \<times> bool \<Rightarrow> chip \<times> chip \<Rightarrow> byte list \<times> byte list \<times> chip \<times> chip" where
  "dma_clock ps io h s =
     (let g = giving (fst h) (sender io s); t = taking (snd h) (receiver io s) in
      (if stb_i g then [dat_i g] else [],
       if stb_i t then [chip_dat_o t (pair_bus (fst s) (snd s)) (receiver io s)] else [],
       if io then pair_step ps t g s else pair_step ps g t s))"

fun run_clocks :: "('h \<Rightarrow> 's \<Rightarrow> byte list \<times> byte list \<times> 's) \<Rightarrow> 'h list \<Rightarrow> 's \<Rightarrow> byte list \<times> byte list \<times> 's" where
  "run_clocks clk [] s = ([], [], s)"
| "run_clocks clk (h # hs) s =
     (case clk h s of (p, g, s1) \<Rightarrow> (case run_clocks clk hs s1 of (ps, gs, s2) \<Rightarrow> (p @ ps, g @ gs, s2)))"

text \<open>
  What a link promises: with \<open>held\<close> the bytes it is carrying, every clock takes in and gives
  out in order, and a clock in which both hosts are ready brings the next byte one step closer,
  \<open>period\<close> clocks a byte.
\<close>

locale byte_link =
  fixes clk :: "'h \<Rightarrow> 's \<Rightarrow> byte list \<times> byte list \<times> 's"
    and inv :: "'s \<Rightarrow> bool" and held :: "'s \<Rightarrow> byte list"
    and eager :: "'h \<Rightarrow> bool" and ahead :: "'s \<Rightarrow> nat" and period :: nat
  assumes carries: "inv s \<Longrightarrow> clk h s = (p, g, s') \<Longrightarrow> inv s' \<and> held s @ p = g @ held s'"
    and paced: "inv s \<Longrightarrow> eager h \<Longrightarrow> clk h s = (p, g, s') \<Longrightarrow> 1 + ahead s' = ahead s + period * length g"
begin

lemma run_carries:
  "inv s \<Longrightarrow> run_clocks clk hs s = (sent, got, s') \<Longrightarrow> inv s' \<and> held s @ sent = got @ held s'"
proof (induction hs arbitrary: s sent got)
  case (Cons h hs)
  obtain p g s1 where c: "clk h s = (p, g, s1)" by (metis prod_cases3)
  obtain ps gs where r: "run_clocks clk hs s1 = (ps, gs, s')" "sent = p @ ps" "got = g @ gs"
    using Cons.prems(2) c by (auto split: prod.splits)
  from carries [OF Cons.prems(1) c] Cons.IH [OF _ r(1)] r(2,3) show ?case
    by (metis append.assoc)
qed simp

lemma run_paced:
  "inv s \<Longrightarrow> list_all eager hs \<Longrightarrow> run_clocks clk hs s = (sent, got, s') \<Longrightarrow>
    length hs + ahead s' = ahead s + period * length got"
proof (induction hs arbitrary: s sent got)
  case (Cons h hs)
  obtain p g s1 where c: "clk h s = (p, g, s1)" by (metis prod_cases3)
  obtain ps gs where r: "run_clocks clk hs s1 = (ps, gs, s')" "got = g @ gs"
    using Cons.prems(3) c by (auto split: prod.splits)
  from carries [OF Cons.prems(1) c] have "inv s1" by simp
  from Cons.IH [OF this _ r(1)] paced [OF Cons.prems(1) _ c] Cons.prems(2) r(2) show ?case
    by (simp add: algebra_simps)
qed simp

end

subsection \<open>Two chips mid-transfer\<close>

text \<open>How the two drivers have set their chips up: the registers of each end.\<close>

definition ini_regs :: "bool \<Rightarrow> sci_regs \<Rightarrow> bool" where
  "ini_regs io r \<longleftrightarrow> dma_mode r \<and> \<not> target_mode r \<and> \<not> arbitrate r \<and> \<not> test_mode r \<and>
     \<not> bit (icr_q r) ICR_RST_B \<and> \<not> bit (icr_q r) ICR_ACK_B \<and> (bit (icr_q r) ICR_DATA_B \<or> io) \<and>
     bit (tcr_q r) TCR_IO_B = io"

definition tgt_regs :: "bool \<Rightarrow> sci_regs \<Rightarrow> bool" where
  "tgt_regs io r \<longleftrightarrow> dma_mode r \<and> target_mode r \<and> \<not> arbitrate r \<and> \<not> test_mode r \<and>
     \<not> bit (icr_q r) ICR_RST_B \<and> bit (icr_q r) ICR_BSY_B \<and> bit (icr_q r) ICR_DATA_B = io \<and>
     \<not> bit (tcr_q r) TCR_REQ_B \<and> bit (tcr_q r) TCR_IO_B = io"

definition same_phase :: "sci_regs \<Rightarrow> sci_regs \<Rightarrow> bool" where
  "same_phase r t \<longleftrightarrow> (bit (tcr_q r) TCR_MSG_B = bit (tcr_q t) TCR_MSG_B)
     \<and> (bit (tcr_q r) TCR_CD_B = bit (tcr_q t) TCR_CD_B)"

text \<open>A pair of chips mid-transfer: where the two handshakes are.\<close>

definition pair_at :: "bool \<Rightarrow> dma_state \<Rightarrow> dma_state \<Rightarrow> chip \<times> chip \<Rightarrow> bool" where
  "pair_at io si st s \<longleftrightarrow>
     ini_regs io (u_regs (fst s)) \<and> tgt_regs io (u_regs (snd s)) \<and> same_phase (u_regs (fst s)) (u_regs (snd s)) \<and>
     \<not> dma_tgt (u_bus (fst s)) \<and> dma_tgt (u_bus (snd s)) \<and>
     dma_st (u_bus (fst s)) = si \<and> dma_st (u_bus (snd s)) = st"

text \<open>Both started: the sender wants a byte from its host, the receiver one from the bus.\<close>

definition pair_ready :: "bool \<Rightarrow> chip \<times> chip \<Rightarrow> bool" where
  "pair_ready io s = (if io then pair_at io D_R_WANT D_S_WANT s else pair_at io D_S_WANT D_R_WANT s)"

text \<open>
  The bytes on their way, oldest first: the one the receiver holds for its host, then the one
  the sender has and the receiver has not latched yet.
\<close>

definition held :: "bool \<Rightarrow> chip \<times> chip \<Rightarrow> byte list" where
  "held io s =
     (let a = dma_st (u_bus (sender io s)); z = dma_st (u_bus (receiver io s)) in
      (if z = D_R_HAVE then [idr_q (u_bus (receiver io s))] else []) @
      (if a = D_S_HAVE \<or> a = D_S_HS \<and> z = D_R_WANT then [odr_q (u_regs (sender io s))] else []))"

lemma held_le_2: "length (held io s) \<le> 2"
  by (simp add: held_def Let_def)

lemmas pair_defs = pair_at_def ini_regs_def tgt_regs_def same_phase_def

lemma pair_bus_lines:
  assumes "pair_at io si st (ci, ct)"
  shows "l_req (pair_bus ci ct) = (st = D_S_HS \<or> st = D_R_WANT)"
    "l_ack (pair_bus ci ct) = (si = D_S_HS \<or> si = D_R_HS)"
    "l_data (pair_bus ci ct) = odr_q (u_regs (if io then ct else ci))"
    "l_bsy (pair_bus ci ct)" "\<not> l_rst (pair_bus ci ct)"
    "phase_match_o (u_regs ci) (pair_bus ci ct)"
  using assms
  by (auto simp: pair_bus_def pair_defs scsi_fabric_def chip_drive_def drive_o_ctrl drive_o_data Let_def
      dma_req_def dma_ack_def drive_data_def arbitrating_def phase_match_o_def scsi_idle_def)

text \<open>The only accesses in a transfer: none, or with DACK.\<close>

definition dack_port :: "mpu_port \<Rightarrow> bool" where "dack_port p \<longleftrightarrow> p = no_access \<or> dack_i p \<and> stb_i p"

lemma regs_step_dack:
  assumes "dack_port p"
  shows "regs_step False False False False bsy p r = (if we_i p then r\<lparr>odr_q := dat_i p\<rparr> else r)"
  using assms by (auto simp: dack_port_def regs_step_def regs_write_def Let_def no_access_def)

lemma regs_odr [simp]:
  "ini_regs io (r\<lparr>odr_q := v\<rparr>) = ini_regs io r" "tgt_regs io (r\<lparr>odr_q := v\<rparr>) = tgt_regs io r"
  "same_phase (r\<lparr>odr_q := v\<rparr>) t = same_phase r t" "same_phase r (t\<lparr>odr_q := v\<rparr>) = same_phase r t"
  by (simp_all add: ini_regs_def tgt_regs_def same_phase_def mode_defs)

lemma pair_step_regs:
  assumes "pair_at io si st (ci, ct)" "dack_port pi" "dack_port pt"
  shows "u_regs (fst (pair_step ps pi pt (ci, ct))) =
      (if we_i pi then (u_regs ci)\<lparr>odr_q := dat_i pi\<rparr> else u_regs ci)"
    and "u_regs (snd (pair_step ps pi pt (ci, ct))) =
      (if we_i pt then (u_regs ct)\<lparr>odr_q := dat_i pt\<rparr> else u_regs ct)"
proof -
  have q: "\<not> scsi_rst_int e (pair_bus ci ct)" "\<not> busy_lost ps r e (pair_bus ci ct)" for r e
    using pair_bus_lines [OF assms(1)] by (auto simp: scsi_rst_int_def busy_lost_def bsy_settled_false_def)
  show "u_regs (fst (pair_step ps pi pt (ci, ct))) =
      (if we_i pi then (u_regs ci)\<lparr>odr_q := dat_i pi\<rparr> else u_regs ci)"
    using assms(2) by (simp add: pair_step_def q regs_step_dack)
  show "u_regs (snd (pair_step ps pi pt (ci, ct))) =
      (if we_i pt then (u_regs ct)\<lparr>odr_q := dat_i pt\<rparr> else u_regs ct)"
    using assms(3) by (simp add: pair_step_def q regs_step_dack)
qed

text \<open>
  The abstract handshake: the initiator's state moves on its host's accesses and on REQ, the
  target's on its host's accesses and on ACK.
\<close>

fun ini_next :: "bool \<Rightarrow> bool \<Rightarrow> bool \<Rightarrow> dma_state \<Rightarrow> dma_state" where
  "ini_next wr rd rq D_S_WANT = (if wr then D_S_HAVE else D_S_WANT)"
| "ini_next wr rd rq D_S_HAVE = (if rq then D_S_HS else D_S_HAVE)"
| "ini_next wr rd rq D_S_HS = (if rq then D_S_HS else D_S_WANT)"
| "ini_next wr rd rq D_R_WANT = (if rq then D_R_HAVE else D_R_WANT)"
| "ini_next wr rd rq D_R_HAVE = (if rd then D_R_HS else D_R_HAVE)"
| "ini_next wr rd rq D_R_HS = (if rq then D_R_HS else D_R_WANT)"
| "ini_next wr rd rq st = st"

fun tgt_next :: "bool \<Rightarrow> bool \<Rightarrow> bool \<Rightarrow> dma_state \<Rightarrow> dma_state" where
  "tgt_next wr rd ak D_S_WANT = (if wr then D_S_HAVE else D_S_WANT)"
| "tgt_next wr rd ak D_S_HAVE = D_S_HS"
| "tgt_next wr rd ak D_S_HS = (if ak then D_S_TREL else D_S_HS)"
| "tgt_next wr rd ak D_S_TREL = (if ak then D_S_TREL else D_S_WANT)"
| "tgt_next wr rd ak D_R_WANT = (if ak then D_R_HAVE else D_R_WANT)"
| "tgt_next wr rd ak D_R_HAVE = (if rd then D_R_HS else D_R_HAVE)"
| "tgt_next wr rd ak D_R_HS = (if ak then D_R_HS else D_R_WANT)"
| "tgt_next wr rd ak st = st"

lemma pair_dma_next:
  assumes "pair_at io si st (ci, ct)" and "si \<noteq> D_IDLE" "si \<noteq> D_S_TREL" "st \<noteq> D_IDLE"
  defines "rq \<equiv> st = D_S_HS \<or> st = D_R_WANT" and "ak \<equiv> si = D_S_HS \<or> si = D_R_HS"
    and "dat \<equiv> odr_q (u_regs (if io then ct else ci))"
  shows "\<exists>dq. dma_next (u_regs ci) (u_bus ci) x (pair_bus ci ct) =
           (ini_next (dack_wr_i x) (dack_rd_i x) rq si, False, dq,
            if si = D_R_WANT \<and> rq then dat else idr_q (u_bus ci))"
    and "\<exists>dq. dma_next (u_regs ct) (u_bus ct) x (pair_bus ci ct) =
           (tgt_next (dack_wr_i x) (dack_rd_i x) ak st, True, dq,
            if st = D_R_WANT \<and> ak then dat else idr_q (u_bus ct))"
proof -
  note lines = pair_bus_lines [OF assms(1), folded rq_def ak_def dat_def]
  have q: "\<not> scsi_rst_int e (pair_bus ci ct)" for e using lines by (simp add: scsi_rst_int_def)
  from assms(1) have fs: "dma_mode (u_regs ci)" "dma_mode (u_regs ct)" "\<not> dma_tgt (u_bus ci)"
    "dma_tgt (u_bus ct)" "dma_st (u_bus ci) = si" "dma_st (u_bus ct) = st"
    by (auto simp: pair_defs)
  show "\<exists>dq. dma_next (u_regs ci) (u_bus ci) x (pair_bus ci ct) =
           (ini_next (dack_wr_i x) (dack_rd_i x) rq si, False, dq,
            if si = D_R_WANT \<and> rq then dat else idr_q (u_bus ci))"
    using assms(2,3) by (cases si; simp add: dma_next_def Let_def req_ok_def recv_latch_def fs lines q ex_bool_eq)
  show "\<exists>dq. dma_next (u_regs ct) (u_bus ct) x (pair_bus ci ct) =
           (tgt_next (dack_wr_i x) (dack_rd_i x) ak st, True, dq,
            if st = D_R_WANT \<and> ak then dat else idr_q (u_bus ct))"
    using assms(4) by (cases st; simp add: dma_next_def Let_def recv_latch_def fs lines q ex_bool_eq)
qed

lemma pair_step_at:
  fixes ps :: nat
  assumes at: "pair_at io si st (ci, ct)" and s: "si \<noteq> D_IDLE" "si \<noteq> D_S_TREL" "st \<noteq> D_IDLE"
    and pi: "dack_port pi" and pt: "dack_port pt"
  defines "rq \<equiv> st = D_S_HS \<or> st = D_R_WANT" and "ak \<equiv> si = D_S_HS \<or> si = D_R_HS"
    and "dat \<equiv> odr_q (u_regs (if io then ct else ci))"
    and "s' \<equiv> pair_step ps pi pt (ci, ct)"
  shows "pair_at io (ini_next (we_i pi) (dack_i pi \<and> \<not> we_i pi) rq si)
           (tgt_next (we_i pt) (dack_i pt \<and> \<not> we_i pt) ak st) s'"
    and "odr_q (u_regs (fst s')) = (if we_i pi then dat_i pi else odr_q (u_regs ci))"
    and "odr_q (u_regs (snd s')) = (if we_i pt then dat_i pt else odr_q (u_regs ct))"
    and "idr_q (u_bus (fst s')) = (if si = D_R_WANT \<and> rq then dat else idr_q (u_bus ci))"
    and "idr_q (u_bus (snd s')) = (if st = D_R_WANT \<and> ak then dat else idr_q (u_bus ct))"
proof -
  note regs = pair_step_regs [OF at pi pt, of ps, folded s'_def]
  note moves = pair_dma_next [OF at s, folded rq_def ak_def dat_def]
  have strobes: "dack_wr_i (strobes_of p False) = we_i p" "dack_rd_i (strobes_of p False) = (dack_i p \<and> \<not> we_i p)"
    if "dack_port p" for p
    using that by (auto simp: strobes_of_def dack_port_def no_access_def)
  obtain dq where i: "dma_next (u_regs ci) (u_bus ci) (strobes_of pi False) (pair_bus ci ct) =
      (ini_next (we_i pi) (dack_i pi \<and> \<not> we_i pi) rq si, False, dq,
       if si = D_R_WANT \<and> rq then dat else idr_q (u_bus ci))"
    using moves(1) [of "strobes_of pi False"] strobes [OF pi] by auto
  obtain dq' where t: "dma_next (u_regs ct) (u_bus ct) (strobes_of pt False) (pair_bus ci ct) =
      (tgt_next (we_i pt) (dack_i pt \<and> \<not> we_i pt) ak st, True, dq',
       if st = D_R_WANT \<and> ak then dat else idr_q (u_bus ct))"
    using moves(2) [of "strobes_of pt False"] strobes [OF pt] by auto
  from at have fs: "ini_regs io (u_regs ci)" "tgt_regs io (u_regs ct)" "same_phase (u_regs ci) (u_regs ct)"
    by (auto simp: pair_at_def)
  have bus: "u_bus (fst s') = bus_step ps False (u_regs ci) (strobes_of pi False) (pair_bus ci ct) (u_bus ci)"
    "u_bus (snd s') = bus_step ps False (u_regs ct) (strobes_of pt False) (pair_bus ci ct) (u_bus ct)"
    by (simp_all add: s'_def pair_step_def)
  show "pair_at io (ini_next (we_i pi) (dack_i pi \<and> \<not> we_i pi) rq si)
           (tgt_next (we_i pt) (dack_i pt \<and> \<not> we_i pt) ak st) s'"
    using regs fs i t by (simp add: pair_at_def bus)
  show "odr_q (u_regs (fst s')) = (if we_i pi then dat_i pi else odr_q (u_regs ci))"
    "odr_q (u_regs (snd s')) = (if we_i pt then dat_i pt else odr_q (u_regs ct))"
    using regs by simp_all
  show "idr_q (u_bus (fst s')) = (if si = D_R_WANT \<and> rq then dat else idr_q (u_bus ci))"
    "idr_q (u_bus (snd s')) = (if st = D_R_WANT \<and> ak then dat else idr_q (u_bus ct))"
    using i t by (simp_all add: bus)
qed

subsection \<open>The link\<close>

text \<open>Where the two ends can be: the initiator's state, then the target's.\<close>

fun linked :: "bool \<Rightarrow> dma_state \<Rightarrow> dma_state \<Rightarrow> bool" where
  "linked False D_S_WANT st = (st = D_R_WANT \<or> st = D_R_HAVE \<or> st = D_R_HS)"
| "linked False D_S_HAVE st = (st = D_R_WANT \<or> st = D_R_HAVE \<or> st = D_R_HS)"
| "linked False D_S_HS st = (st = D_R_WANT \<or> st = D_R_HAVE)"
| "linked True D_R_WANT st = (st = D_S_WANT \<or> st = D_S_HAVE \<or> st = D_S_HS \<or> st = D_S_TREL)"
| "linked True D_R_HAVE st = (st = D_S_HS)"
| "linked True D_R_HS st = (st = D_S_HS \<or> st = D_S_TREL)"
| "linked io si st = False"

text \<open>How many clocks before the receiver has its next byte, when no host keeps it waiting.\<close>

fun ahead :: "bool \<Rightarrow> dma_state \<Rightarrow> dma_state \<Rightarrow> nat" where
  "ahead False D_S_HS D_R_WANT = 1"
| "ahead False D_S_HAVE D_R_WANT = 2"
| "ahead False si D_R_HAVE = 0"
| "ahead False si st = 3"
| "ahead True D_R_HAVE st = 0"
| "ahead True D_R_HS D_S_HS = 6"
| "ahead True D_R_HS st = 5"
| "ahead True si D_S_TREL = 4"
| "ahead True si D_S_WANT = 3"
| "ahead True si D_S_HAVE = 2"
| "ahead True si st = 1"

definition ahead_of :: "bool \<Rightarrow> chip \<times> chip \<Rightarrow> nat" where
  "ahead_of io s = ahead io (dma_st (u_bus (fst s))) (dma_st (u_bus (snd s)))"

definition period_of :: "bool \<Rightarrow> nat" where "period_of io = (if io then 7 else 4)"

definition link_inv :: "nat \<Rightarrow> bool \<Rightarrow> chip \<times> chip \<Rightarrow> bool" where
  "link_inv ps io s \<longleftrightarrow> pair_at io (dma_st (u_bus (fst s))) (dma_st (u_bus (snd s))) s
     \<and> linked io (dma_st (u_bus (fst s))) (dma_st (u_bus (snd s)))
     \<and> eng_inv ps (u_bus (fst s)) \<and> eng_inv ps (u_bus (snd s))"

lemma ready_link_inv:
  assumes "pair_ready io s" "eng_inv ps (u_bus (fst s))" "eng_inv ps (u_bus (snd s))"
  shows "link_inv ps io s" "held io s = []"
  using assms by (auto simp: link_inv_def pair_ready_def pair_at_def held_def sender_def receiver_def
      Let_def split: if_splits)

lemma linked_ahead: "linked io si st \<Longrightarrow> ahead io si st < period_of io"
  by (cases "(io, si, st)" rule: ahead.cases) (auto simp: period_of_def)

lemma linked_roles:
  "linked io si st \<Longrightarrow> (if io then st else si) \<noteq> D_R_HAVE"
  "linked io si st \<Longrightarrow> (if io then si else st) \<noteq> D_S_WANT"
  by (auto elim!: linked.elims)

lemma link_drq:
  assumes "link_inv ps io s"
  shows "drq_o (u_regs (sender io s)) (u_bus (sender io s)) = (dma_st (u_bus (sender io s)) = D_S_WANT)"
    and "drq_o (u_regs (receiver io s)) (u_bus (receiver io s)) = (dma_st (u_bus (receiver io s)) = D_R_HAVE)"
proof -
  from assms have "dma_mode (u_regs (fst s))" "dma_mode (u_regs (snd s))"
    by (simp_all add: link_inv_def pair_defs)
  with assms linked_roles [of io "dma_st (u_bus (fst s))" "dma_st (u_bus (snd s))"]
  show "drq_o (u_regs (sender io s)) (u_bus (sender io s)) = (dma_st (u_bus (sender io s)) = D_S_WANT)"
    "drq_o (u_regs (receiver io s)) (u_bus (receiver io s)) = (dma_st (u_bus (receiver io s)) = D_R_HAVE)"
    by (auto simp: sender_def receiver_def drq_o_def link_inv_def eng_inv_def)
qed

lemma host_ports:
  assumes "link_inv ps io s"
  shows "giving w (sender io s) = (if dma_st (u_bus (sender io s)) = D_S_WANT \<and> w \<noteq> None
           then dack_write (the w) else no_access)"
    and "taking r (receiver io s) = (if dma_st (u_bus (receiver io s)) = D_R_HAVE \<and> r
           then dack_read else no_access)"
  using link_drq [OF assms] by (auto simp: giving_def taking_def split: option.split)

lemma dack_ports [simp]: "dack_port no_access" "dack_port (dack_write v)" "dack_port dack_read"
  by (simp_all add: dack_port_def port_defs)

lemma dack_host [simp]: "dack_port (giving w c)" "dack_port (taking r c)"
  by (simp_all add: giving_def taking_def split: option.split)

lemma pair_step_eng:
  assumes "eng_inv ps (u_bus (fst s))" "eng_inv ps (u_bus (snd s))"
  shows "eng_inv ps (u_bus (fst (pair_step ps pi pt s)))" "eng_inv ps (u_bus (snd (pair_step ps pi pt s)))"
  using assms by (cases s; simp add: pair_step_def eng_inv_step)+

lemma link_not_idle:
  "link_inv ps io s \<Longrightarrow> dma_st (u_bus (fst s)) \<noteq> D_IDLE"
  "link_inv ps io s \<Longrightarrow> dma_st (u_bus (fst s)) \<noteq> D_S_TREL"
  "link_inv ps io s \<Longrightarrow> dma_st (u_bus (snd s)) \<noteq> D_IDLE"
  by (auto simp: link_inv_def elim!: linked.elims)

text \<open>One clock of the link, in either direction.\<close>

lemma link_clock:
  assumes inv: "link_inv ps io s" and c: "dma_clock ps io h s = (p, g, s')"
  shows "link_inv ps io s' \<and> held io s @ p = g @ held io s'"
    and "fst h \<noteq> None \<and> snd h \<Longrightarrow> 1 + ahead_of io s' = ahead_of io s + period_of io * length g"
proof -
  obtain ci ct where s: "s = (ci, ct)" by fastforce
  obtain w r where h: "h = (w, r)" by fastforce
  let ?a = "giving w (if io then ct else ci)" and ?z = "taking r (if io then ci else ct)"
  let ?pi = "if io then ?z else ?a" and ?pt = "if io then ?a else ?z"
  let ?si = "dma_st (u_bus ci)" and ?st = "dma_st (u_bus ct)"
  have hp: "io \<Longrightarrow> giving w ct = (if ?st = D_S_WANT \<and> w \<noteq> None then dack_write (the w) else no_access)"
    "io \<Longrightarrow> taking r ci = (if ?si = D_R_HAVE \<and> r then dack_read else no_access)"
    "\<not> io \<Longrightarrow> giving w ci = (if ?si = D_S_WANT \<and> w \<noteq> None then dack_write (the w) else no_access)"
    "\<not> io \<Longrightarrow> taking r ct = (if ?st = D_R_HAVE \<and> r then dack_read else no_access)" for w r
    using host_ports [OF inv, unfolded s sender_def receiver_def fst_conv snd_conv] by auto
  have at: "pair_at io ?si ?st (ci, ct)" and l: "linked io ?si ?st"
    using inv by (simp_all add: link_inv_def s)
  have ports: "dack_port ?pi" "dack_port ?pt" by simp_all
  have s': "s' = pair_step ps ?pi ?pt (ci, ct)" and pg: "p = (if stb_i ?a then [dat_i ?a] else [])"
    "g = (if stb_i ?z then [chip_dat_o ?z (pair_bus ci ct) (if io then ci else ct)] else [])"
    using c by (auto simp: dma_clock_def s h sender_def receiver_def Let_def)
  note st = pair_step_at [OF at link_not_idle [OF inv, unfolded s fst_conv snd_conv] ports, of ps, folded s']
  note eng = pair_step_eng [of ps s ?pi ?pt, unfolded s, folded s']
  have idr: "chip_dat_o dack_read b c = idr_q (u_bus c)" for b c
    by (simp add: chip_dat_o_def regs_dat_o_def report_def dack_read_def)
  have dst: "dma_st (u_bus (fst s')) =
      ini_next (we_i ?pi) (dack_i ?pi \<and> \<not> we_i ?pi) (?st = D_S_HS \<or> ?st = D_R_WANT) ?si"
    "dma_st (u_bus (snd s')) =
      tgt_next (we_i ?pt) (dack_i ?pt \<and> \<not> we_i ?pt) (?si = D_S_HS \<or> ?si = D_R_HS) ?st"
    using st(1) by (simp_all add: pair_at_def)
  show "link_inv ps io s' \<and> held io s @ p = g @ held io s'"
  proof
    show "link_inv ps io s'"
      unfolding link_inv_def dst using st(1) eng inv l
      by (cases io; cases ?si; cases ?st; simp add: link_inv_def s hp port_defs)
    show "held io s @ p = g @ held io s'"
      using l by (cases io; cases ?si; cases ?st; simp add: held_def sender_def receiver_def dst st(2-5)
          s hp pg idr [unfolded dack_read_def] port_defs)
  qed
  show "1 + ahead_of io s' = ahead_of io s + period_of io * length g" if "fst h \<noteq> None \<and> snd h"
    unfolding ahead_of_def dst using l that
    by (cases io; cases ?si; cases ?st; simp add: s h hp pg port_defs period_of_def)
qed

interpretation dma_link: byte_link "dma_clock ps io" "link_inv ps io" "held io"
  "\<lambda>h. fst h \<noteq> None \<and> snd h" "ahead_of io" "period_of io"
  by unfold_locales (use link_clock in blast)+

end
