(* ===== verification/Chip_Props.thy ===== *)
theory Chip_Props
  imports Chip_Pair
begin

text \<open>
  The properties of the chip: the settled bus, register round trips, arbitration, the DMA
  invariant and transfer, the interrupt latch and the two resets.
\<close>

subsection \<open>Helper facts\<close>

text \<open>\<open>quiet ps c b\<close>: neither an SCSI reset nor a loss of BSY lands on the registers in this clock.\<close>

definition quiet :: "nat \<Rightarrow> chip \<Rightarrow> scsi_t \<Rightarrow> bool" where
  "quiet ps c b \<longleftrightarrow> \<not> scsi_rst_int (u_bus c) b \<and> \<not> busy_lost ps (u_regs c) (u_bus c) b"

lemma host_write_regs:
  assumes "quiet ps c b"
  shows "u_regs (wish5380_step ps False (host_write a v) eop b c) =
     regs_write (l_bsy b) (host_write a v) (u_regs c)"
  using assms by (simp add: quiet_def regs_step_def host_write_def)

text \<open>The chip alone on the bus with no access, for a number of clocks; others drive \<open>oth\<close>.\<close>

fun idle_clocks :: "nat \<Rightarrow> scsi_t \<Rightarrow> nat \<Rightarrow> chip \<Rightarrow> chip" where
  "idle_clocks ps oth 0 c = c"
| "idle_clocks ps oth (Suc n) c = idle_clocks ps oth n (sys_step ps no_access False oth c)"

lemma idle_clocks_Suc_right:
  "idle_clocks ps oth (Suc n) c = sys_step ps no_access False oth (idle_clocks ps oth n c)"
  by (induction n arbitrary: c) simp_all

definition arb_asked :: "chip \<Rightarrow> bool" where
  "arb_asked c \<longleftrightarrow> arbitrate (u_regs c) \<and> \<not> bit (icr_q (u_regs c)) ICR_RST_B \<and>
     \<not> bit (icr_q (u_regs c)) ICR_BSY_B \<and> \<not> bit (icr_q (u_regs c)) ICR_SEL_B"

definition others_silent :: "scsi_t \<Rightarrow> bool" where
  "others_silent oth \<longleftrightarrow> \<not> l_rst oth \<and> \<not> l_bsy oth \<and> \<not> l_sel oth"

lemma settle_asked:
  assumes "arb_asked c" "others_silent oth"
  shows "\<not> l_rst (settle c oth)" "\<not> l_sel (settle c oth)"
    "l_bsy (settle c oth) \<Longrightarrow> arb_active (u_bus c)"
  using assms
  by (auto simp: settle_def Let_def chip_drive_def drive_o_ctrl arb_asked_def others_silent_def arbitrating_def)

lemma arb_asked_step:
  assumes "arb_asked c" "others_silent oth"
  shows "arb_asked (sys_step ps no_access False oth c)"
proof -
  have "\<not> scsi_rst_int e (settle c oth)" for e
    using settle_asked(1) [OF assms] by (simp add: scsi_rst_int_def)
  then show ?thesis
    using assms(1) by (auto simp: sys_step_def arb_asked_def regs_step_def no_access_def Let_def
        mode_defs bit_mask_c0)
qed

lemma idle_arb:
  assumes "arb_asked c" "others_silent oth"
  shows "arb_asked (idle_clocks ps oth n c) \<and>
    (arb_active (u_bus (idle_clocks ps oth n c)) \<or> min n (N_MAX ps) \<le> free_cnt (u_bus (idle_clocks ps oth n c)))"
proof (induction n)
  case 0
  with assms show ?case by simp
next
  case (Suc n)
  let ?c = "idle_clocks ps oth n c"
  have q: "\<not> scsi_rst_int e (settle ?c oth)" for e
    using settle_asked(1) [of ?c oth] Suc assms(2) by (simp add: scsi_rst_int_def)
  have "arb_active (u_bus (sys_step ps no_access False oth ?c)) \<or>
      min (Suc n) (N_MAX ps) \<le> free_cnt (u_bus (sys_step ps no_access False oth ?c))"
  proof (cases "arb_active (u_bus ?c)")
    case True
    with Suc q show ?thesis by (simp add: sys_step_def arb_next_def arb_asked_def)
  next
    case False
    with settle_asked(3) [of ?c oth] Suc assms(2) have "\<not> l_bsy (settle ?c oth)" by blast
    with False Suc show ?thesis by (auto simp: sys_step_def free_cnt_next_def)
  qed
  with Suc assms(2) arb_asked_step [of ?c oth ps] show ?case
    unfolding idle_clocks_Suc_right by blast
qed

lemma idle_arb_done:
  assumes "arb_asked c" "others_silent oth"
  shows "aip_o (u_regs (idle_clocks ps oth (Suc (N_MAX ps)) c)) (u_bus (idle_clocks ps oth (Suc (N_MAX ps)) c))"
proof -
  let ?c = "idle_clocks ps oth (N_MAX ps) c"
  from idle_arb [OF assms, of ps "N_MAX ps"]
  have asked: "arb_asked ?c" and alt: "arb_active (u_bus ?c) \<or> N_MAX ps \<le> free_cnt (u_bus ?c)" by auto
  have q: "\<not> scsi_rst_int e (settle ?c oth)" for e
    using settle_asked(1) [OF asked assms(2)] by (simp add: scsi_rst_int_def)
  have "arb_active (u_bus (sys_step ps no_access False oth ?c))"
    using alt settle_asked(2,3) [OF asked assms(2)] q asked
    by (auto simp: sys_step_def arb_next_def bus_free_def N_MAX_eq(1) arb_asked_def)
  moreover have "arb_asked (sys_step ps no_access False oth ?c)"
    by (rule arb_asked_step [OF asked assms(2)])
  ultimately show ?thesis
    unfolding idle_clocks_Suc_right by (simp add: aip_o_def arbitrating_def arb_asked_def)
qed

lemma no_foreign_sel:
  "\<not> l_sel oth \<Longrightarrow> l_sel (settle c oth) \<Longrightarrow> l_sel (drive_o (u_regs c) (u_bus c) b)"
  by (simp add: settle_def Let_def chip_drive_def drive_o_ctrl)

lemma reach_no_la: "chip_reach ps (\<lambda>oth. \<not> l_sel oth) c \<Longrightarrow> \<not> la_q (u_bus c)"
proof (induction rule: chip_reach.induct)
  case reset
  show ?case by (simp add: chip_reset_def bus_reset_def)
next
  case (hard_reset c p eop b)
  show ?case by (simp add: bus_step_def bus_reset_def)
next
  case (clock c oth p eop)
  then show ?case
    using no_foreign_sel [of oth c "settle c oth"] by (auto simp: sys_step_def arb_next_def)
qed

subsection \<open>Properties\<close>

text \<open>the wired-OR with the chip's own drive fed back has exactly one solution, the settled
  bus: the chip's drive depends on the bus it sees, but no line depends on itself.\<close>

theorem settle_unique: "b = scsi_or (chip_drive c b) oth \<longleftrightarrow> b = settle c oth"
  using settle_fixpoint_aux settle_unique_aux by metis

text \<open>register round trips. A host write followed by a read in a clock with no reset and no
  loss of BSY: Initiator Command returns what was written except bits 6 and 5, which are AIP
  and LOST ARBITRATION; Mode returns the value, with the DMA bit refused while BSY is false;
  Target Command returns the low four bits.\<close>

theorem register_readback:
  assumes "quiet ps c b"
    and icr: "ci = wish5380_step ps False (host_write A_ICR v) eop b c"
    and mr: "cm = wish5380_step ps False (host_write A_MR v) eop b c"
    and tcr: "ct = wish5380_step ps False (host_write A_TCR v) eop b c"
  shows "chip_dat_o (host_read A_ICR) b' ci =
            put_bit 5 (la_o (u_regs ci) (u_bus ci)) (put_bit 6 (aip_o (u_regs ci) (u_bus ci)) v)
    \<and> chip_dat_o (host_read A_MR) b' cm = (if l_bsy b then v else put_bit 1 False v)
    \<and> chip_dat_o (host_read A_TCR) b' ct = v AND 0x0f"
  using host_write_regs [OF assms(1), of A_ICR v eop] host_write_regs [OF assms(1), of A_MR v eop]
    host_write_regs [OF assms(1), of A_TCR v eop]
  unfolding icr [symmetric] mr [symmetric] tcr [symmetric]
  by (simp add: chip_dat_o_def regs_dat_o_def report_def regs_write_def icr_rd_def port_defs addr_defs)

theorem register_readback_witness:
  "quiet 20000 chip_reset scsi_idle \<and>
   chip_dat_o (host_read A_MR) scsi_idle
     (wish5380_step 20000 False (host_write A_MR 0x06) False scsi_idle chip_reset) = 0x04"
proof -
  have q: "quiet 20000 chip_reset scsi_idle"
    by (simp add: quiet_def scsi_rst_int_def busy_lost_def scsi_idle_def chip_reset_def
        regs_reset_def mode_defs)
  have "put_bit 1 False (0x06 :: byte) = 0x04" by (simp add: byte_eq_iff_bits)
  with q register_readback [OF q refl refl refl, where b' = scsi_idle and v = "0x06" and eop = False] show ?thesis
    by (simp add: scsi_idle_def)
qed

text \<open>C6: in every state the chip can reach, under any host accesses and any behaviour of the
  other devices, DRQ stands exactly in the two states that wait for the host, only a target
  waits for ACK to go, the bus-free counter never passes its limit, and LOST ARBITRATION is
  only latched by a chip that is arbitrating.\<close>

theorem engine_invariant:
  assumes "chip_reach ps env c"
  shows "drq_q (u_bus c) = (dma_st (u_bus c) = D_S_WANT \<or> dma_st (u_bus c) = D_R_HAVE)
    \<and> (dma_st (u_bus c) = D_S_TREL \<longrightarrow> dma_tgt (u_bus c))
    \<and> free_cnt (u_bus c) \<le> N_MAX ps
    \<and> (la_q (u_bus c) \<longrightarrow> arb_active (u_bus c))"
  using reach_eng_inv [OF assms] by (auto simp: eng_inv_def)

theorem engine_invariant_witness:
  "chip_reach 20000 (\<lambda>_. True) (sys_step 20000 (host_write A_MR 1) False scsi_idle chip_reset) \<and>
   free_cnt (u_bus (sys_step 20000 (host_write A_MR 1) False scsi_idle chip_reset)) \<le> N_MAX 20000"
proof -
  have r: "chip_reach 20000 (\<lambda>_. True) (sys_step 20000 (host_write A_MR 1) False scsi_idle chip_reset)"
    by (intro chip_reach.clock chip_reach.reset) simp
  from r engine_invariant [OF r] show ?thesis by simp
qed

text \<open>C32: arbitration is lost only to another device. However the host drives the chip, its own
  SEL included, LOST ARBITRATION never comes up on a bus where no other device asserts SEL.\<close>

theorem lost_only_to_another:
  assumes "chip_reach ps (\<lambda>oth. \<not> l_sel oth) c"
  shows "\<not> la_o (u_regs c) (u_bus c)"
  using reach_no_la [OF assms] by (simp add: la_o_def)

theorem lost_only_to_another_witness:
  "\<not> la_o (u_regs (sys_step 20000 (host_write A_ICR 0x0c) False scsi_idle chip_reset))
         (u_bus (sys_step 20000 (host_write A_ICR 0x0c) False scsi_idle chip_reset))"
proof -
  have "chip_reach 20000 (\<lambda>oth. \<not> l_sel oth)
      (sys_step 20000 (host_write A_ICR 0x0c) False scsi_idle chip_reset)"
    by (intro chip_reach.clock chip_reach.reset) (simp add: scsi_idle_def)
  then show ?thesis by (rule lost_only_to_another)
qed

text \<open>C33: arbitration begins. With ARBITRATE set, the chip not itself asserting RST, BSY or SEL, and
  no other device asserting them, AIP is up after the bus-free delay and one clock more,
  whatever the state of the rest of the chip.\<close>

theorem arbitration_begins:
  assumes "arb_asked c" "others_silent oth"
  shows "aip_o (u_regs (idle_clocks ps oth (T_BUS_FREE ps + 1) c))
               (u_bus (idle_clocks ps oth (T_BUS_FREE ps + 1) c))"
  using idle_arb_done [OF assms, of ps] by (simp add: N_MAX_eq(1))

theorem arbitration_begins_witness:
  "arb_asked (chip_reset\<lparr>u_regs := regs_reset\<lparr>mr_q := 1\<rparr>\<rparr>) \<and> others_silent scsi_idle \<and>
   aip_o (u_regs (idle_clocks 20000 scsi_idle (T_BUS_FREE 20000 + 1) (chip_reset\<lparr>u_regs := regs_reset\<lparr>mr_q := 1\<rparr>\<rparr>)))
     (u_bus (idle_clocks 20000 scsi_idle (T_BUS_FREE 20000 + 1) (chip_reset\<lparr>u_regs := regs_reset\<lparr>mr_q := 1\<rparr>\<rparr>)))"
proof -
  have a: "arb_asked (chip_reset\<lparr>u_regs := regs_reset\<lparr>mr_q := 1\<rparr>\<rparr>)" and o: "others_silent scsi_idle"
    by (simp_all add: arb_asked_def others_silent_def scsi_idle_def regs_reset_def mode_defs)
  from a o arbitration_begins [OF a o, of 20000] show ?thesis by blast
qed

text \<open>C5: a DMA transfer between two chips on the fabric, in either direction, loses, repeats and
  reorders nothing, however long each host takes to answer its DRQ: after any number of clocks
  the bytes the sending host has written are those the receiving host has read, in order and
  unchanged, followed by the at most two that are on their way. And the handshake never sticks:
  from whatever point such a run has come to, as long as both hosts answer at once, a byte is
  delivered every four clocks when the initiator sends and every seven when the target does.\<close>

theorem dma_transfer:
  assumes "pair_ready io s" "eng_inv ps (u_bus (fst s))" "eng_inv ps (u_bus (snd s))"
    and "run_clocks (dma_clock ps io) hs s = (sent, got, s')"
    and "run_clocks (dma_clock ps io) (map (\<lambda>v. (Some v, True)) vs) s' = (sent', got', s'')"
  shows "sent = got @ held io s' \<and> length (held io s') \<le> 2
    \<and> length vs < (if io then 7 else 4) * (length got' + 1)"
proof -
  note start = ready_link_inv [OF assms(1-3)]
  note run = dma_link.run_carries [OF start(1) assms(4)]
  from run have inv: "link_inv ps io s'" by simp
  have "list_all (\<lambda>h. fst h \<noteq> None \<and> snd h) (map (\<lambda>v. (Some v, True)) vs)" by (simp add: list_all_iff)
  from dma_link.run_paced [OF inv this assms(5)]
  have "length vs \<le> ahead_of io s' + period_of io * length got'" by simp
  moreover have "ahead_of io s' < period_of io"
    using inv by (auto simp: ahead_of_def link_inv_def intro: linked_ahead)
  ultimately have "length vs < (if io then 7 else 4) * (length got' + 1)"
    by (simp add: period_of_def split: if_splits)
  with run start(2) held_le_2 [of io s'] show ?thesis by simp
qed

definition example_pair :: "chip \<times> chip" where
  "example_pair =
     (\<lparr>u_regs = regs_reset\<lparr>icr_q := 0x01, mr_q := 0x02\<rparr>, u_bus = bus_reset\<lparr>dma_st := D_S_WANT, drq_q := True\<rparr>\<rparr>,
      \<lparr>u_regs = regs_reset\<lparr>icr_q := 0x08, mr_q := 0x42\<rparr>, u_bus = bus_reset\<lparr>dma_st := D_R_WANT, dma_tgt := True\<rparr>\<rparr>)"

text \<open>Nine ready clocks of a fresh pair deliver at least two bytes, and what is read is what was written.\<close>

theorem dma_transfer_witness:
  "pair_ready False example_pair \<and>
   (case run_clocks (dma_clock 20000 False) (map (\<lambda>v. (Some v, True)) [1, 2, 3, 4, 5, 6, 7, 8, 9]) example_pair of
      (sent, got, s') \<Rightarrow> 2 \<le> length got)"
proof -
  have r: "pair_ready False example_pair" "eng_inv 20000 (u_bus (fst example_pair))"
    "eng_inv 20000 (u_bus (snd example_pair))"
    by (simp_all add: pair_ready_def pair_defs example_pair_def regs_reset_def bus_reset_def mode_defs eng_inv_def)
  obtain sent got s' where
    e: "run_clocks (dma_clock 20000 False) (map (\<lambda>v. (Some v, True)) [1, 2, 3, 4, 5, 6, 7, 8, 9]) example_pair = (sent, got, s')"
    by (metis prod_cases3)
  have "run_clocks (dma_clock 20000 False) [] example_pair = ([], [], example_pair)" by simp
  from dma_transfer [OF r this e] e r(1) show ?thesis by simp
qed

text \<open>The phase-mismatch interrupt is an edge: a clock raises it exactly when REQ is up, was not
  up in the clock before, and the phase does not match in initiator DMA mode. A request that
  was already standing when DMA mode went on raises nothing.\<close>

theorem mismatch_is_edge:
  "phase_mismatch_int r' (u_bus (wish5380_step ps False p eop b c)) b' \<longleftrightarrow>
     dma_mode r' \<and> \<not> target_mode r' \<and> l_req b' \<and> \<not> l_req b \<and> \<not> phase_match_o r' b'"
  by (auto simp: phase_mismatch_int_def)

text \<open>an SCSI bus reset, from whichever device, clears every register except ASSERT RST and
  stops arbitration and DMA, but spares and in fact sets the interrupt latch, unless the
  host empties the latch in that very clock.\<close>

theorem scsi_reset_effect:
  assumes "scsi_rst_int (u_bus c) b" "\<not> busy_lost ps (u_regs c) (u_bus c) b"
    and c': "c' = wish5380_step ps False p eop b c"
  shows "u_regs c' = \<lparr>odr_q = 0, icr_q = icr_q (u_regs c) AND 0x80, mr_q = 0, tcr_q = 0, ser_q = 0\<rparr>
    \<and> dma_st (u_bus c') = D_IDLE \<and> \<not> arb_active (u_bus c') \<and> (irq_q (u_bus c') \<longleftrightarrow> \<not> rpi_o p)"
proof -
  have "push_bit 7 (1::byte) = 0x80" by (simp add: push_bit_eq_mult)
  with assms show ?thesis
    by (simp add: regs_step_def dma_next_def Let_def arb_next_def irq_next_def strobes_of_def)
qed

theorem scsi_reset_effect_witness:
  "irq_q (u_bus (wish5380_step 20000 False no_access False (scsi_idle\<lparr>l_rst := True\<rparr>) chip_reset))"
proof -
  have "scsi_rst_int (u_bus chip_reset) (scsi_idle\<lparr>l_rst := True\<rparr>)"
    "\<not> busy_lost 20000 (u_regs chip_reset) (u_bus chip_reset) (scsi_idle\<lparr>l_rst := True\<rparr>)"
    by (simp_all add: scsi_rst_int_def busy_lost_def chip_reset_def bus_reset_def regs_reset_def mode_defs)
  from scsi_reset_effect [OF this refl, where p = no_access and eop = False] show ?thesis
    by (simp add: rpi_o_def decode_def no_access_def)
qed

end
