(* ===== verification/Sun_Si.thy ===== *)
theory Sun_Si
  imports Prelude
begin

text \<open>
  Sun's polled \<open>si\<close> driver for the 5380 boards of the Sun-3: the standalone driver
  \<^verbatim>\<open>src/doc/drivers/SunOS34/sunstand/si.c\<close> and the boot monitor's
  \<^verbatim>\<open>src/doc/drivers/SunOS34/mon3/si.c\<close>. The two share most of their text; where they differ
  only in a constant the definitions take a \<open>flavour\<close>, where they differ in code there are
  two definitions. Register and bit names are those of \<^verbatim>\<open>src/doc/drivers/SunOS34/mon3/sireg.h\<close>.

  The board is a parameter: a record of its accesses over a state of any type. Bounded code
  is in the state monad; \<open>sidoit\<close>, whose status loop ends only when the target leaves the
  STATUS phase, returns an option.
\<close>

subsection \<open>Registers\<close>

datatype sbc_read_reg = R_cdr | R_icr | R_mr | R_tcr | R_cbsr | R_bsr | R_idr | R_clr
datatype sbc_write_reg = W_odr | W_icr | W_mr | W_tcr | W_ser | W_send | W_trcv | W_ircv

text \<open>The 16-bit and the 32-bit registers of \<open>struct scsi_si_reg\<close>.\<close>

datatype si_reg16 = Udc_rdata | Udc_raddr | Fifo_data | Bcr | Csr | Iv_am | Bcrh
datatype si_reg32 = Dma_addr | Dma_count | Bpr

abbreviation (input) "SBC_ICR_RST \<equiv> (0x80::byte)"
abbreviation (input) "SBC_ICR_ACK \<equiv> (0x10::byte)"
abbreviation (input) "SBC_ICR_SEL \<equiv> (0x04::byte)"
abbreviation (input) "SBC_ICR_DATA \<equiv> (0x01::byte)"
abbreviation (input) "SBC_MR_DMA \<equiv> (0x02::byte)"
abbreviation (input) "TCR_COMMAND \<equiv> (0x02::byte)"
abbreviation (input) "TCR_MSG_OUT \<equiv> (0x06::byte)"
abbreviation (input) "TCR_DATA_OUT \<equiv> (0x00::byte)"
abbreviation (input) "TCR_STATUS \<equiv> (0x03::byte)"
abbreviation (input) "TCR_MSG_IN \<equiv> (0x07::byte)"
abbreviation (input) "TCR_DATA_IN \<equiv> (0x01::byte)"
abbreviation (input) "SBC_CBSR_BSY \<equiv> (0x40::byte)"
abbreviation (input) "SBC_CBSR_REQ \<equiv> (0x20::byte)"
abbreviation (input) "CBSR_PHASE_BITS \<equiv> (0x1c::byte)"
abbreviation (input) "PHASE_COMMAND \<equiv> (0x08::u16)"
abbreviation (input) "PHASE_MSG_OUT \<equiv> (0x18::u16)"
abbreviation (input) "PHASE_STATUS \<equiv> (0x0c::u16)"
abbreviation (input) "PHASE_MSG_IN \<equiv> (0x1c::u16)"
abbreviation (input) "SBC_BSR_PMTCH \<equiv> (0x08::byte)"
abbreviation (input) "UDC_ADR_MODE \<equiv> (0x38::u16)"
abbreviation (input) "UDC_ADR_COMMAND \<equiv> (0x2e::u16)"
abbreviation (input) "UDC_ADR_CAR_HIGH \<equiv> (0x26::u16)"
abbreviation (input) "UDC_ADR_CAR_LOW \<equiv> (0x22::u16)"
abbreviation (input) "UDC_ADR_COUNT \<equiv> (0x32::u16)"
abbreviation (input) "UDC_RSEL_RECV \<equiv> (0x0182::u16)"
abbreviation (input) "UDC_RSEL_SEND \<equiv> (0x0282::u16)"
abbreviation (input) "UDC_CMR_HIGH \<equiv> (0x0040::u16)"
abbreviation (input) "UDC_CMR_LSEND \<equiv> (0x00c2::u16)"
abbreviation (input) "UDC_CMR_LRECV \<equiv> (0x00d2::u16)"
abbreviation (input) "UDC_MODE \<equiv> (0xd::u16)"
abbreviation (input) "UDC_ADDR_INFO \<equiv> (0x40::u32)"
abbreviation (input) "UDC_CMD_STRT_CHN \<equiv> (0xa0::u16)"
abbreviation (input) "UDC_CMD_RESET \<equiv> (0x00::u16)"
abbreviation (input) "SI_UDC_WAIT \<equiv> (1::nat)"
abbreviation (input) "SI_HOST_ID \<equiv> (0x80::u32)"
abbreviation (input) "VME_SUPV_DATA_24 \<equiv> (0x3d00::u16)"
abbreviation (input) "SI_CSR_DMA_CONFLICT \<equiv> (0x4000::u16)"
abbreviation (input) "SI_CSR_DMA_BUS_ERR \<equiv> (0x2000::u16)"
abbreviation (input) "SI_CSR_FIFO_EMPTY \<equiv> (0x0400::u16)"
abbreviation (input) "SI_CSR_SBC_IP \<equiv> (0x0200::u16)"
abbreviation (input) "SI_CSR_DMA_IP \<equiv> (0x0100::u16)"
abbreviation (input) "SI_CSR_LOB \<equiv> (0x00c0::u16)"
abbreviation (input) "SI_CSR_LOB_THREE \<equiv> (0x00c0::u16)"
abbreviation (input) "SI_CSR_LOB_TWO \<equiv> (0x0080::u16)"
abbreviation (input) "SI_CSR_LOB_ONE \<equiv> (0x0040::u16)"
abbreviation (input) "SI_CSR_BPCON \<equiv> (0x0020::u16)"
abbreviation (input) "SI_CSR_DMA_EN \<equiv> (0x0010::u16)"
abbreviation (input) "SI_CSR_SEND \<equiv> (0x0008::u16)"
abbreviation (input) "SI_CSR_FIFO_RES \<equiv> (0x0002::u16)"
abbreviation (input) "SI_CSR_SCSI_RES \<equiv> (0x0001::u16)"
abbreviation (input) "SC_REQUEST_SENSE \<equiv> (0x03::byte)"
abbreviation (input) "SC_READ \<equiv> (0x08::byte)"
abbreviation (input) "SC_COMMAND_COMPLETE \<equiv> (0::int)"
abbreviation (input) "STATUS_LEN \<equiv> (3::nat)"
abbreviation (input) "SI_VME_BASE \<equiv> (0x200000::int)"
abbreviation (input) "SI_OB_BASE \<equiv> (0x140000::int)"
abbreviation (input) "SI_SIZE \<equiv> (0x4000::int)"

subsection \<open>The board and the environment, as parameters\<close>

datatype maptypes = MAP_OBIO | MAP_VME24A16D

text \<open>
  \<open>sbc_read\<close> to \<open>poke16\<close> are accesses to the board and to memory; \<open>delay\<close> is \<open>DELAY\<close>;
  \<open>sc_error\<close>, \<open>idprom\<close> (its return value and \<open>id_machine\<close>), \<open>devalloc\<close>, \<open>resalloc\<close> and
  \<open>peek\<close> are the monitor's routines, which the sources only call.
\<close>

record 'd si_hw =
  sbc_read :: "sbc_read_reg \<Rightarrow> 'd \<Rightarrow> byte \<times> 'd"
  sbc_write :: "sbc_write_reg \<Rightarrow> byte \<Rightarrow> 'd \<Rightarrow> 'd"
  rd16 :: "si_reg16 \<Rightarrow> 'd \<Rightarrow> u16 \<times> 'd"
  wr16 :: "si_reg16 \<Rightarrow> u16 \<Rightarrow> 'd \<Rightarrow> 'd"
  rd32 :: "si_reg32 \<Rightarrow> 'd \<Rightarrow> u32 \<times> 'd"
  wr32 :: "si_reg32 \<Rightarrow> u32 \<Rightarrow> 'd \<Rightarrow> 'd"
  poke8 :: "u32 \<Rightarrow> byte \<Rightarrow> 'd \<Rightarrow> 'd"
  poke16 :: "u32 \<Rightarrow> u16 \<Rightarrow> 'd \<Rightarrow> 'd"
  delay :: "nat \<Rightarrow> 'd \<Rightarrow> 'd"
  sc_error :: "string \<Rightarrow> 'd \<Rightarrow> 'd"
  idprom :: "'d \<Rightarrow> (int \<times> int) \<times> 'd"
  devalloc :: "maptypes \<Rightarrow> int \<Rightarrow> 'd \<Rightarrow> u32 \<times> 'd"
  resalloc :: "'d \<Rightarrow> u32 \<times> 'd"
  peek :: "u32 \<Rightarrow> 'd \<Rightarrow> int \<times> 'd"
  IDFORM_1 :: int
  IDM_SUN3_M25 :: int
  IDM_SUN3_F :: int

record saioreq =
  si_ctlr :: int
  si_unit :: nat
  si_devaddr :: u32
  si_dmaaddr :: u32
  si_cc :: int
  si_ma :: u32

text \<open>The constants in which the two drivers differ.\<close>

record flavour =
  wait_n :: nat
  wait_us :: nat
  sbc_wait_n :: nat
  sbc_wait_us :: nat
  getbyte_waits :: nat

definition sunstand :: flavour where
  "sunstand = \<lparr>wait_n = 1000000, wait_us = 600, sbc_wait_n = 1000000, sbc_wait_us = 600, getbyte_waits = 0\<rparr>"
definition mon3 :: flavour where
  "mon3 = \<lparr>wait_n = 3000, wait_us = 5000, sbc_wait_n = 1000, sbc_wait_us = 5000, getbyte_waits = 20\<rparr>"

text \<open>The access vocabulary, with the read-modify-writes \<open>reg |= v\<close> and \<open>reg &= v\<close>.\<close>

definition rd8 :: "'d si_hw \<Rightarrow> sbc_read_reg \<Rightarrow> ('d, byte) state" where
  "rd8 H r = State (sbc_read H r)"
definition wr8 :: "'d si_hw \<Rightarrow> sbc_write_reg \<Rightarrow> byte \<Rightarrow> ('d, unit) state" where
  "wr8 H r v = State (\<lambda>d. ((), sbc_write H r v d))"
definition get16 :: "'d si_hw \<Rightarrow> si_reg16 \<Rightarrow> ('d, u16) state" where "get16 H r = State (rd16 H r)"
definition put16 :: "'d si_hw \<Rightarrow> si_reg16 \<Rightarrow> u16 \<Rightarrow> ('d, unit) state" where
  "put16 H r v = State (\<lambda>d. ((), wr16 H r v d))"
definition get32 :: "'d si_hw \<Rightarrow> si_reg32 \<Rightarrow> ('d, u32) state" where "get32 H r = State (rd32 H r)"
definition put32 :: "'d si_hw \<Rightarrow> si_reg32 \<Rightarrow> u32 \<Rightarrow> ('d, unit) state" where
  "put32 H r v = State (\<lambda>d. ((), wr32 H r v d))"
definition store8 :: "'d si_hw \<Rightarrow> u32 \<Rightarrow> byte \<Rightarrow> ('d, unit) state" where
  "store8 H a v = State (\<lambda>d. ((), poke8 H a v d))"
definition store16 :: "'d si_hw \<Rightarrow> u32 \<Rightarrow> u16 \<Rightarrow> ('d, unit) state" where
  "store16 H a v = State (\<lambda>d. ((), poke16 H a v d))"
definition DELAY :: "'d si_hw \<Rightarrow> nat \<Rightarrow> ('d, unit) state" where
  "DELAY H n = State (\<lambda>d. ((), delay H n d))"
definition err :: "'d si_hw \<Rightarrow> string \<Rightarrow> ('d, unit) state" where
  "err H s = State (\<lambda>d. ((), sc_error H s d))"
definition csr_or :: "'d si_hw \<Rightarrow> u16 \<Rightarrow> ('d, unit) state" where
  "csr_or H v = do { x \<leftarrow> get16 H Csr; put16 H Csr (x OR v) }"
definition csr_and :: "'d si_hw \<Rightarrow> u16 \<Rightarrow> ('d, unit) state" where
  "csr_and H v = do { x \<leftarrow> get16 H Csr; put16 H Csr (x AND v) }"
definition icr_or :: "'d si_hw \<Rightarrow> byte \<Rightarrow> ('d, unit) state" where
  "icr_or H v = do { x \<leftarrow> rd8 H R_icr; wr8 H W_icr (x OR v) }"

lemmas access_defs = rd8_def wr8_def get16_def put16_def get32_def put32_def store8_def store16_def
  DELAY_def err_def csr_or_def csr_and_def icr_or_def

subsection \<open>Waiting\<close>

text \<open>
  The condition of both wait loops: the source's \<open>set\<close> is 1 or 0 at every call (the boolean \<open>want\<close> here), and the
  register value is tested against the mask.
\<close>

definition cond_met :: "bool \<Rightarrow> 'a::len word \<Rightarrow> 'a word \<Rightarrow> bool" where
  "cond_met want cond regval \<longleftrightarrow> (want \<and> regval AND cond \<noteq> 0) \<or> (\<not> want \<and> regval AND cond = 0)"

fun poll16 :: "'d si_hw \<Rightarrow> nat \<Rightarrow> nat \<Rightarrow> si_reg16 \<Rightarrow> u16 \<Rightarrow> bool \<Rightarrow> ('d, bool) state" where
  "poll16 H us 0 reg cond want = State_Monad.return False"
| "poll16 H us (Suc n) reg cond want = do {
     regval \<leftarrow> get16 H reg;
     if cond_met want cond regval then State_Monad.return True
     else do { DELAY H us; poll16 H us n reg cond want } }"

fun poll8 :: "'d si_hw \<Rightarrow> nat \<Rightarrow> nat \<Rightarrow> sbc_read_reg \<Rightarrow> byte \<Rightarrow> bool \<Rightarrow> ('d, bool) state" where
  "poll8 H us 0 reg cond want = State_Monad.return False"
| "poll8 H us (Suc n) reg cond want = do {
     regval \<leftarrow> rd8 H reg;
     if cond_met want cond regval then State_Monad.return True
     else do { DELAY H us; poll8 H us n reg cond want } }"

definition si_wait :: "flavour \<Rightarrow> 'd si_hw \<Rightarrow> si_reg16 \<Rightarrow> u16 \<Rightarrow> bool \<Rightarrow> ('d, bool) state" where
  "si_wait F H reg cond want = poll16 H (wait_us F) (wait_n F) reg cond want"

definition si_sbc_wait :: "flavour \<Rightarrow> 'd si_hw \<Rightarrow> sbc_read_reg \<Rightarrow> byte \<Rightarrow> bool \<Rightarrow> ('d, bool) state" where
  "si_sbc_wait F H reg cond want = poll8 H (sbc_wait_us F) (sbc_wait_n F) reg cond want"

subsection \<open>Bytes on the bus\<close>

fun putbytes :: "flavour \<Rightarrow> 'd si_hw \<Rightarrow> byte list \<Rightarrow> ('d, bool) state" where
  "putbytes F H [] = do { wr8 H W_tcr 0; State_Monad.return True }"
| "putbytes F H (x # xs) = do {
     rq \<leftarrow> si_sbc_wait F H R_cbsr SBC_CBSR_REQ True;
     if \<not> rq then do { err H ''putbyte: target never set REQ''; State_Monad.return False }
     else do {
       wr8 H W_odr x;
       wr8 H W_icr SBC_ICR_DATA;
       bsr \<leftarrow> rd8 H R_bsr;
       if bsr AND SBC_BSR_PMTCH = 0
       then do { err H ''putbyte: phase mismatch''; State_Monad.return False }
       else do {
         icr_or H SBC_ICR_ACK;
         rel \<leftarrow> si_sbc_wait F H R_cbsr SBC_CBSR_REQ False;
         if \<not> rel then do { err H ''putbyte: target never released REQ''; State_Monad.return False }
         else do { wr8 H W_icr 0; putbytes F H xs } } } }"

definition si_putbyte :: "flavour \<Rightarrow> 'd si_hw \<Rightarrow> u16 \<Rightarrow> byte list \<Rightarrow> ('d, bool) state" where
  "si_putbyte F H phase xs =
     (if phase = PHASE_COMMAND then do { wr8 H W_tcr TCR_COMMAND; putbytes F H xs }
      else if phase = PHASE_MSG_OUT then do { wr8 H W_tcr TCR_MSG_OUT; putbytes F H xs }
      else do { err H ''putbyte, bad phase specified''; State_Monad.return False })"

text \<open>The boot monitor's extra waits before a byte is fetched; none in the standalone driver.\<close>

fun req_waits :: "flavour \<Rightarrow> 'd si_hw \<Rightarrow> nat \<Rightarrow> ('d, unit) state" where
  "req_waits F H 0 = State_Monad.return ()"
| "req_waits F H (Suc n) = do {
     rq \<leftarrow> si_sbc_wait F H R_cbsr SBC_CBSR_REQ True;
     if rq then State_Monad.return () else req_waits F H n }"

definition getbyte_in_phase :: "flavour \<Rightarrow> 'd si_hw \<Rightarrow> u16 \<Rightarrow> ('d, int) state" where
  "getbyte_in_phase F H phase = do {
     req_waits F H (getbyte_waits F);
     rq \<leftarrow> si_sbc_wait F H R_cbsr SBC_CBSR_REQ True;
     if \<not> rq then do { err H ''getbyte: target never set REQ''; wr8 H W_tcr 0; State_Monad.return (-1) }
     else do {
       cbsr \<leftarrow> rd8 H R_cbsr;
       if phase \<noteq> ucast (cbsr AND CBSR_PHASE_BITS) then do {
         (if phase \<noteq> PHASE_STATUS then err H ''getbyte: phase mismatch'' else State_Monad.return ());
         wr8 H W_tcr 0; State_Monad.return (-1) }
       else do {
         x \<leftarrow> rd8 H R_cdr;
         wr8 H W_icr SBC_ICR_ACK;
         rel \<leftarrow> si_sbc_wait F H R_cbsr SBC_CBSR_REQ False;
         if \<not> rel then do {
           err H ''getbyte: target never released REQ'';
           wr8 H W_icr 0; wr8 H W_tcr 0; State_Monad.return (-1) }
         else do { wr8 H W_icr 0; wr8 H W_tcr 0; State_Monad.return (uint x) } } } }"

definition si_getbyte :: "flavour \<Rightarrow> 'd si_hw \<Rightarrow> u16 \<Rightarrow> ('d, int) state" where
  "si_getbyte F H phase =
     (if phase = PHASE_STATUS then do { wr8 H W_tcr TCR_STATUS; getbyte_in_phase F H phase }
      else if phase = PHASE_MSG_IN then do { wr8 H W_tcr TCR_MSG_IN; getbyte_in_phase F H phase }
      else do { err H ''getbyte, bad phase specified''; State_Monad.return (-1) })"

end
