(* ===== verification/Sun_Cmd.thy ===== *)
theory Sun_Cmd
  imports Sun_Si
begin

text \<open>
  The upper half of Sun's polled driver: probing and opening the board, DMA set-up and
  clean-up, bus reset, and \<open>sidoit\<close>, one SCSI command from selection to the final message.
  \<open>ob\<close> is true for the on-board interface of the 3/50 and 3/60 (\<open>si_dmaaddr\<close> non-null in
  the standalone driver, the \<open>M25\<close> build of the boot monitor) and false for the VME board.
\<close>

subsection \<open>Reset and DMA clean-up\<close>

definition si_reset :: "'d si_hw \<Rightarrow> bool \<Rightarrow> ('d, unit) state" where
  "si_reset H ob = do {
     put16 H Bcr 0;
     put16 H Csr 0;
     DELAY H 10;
     put16 H Csr (SI_CSR_SCSI_RES OR SI_CSR_FIFO_RES);
     (if \<not> ob then do { put32 H Dma_addr 0; put32 H Dma_count 0 } else State_Monad.return ());
     wr8 H W_icr SBC_ICR_RST;
     DELAY H 50;
     wr8 H W_icr 0;
     junk \<leftarrow> rd8 H R_clr;
     DELAY H 10000000 }"

text \<open>
  The first statement of the VME branch is \<open>sir->csr &- ~SI_CSR_DMA_EN\<close>: an expression, not
  an assignment. The register is read and nothing is written.
\<close>

definition si_dma_cleanup :: "'d si_hw \<Rightarrow> bool \<Rightarrow> ('d, unit) state" where
  "si_dma_cleanup H ob = do {
     (if ob then do {
        put16 H Udc_raddr UDC_ADR_COMMAND;
        DELAY H SI_UDC_WAIT;
        put16 H Udc_rdata UDC_CMD_RESET }
      else do {
        csr \<leftarrow> get16 H Csr;
        put32 H Dma_addr 0 });
     mr \<leftarrow> rd8 H R_mr;
     wr8 H W_mr (mr AND NOT SBC_MR_DMA);
     wr8 H W_icr 0;
     wr8 H W_tcr 0 }"

subsection \<open>DMA set-up\<close>

definition is_recv :: "byte \<Rightarrow> bool" where
  "is_recv cmd \<longleftrightarrow> cmd = SC_READ \<or> cmd = SC_REQUEST_SENSE"

text \<open>
  The table the UDC loads its registers from. \<open>cc\<close> is a C int; \<open>cc / 2\<close> truncates and the
  count field keeps 16 bits. The fields are at offsets 0, 2, \<dots>, 10 of \<open>struct udc_table\<close>.
\<close>

definition udc_count :: "byte \<Rightarrow> int \<Rightarrow> u16" where
  "udc_count cmd cc = (if \<not> is_recv cmd \<and> odd cc then word_of_int (sgn cc * (\<bar>cc\<bar> div 2)) + 1
     else word_of_int (sgn cc * (\<bar>cc\<bar> div 2)))"

definition SI_OB_DMA_ADDR :: "u32 \<Rightarrow> u32" where "SI_OB_DMA_ADDR x = x AND 0x00FFFFFF"
definition SI_VME_DMA_ADDR :: "u32 \<Rightarrow> u32" where "SI_VME_DMA_ADDR x = x AND 0x000FFFFF"

definition si_ob_dma_setup :: "'d si_hw \<Rightarrow> u32 \<Rightarrow> byte \<Rightarrow> int \<Rightarrow> u32 \<Rightarrow> ('d, unit) state" where
  "si_ob_dma_setup H udct cmd cc ma = do {
     store16 H (udct + 2) (ucast (drop_bit 8 (SI_OB_DMA_ADDR ma AND 0xff0000) OR UDC_ADDR_INFO));
     store16 H (udct + 4) (ucast (SI_OB_DMA_ADDR ma AND 0xffff));
     store16 H (udct + 8) UDC_CMR_HIGH;
     store16 H (udct + 6) (word_of_int (sgn cc * (\<bar>cc\<bar> div 2)));
     (if is_recv cmd then do {
        store16 H udct UDC_RSEL_RECV;
        store16 H (udct + 10) UDC_CMR_LRECV }
      else do {
        store16 H udct UDC_RSEL_SEND;
        store16 H (udct + 10) UDC_CMR_LSEND;
        (if odd cc then store16 H (udct + 6) (udc_count cmd cc) else State_Monad.return ()) });
     DELAY H SI_UDC_WAIT; put16 H Udc_raddr UDC_ADR_CAR_HIGH;
     DELAY H SI_UDC_WAIT; put16 H Udc_rdata (ucast (drop_bit 8 (udct AND 0xff0000)));
     DELAY H SI_UDC_WAIT; put16 H Udc_raddr UDC_ADR_CAR_LOW;
     DELAY H SI_UDC_WAIT; put16 H Udc_rdata (ucast (udct AND 0xffff));
     DELAY H SI_UDC_WAIT; put16 H Udc_raddr UDC_ADR_MODE;
     DELAY H SI_UDC_WAIT; put16 H Udc_rdata UDC_MODE;
     DELAY H SI_UDC_WAIT; put16 H Udc_raddr UDC_ADR_COMMAND;
     DELAY H SI_UDC_WAIT; put16 H Udc_rdata UDC_CMD_STRT_CHN }"

subsection \<open>One command\<close>

text \<open>Waiting for a free bus: at most 100001 reads of the bus status, then a reset.\<close>

fun bus_free_wait :: "'d si_hw \<Rightarrow> nat \<Rightarrow> ('d, bool) state" where
  "bus_free_wait H i = do {
     cbsr \<leftarrow> rd8 H R_cbsr;
     if cbsr AND SBC_CBSR_BSY = 0 then State_Monad.return True
     else (case i of 0 \<Rightarrow> State_Monad.return False | Suc j \<Rightarrow> bus_free_wait H j) }"

declare bus_free_wait.simps [simp del]

definition select_target :: "flavour \<Rightarrow> 'd si_hw \<Rightarrow> nat \<Rightarrow> ('d, bool) state" where
  "select_target F H unit_no = do {
     wr8 H W_odr (ucast (push_bit unit_no 1 OR SI_HOST_ID));
     wr8 H W_icr SBC_ICR_DATA;
     icr_or H SBC_ICR_SEL;
     si_sbc_wait F H R_cbsr SBC_CBSR_BSY True }"

definition dma_init :: "'d si_hw \<Rightarrow> bool \<Rightarrow> byte \<Rightarrow> int \<Rightarrow> ('d, unit) state" where
  "dma_init H ob cmd cc = do {
     put16 H Bcr 0;
     (if cc > 0 then do {
        (if is_recv cmd then csr_and H (NOT SI_CSR_SEND) else csr_or H SI_CSR_SEND);
        csr_and H (NOT SI_CSR_FIFO_RES);
        csr_or H SI_CSR_FIFO_RES;
        put16 H Bcr (word_of_int cc);
        (if \<not> ob then put16 H Bcrh 0 else State_Monad.return ()) }
      else State_Monad.return ()) }"

text \<open>Programming the DMA engine; \<open>False\<close> is the \<open>goto failed\<close> of an odd VME address.\<close>

definition dma_program :: "'d si_hw \<Rightarrow> bool \<Rightarrow> byte \<Rightarrow> saioreq \<Rightarrow> ('d, bool) state" where
  "dma_program H ob cmd sip =
     (if ob then do { si_ob_dma_setup H (si_dmaaddr sip) cmd (si_cc sip) (si_ma sip); State_Monad.return True }
      else if si_ma sip AND 1 \<noteq> 0 then do { err H ''dma begins on odd address''; State_Monad.return False }
      else do {
        (if si_ma sip AND 2 \<noteq> 0 then csr_or H SI_CSR_BPCON else csr_and H (NOT SI_CSR_BPCON));
        put32 H Dma_addr (SI_VME_DMA_ADDR (si_ma sip));
        put32 H Dma_count (word_of_int (si_cc sip));
        State_Monad.return True })"

definition dma_start :: "'d si_hw \<Rightarrow> bool \<Rightarrow> byte \<Rightarrow> ('d, unit) state" where
  "dma_start H ob cmd = do {
     mr \<leftarrow> rd8 H R_mr;
     wr8 H W_mr (mr OR SBC_MR_DMA);
     (if is_recv cmd then do { wr8 H W_tcr TCR_DATA_IN; wr8 H W_ircv 0 }
      else do { wr8 H W_tcr TCR_DATA_OUT; wr8 H W_icr SBC_ICR_DATA; wr8 H W_send 0 });
     (if \<not> ob then csr_or H SI_CSR_DMA_EN else State_Monad.return ()) }"

text \<open>Waiting for the DMA to complete and why it did; \<open>False\<close> is \<open>goto failed\<close>.\<close>

definition dma_wait :: "flavour \<Rightarrow> 'd si_hw \<Rightarrow> bool \<Rightarrow> ('d, bool) state" where
  "dma_wait F H ob = do {
     done \<leftarrow> si_wait F H Csr (SI_CSR_SBC_IP OR SI_CSR_DMA_IP OR SI_CSR_DMA_CONFLICT) True;
     if \<not> done then do {
       err H ''dma never completed'';
       (if \<not> ob then csr_and H (NOT SI_CSR_DMA_EN) else State_Monad.return ());
       si_dma_cleanup H ob;
       State_Monad.return False }
     else do {
       (if \<not> ob then csr_and H (NOT SI_CSR_DMA_EN) else State_Monad.return ());
       csr \<leftarrow> get16 H Csr;
       if csr AND SI_CSR_SBC_IP \<noteq> 0 then do {
         pm \<leftarrow> si_sbc_wait F H R_bsr SBC_BSR_PMTCH False;
         State_Monad.return True }
       else do {
         csr1 \<leftarrow> get16 H Csr;
         (if csr1 AND SI_CSR_DMA_CONFLICT \<noteq> 0 then err H ''invalid reg access during dma''
          else do {
            csr2 \<leftarrow> get16 H Csr;
            (if csr2 AND SI_CSR_DMA_BUS_ERR \<noteq> 0 then err H ''bus error during dma''
             else if ob then err H ''unknown dma failure'' else err H ''dma overrun'') });
         si_dma_cleanup H ob;
         State_Monad.return False } } }"

definition byte_of :: "nat \<Rightarrow> u32 \<Rightarrow> byte" where "byte_of n w = ucast (drop_bit (8 * n) w)"

text \<open>
  The bytes a receive leaves behind, on-board: the odd last byte, or a last word the UDC did
  not move, from the FIFO. \<open>False\<close> is \<open>goto failed\<close>.
\<close>

definition dma_leftover_ob :: "flavour \<Rightarrow> 'd si_hw \<Rightarrow> saioreq \<Rightarrow> ('d, bool) state" where
  "dma_leftover_ob F H sip = do {
     put16 H Udc_raddr UDC_ADR_COUNT;
     empty \<leftarrow> si_wait F H Csr SI_CSR_FIFO_EMPTY True;
     if \<not> empty then do { err H ''fifo never emptied''; si_dma_cleanup H True; State_Monad.return False }
     else do {
       bcr \<leftarrow> get16 H Bcr;
       if odd (si_cc sip - uint bcr) then do {
         bcr1 \<leftarrow> get16 H Bcr;
         fifo \<leftarrow> get16 H Fifo_data;
         store8 H (si_ma sip + word_of_int (si_cc sip - uint bcr1) - 1) (ucast (drop_bit 8 (fifo AND 0xff00)));
         State_Monad.return True }
       else do {
         udc \<leftarrow> get16 H Udc_rdata;
         bcr2 \<leftarrow> get16 H Bcr;
         if uint udc * 2 - uint bcr2 = 2 then do {
           bcr3 \<leftarrow> get16 H Bcr;
           fifo \<leftarrow> get16 H Fifo_data;
           store8 H (si_ma sip + word_of_int (si_cc sip - uint bcr3) - 2) (ucast (drop_bit 8 (fifo AND 0xff00)));
           fifo2 \<leftarrow> get16 H Fifo_data;
           store8 H (si_ma sip + word_of_int (si_cc sip - uint bcr3) - 1) (ucast (fifo2 AND 0x00ff));
           State_Monad.return True }
         else State_Monad.return True } } }"

text \<open>The same on the VME board: up to three leftover bytes in the byte pack register.\<close>

definition dma_leftover_vme :: "'d si_hw \<Rightarrow> saioreq \<Rightarrow> ('d, unit) state" where
  "dma_leftover_vme H sip = do {
     csr \<leftarrow> get16 H Csr;
     if csr AND SI_CSR_LOB = 0 then State_Monad.return ()
     else do {
       bcr \<leftarrow> get16 H Bcr;
       let cp = si_ma sip + word_of_int (si_cc sip - uint bcr);
       csr1 \<leftarrow> get16 H Csr;
       if csr1 AND SI_CSR_BPCON = 0 then do {
         csr2 \<leftarrow> get16 H Csr;
         if csr2 AND SI_CSR_LOB = SI_CSR_LOB_THREE then do {
           w3 \<leftarrow> get32 H Bpr; store8 H (cp - 3) (byte_of 3 w3);
           w2 \<leftarrow> get32 H Bpr; store8 H (cp - 2) (byte_of 2 w2);
           w1 \<leftarrow> get32 H Bpr; store8 H (cp - 1) (byte_of 1 w1) }
         else if csr2 AND SI_CSR_LOB = SI_CSR_LOB_TWO then do {
           w3 \<leftarrow> get32 H Bpr; store8 H (cp - 2) (byte_of 3 w3);
           w2 \<leftarrow> get32 H Bpr; store8 H (cp - 1) (byte_of 2 w2) }
         else if csr2 AND SI_CSR_LOB = SI_CSR_LOB_ONE then do {
           w3 \<leftarrow> get32 H Bpr; store8 H (cp - 1) (byte_of 3 w3) }
         else State_Monad.return () }
       else do { w1 \<leftarrow> get32 H Bpr; store8 H (cp - 1) (byte_of 1 w1) } } }"

definition dma_transfer_phase :: "flavour \<Rightarrow> 'd si_hw \<Rightarrow> bool \<Rightarrow> byte \<Rightarrow> saioreq \<Rightarrow> ('d, bool) state" where
  "dma_transfer_phase F H ob cmd sip = do {
     ok \<leftarrow> dma_program H ob cmd sip;
     if \<not> ok then State_Monad.return False
     else do {
       dma_start H ob cmd;
       fin \<leftarrow> dma_wait F H ob;
       if \<not> fin then State_Monad.return False
       else do {
         left \<leftarrow> (if \<not> is_recv cmd then State_Monad.return True
                 else if ob then dma_leftover_ob F H sip
                 else do { dma_leftover_vme H sip; State_Monad.return True });
         if \<not> left then State_Monad.return False
         else do { junk \<leftarrow> rd8 H R_clr; si_dma_cleanup H ob; State_Monad.return True } } } }"

text \<open>
  The status loop has no bound of its own: it takes bytes as long as the target stays in the
  STATUS phase and keeps the first three. A round is one \<open>si_getbyte\<close>.
\<close>

definition status_round :: "flavour \<Rightarrow> 'd si_hw \<Rightarrow> int list \<times> 'd \<Rightarrow> ((int list \<times> 'd) + (int list \<times> 'd)) option" where
  "status_round F H s = (case s of (scb, d) \<Rightarrow>
     (case run_state (si_getbyte F H PHASE_STATUS) d of (b, d') \<Rightarrow>
        if b = -1 then Some (Inr (scb, d'))
        else Some (Inl (if length scb < STATUS_LEN then scb @ [b] else scb, d'))))"

definition get_status :: "flavour \<Rightarrow> 'd si_hw \<Rightarrow> 'd \<Rightarrow> (int list \<times> 'd) option" where
  "get_status F H d = c_loop (status_round F H) ([], d)"

text \<open>The result of a command: the C return value and the status bytes stored.\<close>

definition failed :: "'d si_hw \<Rightarrow> bool \<Rightarrow> int list \<Rightarrow> 'd \<Rightarrow> ((int \<times> int list) \<times> 'd) option" where
  "failed H ob scb d = (case run_state (si_reset H ob) d of (_, d') \<Rightarrow> Some ((-1, scb), d'))"

definition finish :: "flavour \<Rightarrow> 'd si_hw \<Rightarrow> bool \<Rightarrow> saioreq \<Rightarrow> 'd \<Rightarrow> ((int \<times> int list) \<times> 'd) option" where
  "finish F H ob sip d = do {
     (scb, d1) \<leftarrow> get_status F H d;
     let (b, d2) = run_state (si_getbyte F H PHASE_MSG_IN) d1;
     if b \<noteq> SC_COMMAND_COMPLETE then
       failed H ob scb (if b \<ge> 0 then snd (run_state (err H ''invalid message'') d2) else d2)
     else (case run_state (get16 H Bcr) d2 of (bcr, d3) \<Rightarrow> Some ((si_cc sip - uint bcr, scb), d3)) }"

definition command_phase :: "flavour \<Rightarrow> 'd si_hw \<Rightarrow> bool \<Rightarrow> byte list \<Rightarrow> saioreq \<Rightarrow> ('d, bool) state" where
  "command_phase F H ob cdb sip = do {
     wr8 H W_icr 0;
     dma_init H ob (cdb ! 0) (si_cc sip);
     ok \<leftarrow> si_putbyte F H PHASE_COMMAND cdb;
     if \<not> ok then do { err H ''put of cmd onto scsi bus failed''; State_Monad.return False }
     else if si_cc sip > 0 then dma_transfer_phase F H ob (cdb ! 0) sip
     else State_Monad.return True }"

text \<open>The standalone driver's \<open>sidoit\<close>; \<open>cdb\<close> is the six bytes of \<open>struct scsi_cdb\<close>.\<close>

definition sidoit :: "'d si_hw \<Rightarrow> byte list \<Rightarrow> saioreq \<Rightarrow> 'd \<Rightarrow> ((int \<times> int list) \<times> 'd) option" where
  "sidoit H cdb sip d =
     (let ob = (si_dmaaddr sip \<noteq> 0) in
      case run_state (bus_free_wait H 100000) d of (free, d1) \<Rightarrow>
      if \<not> free then failed H ob [] d1
      else (case run_state (select_target sunstand H (si_unit sip)) d1 of (sel, d2) \<Rightarrow>
        if \<not> sel then failed H ob [] (snd (run_state (err H ''sel, cbsr bsy never set'') d2))
        else (case run_state (command_phase sunstand H ob cdb sip) d2 of (ok, d3) \<Rightarrow>
          if \<not> ok then failed H ob [] d3 else finish sunstand H ob sip d3)))"

text \<open>The boot monitor's: a failed selection releases the bus and returns without a reset.\<close>

definition mon_sidoit :: "bool \<Rightarrow> 'd si_hw \<Rightarrow> byte list \<Rightarrow> saioreq \<Rightarrow> 'd \<Rightarrow> ((int \<times> int list) \<times> 'd) option" where
  "mon_sidoit m25 H cdb sip d =
     (let ob = m25 in
      case run_state (bus_free_wait H 100000) d of (free, d1) \<Rightarrow>
      if \<not> free then failed H ob [] d1
      else (case run_state (select_target mon3 H (si_unit sip)) d1 of (sel, d2) \<Rightarrow>
        if \<not> sel then
          (case run_state (do { wr8 H W_icr 0; wr8 H W_odr 0 }) d2 of (_, d3) \<Rightarrow> Some ((-1, []), d3))
        else (case run_state (command_phase mon3 H ob cdb sip) d2 of (ok, d3) \<Rightarrow>
          if \<not> ok then failed H ob [] d3 else finish mon3 H ob sip d3)))"

text \<open>The monitor's copies of the routines that are the same text with other limits.\<close>

definition mon_si_wait :: "'d si_hw \<Rightarrow> si_reg16 \<Rightarrow> u16 \<Rightarrow> bool \<Rightarrow> ('d, bool) state" where
  "mon_si_wait H = si_wait mon3 H"
definition mon_si_sbc_wait :: "'d si_hw \<Rightarrow> sbc_read_reg \<Rightarrow> byte \<Rightarrow> bool \<Rightarrow> ('d, bool) state" where
  "mon_si_sbc_wait H = si_sbc_wait mon3 H"
definition mon_si_putbyte :: "'d si_hw \<Rightarrow> u16 \<Rightarrow> byte list \<Rightarrow> ('d, bool) state" where
  "mon_si_putbyte H = si_putbyte mon3 H"
definition mon_si_getbyte :: "'d si_hw \<Rightarrow> u16 \<Rightarrow> ('d, int) state" where
  "mon_si_getbyte H = si_getbyte mon3 H"

definition mon_si_ob_dma_setup :: "'d si_hw \<Rightarrow> u32 \<Rightarrow> byte \<Rightarrow> int \<Rightarrow> u32 \<Rightarrow> ('d, unit) state" where
  "mon_si_ob_dma_setup H = si_ob_dma_setup H"
definition mon_si_dma_cleanup :: "bool \<Rightarrow> 'd si_hw \<Rightarrow> ('d, unit) state" where
  "mon_si_dma_cleanup m25 H = si_dma_cleanup H m25"
definition mon_si_reset :: "bool \<Rightarrow> 'd si_hw \<Rightarrow> ('d, unit) state" where
  "mon_si_reset m25 H = si_reset H m25"

subsection \<open>Probe and open\<close>

definition alloc :: "'d si_hw \<Rightarrow> maptypes \<Rightarrow> int \<Rightarrow> ('d, u32) state" where
  "alloc H sp a = State (devalloc H sp a)"

text \<open>Probing a VME board: the SI adaptor does not answer 2K above its base, the SC does.\<close>

definition probe_vme :: "'d si_hw \<Rightarrow> saioreq \<Rightarrow> ('d, int) state" where
  "probe_vme H sip =
     (if si_ctlr sip < 2 then do {
        sir \<leftarrow> alloc H MAP_VME24A16D (SI_VME_BASE + si_ctlr sip * SI_SIZE);
        if sir = 0 then State_Monad.return 0
        else do { x \<leftarrow> State (peek H (sir + 0x800)); State_Monad.return (if x = -1 then 1 else 0) } }
      else State_Monad.return 0)"

definition siprobe :: "'d si_hw \<Rightarrow> saioreq \<Rightarrow> ('d, int) state" where
  "siprobe H sip = do {
     (form, machine) \<leftarrow> State (idprom H);
     if form = IDFORM_1 H then
       (if machine = IDM_SUN3_M25 H \<or> machine = IDM_SUN3_F H then State_Monad.return 1
        else probe_vme H sip)
     else State_Monad.return 0 }"

definition mon_siprobe :: "bool \<Rightarrow> 'd si_hw \<Rightarrow> saioreq \<Rightarrow> ('d, int) state" where
  "mon_siprobe m25 H sip = do {
     (form, machine) \<leftarrow> State (idprom H);
     if m25 then State_Monad.return (if form = IDFORM_1 H \<and> machine = IDM_SUN3_M25 H then 1 else 0)
     else if form = IDFORM_1 H then probe_vme H sip
     else State_Monad.return 0 }"

definition open_regs :: "'d si_hw \<Rightarrow> bool \<Rightarrow> ('d, unit) state" where
  "open_regs H vme = do {
     put16 H Csr 0;
     DELAY H 10;
     put16 H Csr (SI_CSR_SCSI_RES OR SI_CSR_FIFO_RES);
     put16 H Bcr 0;
     (if vme then do { put32 H Dma_addr 0; put32 H Dma_count 0; put16 H Iv_am VME_SUPV_DATA_24 }
      else State_Monad.return ()) }"

text \<open>The common tail of the two \<open>siopen\<close>: map the registers, allocate for DMA, reset.\<close>

definition open_at :: "'d si_hw \<Rightarrow> maptypes \<Rightarrow> int \<Rightarrow> int \<Rightarrow> bool \<Rightarrow> saioreq \<Rightarrow> ('d, int \<times> saioreq) state" where
  "open_at H sp base nstd ob sip =
     (if si_ctlr sip < nstd then do {
        let sip1 = sip\<lparr>si_ctlr := base + si_ctlr sip * SI_SIZE\<rparr>;
        a \<leftarrow> alloc H sp (si_ctlr sip1);
        let sip2 = sip1\<lparr>si_devaddr := a\<rparr>;
        if a = 0 then State_Monad.return (-1, sip2)
        else if ob then do {
          m \<leftarrow> State (resalloc H);
          let sip3 = sip2\<lparr>si_dmaaddr := m\<rparr>;
          if m = 0 then State_Monad.return (-1, sip3)
          else do { open_regs H False; State_Monad.return (0, sip3) } }
        else do { open_regs H True; State_Monad.return (0, sip2\<lparr>si_dmaaddr := 0\<rparr>) } }
      else State_Monad.return (-1, sip))"

definition siopen :: "'d si_hw \<Rightarrow> saioreq \<Rightarrow> ('d, int \<times> saioreq) state" where
  "siopen H sip = do {
     (form, machine) \<leftarrow> State (idprom H);
     if form = IDFORM_1 H then
       (if machine = IDM_SUN3_M25 H \<or> machine = IDM_SUN3_F H then open_at H MAP_OBIO SI_OB_BASE 1 True sip
        else open_at H MAP_VME24A16D SI_VME_BASE 2 False sip)
     else State_Monad.return (-1, sip) }"

definition mon_siopen :: "bool \<Rightarrow> 'd si_hw \<Rightarrow> saioreq \<Rightarrow> ('d, int \<times> saioreq) state" where
  "mon_siopen m25 H sip = do {
     (form, machine) \<leftarrow> State (idprom H);
     if form = IDFORM_1 H then
       (if m25 then
          (if machine = IDM_SUN3_M25 H then open_at H MAP_OBIO SI_OB_BASE 1 True sip
           else State_Monad.return (-1, sip))
        else open_at H MAP_VME24A16D SI_VME_BASE 2 False sip)
     else State_Monad.return (-1, sip) }"

end
