(* ===== verification/Sun_Trace.thy ===== *)
theory Sun_Trace
  imports Sun_Cmd
begin

text \<open>
  Every access of Sun's driver, recorded. \<open>logged H\<close> is the board \<open>H\<close> with a log beside its
  state; \<open>transparent\<close> says that a program run over \<open>logged H\<close> returns what it returns over
  \<open>H\<close>, leaves the board in the same state and only appends to the log. So a statement about
  the log of a run is a statement about what the driver does to an arbitrary board.
\<close>

datatype si_ev =
    Rd8 sbc_read_reg byte | Wr8 sbc_write_reg byte | Rd16 si_reg16 u16 | Wr16 si_reg16 u16
  | Rd32 si_reg32 u32 | Wr32 si_reg32 u32 | Poke8 u32 byte | Poke16 u32 u16
  | Delayed nat | Error string | Other

definition tap :: "('a \<Rightarrow> si_ev) \<Rightarrow> ('d \<Rightarrow> 'a \<times> 'd) \<Rightarrow> si_ev list \<times> 'd \<Rightarrow> 'a \<times> si_ev list \<times> 'd" where
  "tap ev f s = (case s of (l, d) \<Rightarrow> (case f d of (v, d') \<Rightarrow> (v, l @ [ev v], d')))"

definition logged :: "'d si_hw \<Rightarrow> (si_ev list \<times> 'd) si_hw" where
  "logged H = \<lparr>
     sbc_read = (\<lambda>r. tap (Rd8 r) (sbc_read H r)),
     sbc_write = (\<lambda>r v (l, d). (l @ [Wr8 r v], sbc_write H r v d)),
     rd16 = (\<lambda>r. tap (Rd16 r) (rd16 H r)),
     wr16 = (\<lambda>r v (l, d). (l @ [Wr16 r v], wr16 H r v d)),
     rd32 = (\<lambda>r. tap (Rd32 r) (rd32 H r)),
     wr32 = (\<lambda>r v (l, d). (l @ [Wr32 r v], wr32 H r v d)),
     poke8 = (\<lambda>a v (l, d). (l @ [Poke8 a v], poke8 H a v d)),
     poke16 = (\<lambda>a v (l, d). (l @ [Poke16 a v], poke16 H a v d)),
     delay = (\<lambda>n (l, d). (l @ [Delayed n], delay H n d)),
     sc_error = (\<lambda>s (l, d). (l @ [Error s], sc_error H s d)),
     idprom = tap (\<lambda>_. Other) (idprom H),
     devalloc = (\<lambda>sp a. tap (\<lambda>_. Other) (devalloc H sp a)),
     resalloc = tap (\<lambda>_. Other) (resalloc H),
     peek = (\<lambda>a. tap (\<lambda>_. Other) (peek H a)),
     IDFORM_1 = IDFORM_1 H, IDM_SUN3_M25 = IDM_SUN3_M25 H, IDM_SUN3_F = IDM_SUN3_F H\<rparr>"

lemma logged_sel [simp]:
  "sbc_read (logged H) r = tap (Rd8 r) (sbc_read H r)"
  "sbc_write (logged H) w v (l, d) = (l @ [Wr8 w v], sbc_write H w v d)"
  "rd16 (logged H) q = tap (Rd16 q) (rd16 H q)"
  "wr16 (logged H) q x (l, d) = (l @ [Wr16 q x], wr16 H q x d)"
  "rd32 (logged H) t = tap (Rd32 t) (rd32 H t)"
  "wr32 (logged H) t y (l, d) = (l @ [Wr32 t y], wr32 H t y d)"
  "poke8 (logged H) a v (l, d) = (l @ [Poke8 a v], poke8 H a v d)"
  "poke16 (logged H) a x (l, d) = (l @ [Poke16 a x], poke16 H a x d)"
  "delay (logged H) n (l, d) = (l @ [Delayed n], delay H n d)"
  "sc_error (logged H) s (l, d) = (l @ [Error s], sc_error H s d)"
  by (simp_all add: logged_def)

subsection \<open>What a run appends\<close>

text \<open>
  \<open>emits m m' P\<close>: over the log, \<open>m\<close> behaves as \<open>m'\<close> does without it, and what it appends
  together with its result satisfies \<open>P\<close>.
\<close>

definition emits :: "(si_ev list \<times> 'd, 'a) state \<Rightarrow> ('d, 'a) state \<Rightarrow> ('a \<Rightarrow> si_ev list \<Rightarrow> bool) \<Rightarrow> bool" where
  "emits m m' P \<longleftrightarrow> (\<forall>l d. \<exists>t. fst (run_state m (l, d)) = fst (run_state m' d)
     \<and> snd (run_state m (l, d)) = (l @ t, snd (run_state m' d)) \<and> P (fst (run_state m' d)) t)"

lemma emitsD:
  assumes "emits m m' P" "run_state m (l, d) = (r, l', d')"
  shows "\<exists>t. l' = l @ t \<and> run_state m' d = (r, d') \<and> P r t"
  using assms unfolding emits_def by (metis fst_conv snd_conv prod.collapse prod.inject)

lemma emits_return: "P x [] \<Longrightarrow> emits (State_Monad.return x) (State_Monad.return x) P"
  by (simp add: emits_def)

lemma emits_bind:
  assumes "emits m m' P"
    and "\<And>x t. P x t \<Longrightarrow> emits (f x) (f' x) (\<lambda>y t'. Q y (t @ t'))"
  shows "emits (State_Monad.bind m f) (State_Monad.bind m' f') Q"
  unfolding emits_def
proof (intro allI)
  fix l d
  obtain x d1 where m': "run_state m' d = (x, d1)" by (metis surj_pair)
  from assms(1) [unfolded emits_def, rule_format, of l d] m' obtain t
    where m: "run_state m (l, d) = (x, l @ t, d1)" and P: "P x t" by (auto simp: prod_eq_iff)
  from assms(2) [OF P, unfolded emits_def, rule_format, of "l @ t" d1] m m'
  show "\<exists>t. fst (run_state (State_Monad.bind m f) (l, d)) = fst (run_state (State_Monad.bind m' f') d) \<and>
     snd (run_state (State_Monad.bind m f) (l, d)) = (l @ t, snd (run_state (State_Monad.bind m' f') d)) \<and>
     Q (fst (run_state (State_Monad.bind m' f') d)) t"
    by (metis append.assoc case_prod_conv run_state_bind)
qed

lemma emits_mono: "emits m m' P \<Longrightarrow> (\<And>x t. P x t \<Longrightarrow> Q x t) \<Longrightarrow> emits m m' Q"
  unfolding emits_def by meson

lemma emits_tap: "(\<And>v. P v [ev v]) \<Longrightarrow> emits (State (tap ev f)) (State f) P"
  by (simp add: emits_def tap_def split: prod.splits)

lemma emits_rd8: "(\<And>v. P v [Rd8 r v]) \<Longrightarrow> emits (rd8 (logged H) r) (rd8 H r) P"
  unfolding rd8_def logged_sel by (rule emits_tap)

lemma emits_get16: "(\<And>v. P v [Rd16 r v]) \<Longrightarrow> emits (get16 (logged H) r) (get16 H r) P"
  unfolding get16_def logged_sel by (rule emits_tap)

lemma emits_get32: "(\<And>v. P v [Rd32 r v]) \<Longrightarrow> emits (get32 (logged H) r) (get32 H r) P"
  unfolding get32_def logged_sel by (rule emits_tap)

lemma emits_writes:
  "P () [Wr8 r v] \<Longrightarrow> emits (wr8 (logged H) r v) (wr8 H r v) P"
  "P () [Wr16 q x] \<Longrightarrow> emits (put16 (logged H) q x) (put16 H q x) P"
  "P () [Wr32 s y] \<Longrightarrow> emits (put32 (logged H) s y) (put32 H s y) P"
  "P () [Poke8 a v] \<Longrightarrow> emits (store8 (logged H) a v) (store8 H a v) P"
  "P () [Poke16 a x] \<Longrightarrow> emits (store16 (logged H) a x) (store16 H a x) P"
  "P () [Delayed n] \<Longrightarrow> emits (DELAY (logged H) n) (DELAY H n) P"
  "P () [Error e] \<Longrightarrow> emits (err (logged H) e) (err H e) P"
  by (simp_all add: emits_def access_defs)

lemmas emits_prims = emits_rd8 emits_get16 emits_get32 emits_writes

text \<open>One primitive access in front of a program: the access leads what the program appends.\<close>

lemma emits_rd8_bind:
  "(\<And>v. emits (f v) (f' v) (\<lambda>y t. Q y (Rd8 r v # t))) \<Longrightarrow>
     emits (State_Monad.bind (rd8 (logged H) r) f) (State_Monad.bind (rd8 H r) f') Q"
  by (rule emits_bind [OF emits_rd8 [where P = "\<lambda>v t. t = [Rd8 r v]"]]) auto

lemma emits_get16_bind:
  "(\<And>v. emits (f v) (f' v) (\<lambda>y t. Q y (Rd16 q v # t))) \<Longrightarrow>
     emits (State_Monad.bind (get16 (logged H) q) f) (State_Monad.bind (get16 H q) f') Q"
  by (rule emits_bind [OF emits_get16 [where P = "\<lambda>v t. t = [Rd16 q v]"]]) auto

lemma emits_get32_bind:
  "(\<And>v. emits (f v) (f' v) (\<lambda>y t. Q y (Rd32 q v # t))) \<Longrightarrow>
     emits (State_Monad.bind (get32 (logged H) q) f) (State_Monad.bind (get32 H q) f') Q"
  by (rule emits_bind [OF emits_get32 [where P = "\<lambda>v t. t = [Rd32 q v]"]]) auto

lemma emits_wr8_bind:
  "emits (f ()) (f' ()) (\<lambda>y t. Q y (Wr8 r v # t)) \<Longrightarrow>
     emits (State_Monad.bind (wr8 (logged H) r v) f) (State_Monad.bind (wr8 H r v) f') Q"
  by (rule emits_bind [OF emits_writes(1) [where P = "\<lambda>_ t. t = [Wr8 r v]"]]) auto

lemma emits_put16_bind:
  "emits (f ()) (f' ()) (\<lambda>y t. Q y (Wr16 r v # t)) \<Longrightarrow>
     emits (State_Monad.bind (put16 (logged H) r v) f) (State_Monad.bind (put16 H r v) f') Q"
  by (rule emits_bind [OF emits_writes(2) [where P = "\<lambda>_ t. t = [Wr16 r v]"]]) auto

lemma emits_put32_bind:
  "emits (f ()) (f' ()) (\<lambda>y t. Q y (Wr32 r v # t)) \<Longrightarrow>
     emits (State_Monad.bind (put32 (logged H) r v) f) (State_Monad.bind (put32 H r v) f') Q"
  by (rule emits_bind [OF emits_writes(3) [where P = "\<lambda>_ t. t = [Wr32 r v]"]]) auto

lemma emits_store8_bind:
  "emits (f ()) (f' ()) (\<lambda>y t. Q y (Poke8 a v # t)) \<Longrightarrow>
     emits (State_Monad.bind (store8 (logged H) a v) f) (State_Monad.bind (store8 H a v) f') Q"
  by (rule emits_bind [OF emits_writes(4) [where P = "\<lambda>_ t. t = [Poke8 a v]"]]) auto

lemma emits_delay_bind:
  "emits (f ()) (f' ()) (\<lambda>y t. Q y (Delayed n # t)) \<Longrightarrow>
     emits (State_Monad.bind (DELAY (logged H) n) f) (State_Monad.bind (DELAY H n) f') Q"
  by (rule emits_bind [OF emits_writes(6) [where P = "\<lambda>_ t. t = [Delayed n]"]]) auto

lemma emits_err_bind:
  "emits (f ()) (f' ()) (\<lambda>y t. Q y (Error e # t)) \<Longrightarrow>
     emits (State_Monad.bind (err (logged H) e) f) (State_Monad.bind (err H e) f') Q"
  by (rule emits_bind [OF emits_writes(7) [where P = "\<lambda>_ t. t = [Error e]"]]) auto

lemma emits_icr_or_bind:
  "(\<And>x. emits (f ()) (f' ()) (\<lambda>y t. Q y (Rd8 R_icr x # Wr8 W_icr (x OR v) # t))) \<Longrightarrow>
     emits (State_Monad.bind (icr_or (logged H) v) f) (State_Monad.bind (icr_or H v) f') Q"
  unfolding icr_or_def bind_assoc by (intro emits_rd8_bind emits_wr8_bind) simp

lemma emits_if:
  "(b \<Longrightarrow> emits m m' P) \<Longrightarrow> (\<not> b \<Longrightarrow> emits n n' P) \<Longrightarrow>
     emits (if b then m else n) (if b then m' else n') P"
  by simp

lemmas emits_steps = emits_rd8_bind emits_get16_bind emits_get32_bind emits_wr8_bind
  emits_put16_bind emits_put32_bind emits_store8_bind emits_delay_bind emits_err_bind emits_icr_or_bind emits_if

end
