(* ===== verification/Sun_Props.thy ===== *)
theory Sun_Props
  imports Sun_Trace
begin

text \<open>
  The properties of Sun's driver: the handshake it performs is the four-phase REQ/ACK protocol
  on any board, the status loop keeps at most three bytes and ends when the target does,
  the DMA word count, the leftover bytes, and the clean-up that does not clean up.
\<close>

subsection \<open>The protocol, as a grammar of accesses\<close>

text \<open>A wait that succeeded: some reads that do not satisfy the condition, then one that does.\<close>

inductive polled :: "nat \<Rightarrow> sbc_read_reg \<Rightarrow> byte \<Rightarrow> bool \<Rightarrow> si_ev list \<Rightarrow> bool" for us reg cond want where
  seen: "cond_met want cond v \<Longrightarrow> polled us reg cond want [Rd8 reg v]"
| again: "\<not> cond_met want cond v \<Longrightarrow> polled us reg cond want t \<Longrightarrow>
     polled us reg cond want (Rd8 reg v # Delayed us # t)"

text \<open>
  One byte out: REQ seen true, the byte put on the bus, the phase seen to match, ACK asserted
  on top of what the register held, REQ seen false, everything released.
\<close>

inductive byte_out :: "nat \<Rightarrow> byte \<Rightarrow> si_ev list \<Rightarrow> bool" for us x where
  "polled us R_cbsr SBC_CBSR_REQ True t1 \<Longrightarrow> bsr AND SBC_BSR_PMTCH \<noteq> 0 \<Longrightarrow>
   polled us R_cbsr SBC_CBSR_REQ False t2 \<Longrightarrow>
   byte_out us x (t1 @ [Wr8 W_odr x, Wr8 W_icr SBC_ICR_DATA, Rd8 R_bsr bsr,
     Rd8 R_icr icr, Wr8 W_icr (icr OR SBC_ICR_ACK)] @ t2 @ [Wr8 W_icr 0])"

inductive bytes_out :: "nat \<Rightarrow> byte list \<Rightarrow> si_ev list \<Rightarrow> bool" for us where
  none: "bytes_out us [] [Wr8 W_tcr 0]"
| more: "byte_out us x t \<Longrightarrow> bytes_out us xs t' \<Longrightarrow> bytes_out us (x # xs) (t @ t')"

text \<open>The bytes a log puts in the Output Data Register.\<close>

fun odr_bytes :: "si_ev list \<Rightarrow> byte list" where
  "odr_bytes [] = []"
| "odr_bytes (Wr8 W_odr x # t) = x # odr_bytes t"
| "odr_bytes (_ # t) = odr_bytes t"

lemma odr_bytes_append [simp]: "odr_bytes (s @ t) = odr_bytes s @ odr_bytes t"
  by (induction s rule: odr_bytes.induct) simp_all

lemma polled_odr: "polled us reg cond want t \<Longrightarrow> odr_bytes t = []"
  by (induction rule: polled.induct) simp_all

lemma emits_poll8:
  "emits (poll8 (logged H) us n reg cond want) (poll8 H us n reg cond want)
     (\<lambda>r t. (r \<longrightarrow> polled us reg cond want t) \<and> odr_bytes t = [])"
proof (induction n)
  case 0
  show ?case by (simp add: emits_return)
next
  case (Suc n)
  have tail: "emits (do { DELAY (logged H) us; poll8 (logged H) us n reg cond want })
      (do { DELAY H us; poll8 H us n reg cond want })
      (\<lambda>r t. (r \<longrightarrow> polled us reg cond want (Rd8 reg v # t)) \<and> odr_bytes (Rd8 reg v # t) = [])"
    if "\<not> cond_met want cond v" for v
  proof (rule emits_bind [where P = "\<lambda>_ t. t = [Delayed us]"])
    show "emits (DELAY (logged H) us) (DELAY H us) (\<lambda>_ t. t = [Delayed us])"
      by (rule emits_prims) simp
    show "emits (poll8 (logged H) us n reg cond want) (poll8 H us n reg cond want)
       (\<lambda>y t'. (y \<longrightarrow> polled us reg cond want (Rd8 reg v # t @ t')) \<and> odr_bytes (Rd8 reg v # t @ t') = [])"
      if "t = [Delayed us]" for t
      using that by (intro emits_mono [OF Suc.IH]) (simp add: polled.again [OF \<open>\<not> cond_met want cond v\<close>])
  qed
  show ?case
    unfolding poll8.simps
  proof (rule emits_bind [where P = "\<lambda>v t. t = [Rd8 reg v]"])
    show "emits (rd8 (logged H) reg) (rd8 H reg) (\<lambda>v t. t = [Rd8 reg v])" by (rule emits_prims) simp
    fix v t assume t: "t = [Rd8 reg v]"
    show "emits (if cond_met want cond v then State_Monad.return True
          else do { DELAY (logged H) us; poll8 (logged H) us n reg cond want })
        (if cond_met want cond v then State_Monad.return True
          else do { DELAY H us; poll8 H us n reg cond want })
        (\<lambda>y t'. (y \<longrightarrow> polled us reg cond want (t @ t')) \<and> odr_bytes (t @ t') = [])"
      using t tail [of v] by (auto intro!: emits_return intro: polled.seen)
  qed
qed

lemma emits_sbc_wait:
  "emits (si_sbc_wait F (logged H) reg cond want) (si_sbc_wait F H reg cond want)
     (\<lambda>r t. (r \<longrightarrow> polled (sbc_wait_us F) reg cond want t) \<and> odr_bytes t = [])"
  unfolding si_sbc_wait_def by (rule emits_poll8)

lemma prefix_Nil: "\<exists>k. [] = take k xs"
  by (rule exI [of _ 0]) simp

lemma prefix_Cons: "\<exists>k. ys = take k xs \<Longrightarrow> \<exists>k. x # ys = take k (x # xs)"
  by (metis take_Suc_Cons)

lemma emits_putbytes:
  "emits (putbytes F (logged H) xs) (putbytes F H xs)
     (\<lambda>r t. (r \<longrightarrow> bytes_out (sbc_wait_us F) xs t) \<and> (\<exists>k. odr_bytes t = take k xs))"
proof (induction xs)
  case Nil
  show ?case by (auto intro!: emits_steps emits_return bytes_out.none)
next
  case (Cons x xs)
  have one: "\<exists>k. [x] = take k (x # xs)" by (rule exI [of _ 1]) simp
  show ?case
    unfolding putbytes.simps
    apply (rule emits_bind [OF emits_sbc_wait], elim conjE)
    apply (rule emits_if)
     apply (intro emits_steps emits_return)
     apply (simp add: prefix_Nil)
    apply (intro emits_steps)
     apply (rule emits_return)
     apply (simp add: one)
    apply (rule emits_bind [OF emits_sbc_wait], elim conjE)
    apply (rule emits_if)
     apply (intro emits_steps emits_return)
     apply (simp add: one)
    apply (intro emits_steps)
    apply (rule emits_mono [OF Cons.IH])
    subgoal for rq t1 bsr icr rel t2 r t
      using bytes_out.more [OF byte_out.intros, of "sbc_wait_us F" t1 bsr t2 xs t x icr]
      by (auto intro: prefix_Cons)
    done
qed

lemma emits_si_putbyte:
  "emits (si_putbyte F (logged H) phase xs) (si_putbyte F H phase xs)
     (\<lambda>r t. (\<exists>k. odr_bytes t = take k xs) \<and>
        (r \<longrightarrow> (\<exists>t'. bytes_out (sbc_wait_us F) xs t' \<and>
           (phase = PHASE_COMMAND \<and> t = Wr8 W_tcr TCR_COMMAND # t' \<or>
            phase = PHASE_MSG_OUT \<and> t = Wr8 W_tcr TCR_MSG_OUT # t'))))"
  unfolding si_putbyte_def
  by (intro emits_if emits_wr8_bind emits_err_bind emits_return; (rule emits_mono [OF emits_putbytes])?)
    (auto simp: prefix_Nil)

subsection \<open>A target that answers\<close>

text \<open>
  A board with a target that follows the handshake: REQ is the absence of ACK, the phase
  always matches, the phase lines show STATUS for a number of bytes and MESSAGE IN after.
\<close>

record answering =
  a_icr :: byte
  a_left :: nat

definition answering_board :: "answering si_hw" where
  "answering_board = \<lparr>
     sbc_read = (\<lambda>r d. (case r of R_icr \<Rightarrow> a_icr d
        | R_cbsr \<Rightarrow> (if a_icr d AND SBC_ICR_ACK = 0 then SBC_CBSR_BSY OR SBC_CBSR_REQ else SBC_CBSR_BSY)
            OR (if a_left d = 0 then 0x1c else 0x0c)
        | R_bsr \<Rightarrow> SBC_BSR_PMTCH | R_cdr \<Rightarrow> 2 | _ \<Rightarrow> 0, d)),
     sbc_write = (\<lambda>r v d. if r = W_icr
        then d\<lparr>a_icr := v, a_left := (if v = SBC_ICR_ACK then a_left d - 1 else a_left d)\<rparr> else d),
     rd16 = (\<lambda>_ d. (0, d)), wr16 = (\<lambda>_ _ d. d), rd32 = (\<lambda>_ d. (0, d)), wr32 = (\<lambda>_ _ d. d),
     poke8 = (\<lambda>_ _ d. d), poke16 = (\<lambda>_ _ d. d), delay = (\<lambda>_ d. d), sc_error = (\<lambda>_ d. d),
     idprom = (\<lambda>d. ((1, 1), d)), devalloc = (\<lambda>_ _ d. (1, d)), resalloc = (\<lambda>d. (1, d)),
     peek = (\<lambda>_ d. (0, d)), IDFORM_1 = 1, IDM_SUN3_M25 = 1, IDM_SUN3_F = 2\<rparr>"

lemma run_primitives [run_simps]:
  "run_state (rd8 H r) d = sbc_read H r d"
  "run_state (wr8 H w v) d = ((), sbc_write H w v d)"
  "run_state (get16 H q) d = rd16 H q d"
  "run_state (put16 H q x) d = ((), wr16 H q x d)"
  "run_state (get32 H y) d = rd32 H y d"
  "run_state (put32 H y z) d = ((), wr32 H y z d)"
  "run_state (store8 H a v) d = ((), poke8 H a v d)"
  "run_state (store16 H a x) d = ((), poke16 H a x d)"
  "run_state (DELAY H n) d = ((), delay H n d)"
  "run_state (err H e) d = ((), sc_error H e d)"
  "run_state (icr_or H v) d = (case sbc_read H R_icr d of (x, d') \<Rightarrow> ((), sbc_write H W_icr (x OR v) d'))"
  by (simp_all add: access_defs split: prod.splits)

text \<open>A wait whose condition is already met reads the register once.\<close>

lemma si_sbc_wait_met [run_simps]:
  "0 < sbc_wait_n F \<Longrightarrow> sbc_read H reg d = (v, d') \<Longrightarrow> cond_met want cond v \<Longrightarrow>
     run_state (si_sbc_wait F H reg cond want) d = (True, d')"
  by (cases "sbc_wait_n F") (simp_all add: si_sbc_wait_def run_primitives)

lemma flavour_sel [simp]:
  "sbc_wait_n mon3 = 1000" "sbc_wait_us mon3 = 5000" "getbyte_waits mon3 = 20"
  "sbc_wait_n sunstand = 1000000" "sbc_wait_us sunstand = 600" "getbyte_waits sunstand = 0"
  by (simp_all add: mon3_def sunstand_def)

text \<open>C15: On every board, \<open>si_putbyte\<close> puts only a prefix of its bytes on the bus; when it returns
  OK it has driven the requested phase and carried every byte, in order, through the four-phase
  handshake: REQ seen true, data, phase match seen, ACK, REQ seen false, release.\<close>

theorem si_putbyte_handshake:
  assumes "run_state (si_putbyte F (logged H) phase xs) ([], d) = (r, t, d')"
  shows "run_state (si_putbyte F H phase xs) d = (r, d') \<and> (\<exists>k. odr_bytes t = take k xs) \<and>
    (r \<longrightarrow> (\<exists>t'. bytes_out (sbc_wait_us F) xs t' \<and>
       (phase = PHASE_COMMAND \<and> t = Wr8 W_tcr TCR_COMMAND # t' \<or>
        phase = PHASE_MSG_OUT \<and> t = Wr8 W_tcr TCR_MSG_OUT # t')))"
  using emitsD [OF emits_si_putbyte assms] by auto

theorem si_putbyte_handshake_witness:
  "\<exists>t t'. t = Wr8 W_tcr TCR_MSG_OUT # t' \<and> bytes_out 5000 [0x80] t'"
proof -
  let ?H = "logged answering_board"
  have "\<exists>t d'. run_state (si_putbyte mon3 ?H PHASE_MSG_OUT [0x80]) ([], \<lparr>a_icr = 0, a_left = 0\<rparr>) = (True, t, d')"
    by (simp add: si_putbyte_def run_simps cond_met_def logged_def tap_def answering_board_def)
  then obtain t d' where "run_state (si_putbyte mon3 ?H PHASE_MSG_OUT [0x80]) ([], \<lparr>a_icr = 0, a_left = 0\<rparr>) = (True, t, d')"
    by blast
  from si_putbyte_handshake [OF this] show ?thesis by auto
qed

subsection \<open>The clean-up\<close>

text \<open>On the VME board \<open>si_dma_cleanup\<close> reads the control register where the source means to
  clear its DMA enable bit, and never writes it: the exact accesses it makes, on every board.\<close>

theorem si_dma_cleanup_vme_leaves_csr:
  "\<exists>csr mr. fst (snd (run_state (si_dma_cleanup (logged H) False) ([], d))) =
     [Rd16 Csr csr, Wr32 Dma_addr 0, Rd8 R_mr mr, Wr8 W_mr (mr AND NOT SBC_MR_DMA), Wr8 W_icr 0, Wr8 W_tcr 0]"
  by (simp add: si_dma_cleanup_def run_simps tap_def split: prod.splits)

subsection \<open>The status loop\<close>

text \<open>The board after \<open>n\<close> status bytes have been taken, and what the next attempt returns.\<close>

definition status_state :: "flavour \<Rightarrow> 'd si_hw \<Rightarrow> nat \<Rightarrow> 'd \<Rightarrow> 'd" where
  "status_state F H n = (\<lambda>d. snd (run_state (si_getbyte F H PHASE_STATUS) d)) ^^ n"

definition status_byte :: "flavour \<Rightarrow> 'd si_hw \<Rightarrow> 'd \<Rightarrow> nat \<Rightarrow> int" where
  "status_byte F H d n = fst (run_state (si_getbyte F H PHASE_STATUS) (status_state F H n d))"

lemma status_state_0 [simp]: "status_state F H 0 d = d"
  by (simp add: status_state_def)

lemma status_shift:
  assumes "run_state (si_getbyte F H PHASE_STATUS) d = (b, d')"
  shows "status_byte F H d 0 = b" "status_byte F H d (Suc n) = status_byte F H d' n"
    "status_state F H (Suc n) d = status_state F H n d'"
  using assms by (simp_all add: status_byte_def status_state_def funpow_Suc_right del: funpow.simps)

lemma status_loop_returns:
  "\<forall>i<n. status_byte F H d i \<noteq> -1 \<Longrightarrow> status_byte F H d n = -1 \<Longrightarrow>
     c_loop (status_round F H) (scb, d) =
       Some (scb @ take (STATUS_LEN - length scb) (map (status_byte F H d) [0..<n]), status_state F H (Suc n) d)"
proof (induction n arbitrary: scb d)
  case 0
  obtain b d' where r: "run_state (si_getbyte F H PHASE_STATUS) d = (b, d')" by (metis surj_pair)
  with 0 show ?case by (subst c_loop.simps) (simp add: status_round_def status_shift [OF r])
next
  case (Suc n)
  obtain b d' where r: "run_state (si_getbyte F H PHASE_STATUS) d = (b, d')" by (metis surj_pair)
  note sh = status_shift [OF r]
  have b: "b \<noteq> -1" using Suc.prems(1) sh(1) by force
  have bytes: "map (status_byte F H d) [0..<Suc n] = b # map (status_byte F H d') [0..<n]"
    by (simp add: upt_conv_Cons map_Suc_upt [symmetric] sh o_def del: upt_Suc map_Suc_upt)
  have IH: "c_loop (status_round F H) (scb', d') =
     Some (scb' @ take (STATUS_LEN - length scb') (map (status_byte F H d') [0..<n]), status_state F H (Suc n) d')" for scb'
    using Suc.prems by (intro Suc.IH) (force simp: sh(2))+
  have "c_loop (status_round F H) (scb, d) =
      c_loop (status_round F H) (if length scb < STATUS_LEN then scb @ [b] else scb, d')"
    by (subst c_loop.simps) (simp add: status_round_def r b)
  then show ?case
    unfolding bytes sh(3) IH
    by (cases "length scb < STATUS_LEN") (auto simp: take_Cons' numeral_eq_Suc)
qed

lemma status_loop_diverges:
  assumes "\<forall>i. status_byte F H d i \<noteq> -1"
  shows "c_loop (status_round F H) (scb, d) = None"
proof (rule c_loop_None [where I = "\<lambda>(_, d). \<forall>i. status_byte F H d i \<noteq> -1"])
  fix s :: "int list \<times> 'a" assume "case s of (_, d) \<Rightarrow> \<forall>i. status_byte F H d i \<noteq> -1"
  then obtain scb d where s: "s = (scb, d)" and all: "\<And>i. status_byte F H d i \<noteq> -1" by auto
  obtain b d' where r: "run_state (si_getbyte F H PHASE_STATUS) d = (b, d')" by (metis surj_pair)
  show "\<exists>s'. status_round F H s = Some (Inl s') \<and> (case s' of (_, d) \<Rightarrow> \<forall>i. status_byte F H d i \<noteq> -1)"
    using all [of 0] all [of "Suc i" for i] unfolding s
    by (simp add: status_round_def r status_shift [OF r])
qed (use assms in simp)

lemma status_least:
  assumes "\<exists>n. status_byte F H d n = -1"
  shows "(\<forall>i < (LEAST n. status_byte F H d n = -1). status_byte F H d i \<noteq> -1) \<and>
     status_byte F H d (LEAST n. status_byte F H d n = -1) = -1"
  using LeastI_ex [OF assms] not_less_Least by blast

text \<open>The status loop of \<open>sidoit\<close>, on every board: it returns exactly when some attempt to take
  a status byte fails, then with the first three of the bytes taken before; it runs forever
  exactly when every attempt succeeds.\<close>

theorem get_status_spec:
  "get_status F H d =
     (if \<exists>n. status_byte F H d n = -1
      then (let n = (LEAST n. status_byte F H d n = -1)
        in Some (take STATUS_LEN (map (status_byte F H d) [0..<n]), status_state F H (Suc n) d))
      else None)"
proof (cases "\<exists>n. status_byte F H d n = -1")
  case True
  define n where "n = (LEAST n. status_byte F H d n = -1)"
  have "get_status F H d = Some (take STATUS_LEN (map (status_byte F H d) [0..<n]), status_state F H (Suc n) d)"
    using status_loop_returns [of n F H d "[]", OF conjunct1 [OF status_least [OF True, folded n_def]] conjunct2 [OF status_least [OF True, folded n_def]]]
    by (simp only: get_status_def append_Nil list.size diff_zero)
  then show ?thesis unfolding if_P [OF True] n_def [symmetric] Let_def .
next
  case False
  then show ?thesis by (simp add: get_status_def status_loop_diverges)
qed

lemma get_status_length:
  assumes "get_status F H d = Some (scb, d')"
  shows "length scb \<le> STATUS_LEN"
proof -
  have "length (fst (scb, d')) \<le> STATUS_LEN"
    by (rule c_loop_partial [OF assms [unfolded get_status_def], where I = "\<lambda>s. length (fst s) \<le> STATUS_LEN"])
      (auto simp: status_round_def split: prod.splits if_splits)
  then show ?thesis by simp
qed

lemma get_status_returns:
  assumes "status_byte F H d n = -1"
  shows "\<exists>scb d'. get_status F H d = Some (scb, d')"
proof -
  from status_least [OF exI, of F H d n] assms obtain m
    where "\<forall>i<m. status_byte F H d i \<noteq> -1" "status_byte F H d m = -1" by blast
  then show ?thesis
    unfolding get_status_def using status_loop_returns [of m F H d "[]"] by simp
qed

subsection \<open>One command\<close>

text \<open>
  The two ways a command ends: a reset and -1, or a final COMMAND COMPLETE message, with the status bytes
  that came before it and, as the result, the bytes that were moved: the byte count of the
  request less what is left in the byte counter.
\<close>

definition ends_in_reset :: "'d si_hw \<Rightarrow> bool \<Rightarrow> int \<Rightarrow> 'd \<Rightarrow> bool" where
  "ends_in_reset H ob v d' \<longleftrightarrow> v = -1 \<and> (\<exists>d0. run_state (si_reset H ob) d0 = ((), d'))"

definition ends_complete :: "flavour \<Rightarrow> 'd si_hw \<Rightarrow> saioreq \<Rightarrow> int \<Rightarrow> int list \<Rightarrow> 'd \<Rightarrow> bool" where
  "ends_complete F H sip v scb d' \<longleftrightarrow> (\<exists>d0 d1 d2 bcr. get_status F H d0 = Some (scb, d1) \<and>
     run_state (si_getbyte F H PHASE_MSG_IN) d1 = (SC_COMMAND_COMPLETE, d2) \<and>
     run_state (get16 H Bcr) d2 = (bcr, d') \<and> v = si_cc sip - uint bcr)"

lemma failed_outcome:
  "failed H ob scb d = Some ((v, scb'), d') \<Longrightarrow> ends_in_reset H ob v d' \<and> scb' = scb"
  unfolding failed_def ends_in_reset_def by (cases "run_state (si_reset H ob) d") auto

lemma finish_outcome:
  assumes "finish F H ob sip d = Some ((v, scb), d')"
  shows "length scb \<le> STATUS_LEN \<and> (ends_in_reset H ob v d' \<or> ends_complete F H sip v scb d')"
proof -
  from assms obtain scb1 d1 where st: "get_status F H d = Some (scb1, d1)"
    by (auto simp: finish_def bind_eq_Some_conv)
  obtain b d2 where msg: "run_state (si_getbyte F H PHASE_MSG_IN) d1 = (b, d2)" by (metis surj_pair)
  show ?thesis
  proof (cases "b = SC_COMMAND_COMPLETE")
    case True
    with assms st msg get_status_length [OF st] show ?thesis
      by (auto simp: finish_def ends_complete_def split: prod.splits)
  next
    case False
    with assms st msg get_status_length [OF st] show ?thesis
      by (auto simp: finish_def dest!: failed_outcome split: if_splits)
  qed
qed

lemma failed_returns: "\<exists>v scb' d'. failed H ob scb d = Some ((v, scb'), d')"
  by (simp add: failed_def split: prod.splits)

lemma finish_returns:
  assumes "\<And>d. \<exists>n. status_byte F H d n = -1"
  shows "\<exists>v scb d'. finish F H ob sip d = Some ((v, scb), d')"
proof -
  from assms [of d] get_status_returns obtain scb d1 where "get_status F H d = Some (scb, d1)" by metis
  then show ?thesis by (auto simp: finish_def failed_def split: prod.splits)
qed

lemma status_bytes_run_out:
  assumes step: "\<And>d b d'. run_state (si_getbyte F H PHASE_STATUS) d = (b, d') \<Longrightarrow> b \<noteq> -1 \<Longrightarrow> m d' < (m d :: nat)"
  shows "\<exists>n. status_byte F H d n = -1"
proof (induction "m d" arbitrary: d rule: less_induct)
  case less
  obtain b d' where r: "run_state (si_getbyte F H PHASE_STATUS) d = (b, d')" by (metis surj_pair)
  show ?case
  proof (cases "b = -1")
    case True
    then show ?thesis using status_shift(1) [OF r] by blast
  next
    case False
    then show ?thesis using less [OF step [OF r]] status_shift(2) [OF r] by metis
  qed
qed

lemma sidoit_terminates:
  assumes "\<And>d. \<exists>n. status_byte sunstand H d n = -1"
  shows "\<exists>v scb d'. sidoit H cdb sip d = Some ((v, scb), d')"
  unfolding sidoit_def Let_def
  by (simp add: finish_returns [OF assms] failed_returns split: prod.splits)

lemma mon_sidoit_terminates:
  assumes "\<And>d. \<exists>n. status_byte mon3 H d n = -1"
  shows "\<exists>v scb d'. mon_sidoit m25 H cdb sip d = Some ((v, scb), d')"
  unfolding mon_sidoit_def Let_def
  by (simp add: finish_returns [OF assms] failed_returns split: prod.splits)

lemma answering_poll8 [simp]: "snd (run_state (poll8 answering_board us n reg c w) d) = d"
  by (induction n) (simp_all add: run_primitives answering_board_def split: prod.splits)

lemma answering_sbc_wait: "run_state (si_sbc_wait F answering_board reg c w) d = (b, d') \<Longrightarrow> d' = d"
  using answering_poll8 [of "sbc_wait_us F" "sbc_wait_n F" reg c w d] by (simp add: si_sbc_wait_def)

lemma answering_req_waits: "run_state (req_waits F answering_board n) d = (b, d') \<Longrightarrow> d' = d"
  by (induction n arbitrary: d) (auto dest!: answering_sbc_wait split: prod.splits if_splits)

lemma answering_sel [simp]:
  "sbc_read answering_board r d = (case r of R_icr \<Rightarrow> a_icr d
        | R_cbsr \<Rightarrow> (if a_icr d AND SBC_ICR_ACK = 0 then SBC_CBSR_BSY OR SBC_CBSR_REQ else SBC_CBSR_BSY)
            OR (if a_left d = 0 then 0x1c else 0x0c)
        | R_bsr \<Rightarrow> SBC_BSR_PMTCH | R_cdr \<Rightarrow> 2 | _ \<Rightarrow> 0, d)"
  "sbc_write answering_board w v d = (if w = W_icr
        then d\<lparr>a_icr := v, a_left := (if v = SBC_ICR_ACK then a_left d - 1 else a_left d)\<rparr> else d)"
  "sc_error answering_board e d = d"
  by (simp_all add: answering_board_def)

lemma answering_status:
  assumes "run_state (si_getbyte F answering_board PHASE_STATUS) d = (b, d')" "b \<noteq> -1"
  shows "a_left d' < a_left d"
  using assms
  by (auto simp: si_getbyte_def getbyte_in_phase_def run_primitives
      dest!: answering_sbc_wait answering_req_waits split: prod.splits if_splits)

lemmas answering_ends = status_bytes_run_out [OF answering_status]

abbreviation (input) "test_request \<equiv> \<lparr>si_ctlr = 0, si_unit = 0, si_devaddr = 1, si_dmaaddr = 1, si_cc = 0, si_ma = 0\<rparr>"

text \<open>
  A board with a target that carries a command through: it answers SEL with BSY, takes the command,
  gives the status bytes and then COMMAND COMPLETE.
\<close>

record obedient =
  o_icr :: byte
  o_sel :: bool
  o_left :: nat

definition obedient_board :: "obedient si_hw" where
  "obedient_board = \<lparr>
     sbc_read = (\<lambda>r d. (case r of R_icr \<Rightarrow> o_icr d
        | R_cbsr \<Rightarrow> (if \<not> o_sel d then 0
            else (if o_icr d AND SBC_ICR_ACK = 0 then SBC_CBSR_BSY OR SBC_CBSR_REQ else SBC_CBSR_BSY)
              OR (if o_left d = 0 then 0x1c else 0x0c))
        | R_bsr \<Rightarrow> SBC_BSR_PMTCH | R_cdr \<Rightarrow> (if o_left d = 0 then 0 else 2) | _ \<Rightarrow> 0, d)),
     sbc_write = (\<lambda>r v d. if r = W_icr
        then d\<lparr>o_icr := v, o_sel := o_sel d \<or> v AND SBC_ICR_SEL \<noteq> 0,
               o_left := (if v = SBC_ICR_ACK then o_left d - 1 else o_left d)\<rparr> else d),
     rd16 = (\<lambda>_ d. (0, d)), wr16 = (\<lambda>_ _ d. d), rd32 = (\<lambda>_ d. (0, d)), wr32 = (\<lambda>_ _ d. d),
     poke8 = (\<lambda>_ _ d. d), poke16 = (\<lambda>_ _ d. d), delay = (\<lambda>_ d. d), sc_error = (\<lambda>_ d. d),
     idprom = (\<lambda>d. ((1, 1), d)), devalloc = (\<lambda>_ _ d. (1, d)), resalloc = (\<lambda>d. (1, d)),
     peek = (\<lambda>_ d. (0, d)), IDFORM_1 = 1, IDM_SUN3_M25 = 1, IDM_SUN3_F = 2\<rparr>"

lemma obedient_sel [simp]:
  "sbc_read obedient_board r d = (case r of R_icr \<Rightarrow> o_icr d
        | R_cbsr \<Rightarrow> (if \<not> o_sel d then 0
            else (if o_icr d AND SBC_ICR_ACK = 0 then SBC_CBSR_BSY OR SBC_CBSR_REQ else SBC_CBSR_BSY)
              OR (if o_left d = 0 then 0x1c else 0x0c))
        | R_bsr \<Rightarrow> SBC_BSR_PMTCH | R_cdr \<Rightarrow> (if o_left d = 0 then 0 else 2) | _ \<Rightarrow> 0, d)"
  "sbc_write obedient_board w v d = (if w = W_icr
        then d\<lparr>o_icr := v, o_sel := o_sel d \<or> v AND SBC_ICR_SEL \<noteq> 0,
               o_left := (if v = SBC_ICR_ACK then o_left d - 1 else o_left d)\<rparr> else d)"
  "sc_error obedient_board e d = d" "rd16 obedient_board q d = (0, d)" "wr16 obedient_board q x d = d"
  by (simp_all add: obedient_board_def)

lemma obedient_byte:
  "run_state (si_getbyte sunstand obedient_board PHASE_STATUS) \<lparr>o_icr = 0, o_sel = True, o_left = n\<rparr> =
     (if n = 0 then -1 else 2, \<lparr>o_icr = 0, o_sel = True, o_left = n - 1\<rparr>)"
  "run_state (si_getbyte sunstand obedient_board PHASE_MSG_IN) \<lparr>o_icr = 0, o_sel = True, o_left = 0\<rparr> =
     (0, \<lparr>o_icr = 0, o_sel = True, o_left = 0\<rparr>)"
  by (simp_all add: si_getbyte_def getbyte_in_phase_def run_simps cond_met_def)

lemma obedient_command:
  "sidoit obedient_board [0, 0, 0, 0, 0, 0] test_request \<lparr>o_icr = 0, o_sel = False, o_left = Suc 0\<rparr> =
     Some ((0, [2]), \<lparr>o_icr = 0, o_sel = True, o_left = 0\<rparr>)"
proof -
  let ?H = obedient_board
  let ?d = "\<lambda>n. \<lparr>o_icr = 0, o_sel = True, o_left = n\<rparr>"
  have free: "run_state (bus_free_wait ?H 100000) \<lparr>o_icr = 0, o_sel = False, o_left = Suc 0\<rparr> =
      (True, \<lparr>o_icr = 0, o_sel = False, o_left = Suc 0\<rparr>)"
    by (subst bus_free_wait.simps) (simp add: run_simps)
  have sel: "run_state (select_target sunstand ?H 0) \<lparr>o_icr = 0, o_sel = False, o_left = Suc 0\<rparr> =
      (True, \<lparr>o_icr = 0x05, o_sel = True, o_left = Suc 0\<rparr>)"
    by (simp add: select_target_def run_simps cond_met_def)
  have cmd: "run_state (command_phase sunstand ?H True [0, 0, 0, 0, 0, 0] test_request)
      \<lparr>o_icr = 0x05, o_sel = True, o_left = Suc 0\<rparr> = (True, ?d (Suc 0))"
    by (simp add: command_phase_def dma_init_def si_putbyte_def run_simps cond_met_def)
  have st: "get_status sunstand ?H (?d (Suc 0)) = Some ([2], ?d 0)"
    unfolding get_status_def
    by (subst c_loop.simps, simp add: status_round_def obedient_byte, subst c_loop.simps, simp add: status_round_def obedient_byte)
  have fin: "finish sunstand ?H True test_request (?d (Suc 0)) = Some ((0, [2]), ?d 0)"
    by (simp add: finish_def st obedient_byte run_simps)
  show ?thesis by (simp add: sidoit_def free sel cmd fin)
qed

text \<open>C14: Whatever the board does, a standalone command that returns stores at most three status
  bytes and ends in one of two ways: -1 after a full \<open>si_reset\<close>; or, once a COMMAND COMPLETE message
  was taken, the number of bytes moved, that is the byte count of the request less what the byte
  counter of the board reads, with the status bytes taken before the message. (The comment of the
  routine promises the residual count instead, zero for success.)\<close>

theorem sidoit_outcome:
  assumes "sidoit H cdb sip d = Some ((v, scb), d')"
  shows "length scb \<le> STATUS_LEN \<and>
    (ends_in_reset H (si_dmaaddr sip \<noteq> 0) v d' \<or> ends_complete sunstand H sip v scb d')"
  using assms unfolding sidoit_def Let_def
  by (auto split: prod.splits if_splits dest: failed_outcome finish_outcome)

theorem sidoit_outcome_witness:
  "\<exists>d'. sidoit obedient_board [0, 0, 0, 0, 0, 0] test_request \<lparr>o_icr = 0, o_sel = False, o_left = Suc 0\<rparr> = Some ((0, [2]), d') \<and>
     ends_complete sunstand obedient_board test_request 0 [2] d'"
  using sidoit_outcome [OF obedient_command] obedient_command by (auto simp: ends_in_reset_def)

text \<open>The boot monitor's command has a third way out: a target that does not answer selection
  leaves the bus released by two register writes, with no reset.\<close>

theorem mon_sidoit_outcome:
  assumes "mon_sidoit m25 H cdb sip d = Some ((v, scb), d')"
  shows "length scb \<le> STATUS_LEN \<and>
    (ends_in_reset H m25 v d' \<or> ends_complete mon3 H sip v scb d' \<or>
     (v = -1 \<and> scb = [] \<and> (\<exists>d0. d' = sbc_write H W_odr 0 (sbc_write H W_icr 0 d0))))"
  using assms unfolding mon_sidoit_def Let_def
  by (auto split: prod.splits if_splits dest: failed_outcome finish_outcome simp: run_primitives)

theorem mon_sidoit_outcome_witness:
  "\<exists>v scb d'. mon_sidoit True answering_board [0, 0, 0, 0, 0, 0] test_request \<lparr>a_icr = 0, a_left = 2\<rparr> = Some ((v, scb), d') \<and>
     length scb \<le> STATUS_LEN"
  using mon_sidoit_terminates [of answering_board True "[0, 0, 0, 0, 0, 0]" test_request "\<lparr>a_icr = 0, a_left = 2\<rparr>", OF answering_ends]
    mon_sidoit_outcome [where H = answering_board and sip = test_request] by fastforce

text \<open>C34: A command returns on every board whose target has finitely many status bytes to give: if
  some measure falls with each STATUS byte taken, \<open>sidoit\<close> terminates from every state.\<close>

theorem sidoit_returns:
  assumes "\<And>d b d'. run_state (si_getbyte sunstand H PHASE_STATUS) d = (b, d') \<Longrightarrow> b \<noteq> -1 \<Longrightarrow> m d' < (m d :: nat)"
  shows "\<exists>v scb d'. sidoit H cdb sip d = Some ((v, scb), d')"
  by (rule sidoit_terminates [OF status_bytes_run_out [OF assms]])

theorem sidoit_returns_witness:
  "\<exists>v scb d'. sidoit answering_board [0, 0, 0, 0, 0, 0] test_request \<lparr>a_icr = 0, a_left = 2\<rparr> = Some ((v, scb), d')"
  by (rule sidoit_returns [where m = a_left, OF answering_status])

end
