(* ===== verification/Sun_Dma.thy ===== *)
theory Sun_Dma
  imports Sun_Props
begin

text \<open>
  The DMA arithmetic of Sun's driver: the word count it gives the on-board UDC, and the
  bytes a receive leaves in the byte pack register of the VME board, which the driver itself
  stores at the end of the data.
\<close>

subsection \<open>The word count\<close>

text \<open>The count the driver gives the UDC is the number of 16-bit words of the transfer, rounded
  down on a receive and up on a send, for every byte count below 128 KB.\<close>

theorem udc_count_words:
  assumes "0 \<le> cc" "cc < 2 ^ 17 - 1"
  shows "uint (udc_count cmd cc) = (if is_recv cmd then cc div 2 else (cc + 1) div 2)"
proof -
  have half: "sgn cc * (\<bar>cc\<bar> div 2) = cc div 2" using assms(1) by (cases "cc = 0") auto
  have small: "cc div 2 < 2 ^ 16" "odd cc \<Longrightarrow> cc div 2 + 1 < 2 ^ 16" using assms(2) by (simp_all, presburger+)
  have fit: "uint (word_of_int x :: u16) = x" if "0 \<le> x" "x < 2 ^ 16" for x
    using that by (simp add: uint_word_of_int take_bit_int_eq_self)
  have inc: "(word_of_int (cc div 2) :: u16) + 1 = word_of_int (cc div 2 + 1)" by simp
  show ?thesis
  proof (cases "\<not> is_recv cmd \<and> odd cc")
    case True
    then have "(cc + 1) div 2 = cc div 2 + 1" by presburger
    then show ?thesis using True assms small fit [of "cc div 2 + 1"] unfolding udc_count_def half inc by simp
  next
    case False
    then have "(if is_recv cmd then cc div 2 else (cc + 1) div 2) = cc div 2" by (cases "is_recv cmd") (simp, presburger)
    then show ?thesis using assms small(1) fit [of "cc div 2"] unfolding udc_count_def half if_not_P [OF False] by simp
  qed
qed

theorem udc_count_words_witness:
  "uint (udc_count SC_READ 513) = 256 \<and> uint (udc_count 0x0a 513) = 257"
  using udc_count_words [of 513 SC_READ] udc_count_words [of 513 "0x0a"] by (simp add: is_recv_def)

subsection \<open>Leftover bytes\<close>

text \<open>The stores of a log.\<close>

fun pokes :: "si_ev list \<Rightarrow> (u32 \<times> byte) list" where
  "pokes [] = []"
| "pokes (Poke8 a v # t) = (a, v) # pokes t"
| "pokes (_ # t) = pokes t"

lemma pokes_iff: "(a, v) \<in> set (pokes t) \<longleftrightarrow> Poke8 a v \<in> set t"
  by (induction t rule: pokes.induct) auto

text \<open>Where the data that was transferred ends, by the byte counter, and the stores of a list of bytes just before that end.\<close>

definition tail_end :: "saioreq \<Rightarrow> u16 \<Rightarrow> u32" where
  "tail_end sip bcr = si_ma sip + word_of_int (si_cc sip - uint bcr)"

definition tail_stores :: "saioreq \<Rightarrow> u16 \<Rightarrow> byte list \<Rightarrow> (u32 \<times> byte) list" where
  "tail_stores sip bcr vs = zip (map (\<lambda>i. tail_end sip bcr - word_of_nat (length vs - i)) [0..<length vs]) vs"

text \<open>
  The leftover bytes that the VME board reports in its control register, most significant first, as they
  stand in the byte pack register: with BPCON it is the one byte in bits 15 to 8.
\<close>

definition leftover :: "u16 \<Rightarrow> u32 \<Rightarrow> byte list" where
  "leftover csr bpr =
     (if csr AND SI_CSR_LOB = 0 then []
      else if csr AND SI_CSR_BPCON \<noteq> 0 then [byte_of 1 bpr]
      else if csr AND SI_CSR_LOB = SI_CSR_LOB_THREE then [byte_of 3 bpr, byte_of 2 bpr, byte_of 1 bpr]
      else if csr AND SI_CSR_LOB = SI_CSR_LOB_TWO then [byte_of 3 bpr, byte_of 2 bpr]
      else if csr AND SI_CSR_LOB = SI_CSR_LOB_ONE then [byte_of 3 bpr] else [])"

lemma tail_offset:
  assumes "1 \<le> j" "uint bcr + int j \<le> si_cc sip" "si_cc sip < 2 ^ 32"
  shows "uint (tail_end sip bcr - word_of_nat j - si_ma sip) = si_cc sip - uint bcr - int j"
proof -
  have "tail_end sip bcr - word_of_nat j - si_ma sip = word_of_int (si_cc sip - uint bcr - int j)"
    by (simp add: tail_end_def)
  moreover have "0 \<le> uint bcr" by simp
  then have "uint (word_of_int (si_cc sip - uint bcr - int j) :: u32) = si_cc sip - uint bcr - int j"
    using assms by (subst uint_word_of_int, subst mod_pos_pos_trivial; simp; linarith)
  ultimately show ?thesis by (simp only:)
qed

lemma tail_stores_in_buffer:
  assumes "(a, v) \<in> set (tail_stores sip bcr vs)" "uint bcr + int (length vs) \<le> si_cc sip" "si_cc sip < 2 ^ 32"
  shows "uint (a - si_ma sip) < si_cc sip"
proof -
  from assms(1) obtain i where i: "i < length vs" and a: "a = tail_end sip bcr - word_of_nat (length vs - i)"
    by (auto simp: tail_stores_def set_zip)
  have "uint (a - si_ma sip) = si_cc sip - uint bcr - int (length vs - i)"
    unfolding a by (rule tail_offset) (use assms(2,3) i in auto)
  moreover have "0 \<le> uint bcr" by simp
  ultimately show ?thesis using i by linarith
qed

text \<open>A log in which the control register, the byte counter and the byte pack register always read the same.\<close>

fun steady :: "u16 \<Rightarrow> u16 \<Rightarrow> u32 \<Rightarrow> si_ev list \<Rightarrow> bool" where
  "steady csr bcr bpr [] = True"
| "steady csr bcr bpr (Rd16 Csr x # t) = (x = csr \<and> steady csr bcr bpr t)"
| "steady csr bcr bpr (Rd16 Bcr x # t) = (x = bcr \<and> steady csr bcr bpr t)"
| "steady csr bcr bpr (Rd32 Bpr x # t) = (x = bpr \<and> steady csr bcr bpr t)"
| "steady csr bcr bpr (_ # t) = steady csr bcr bpr t"

lemma tail_stores_eq:
  "tail_stores sip bcr [] = []" "tail_stores sip bcr [x] = [(tail_end sip bcr - 1, x)]"
  "tail_stores sip bcr [x, y] = [(tail_end sip bcr - 2, x), (tail_end sip bcr - 1, y)]"
  "tail_stores sip bcr [x, y, z] = [(tail_end sip bcr - 3, x), (tail_end sip bcr - 2, y), (tail_end sip bcr - 1, z)]"
  by (simp_all add: tail_stores_def)

lemma emits_leftover_vme:
  "emits (dma_leftover_vme (logged H) sip) (dma_leftover_vme H sip)
     (\<lambda>_ t. steady csr bcr bpr t \<longrightarrow> pokes t = tail_stores sip bcr (leftover csr bpr))"
  unfolding dma_leftover_vme_def Let_def tail_end_def [symmetric]
  by (intro emits_steps emits_return emits_writes; rule impI; clarsimp simp: leftover_def tail_stores_eq)

text \<open>C35: The leftover bytes of a receive on the VME board, whose registers do not change once the DMA has stopped: the
  driver stores exactly the bytes the board reports, in order, at the addresses just before the end of
  the data transferred; and all of them lie inside the caller's buffer when the transfer was at least as long as
  the leftover it reports.\<close>

theorem leftover_stays_in_buffer:
  assumes "run_state (dma_leftover_vme (logged H) sip) ([], d) = (r, t, d')"
    and "steady csr bcr bpr t"
  shows "pokes t = tail_stores sip bcr (leftover csr bpr) \<and>
    (uint bcr + int (length (leftover csr bpr)) \<le> si_cc sip \<and> si_cc sip < 2 ^ 32 \<longrightarrow>
       (\<forall>(a, v)\<in>set (pokes t). uint (a - si_ma sip) < si_cc sip))"
proof -
  have p: "pokes t = tail_stores sip bcr (leftover csr bpr)"
    using emitsD [OF emits_leftover_vme assms(1)] assms(2) by simp
  then show ?thesis using tail_stores_in_buffer [of _ _ sip bcr "leftover csr bpr"] by auto
qed

text \<open>A VME board that reports three leftover bytes after a transfer of eight.\<close>

definition leftover_board :: "answering si_hw" where
  "leftover_board = answering_board\<lparr>rd16 := \<lambda>r d. (if r = Csr then SI_CSR_LOB_THREE else 0, d), rd32 := \<lambda>_ d. (0x11223344, d)\<rparr>"

abbreviation (input) "leftover_request \<equiv>
  \<lparr>si_ctlr = 0, si_unit = 0, si_devaddr = 1, si_dmaaddr = 0, si_cc = 8, si_ma = 0x1000\<rparr>"

theorem leftover_stays_in_buffer_witness:
  "\<exists>t. snd (run_state (dma_leftover_vme (logged leftover_board) leftover_request) ([], \<lparr>a_icr = 0, a_left = 0\<rparr>)) =
       (t, \<lparr>a_icr = 0, a_left = 0\<rparr>) \<and>
     pokes t = tail_stores leftover_request 0 (leftover 0xc0 0x11223344) \<and> length (pokes t) = 3 \<and>
     (\<forall>(a, v)\<in>set (pokes t). uint (a - 0x1000) < 8)"
proof -
  let ?t = "[Rd16 Csr 0xc0, Rd16 Bcr 0, Rd16 Csr 0xc0, Rd16 Csr 0xc0, Rd32 Bpr 0x11223344, Poke8 0x1005 0x11,
     Rd32 Bpr 0x11223344, Poke8 0x1006 0x22, Rd32 Bpr 0x11223344, Poke8 0x1007 0x33]"
  have "byte_of 3 0x11223344 = 0x11" "byte_of 2 0x11223344 = 0x22" "byte_of 1 0x11223344 = 0x33"
    unfolding byte_of_def by code_simp+
  then have r: "run_state (dma_leftover_vme (logged leftover_board) leftover_request) ([], \<lparr>a_icr = 0, a_left = 0\<rparr>) =
      ((), ?t, \<lparr>a_icr = 0, a_left = 0\<rparr>)"
    by (simp add: dma_leftover_vme_def run_simps tap_def leftover_board_def answering_board_def)
  have n: "length (leftover 0xc0 0x11223344) = 3" by (simp add: leftover_def)
  have "uint (0 :: u16) + int (length (leftover 0xc0 0x11223344)) \<le> si_cc leftover_request \<and> si_cc leftover_request < 2 ^ 32"
    by (simp add: n)
  moreover have "si_cc leftover_request = 8" "si_ma leftover_request = 0x1000" "steady 0xc0 0 0x11223344 ?t" by simp_all
  ultimately have "pokes ?t = tail_stores leftover_request 0 (leftover 0xc0 0x11223344) \<and> (\<forall>(a, v)\<in>set (pokes ?t). uint (a - 0x1000) < 8)"
    using leftover_stays_in_buffer [OF r, of "0xc0" 0 "0x11223344"] by metis
  moreover have "length (pokes ?t) = 3" by simp
  ultimately show ?thesis unfolding r snd_conv by blast
qed

end
