(* ===== verification/Emu_Hw.thy ===== *)
theory Emu_Hw
  imports Prelude
begin

text \<open>
  The low level of EmuTOS's SCSI driver for the Atari TT and Falcon,
  \<^verbatim>\<open>src/doc/drivers/EmuTOS/scsi.c\<close>: the machine as a parameter, the driver's variables, and the
  register accessors with their two ways to the 5380 (mapped on the TT, through the ACSI
  controller on the Falcon).

  What the driver takes from headers and from other files of EmuTOS is a field of \<open>emu_hw\<close>.
  Code without loops is in the state monad.
\<close>

subsection \<open>The machine\<close>

datatype scsi_reg = S_data | S_icr | S_mode | S_tcr | S_bus_status | S_dma_status | S_reset
datatype scsidma_reg = Ptr_upper | Ptr_uprmiddle | Ptr_lwrmiddle | Ptr_lower
  | Cnt_upper | Cnt_uprmiddle | Cnt_lwrmiddle | Cnt_lower | Dma_control

record 'd emu_hw =
  scsi_rd :: "scsi_reg \<Rightarrow> 'd \<Rightarrow> byte \<times> 'd"
  scsi_wr :: "scsi_reg \<Rightarrow> byte \<Rightarrow> 'd \<Rightarrow> 'd"
  scsidma_rd :: "scsidma_reg \<Rightarrow> 'd \<Rightarrow> byte \<times> 'd"
  scsidma_wr :: "scsidma_reg \<Rightarrow> byte \<Rightarrow> 'd \<Rightarrow> 'd"
  scsidma_residue :: "'d \<Rightarrow> u32 \<times> 'd"
  fdma_control :: "u16 \<Rightarrow> 'd \<Rightarrow> 'd"
  fdma_data_rd :: "'d \<Rightarrow> u16 \<times> 'd"
  fdma_data_wr :: "u16 \<Rightarrow> 'd \<Rightarrow> 'd"
  fdma_modectl :: "'d \<Rightarrow> u16 \<times> 'd"
  tt_gpip :: "'d \<Rightarrow> byte \<times> 'd"
  mfp_gpip :: "'d \<Rightarrow> byte \<times> 'd"
  hz_200 :: "'d \<Rightarrow> u32 \<times> 'd"
  delay_loop :: "u32 \<Rightarrow> 'd \<Rightarrow> 'd"
  mem_rd :: "u32 \<Rightarrow> 'd \<Rightarrow> byte \<times> 'd"
  mem_wr :: "u32 \<Rightarrow> byte \<Rightarrow> 'd \<Rightarrow> 'd"
  set_dma_addr :: "u32 \<Rightarrow> 'd \<Rightarrow> 'd"
  flush_data_cache :: "u32 \<Rightarrow> u32 \<Rightarrow> 'd \<Rightarrow> 'd"
  invalidate_data_cache :: "u32 \<Rightarrow> u32 \<Rightarrow> 'd \<Rightarrow> 'd"
  set_flock :: "int \<Rightarrow> 'd \<Rightarrow> 'd"
  check_read_byte :: "u32 \<Rightarrow> 'd \<Rightarrow> bool \<times> 'd"
  nvmaccess :: "'d \<Rightarrow> (int \<times> byte) \<times> 'd"
  get_frb_cookie :: "'d \<Rightarrow> u32 \<times> 'd"

text \<open>The constants and build options the driver takes from elsewhere.\<close>

record emu_conf =
  CONF_WITH_SCSI :: bool
  CONF_WITH_NVRAM :: bool
  CONF_WITH_FRB :: bool
  CONF_WITH_SCSI_DRIVER :: bool
  HAS_VIDEL :: bool
  CLOCKS_PER_SEC :: u32
  SECTOR_SIZE :: u32
  DMA_MCBIT3 :: u16
  WRITE_MODE :: byte
  DMA_MODE :: byte
  RW_RW :: u16
  RW_WRITE :: u16
  READ6 :: byte
  WRITE6 :: byte
  READ10 :: byte
  WRITE10 :: byte
  REQUEST_SENSE :: byte
  INQUIRY :: byte
  READ_CAPACITY :: byte
  REQSENSE_LENGTH :: u32
  INQUIRY_LENGTH :: u32
  READCAP_LENGTH :: u32
  E_OK :: int
  ERR :: int
  E_CHNG :: int
  EDRVNR :: int
  EBADRQ :: int
  EWRPRO :: int
  EGENRL :: int
  EUNDEV :: int
  MEDIANOCHANGE :: int
  GET_DISKINFO :: u16
  GET_DISKNAME :: u16
  GET_MEDIACHANGE :: u16
  CHECK_DEVICE :: u16
  FRB_SECS :: u16
  DSKBUF_SECS :: u16
  dskbufp :: u32
  IS_ODD_POINTER :: "u32 \<Rightarrow> bool"
  IS_STRAM_POINTER :: "u32 \<Rightarrow> bool"
  MAKE_UWORD :: "byte \<Rightarrow> byte \<Rightarrow> u16"
  loopcount_1_msec :: u32
  reqsense_buffer :: u32
  inquiry_buffer :: u32
  cdb_area :: u32

subsection \<open>The driver's variables\<close>

text \<open>\<open>dev\<close> is the machine outside the driver's variables.\<close>

record 'd emu =
  has_scsi :: byte
  hostid_bit :: byte
  device_exists :: u16
  arbitration_delay_count :: u32
  bus_clear_count :: u32
  bus_settle_count :: u32
  deskew2_count :: u32
  rst_hold_count :: u32
  toggle_delay_count :: u32
  dev :: 'd

abbreviation (input) "TT_SCSI \<equiv> (1::byte)"
abbreviation (input) "FALCON_SCSI \<equiv> (2::byte)"
abbreviation (input) "DEFAULT_HOSTID \<equiv> (7::nat)"
abbreviation (input) "MAXSECS_PER_FSCSI_IO \<equiv> (16383::u16)"
abbreviation (input) "MAXSECS_PER_TTSCSI_IO \<equiv> (65535::u16)"
abbreviation (input) "AIP_TIMEOUT \<equiv> (2::u32)"
abbreviation (input) "BYTES_PER_CLOCK \<equiv> (1024::u32)"
abbreviation (input) "PHASE_CHANGE \<equiv> (-100::int)"
abbreviation (input) "SELECT_ERROR \<equiv> (-1::int)"
abbreviation (input) "PHASE_ERROR \<equiv> (-3::int)"
abbreviation (input) "BUS_ERROR \<equiv> (-5::int)"
abbreviation (input) "BUSFREE_ERROR \<equiv> (-7::int)"
abbreviation (input) "TIMEOUT_ERROR \<equiv> (-8::int)"
abbreviation (input) "ARBITRATE_ERROR \<equiv> (-11::int)"
abbreviation (input) "COMMAND_COMPLETE_MSG \<equiv> (0x00::byte)"
abbreviation (input) "EXTENDED_MSG \<equiv> (0x01::byte)"
abbreviation (input) "MESSAGE_REJECT_MSG \<equiv> (0x07::byte)"
abbreviation (input) "IDENTIFY_MSG \<equiv> (0x80::byte)"
abbreviation (input) "DATA_OUT_PHASE \<equiv> (0::byte)"
abbreviation (input) "DATA_IN_PHASE \<equiv> (1::byte)"
abbreviation (input) "COMMAND_PHASE \<equiv> (2::byte)"
abbreviation (input) "STATUS_PHASE \<equiv> (3::byte)"
abbreviation (input) "MSG_OUT_PHASE \<equiv> (6::byte)"
abbreviation (input) "MSG_IN_PHASE \<equiv> (7::byte)"
abbreviation (input) "fscsi_data \<equiv> (0x88::u16)"
abbreviation (input) "fscsi_icr \<equiv> (0x89::u16)"
abbreviation (input) "fscsi_mode \<equiv> (0x8a::u16)"
abbreviation (input) "fscsi_tcr \<equiv> (0x8b::u16)"
abbreviation (input) "fscsi_bus_status \<equiv> (0x8c::u16)"
abbreviation (input) "fscsi_select_enable \<equiv> (0x8c::u16)"
abbreviation (input) "fscsi_dma_status \<equiv> (0x8d::u16)"
abbreviation (input) "fscsi_dma_send \<equiv> (0x018d::u16)"
abbreviation (input) "fscsi_reset \<equiv> (0x8f::u16)"
abbreviation (input) "fscsi_dma_initrecv \<equiv> (0x8f::u16)"
abbreviation (input) "SCSIDMA_BASE \<equiv> (0xffff8700::u32)"

text \<open>An access to the machine: one that returns a value, one that does not.\<close>

definition get :: "('d \<Rightarrow> 'a \<times> 'd) \<Rightarrow> ('d emu, 'a) state" where
  "get f = State (\<lambda>w. case f (dev w) of (v, d) \<Rightarrow> (v, w\<lparr>dev := d\<rparr>))"
definition put :: "('d \<Rightarrow> 'd) \<Rightarrow> ('d emu, unit) state" where
  "put f = State (\<lambda>w. ((), w\<lparr>dev := f (dev w)\<rparr>))"
definition var :: "('d emu \<Rightarrow> 'a) \<Rightarrow> ('d emu, 'a) state" where
  "var f = State (\<lambda>w. (f w, w))"

definition is_tt :: "('d emu, bool) state" where "is_tt = var (\<lambda>w. has_scsi w = TT_SCSI)"

definition pause :: "'d emu_hw \<Rightarrow> ('d emu \<Rightarrow> u32) \<Rightarrow> ('d emu, unit) state" where
  "pause H count = do { n \<leftarrow> var count; put (delay_loop H n) }"

definition arbitration_delay :: "'d emu_hw \<Rightarrow> ('d emu, unit) state" where
  "arbitration_delay H = pause H arbitration_delay_count"
definition bus_clear_delay :: "'d emu_hw \<Rightarrow> ('d emu, unit) state" where
  "bus_clear_delay H = pause H bus_clear_count"
definition bus_settle_delay :: "'d emu_hw \<Rightarrow> ('d emu, unit) state" where
  "bus_settle_delay H = pause H bus_settle_count"
definition deskew2_delay :: "'d emu_hw \<Rightarrow> ('d emu, unit) state" where
  "deskew2_delay H = pause H deskew2_count"
definition rst_hold_delay :: "'d emu_hw \<Rightarrow> ('d emu, unit) state" where
  "rst_hold_delay H = pause H rst_hold_count"
definition toggle_delay :: "'d emu_hw \<Rightarrow> ('d emu, unit) state" where
  "toggle_delay H = pause H toggle_delay_count"

subsection \<open>Falcon access\<close>

definition fscsi_put :: "'d emu_hw \<Rightarrow> u16 \<Rightarrow> u16 \<Rightarrow> ('d emu, unit) state" where
  "fscsi_put H reg v = do { put (fdma_control H reg); put (fdma_data_wr H v) }"

definition fscsi_get :: "'d emu_hw \<Rightarrow> u16 \<Rightarrow> ('d emu, u16) state" where
  "fscsi_get H reg = do { put (fdma_control H reg); get (fdma_data_rd H) }"

definition fscsi_and :: "'d emu_hw \<Rightarrow> u16 \<Rightarrow> u16 \<Rightarrow> ('d emu, unit) state" where
  "fscsi_and H reg v = do {
     put (fdma_control H reg); temp \<leftarrow> get (fdma_data_rd H);
     put (fdma_control H reg); put (fdma_data_wr H (temp AND v)) }"

definition fscsi_or :: "'d emu_hw \<Rightarrow> u16 \<Rightarrow> u16 \<Rightarrow> ('d emu, unit) state" where
  "fscsi_or H reg v = do {
     put (fdma_control H reg); temp \<leftarrow> get (fdma_data_rd H);
     put (fdma_control H reg); put (fdma_data_wr H (temp OR v)) }"

subsection \<open>The 5380's registers\<close>

text \<open>The TT's read-modify-writes \<open>reg &= v\<close> and \<open>reg |= v\<close> on a byte register.\<close>

definition tt_and :: "'d emu_hw \<Rightarrow> scsi_reg \<Rightarrow> u16 \<Rightarrow> ('d emu, unit) state" where
  "tt_and H reg v = do { x \<leftarrow> get (scsi_rd H reg); put (scsi_wr H reg (x AND ucast v)) }"
definition tt_or :: "'d emu_hw \<Rightarrow> scsi_reg \<Rightarrow> u16 \<Rightarrow> ('d emu, unit) state" where
  "tt_or H reg v = do { x \<leftarrow> get (scsi_rd H reg); put (scsi_wr H reg (x OR ucast v)) }"

definition get_data_reg :: "'d emu_hw \<Rightarrow> ('d emu, byte) state" where
  "get_data_reg H = do { tt \<leftarrow> is_tt;
     if tt then get (scsi_rd H S_data) else do { x \<leftarrow> fscsi_get H fscsi_data; State_Monad.return (ucast x) } }"
definition put_data_reg :: "'d emu_hw \<Rightarrow> byte \<Rightarrow> ('d emu, unit) state" where
  "put_data_reg H b = do { tt \<leftarrow> is_tt;
     if tt then put (scsi_wr H S_data b) else fscsi_put H fscsi_data (ucast b) }"
definition get_icr_reg :: "'d emu_hw \<Rightarrow> ('d emu, byte) state" where
  "get_icr_reg H = do { tt \<leftarrow> is_tt;
     if tt then get (scsi_rd H S_icr) else do { x \<leftarrow> fscsi_get H fscsi_icr; State_Monad.return (ucast x) } }"
definition put_icr_reg :: "'d emu_hw \<Rightarrow> u16 \<Rightarrow> ('d emu, unit) state" where
  "put_icr_reg H v = do { tt \<leftarrow> is_tt;
     if tt then put (scsi_wr H S_icr (ucast v)) else fscsi_put H fscsi_icr v }"
definition and_icr_reg :: "'d emu_hw \<Rightarrow> u16 \<Rightarrow> ('d emu, unit) state" where
  "and_icr_reg H v = do { tt \<leftarrow> is_tt; if tt then tt_and H S_icr v else fscsi_and H fscsi_icr v }"
definition or_icr_reg :: "'d emu_hw \<Rightarrow> u16 \<Rightarrow> ('d emu, unit) state" where
  "or_icr_reg H v = do { tt \<leftarrow> is_tt; if tt then tt_or H S_icr v else fscsi_or H fscsi_icr v }"
definition put_mode_reg :: "'d emu_hw \<Rightarrow> u16 \<Rightarrow> ('d emu, unit) state" where
  "put_mode_reg H v = do { tt \<leftarrow> is_tt;
     if tt then put (scsi_wr H S_mode (ucast v)) else fscsi_put H fscsi_mode v }"
definition and_mode_reg :: "'d emu_hw \<Rightarrow> u16 \<Rightarrow> ('d emu, unit) state" where
  "and_mode_reg H v = do { tt \<leftarrow> is_tt; if tt then tt_and H S_mode v else fscsi_and H fscsi_mode v }"
definition or_mode_reg :: "'d emu_hw \<Rightarrow> u16 \<Rightarrow> ('d emu, unit) state" where
  "or_mode_reg H v = do { tt \<leftarrow> is_tt; if tt then tt_or H S_mode v else fscsi_or H fscsi_mode v }"
definition put_tcr_reg :: "'d emu_hw \<Rightarrow> u16 \<Rightarrow> ('d emu, unit) state" where
  "put_tcr_reg H v = do { tt \<leftarrow> is_tt;
     if tt then put (scsi_wr H S_tcr (ucast v)) else fscsi_put H fscsi_tcr v }"
definition get_bus_status_reg :: "'d emu_hw \<Rightarrow> ('d emu, byte) state" where
  "get_bus_status_reg H = do { tt \<leftarrow> is_tt;
     if tt then get (scsi_rd H S_bus_status)
     else do { x \<leftarrow> fscsi_get H fscsi_bus_status; State_Monad.return (ucast x) } }"
definition get_dma_status_reg :: "'d emu_hw \<Rightarrow> ('d emu, byte) state" where
  "get_dma_status_reg H = do { tt \<leftarrow> is_tt;
     if tt then get (scsi_rd H S_dma_status)
     else do { x \<leftarrow> fscsi_get H fscsi_dma_status; State_Monad.return (ucast x) } }"
definition put_select_enable_reg :: "'d emu_hw \<Rightarrow> u16 \<Rightarrow> ('d emu, unit) state" where
  "put_select_enable_reg H v = do { tt \<leftarrow> is_tt;
     if tt then put (scsi_wr H S_bus_status (ucast v)) else fscsi_put H fscsi_select_enable v }"

definition get_next_phase :: "'d emu_hw \<Rightarrow> ('d emu, byte) state" where
  "get_next_phase H = do { s \<leftarrow> get_bus_status_reg H; State_Monad.return (drop_bit 2 s AND 0x07) }"

definition set_output_phase :: "'d emu_hw \<Rightarrow> byte \<Rightarrow> ('d emu, unit) state" where
  "set_output_phase H phase = do { tt \<leftarrow> is_tt;
     if tt then do {
       put (scsi_wr H S_tcr phase);
       tt_or H S_icr 0x01;
       dummy \<leftarrow> get (scsi_rd H S_reset);
       State_Monad.return () }
     else do {
       fscsi_put H fscsi_tcr (ucast phase);
       fscsi_or H fscsi_icr 0x01;
       dummy \<leftarrow> fscsi_get H fscsi_reset;
       State_Monad.return () } }"

definition set_input_phase :: "'d emu_hw \<Rightarrow> byte \<Rightarrow> ('d emu, unit) state" where
  "set_input_phase H phase = do { tt \<leftarrow> is_tt;
     if tt then do {
       put (scsi_wr H S_tcr phase);
       tt_and H S_icr 0xfe;
       dummy \<leftarrow> get (scsi_rd H S_reset);
       State_Monad.return () }
     else do {
       fscsi_put H fscsi_tcr (ucast phase);
       fscsi_and H fscsi_icr 0xfe;
       dummy \<leftarrow> fscsi_get H fscsi_reset;
       State_Monad.return () } }"

subsection \<open>A command\<close>

record cmdinfo =
  cdbptr :: u32
  cdblen :: nat
  bufptr :: u32
  buflen :: u32
  xfer_time :: u32
  mode :: byte
  next_msg_out :: byte
  msg_in :: byte
  status :: byte

text \<open>The four bytes of a long, most significant first: the m68k is big-endian.\<close>

definition be_byte :: "nat \<Rightarrow> u32 \<Rightarrow> byte" where "be_byte i x = ucast (drop_bit (8 * (3 - i)) x)"

definition setup_tt_dma :: "'d emu_hw \<Rightarrow> cmdinfo \<Rightarrow> ('d emu, unit) state" where
  "setup_tt_dma H info = do {
     put (scsidma_wr H Ptr_upper (be_byte 0 (bufptr info)));
     put (scsidma_wr H Ptr_uprmiddle (be_byte 1 (bufptr info)));
     put (scsidma_wr H Ptr_lwrmiddle (be_byte 2 (bufptr info)));
     put (scsidma_wr H Ptr_lower (be_byte 3 (bufptr info)));
     put (scsidma_wr H Cnt_upper (be_byte 0 (buflen info)));
     put (scsidma_wr H Cnt_uprmiddle (be_byte 1 (buflen info)));
     put (scsidma_wr H Cnt_lwrmiddle (be_byte 2 (buflen info)));
     put (scsidma_wr H Cnt_lower (be_byte 3 (buflen info))) }"

definition toggle_dmaout :: "'d emu_hw \<Rightarrow> bool \<Rightarrow> ('d emu, unit) state" where
  "toggle_dmaout H wr = do {
     let start = (if wr then 0x0090 else 0x0190 :: u16);
     put (fdma_control H start);
     toggle_delay H;
     put (fdma_control H (start XOR 0x0100));
     toggle_delay H }"

definition use_dma :: "emu_conf \<Rightarrow> cmdinfo \<Rightarrow> ('d emu, bool) state" where
  "use_dma C info = do { tt \<leftarrow> is_tt;
     State_Monad.return (if tt then True
       else if buflen info < SECTOR_SIZE C \<or> buflen info AND 0x0f \<noteq> 0 then False else True) }"

text \<open>
  The bytes the TT's DMA chip did not move, from the residue register to where its pointer
  stands. \<open>store_bytes\<close> is the copy loop.
\<close>

fun store_bytes :: "'d emu_hw \<Rightarrow> u32 \<Rightarrow> byte list \<Rightarrow> ('d emu, unit) state" where
  "store_bytes H p [] = State_Monad.return ()"
| "store_bytes H p (x # xs) = do { put (mem_wr H p x); store_bytes H (p + 1) xs }"

definition be_long :: "byte \<Rightarrow> byte \<Rightarrow> byte \<Rightarrow> byte \<Rightarrow> u32" where
  "be_long a b c d = push_bit 24 (ucast a) OR push_bit 16 (ucast b) OR push_bit 8 (ucast c) OR ucast d"

definition cleanup_tt_dma :: "'d emu_hw \<Rightarrow> ('d emu, unit) state" where
  "cleanup_tt_dma H = do {
     lower \<leftarrow> get (scsidma_rd H Ptr_lower);
     let bytes_remaining = unat (lower AND 0x03);
     if bytes_remaining = 0 then State_Monad.return ()
     else do {
       residue \<leftarrow> get (scsidma_residue H);
       b0 \<leftarrow> get (scsidma_rd H Ptr_upper);
       b1 \<leftarrow> get (scsidma_rd H Ptr_uprmiddle);
       b2 \<leftarrow> get (scsidma_rd H Ptr_lwrmiddle);
       b3 \<leftarrow> get (scsidma_rd H Ptr_lower);
       store_bytes H (be_long b0 b1 b2 (b3 AND 0xfc)) (map (\<lambda>i. be_byte i residue) [0..<bytes_remaining]) } }"

definition cleanup_scsi :: "'d emu_hw \<Rightarrow> ('d emu, unit) state" where
  "cleanup_scsi H = do { tt \<leftarrow> is_tt;
     if tt then do {
       dummy \<leftarrow> get (scsi_rd H S_reset);
       put (scsidma_wr H Dma_control 0x00);
       put (scsi_wr H S_mode 0x00);
       put (scsi_wr H S_icr 0x00) }
     else do {
       dummy \<leftarrow> fscsi_get H fscsi_reset;
       put (fdma_control H 0x0080);
       fscsi_put H fscsi_mode 0x00;
       fscsi_put H fscsi_icr 0x00 } }"

subsection \<open>Detection and initialisation\<close>

definition detect_scsi :: "emu_conf \<Rightarrow> 'd emu_hw \<Rightarrow> ('d emu, bool) state" where
  "detect_scsi C H = State (\<lambda>w.
     let w0 = w\<lparr>has_scsi := 0\<rparr> in
     if CONF_WITH_SCSI C then
       (case check_read_byte H (SCSIDMA_BASE + 1) (dev w0) of (ok, d) \<Rightarrow>
          let w1 = w0\<lparr>dev := d\<rparr>;
              w2 = (if ok then w1\<lparr>has_scsi := TT_SCSI\<rparr>
                    else if HAS_VIDEL C then w1\<lparr>has_scsi := FALCON_SCSI\<rparr> else w1)
          in (has_scsi w2 \<noteq> 0, w2))
     else (has_scsi w0 \<noteq> 0, w0))"

definition scsi_init :: "emu_conf \<Rightarrow> 'd emu_hw \<Rightarrow> ('d emu, unit) state" where
  "scsi_init C H = State (\<lambda>w.
     if has_scsi w = 0 then ((), w)
     else
       let n = loopcount_1_msec C;
           w1 = w\<lparr>arbitration_delay_count := n * 24 div 10000, bus_clear_count := n * 8 div 10000,
             bus_settle_count := n * 4 div 10000, deskew2_count := n * 9 div 100000,
             rst_hold_count := n div 40, toggle_delay_count := n div 200,
             device_exists := 0, hostid_bit := push_bit DEFAULT_HOSTID 1\<rparr>
       in if CONF_WITH_NVRAM C then
            (case nvmaccess H (dev w1) of ((rc, temp), d) \<Rightarrow>
               let w2 = w1\<lparr>dev := d\<rparr> in
               ((), if rc = 0 \<and> temp AND 0x80 \<noteq> 0
                    then w2\<lparr>hostid_bit := push_bit (unat (temp AND 0x07)) 1\<rparr> else w2))
          else ((), w1))"

end
