(* ===== verification/Emu_Scsi.thy ===== *)
theory Emu_Scsi
  imports Emu_Hw
begin

text \<open>
  The middle level of EmuTOS's SCSI driver: the timed waits, the handshake, arbitration,
  selection, one handler per SCSI phase and the dispatcher. A routine with a loop returns an
  option, and \<open>None\<close> is a routine that never returns: the timed waits end when the 200 Hz
  counter reaches their timeout, but the byte loops, the arbitration loop and the dispatcher
  end only when the bus lets them.
\<close>

subsection \<open>Timed waits\<close>

definition now :: "'d emu_hw \<Rightarrow> ('d emu, u32) state" where "now H = get (hz_200 H)"

text \<open>The round of \<open>while (busy) if (hz_200 >= timeout) return error\<close>.\<close>

definition timed :: "'d emu_hw \<Rightarrow> u32 \<Rightarrow> ('d emu, bool) state \<Rightarrow> int \<Rightarrow> ('d emu, int option) state" where
  "timed H timeout busy e = do {
     b \<leftarrow> busy;
     if \<not> b then State_Monad.return (Some 0)
     else do {
       t \<leftarrow> now H;
       State_Monad.return (if timeout \<le> t then Some e else None) } }"

definition setup_falcon_dma :: "emu_conf \<Rightarrow> 'd emu_hw \<Rightarrow> cmdinfo \<Rightarrow> 'd emu \<Rightarrow> (unit \<times> 'd emu) option" where
  "setup_falcon_dma C H info w = do {
     (_, w1) \<leftarrow> run (do {
       fscsi_or H fscsi_mode 0x02;
       put (set_dma_addr H (bufptr info));
       toggle_dmaout H (mode info AND WRITE_MODE C \<noteq> 0);
       put (fdma_data_wr H (ucast ((buflen info + SECTOR_SIZE C - 1) div SECTOR_SIZE C))) }) w;
     st_loop (do { m \<leftarrow> get (fdma_modectl H);
       State_Monad.return (if m AND DMA_MCBIT3 C \<noteq> 0 then None else Some ()) }) w1 }"

definition init_data_out :: "emu_conf \<Rightarrow> 'd emu_hw \<Rightarrow> cmdinfo \<Rightarrow> 'd emu \<Rightarrow> (unit \<times> 'd emu) option" where
  "init_data_out C H info w =
     (if has_scsi w = TT_SCSI then run (do {
        setup_tt_dma H info;
        tt_or H S_mode 0x02;
        put (scsi_wr H S_dma_status 0x00);
        put (scsidma_wr H Dma_control 0x01);
        put (scsidma_wr H Dma_control 0x03) }) w
      else do {
        (_, w1) \<leftarrow> setup_falcon_dma C H info w;
        run (do { fscsi_put H fscsi_dma_send 0x00; put (fdma_control H 0x0100) }) w1 })"

definition init_data_in :: "emu_conf \<Rightarrow> 'd emu_hw \<Rightarrow> cmdinfo \<Rightarrow> 'd emu \<Rightarrow> (unit \<times> 'd emu) option" where
  "init_data_in C H info w =
     (if has_scsi w = TT_SCSI then run (do {
        setup_tt_dma H info;
        put (scsidma_wr H Dma_control 0x00);
        put (scsidma_wr H Dma_control 0x02);
        tt_or H S_mode 0x02;
        put (scsi_wr H S_reset 0x00) }) w
      else do {
        (_, w1) \<leftarrow> setup_falcon_dma C H info w;
        run (do { fscsi_put H fscsi_dma_initrecv 0x00; put (fdma_control H 0x0000) }) w1 })"

text \<open>The two halves of \<open>wait_dma_complete\<close>: the polling round and, once it ended well, the stop.\<close>

definition tt_dma_round :: "'d emu_hw \<Rightarrow> u32 \<Rightarrow> ('d emu, int option) state" where
  "tt_dma_round H timeout = do {
     g \<leftarrow> get (tt_gpip H);
     if g AND 0x80 \<noteq> 0 then State_Monad.return (Some 0)
     else do {
       g2 \<leftarrow> get (tt_gpip H);
       berr \<leftarrow> (if g2 AND 0x20 = 0 then do { c \<leftarrow> get (scsidma_rd H Dma_control); State_Monad.return (c AND 0x80 \<noteq> 0) }
               else State_Monad.return False);
       if berr then State_Monad.return (Some BUS_ERROR)
       else do { t \<leftarrow> now H; State_Monad.return (if timeout \<le> t then Some TIMEOUT_ERROR else None) } } }"

definition wait_dma_complete :: "'d emu_hw \<Rightarrow> u32 \<Rightarrow> 'd emu \<Rightarrow> (int \<times> 'd emu) option" where
  "wait_dma_complete H timeout w =
     (if has_scsi w = TT_SCSI then do {
        (r, w1) \<leftarrow> st_loop (tt_dma_round H timeout) w;
        if r \<noteq> 0 then Some (r, w1)
        else run (do {
          dummy \<leftarrow> get (scsi_rd H S_reset);
          put (scsidma_wr H Dma_control 0x00);
          tt_and H S_mode 0xfd;
          put (scsi_wr H S_icr 0x00);
          State_Monad.return 0 }) w1 }
      else do {
        (r, w1) \<leftarrow> st_loop (timed H timeout (do { g \<leftarrow> get (mfp_gpip H); State_Monad.return (g AND 0x20 \<noteq> 0) }) TIMEOUT_ERROR) w;
        if r \<noteq> 0 then Some (r, w1)
        else run (do {
          dummy \<leftarrow> fscsi_get H fscsi_reset;
          fscsi_and H fscsi_mode 0xfd;
          fscsi_put H fscsi_icr 0x00;
          State_Monad.return 0 }) w1 })"

definition phase_matches :: "'d emu_hw \<Rightarrow> ('d emu, bool) state" where
  "phase_matches H = do { s \<leftarrow> get_dma_status_reg H; State_Monad.return (s AND 0x08 \<noteq> 0) }"

definition wait_phase_change :: "'d emu_hw \<Rightarrow> u32 \<Rightarrow> 'd emu \<Rightarrow> (int \<times> 'd emu) option" where
  "wait_phase_change H timeout = st_loop (timed H timeout (phase_matches H) TIMEOUT_ERROR)"

text \<open>A status bit of the bus, as the waits test it.\<close>

definition bus_bit :: "'d emu_hw \<Rightarrow> byte \<Rightarrow> ('d emu, bool) state" where
  "bus_bit H m = do { s \<leftarrow> get_bus_status_reg H; State_Monad.return (s AND m \<noteq> 0) }"

definition req_round :: "'d emu_hw \<Rightarrow> u32 \<Rightarrow> ('d emu, int option) state" where
  "req_round H timeout = do {
     m \<leftarrow> phase_matches H;
     if \<not> m then State_Monad.return (Some 0)
     else do {
       rq \<leftarrow> bus_bit H 0x20;
       if rq then State_Monad.return (Some 0)
       else do { t \<leftarrow> now H; State_Monad.return (if timeout \<le> t then Some TIMEOUT_ERROR else None) } } }"

definition wait_req :: "'d emu_hw \<Rightarrow> u32 \<Rightarrow> 'd emu \<Rightarrow> (int \<times> 'd emu) option" where
  "wait_req H timeout w = do {
     (r, w1) \<leftarrow> st_loop (req_round H timeout) w;
     if r \<noteq> 0 then Some (r, w1)
     else run (do { m \<leftarrow> phase_matches H; State_Monad.return (if \<not> m then PHASE_CHANGE else 0) }) w1 }"

subsection \<open>Bytes\<close>

definition handshake :: "'d emu_hw \<Rightarrow> u32 \<Rightarrow> 'd emu \<Rightarrow> (int \<times> 'd emu) option" where
  "handshake H timeout w = do {
     (_, w1) \<leftarrow> run (or_icr_reg H 0x11) w;
     (ret, w2) \<leftarrow> st_loop (timed H timeout (bus_bit H 0x20) TIMEOUT_ERROR) w1;
     run (do { and_icr_reg H 0xef; State_Monad.return ret }) w2 }"

definition send_byte :: "'d emu_hw \<Rightarrow> byte \<Rightarrow> u32 \<Rightarrow> 'd emu \<Rightarrow> (int \<times> 'd emu) option" where
  "send_byte H b timeout w = do {
     (ret, w1) \<leftarrow> wait_req H timeout w;
     if ret = 0 then do { (_, w2) \<leftarrow> run (put_data_reg H b) w1; handshake H timeout w2 }
     else Some (ret, w1) }"

definition receive_byte :: "'d emu_hw \<Rightarrow> u32 \<Rightarrow> 'd emu \<Rightarrow> (int \<times> 'd emu) option" where
  "receive_byte H timeout w = do {
     (ret, w1) \<leftarrow> wait_req H timeout w;
     if ret = 0 then do {
       (c, w2) \<leftarrow> run (get_data_reg H) w1;
       (ret2, w3) \<leftarrow> handshake H timeout w2;
       Some (if ret2 = 0 then uint c else ret2, w3) }
     else Some (ret, w1) }"

definition reset_bus :: "emu_conf \<Rightarrow> 'd emu_hw \<Rightarrow> bool \<Rightarrow> 'd emu \<Rightarrow> (unit \<times> 'd emu) option" where
  "reset_bus C H wr w = do {
     (_, w2) \<leftarrow> (if has_scsi w = TT_SCSI then run (do {
          put (scsi_wr H S_icr 0x80); rst_hold_delay H; put (scsi_wr H S_icr 0x00) }) w
        else do {
          (_, w1) \<leftarrow> st_loop (do { m \<leftarrow> get (fdma_modectl H);
             State_Monad.return (if m AND DMA_MCBIT3 C \<noteq> 0 then None else Some ()) }) w;
          run (do { toggle_dmaout H wr; fscsi_put H fscsi_icr 0x80; rst_hold_delay H; fscsi_put H fscsi_icr 0x00 }) w1 });
     (t, w3) \<leftarrow> run (now H) w2;
     st_loop (do { t' \<leftarrow> now H; State_Monad.return (if t' < t + CLOCKS_PER_SEC C then None else Some ()) }) w3 }"

subsection \<open>Arbitration and selection\<close>

text \<open>
  One round of the inner \<open>do ... while\<close> of the arbitration: offer the id, wait for AIP, look
  at LOST ARBITRATION. The result is 0 (not lost) or an error.
\<close>

definition lost_arbitration :: "'d emu_hw \<Rightarrow> ('d emu, bool) state" where
  "lost_arbitration H = do { i \<leftarrow> get_icr_reg H; State_Monad.return (i AND 0x20 \<noteq> 0) }"

definition offer_id :: "'d emu_hw \<Rightarrow> ('d emu, u32) state" where
  "offer_id H = do {
     put_icr_reg H 0x00;
     hid \<leftarrow> var hostid_bit;
     put_data_reg H hid;
     put_icr_reg H 0x01;
     or_mode_reg H 0x01;
     t \<leftarrow> now H;
     State_Monad.return (t + AIP_TIMEOUT) }"

definition arb_round :: "'d emu_hw \<Rightarrow> 'd emu \<Rightarrow> ('d emu + (int \<times> 'd emu)) option" where
  "arb_round H w = do {
     (timeout, w1) \<leftarrow> run (offer_id H) w;
     (r, w2) \<leftarrow> st_loop (timed H timeout (do { i \<leftarrow> get_icr_reg H; State_Monad.return (i AND 0x40 = 0) }) ARBITRATE_ERROR) w1;
     if r \<noteq> 0 then Some (Inr (r, w2))
     else do {
       (lost, w3) \<leftarrow> run (do { arbitration_delay H; lost_arbitration H }) w2;
       Some (if lost then Inl w3 else Inr (0, w3)) } }"

text \<open>A round of the outer loop: the inner loop, then the ids on the bus and LOST ARBITRATION again.\<close>

definition arb_outer :: "'d emu_hw \<Rightarrow> 'd emu \<Rightarrow> ('d emu + (int \<times> 'd emu)) option" where
  "arb_outer H w = do {
     (r, w1) \<leftarrow> c_loop (arb_round H) w;
     if r \<noteq> 0 then Some (Inr (r, w1))
     else do {
       (again, w2) \<leftarrow> run (do {
          temp \<leftarrow> get_data_reg H;
          hid \<leftarrow> var hostid_bit;
          if hid < temp - hid then State_Monad.return True else lost_arbitration H }) w1;
       Some (if again then Inl w2 else Inr (0, w2)) } }"

definition scsi_arbitrate :: "emu_conf \<Rightarrow> 'd emu_hw \<Rightarrow> 'd emu \<Rightarrow> (int \<times> 'd emu) option" where
  "scsi_arbitrate C H w = do {
     (t, w1) \<leftarrow> run (now H) w;
     (r, w2) \<leftarrow> st_loop (timed H (t + CLOCKS_PER_SEC C) (bus_bit H 0x40) BUSFREE_ERROR) w1;
     if r \<noteq> 0 then Some (r, w2)
     else do {
       (_, w3) \<leftarrow> run (do { put_tcr_reg H 0x00; put_select_enable_reg H 0x00; put_mode_reg H 0x00 }) w2;
       (r2, w4) \<leftarrow> c_loop (arb_outer H) w3;
       if r2 \<noteq> 0 then Some (r2, w4)
       else run (do {
         put_icr_reg H 0x0c;
         bus_clear_delay H;
         bus_settle_delay H;
         and_mode_reg H 0xfe;
         State_Monad.return 0 }) w4 } }"

definition scsi_select :: "emu_conf \<Rightarrow> 'd emu_hw \<Rightarrow> nat \<Rightarrow> 'd emu \<Rightarrow> (int \<times> 'd emu) option" where
  "scsi_select C H device w = do {
     let devbits = hostid_bit w OR push_bit device 1;
     (t, w1) \<leftarrow> run (now H) w;
     (_, w2) \<leftarrow> run (do {
        or_icr_reg H 0x02;
        put_data_reg H devbits;
        or_icr_reg H 0x01;
        deskew2_delay H;
        and_icr_reg H 0xf7;
        bus_settle_delay H }) w1;
     (r, w3) \<leftarrow> st_loop (timed H (t + CLOCKS_PER_SEC C div 4) (do { b \<leftarrow> bus_bit H 0x40; State_Monad.return (\<not> b) }) SELECT_ERROR) w2;
     if r \<noteq> 0 then Some (r, w3)
     else run (do { and_icr_reg H 0x02; State_Monad.return 0 }) w3 }"

subsection \<open>The phases\<close>

text \<open>
  The programmed transfers: \<open>p\<close> advances with every byte and the loop leaves on a negative
  result only. Neither looks at \<open>buflen\<close>, nor the command loop at \<open>cdblen\<close>.
\<close>

definition pio_out_round :: "'d emu_hw \<Rightarrow> u32 \<Rightarrow> u32 \<times> 'd emu \<Rightarrow> ((u32 \<times> 'd emu) + (int \<times> 'd emu)) option" where
  "pio_out_round H timeout s = (case s of (p, w) \<Rightarrow> do {
     (x, w1) \<leftarrow> run (get (mem_rd H p)) w;
     (ret, w2) \<leftarrow> send_byte H x timeout w1;
     Some (if ret < 0 then Inr (ret, w2) else Inl (p + 1, w2)) })"

definition pio_in_round :: "'d emu_hw \<Rightarrow> u32 \<Rightarrow> u32 \<times> 'd emu \<Rightarrow> ((u32 \<times> 'd emu) + (int \<times> 'd emu)) option" where
  "pio_in_round H timeout s = (case s of (p, w) \<Rightarrow> do {
     (ret, w1) \<leftarrow> receive_byte H timeout w;
     if ret < 0 then Some (Inr (ret, w1))
     else do { (_, w2) \<leftarrow> run (put (mem_wr H p (word_of_int ret))) w1; Some (Inl (p + 1, w2)) } })"

definition command_round :: "'d emu_hw \<Rightarrow> u32 \<Rightarrow> u32 \<times> 'd emu \<Rightarrow> ((u32 \<times> 'd emu) + (int \<times> 'd emu)) option" where
  "command_round H timeout s = (case s of (p, w) \<Rightarrow> do {
     (x, w1) \<leftarrow> run (get (mem_rd H p)) w;
     (ret, w2) \<leftarrow> send_byte H x timeout w1;
     Some (if ret = 0 then Inl (p + 1, w2) else Inr (ret, w2)) })"

definition handle_data_out :: "emu_conf \<Rightarrow> 'd emu_hw \<Rightarrow> cmdinfo \<Rightarrow> 'd emu \<Rightarrow> (int \<times> 'd emu) option" where
  "handle_data_out C H info w = do {
     (t, w1) \<leftarrow> run (do { t \<leftarrow> now H; set_output_phase H DATA_OUT_PHASE; State_Monad.return (t + xfer_time info) }) w;
     if mode info AND DMA_MODE C \<noteq> 0 then do {
       (_, w2) \<leftarrow> init_data_out C H info w1;
       wait_dma_complete H t w2 }
     else do {
       (ret, w2) \<leftarrow> c_loop (pio_out_round H t) (bufptr info, w1);
       Some (if ret = PHASE_CHANGE then 0 else ret, w2) } }"

definition handle_data_in :: "emu_conf \<Rightarrow> 'd emu_hw \<Rightarrow> cmdinfo \<Rightarrow> 'd emu \<Rightarrow> (int \<times> 'd emu) option" where
  "handle_data_in C H info w = do {
     (t, w1) \<leftarrow> run (do { t \<leftarrow> now H; set_input_phase H DATA_IN_PHASE; State_Monad.return (t + xfer_time info) }) w;
     if mode info AND DMA_MODE C \<noteq> 0 then do {
       (_, w2) \<leftarrow> init_data_in C H info w1;
       (ret, w3) \<leftarrow> wait_dma_complete H t w2;
       if ret = 0 \<and> has_scsi w3 = TT_SCSI then run (do { cleanup_tt_dma H; State_Monad.return ret }) w3
       else Some (ret, w3) }
     else do {
       (ret, w2) \<leftarrow> c_loop (pio_in_round H t) (bufptr info, w1);
       Some (if ret = PHASE_CHANGE then 0 else ret, w2) } }"

definition handle_command :: "emu_conf \<Rightarrow> 'd emu_hw \<Rightarrow> cmdinfo \<Rightarrow> 'd emu \<Rightarrow> (int \<times> 'd emu) option" where
  "handle_command C H info w = do {
     (t, w1) \<leftarrow> run (do { t \<leftarrow> now H; set_output_phase H COMMAND_PHASE; State_Monad.return (t + CLOCKS_PER_SEC C) }) w;
     c_loop (command_round H t) (cdbptr info, w1) }"

definition handle_status :: "emu_conf \<Rightarrow> 'd emu_hw \<Rightarrow> cmdinfo \<Rightarrow> 'd emu \<Rightarrow> ((int \<times> cmdinfo) \<times> 'd emu) option" where
  "handle_status C H info w = do {
     (t, w1) \<leftarrow> run (do { t \<leftarrow> now H; set_input_phase H STATUS_PHASE; State_Monad.return (t + CLOCKS_PER_SEC C) }) w;
     (ret, w2) \<leftarrow> receive_byte H t w1;
     let ret = (if ret = PHASE_CHANGE then PHASE_ERROR else ret);
     if ret \<ge> 0 then do {
       (r, w3) \<leftarrow> wait_phase_change H t w2;
       Some ((r, info\<lparr>status := word_of_int ret\<rparr>), w3) }
     else Some ((ret, info), w2) }"

text \<open>The message goes out up to three times; REQ still there after that is a timeout.\<close>

fun msg_out_tries :: "'d emu_hw \<Rightarrow> u32 \<Rightarrow> byte \<Rightarrow> nat \<Rightarrow> 'd emu \<Rightarrow> (int \<times> 'd emu) option" where
  "msg_out_tries H t msg 0 w = Some (TIMEOUT_ERROR, w)"
| "msg_out_tries H t msg (Suc n) w = do {
     (_, w1) \<leftarrow> run (do { put_data_reg H msg; and_icr_reg H 0xfd }) w;
     (ret, w2) \<leftarrow> handshake H t w1;
     if ret < 0 then Some (ret, w2)
     else do {
       (ret2, w3) \<leftarrow> wait_req H t w2;
       if ret2 < 0 then Some (ret2, w3) else msg_out_tries H t msg n w3 } }"

definition handle_msg_out :: "emu_conf \<Rightarrow> 'd emu_hw \<Rightarrow> cmdinfo \<Rightarrow> 'd emu \<Rightarrow> (int \<times> 'd emu) option" where
  "handle_msg_out C H info w = do {
     (t, w1) \<leftarrow> run (do { t \<leftarrow> now H; set_output_phase H MSG_OUT_PHASE; State_Monad.return (t + CLOCKS_PER_SEC C) }) w;
     (ret, w2) \<leftarrow> wait_req H t w1;
     if ret = 0 then msg_out_tries H t (next_msg_out info) 3 w2 else Some (ret, w2) }"

fun skip_bytes :: "'d emu_hw \<Rightarrow> u32 \<Rightarrow> nat \<Rightarrow> 'd emu \<Rightarrow> (int \<times> 'd emu) option" where
  "skip_bytes H t 0 w = Some (0, w)"
| "skip_bytes H t (Suc n) w = do {
     (ret, w1) \<leftarrow> receive_byte H t w;
     if ret < 0 then Some (ret, w1) else skip_bytes H t n w1 }"

text \<open>The rest of an incoming message, by its first byte: its length, its other bytes, the phase's end.\<close>

definition msg_in_rest :: "'d emu_hw \<Rightarrow> u32 \<Rightarrow> byte \<Rightarrow> 'd emu \<Rightarrow> (int \<times> 'd emu) option" where
  "msg_in_rest H t msgbyte w = do {
     (msglen, w1) \<leftarrow> (if msgbyte = EXTENDED_MSG then receive_byte H t w
        else if 0x20 \<le> msgbyte \<and> msgbyte \<le> 0x2f then Some (2, w) else Some (1, w));
     if msglen < 0 then Some (msglen, w1)
     else do {
       (ret, w2) \<leftarrow> skip_bytes H t (nat (msglen - 1)) w1;
       if ret < 0 then Some (ret, w2) else wait_phase_change H t w2 } }"

definition handle_msg_in :: "emu_conf \<Rightarrow> 'd emu_hw \<Rightarrow> cmdinfo \<Rightarrow> 'd emu \<Rightarrow> ((int \<times> cmdinfo) \<times> 'd emu) option" where
  "handle_msg_in C H info w = do {
     (t, w1) \<leftarrow> run (do { t \<leftarrow> now H; set_input_phase H MSG_IN_PHASE; State_Monad.return (t + CLOCKS_PER_SEC C) }) w;
     (ret, w2) \<leftarrow> wait_req H t w1;
     if ret < 0 then Some ((ret, info), w2)
     else do {
       (msgbyte, w3) \<leftarrow> run (get_data_reg H) w2;
       let reject = (msgbyte \<noteq> COMMAND_COMPLETE_MSG \<and> msgbyte \<noteq> MESSAGE_REJECT_MSG);
       let info1 = (if reject then info\<lparr>msg_in := msgbyte, next_msg_out := MESSAGE_REJECT_MSG\<rparr>
                    else info\<lparr>msg_in := msgbyte\<rparr>);
       (_, w4) \<leftarrow> run (if reject then or_icr_reg H 0x02 else State_Monad.return ()) w3;
       (ret1, w5) \<leftarrow> handshake H t w4;
       if ret1 < 0 then Some ((ret1, info1), w5)
       else do { (ret2, w6) \<leftarrow> msg_in_rest H t msgbyte w5; Some ((ret2, info1), w6) } } }"

subsection \<open>The dispatcher\<close>

text \<open>One turn of the dispatcher: the handler of the phase on the bus, and the error it leaves.\<close>

definition dispatch_round :: "emu_conf \<Rightarrow> 'd emu_hw \<Rightarrow> cmdinfo \<times> 'd emu \<Rightarrow> ((cmdinfo \<times> 'd emu) + ((int \<times> cmdinfo) \<times> 'd emu)) option" where
  "dispatch_round C H s = (case s of (info, w) \<Rightarrow> do {
     (phase, w1) \<leftarrow> run (get_next_phase H) w;
     ((error, info1), w2) \<leftarrow>
       (if phase = DATA_OUT_PHASE then do { (e, w2) \<leftarrow> handle_data_out C H info w1; Some ((e, info), w2) }
        else if phase = DATA_IN_PHASE then do { (e, w2) \<leftarrow> handle_data_in C H info w1; Some ((e, info), w2) }
        else if phase = COMMAND_PHASE then do { (e, w2) \<leftarrow> handle_command C H info w1; Some ((e, info), w2) }
        else if phase = STATUS_PHASE then handle_status C H info w1
        else if phase = MSG_OUT_PHASE then do { (e, w2) \<leftarrow> handle_msg_out C H info w1; Some ((e, info), w2) }
        else if phase = MSG_IN_PHASE then handle_msg_in C H info w1
        else Some ((PHASE_ERROR, info), w1));
     Some (if phase = MSG_IN_PHASE \<and> error = 0 \<and> msg_in info1 = COMMAND_COMPLETE_MSG then Inr ((0, info1), w2)
           else if error = PHASE_CHANGE \<or> error = 0 then Inl (info1, w2)
           else Inr ((error, info1), w2)) })"

definition scsi_dispatcher :: "emu_conf \<Rightarrow> 'd emu_hw \<Rightarrow> cmdinfo \<Rightarrow> 'd emu \<Rightarrow> ((int \<times> cmdinfo) \<times> 'd emu) option" where
  "scsi_dispatcher C H info w = c_loop (dispatch_round C H) (info, w)"

end
