(* ===== verification/Emu_Cmd.thy ===== *)
theory Emu_Cmd
  imports Emu_Scsi
begin

text \<open>
  The high level of EmuTOS's SCSI driver: one command from arbitration to clean-up, the
  commands the driver builds, the translation of SCSI status and sense data to TOS errors,
  and the two entry points \<open>scsi_ioctl\<close> and \<open>scsi_rw\<close>.

  A local array \<open>cdb\<close> lives at the address \<open>cdb_area\<close>; the static buffers at theirs.
\<close>

subsection \<open>Building commands, decoding sense\<close>

definition build_rw_command :: "emu_conf \<Rightarrow> u16 \<Rightarrow> u32 \<Rightarrow> u16 \<Rightarrow> byte list" where
  "build_rw_command C rw sector count =
     (if sector \<le> 0x1fffff \<and> count \<le> 255 then
        [if rw = RW_WRITE C then WRITE6 C else READ6 C,
         ucast (drop_bit 16 sector AND 0x1f),
         ucast (drop_bit 8 sector),
         ucast sector,
         ucast count,
         0x00]
      else
        [if rw = RW_WRITE C then WRITE10 C else READ10 C,
         0x00,
         ucast (drop_bit 24 sector),
         ucast (drop_bit 16 sector),
         ucast (drop_bit 8 sector),
         ucast sector,
         0x00,
         ucast (drop_bit 8 count),
         ucast count,
         0x00])"

definition decode_sense :: "emu_conf \<Rightarrow> 'd emu_hw \<Rightarrow> u32 \<Rightarrow> ('d emu, int) state" where
  "decode_sense C H sense = do {
     s0 \<leftarrow> get (mem_rd H sense);
     if s0 AND 0x7e \<noteq> 0x70 then State_Monad.return (E_CHNG C)
     else do {
       s2 \<leftarrow> get (mem_rd H (sense + 2));
       let key = s2 AND 0x0f;
       State_Monad.return (
         if key = 0 \<or> key = 6 then E_CHNG C
         else if key = 1 then E_OK C
         else if key = 2 then EDRVNR C
         else if key = 5 then EBADRQ C
         else if key = 7 then EWRPRO C
         else EGENRL C) } }"

subsection \<open>One command\<close>

definition bring_up :: "emu_conf \<Rightarrow> 'd emu_hw \<Rightarrow> nat \<Rightarrow> cmdinfo \<Rightarrow> 'd emu \<Rightarrow> ((int \<times> cmdinfo) \<times> 'd emu) option" where
  "bring_up C H device info w = do {
     (ret, w1) \<leftarrow> scsi_arbitrate C H w;
     if ret \<noteq> 0 then Some ((ret, info), w1)
     else do {
       (ret2, w2) \<leftarrow> scsi_select C H device w1;
       if ret2 \<noteq> 0 then Some ((ret2, info), w2)
       else do {
         (t, w3) \<leftarrow> run (do { set_input_phase H DATA_OUT_PHASE; t \<leftarrow> now H; State_Monad.return (t + CLOCKS_PER_SEC C) }) w2;
         (ret3, w4) \<leftarrow> wait_phase_change H t w3;
         if ret3 \<noteq> 0 then Some ((ret3, info), w4)
         else do {
           ((ret4, info4), w5) \<leftarrow> scsi_dispatcher C H info w4;
           Some ((if ret4 = 0 then uint (MAKE_UWORD C (msg_in info4) (status info4)) else ret4, info4), w5) } } } }"

text \<open>
  The two ends of \<open>send_scsi_command\<close>: choosing DMA, flushing the cache and locking out the
  floppy before; leaving the bus, invalidating the cache and unlocking after.
\<close>

definition prepare :: "emu_conf \<Rightarrow> 'd emu_hw \<Rightarrow> cmdinfo \<Rightarrow> ('d emu, cmdinfo) state" where
  "prepare C H info = do {
     dma \<leftarrow> use_dma C info;
     let info1 = (if dma then info\<lparr>mode := mode info OR DMA_MODE C\<rparr> else info);
     (if dma \<and> mode info1 AND WRITE_MODE C \<noteq> 0 \<and> buflen info1 \<noteq> 0
      then put (flush_data_cache H (bufptr info1) (buflen info1)) else State_Monad.return ());
     fal \<leftarrow> var (\<lambda>w. has_scsi w = FALCON_SCSI);
     (if fal then put (set_flock H (-1)) else State_Monad.return ());
     State_Monad.return (info1\<lparr>next_msg_out := IDENTIFY_MSG\<rparr>) }"

definition wind_up :: "emu_conf \<Rightarrow> 'd emu_hw \<Rightarrow> int \<Rightarrow> cmdinfo \<Rightarrow> ('d emu, int \<times> cmdinfo) state" where
  "wind_up C H ret info = do {
     cleanup_scsi H;
     (if mode info AND DMA_MODE C \<noteq> 0 \<and> mode info AND WRITE_MODE C = 0 \<and> buflen info \<noteq> 0
      then put (invalidate_data_cache H (bufptr info) (buflen info)) else State_Monad.return ());
     fal \<leftarrow> var (\<lambda>w. has_scsi w = FALCON_SCSI);
     (if fal then put (set_flock H 0) else State_Monad.return ());
     State_Monad.return (ret, info) }"

text \<open>A success makes the device known; an error of a known device resets the bus.\<close>

definition aftermath :: "emu_conf \<Rightarrow> 'd emu_hw \<Rightarrow> nat \<Rightarrow> int \<Rightarrow> cmdinfo \<Rightarrow> 'd emu \<Rightarrow> (unit \<times> 'd emu) option" where
  "aftermath C H device ret info w =
     (if ret \<ge> 0 then Some ((), w\<lparr>device_exists := device_exists w OR push_bit device 1\<rparr>)
      else if device_exists w AND push_bit device 1 \<noteq> 0 then reset_bus C H (mode info AND WRITE_MODE C \<noteq> 0) w
      else Some ((), w))"

definition send_scsi_command :: "emu_conf \<Rightarrow> 'd emu_hw \<Rightarrow> nat \<Rightarrow> cmdinfo \<Rightarrow> 'd emu \<Rightarrow> ((int \<times> cmdinfo) \<times> 'd emu) option" where
  "send_scsi_command C H device info w =
     (if has_scsi w = 0 then Some ((-1, info), w)
      else do {
        (info2, w1) \<leftarrow> run (prepare C H info) w;
        ((ret, info3), w2) \<leftarrow> bring_up C H device info2 w1;
        (_, w3) \<leftarrow> aftermath C H device ret info3 w2;
        run (wind_up C H ret info3) w3 })"

text \<open>A cleared \<open>CMDINFO\<close>.\<close>

definition cmdinfo_zero :: cmdinfo where
  "cmdinfo_zero = \<lparr>cdbptr = 0, cdblen = 0, bufptr = 0, buflen = 0, xfer_time = 0, mode = 0,
     next_msg_out = 0, msg_in = 0, status = 0\<rparr>"

definition scsi_request_sense :: "emu_conf \<Rightarrow> 'd emu_hw \<Rightarrow> nat \<Rightarrow> u32 \<Rightarrow> 'd emu \<Rightarrow> (int \<times> 'd emu) option" where
  "scsi_request_sense C H device buffer w = do {
     (_, w1) \<leftarrow> run (store_bytes H (cdb_area C) [REQUEST_SENSE C, 0, 0, 0, ucast (REQSENSE_LENGTH C), 0]) w;
     ((ret, _), w2) \<leftarrow> send_scsi_command C H device (cmdinfo_zero\<lparr>cdbptr := cdb_area C, cdblen := 6,
        bufptr := buffer, buflen := REQSENSE_LENGTH C, xfer_time := CLOCKS_PER_SEC C\<rparr>) w1;
     Some (ret, w2) }"

definition decode_scsi_status :: "emu_conf \<Rightarrow> 'd emu_hw \<Rightarrow> nat \<Rightarrow> int \<Rightarrow> 'd emu \<Rightarrow> (int \<times> 'd emu) option" where
  "decode_scsi_status C H device ret w =
     (if ret = 0 then Some (E_OK C, w)
      else if ret < 0 then Some (EUNDEV C, w)
      else if ret AND 0x08 \<noteq> 0 then Some (EDRVNR C, w)
      else if ret AND 0x02 = 0 then Some (ret, w)
      else do {
        (ret2, w1) \<leftarrow> scsi_request_sense C H device (reqsense_buffer C) w;
        if ret2 < 0 then Some (EDRVNR C, w1)
        else run (decode_sense C H (reqsense_buffer C)) w1 })"

definition do_scsi_rw :: "emu_conf \<Rightarrow> 'd emu_hw \<Rightarrow> u16 \<Rightarrow> u32 \<Rightarrow> u16 \<Rightarrow> u32 \<Rightarrow> nat \<Rightarrow> 'd emu \<Rightarrow> (int \<times> 'd emu) option" where
  "do_scsi_rw C H rw sector count buf device w = do {
     let cdb = build_rw_command C rw sector count;
     (_, w1) \<leftarrow> run (store_bytes H (cdb_area C) cdb) w;
     let len = ucast count * SECTOR_SIZE C;
     ((ret, _), w2) \<leftarrow> send_scsi_command C H device (cmdinfo_zero\<lparr>cdbptr := cdb_area C, cdblen := length cdb,
        bufptr := buf, buflen := len, xfer_time := max (CLOCKS_PER_SEC C) (len div BYTES_PER_CLOCK),
        mode := (if rw \<noteq> 0 then WRITE_MODE C else 0)\<rparr>) w1;
     decode_scsi_status C H device ret w2 }"

definition scsi_capacity :: "emu_conf \<Rightarrow> 'd emu_hw \<Rightarrow> nat \<Rightarrow> u32 \<Rightarrow> 'd emu \<Rightarrow> (int \<times> 'd emu) option" where
  "scsi_capacity C H device buffer w = do {
     (_, w1) \<leftarrow> run (store_bytes H (cdb_area C) (READ_CAPACITY C # replicate 9 0)) w;
     ((ret, _), w2) \<leftarrow> send_scsi_command C H device (cmdinfo_zero\<lparr>cdbptr := cdb_area C, cdblen := 10,
        bufptr := buffer, buflen := READCAP_LENGTH C, xfer_time := CLOCKS_PER_SEC C\<rparr>) w1;
     decode_scsi_status C H device ret w2 }"

definition scsi_inquiry :: "emu_conf \<Rightarrow> 'd emu_hw \<Rightarrow> nat \<Rightarrow> u32 \<Rightarrow> 'd emu \<Rightarrow> (int \<times> 'd emu) option" where
  "scsi_inquiry C H device buffer w = do {
     (_, w1) \<leftarrow> run (store_bytes H (cdb_area C) [INQUIRY C, 0, 0, 0, ucast (INQUIRY_LENGTH C), 0]) w;
     ((ret, _), w2) \<leftarrow> send_scsi_command C H device (cmdinfo_zero\<lparr>cdbptr := cdb_area C, cdblen := 6,
        bufptr := buffer, buflen := INQUIRY_LENGTH C, xfer_time := CLOCKS_PER_SEC C\<rparr>) w1;
     decode_scsi_status C H device ret w2 }"

subsection \<open>Entry points\<close>

fun memcpy :: "'d emu_hw \<Rightarrow> u32 \<Rightarrow> u32 \<Rightarrow> nat \<Rightarrow> ('d emu, unit) state" where
  "memcpy H dst src 0 = State_Monad.return ()"
| "memcpy H dst src (Suc n) = do {
     x \<leftarrow> get (mem_rd H src);
     put (mem_wr H dst x);
     memcpy H (dst + 1) (src + 1) n }"

text \<open>\<open>info[0]++\<close> on a big-endian long.\<close>

definition incr_long :: "'d emu_hw \<Rightarrow> u32 \<Rightarrow> ('d emu, unit) state" where
  "incr_long H p = do {
     a \<leftarrow> get (mem_rd H p);
     b \<leftarrow> get (mem_rd H (p + 1));
     c \<leftarrow> get (mem_rd H (p + 2));
     d \<leftarrow> get (mem_rd H (p + 3));
     store_bytes H p (map (\<lambda>i. be_byte i (be_long a b c d + 1)) [0..<4]) }"

definition scsi_ioctl :: "emu_conf \<Rightarrow> 'd emu_hw \<Rightarrow> nat \<Rightarrow> u16 \<Rightarrow> u32 \<Rightarrow> 'd emu \<Rightarrow> (int \<times> 'd emu) option" where
  "scsi_ioctl C H device ctrl arg w =
     (if ctrl = GET_DISKINFO C then do {
        (rc, w1) \<leftarrow> scsi_capacity C H device arg w;
        if rc = 0 then run (do { incr_long H arg; State_Monad.return rc }) w1 else Some (rc, w1) }
      else if ctrl = GET_DISKNAME C then do {
        (rc, w1) \<leftarrow> scsi_inquiry C H device (inquiry_buffer C) w;
        if rc \<noteq> 0 then Some (rc, w1)
        else run (do {
          t \<leftarrow> get (mem_rd H (inquiry_buffer C));
          if t AND 0x1f \<noteq> 0 then State_Monad.return (EUNDEV C)
          else do {
            memcpy H arg (inquiry_buffer C + 8) 24;
            put (mem_wr H (arg + 24) 0);
            State_Monad.return rc } }) w1 }
      else if ctrl = GET_MEDIACHANGE C then Some (MEDIANOCHANGE C, w)
      else if CONF_WITH_SCSI_DRIVER C \<and> ctrl = CHECK_DEVICE C then do {
        (rc, w1) \<leftarrow> scsi_inquiry C H device (inquiry_buffer C) w;
        Some (if rc \<noteq> 0 then EUNDEV C else rc, w1) }
      else Some (ERR C, w))"

text \<open>The buffer the transfers go through: how many sectors at most, and a bounce buffer or none.\<close>

definition rw_plan :: "emu_conf \<Rightarrow> 'd emu_hw \<Rightarrow> u32 \<Rightarrow> ('d emu, u16 \<times> u32 option) state" where
  "rw_plan C H buf = do { tt \<leftarrow> is_tt;
     if tt then State_Monad.return (MAXSECS_PER_TTSCSI_IO, None)
     else if IS_ODD_POINTER C buf \<or> \<not> IS_STRAM_POINTER C buf then do {
       tmp \<leftarrow> (if CONF_WITH_FRB C then get (get_frb_cookie H) else State_Monad.return 0);
       let m1 = (if CONF_WITH_FRB C \<and> MAXSECS_PER_FSCSI_IO > FRB_SECS C then FRB_SECS C else MAXSECS_PER_FSCSI_IO);
       State_Monad.return (if tmp = 0 then (if m1 > DSKBUF_SECS C then DSKBUF_SECS C else m1, Some (dskbufp C))
         else (m1, Some tmp)) }
     else State_Monad.return (MAXSECS_PER_FSCSI_IO, None) }"

fun rw_retry :: "emu_conf \<Rightarrow> 'd emu_hw \<Rightarrow> u16 \<Rightarrow> u32 \<Rightarrow> u16 \<Rightarrow> u32 \<Rightarrow> nat \<Rightarrow> nat \<Rightarrow> int \<Rightarrow> 'd emu \<Rightarrow> (int \<times> 'd emu) option" where
  "rw_retry C H rw sector n p device 0 ret w = Some (ret, w)"
| "rw_retry C H rw sector n p device (Suc k) ret w = do {
     (ret1, w1) \<leftarrow> do_scsi_rw C H rw sector n p device w;
     if ret1 = 0 then Some (ret1, w1) else rw_retry C H rw sector n p device k ret1 w1 }"

text \<open>The copies to and from a bounce buffer, for a write before and for a read after the transfer.\<close>

definition bounce_out :: "'d emu_hw \<Rightarrow> u16 \<Rightarrow> u32 option \<Rightarrow> u32 \<Rightarrow> u32 \<Rightarrow> nat \<Rightarrow> ('d emu, unit) state" where
  "bounce_out H rw tmp p buf len = (if rw \<noteq> 0 \<and> tmp \<noteq> None then memcpy H p buf len else State_Monad.return ())"
definition bounce_in :: "'d emu_hw \<Rightarrow> u16 \<Rightarrow> u32 option \<Rightarrow> u32 \<Rightarrow> u32 \<Rightarrow> nat \<Rightarrow> ('d emu, unit) state" where
  "bounce_in H rw tmp p buf len = (if rw = 0 \<and> tmp \<noteq> None then memcpy H buf p len else State_Monad.return ())"

definition rw_chunk :: "emu_conf \<Rightarrow> 'd emu_hw \<Rightarrow> u16 \<Rightarrow> nat \<Rightarrow> u16 \<Rightarrow> u32 option \<Rightarrow>
    u16 \<times> u32 \<times> u32 \<times> int \<times> 'd emu \<Rightarrow> ((u16 \<times> u32 \<times> u32 \<times> int \<times> 'd emu) + (int \<times> 'd emu)) option" where
  "rw_chunk C H rw device maxsecs tmp s = (case s of (count, sector, buf, ret, w) \<Rightarrow>
     if count = 0 then Some (Inr (ret, w))
     else do {
       let numsecs = (if count > maxsecs then maxsecs else count);
       let p = (case tmp of None \<Rightarrow> buf | Some t \<Rightarrow> t);
       let len = unat (ucast numsecs * SECTOR_SIZE C);
       (_, w1) \<leftarrow> run (bounce_out H rw tmp p buf len) w;
       (ret1, w2) \<leftarrow> rw_retry C H rw sector numsecs p device 2 ret w1;
       if ret1 \<noteq> 0 then Some (Inr (ret1, w2))
       else do {
         (_, w3) \<leftarrow> run (bounce_in H rw tmp p buf len) w2;
         Some (Inl (count - numsecs, sector + ucast numsecs, buf + ucast numsecs * SECTOR_SIZE C, ret1, w3)) } })"

definition scsi_rw :: "emu_conf \<Rightarrow> 'd emu_hw \<Rightarrow> u16 \<Rightarrow> u32 \<Rightarrow> u16 \<Rightarrow> u32 \<Rightarrow> nat \<Rightarrow> 'd emu \<Rightarrow> (int \<times> 'd emu) option" where
  "scsi_rw C H rw sector count buf device w = do {
     let rw1 = rw AND RW_RW C;
     ((maxsecs, tmp), w1) \<leftarrow> run (rw_plan C H buf) w;
     c_loop (rw_chunk C H rw1 device maxsecs tmp) (count, sector, buf, 0, w1) }"

end
