(* ===== verification/Emu_Clock.thy ===== *)
theory Emu_Clock
  imports Emu_Cmd
begin

text \<open>
  What a running clock gives EmuTOS's driver. The locale \<open>clocked\<close> is the driver's contract with
  the machine: time passes. For every deadline there is a measure of the time left (in cycles of
  the processor, say: the counter itself need not have moved between two looks at it) that falls
  with each look at the 200 Hz counter that finds the deadline not reached, and that no polled
  register raises. Inside it, every wait of the driver returns, and with it every phase handler
  whose loops are bounded.
\<close>

locale clocked =
  fixes H :: "'d emu_hw" and left :: "u32 \<Rightarrow> 'd \<Rightarrow> nat"
  assumes hz_tick: "hz_200 H d = (t, d') \<Longrightarrow> t < T \<Longrightarrow> left T d' < left T d"
    and scsi_rd_left: "left T (snd (scsi_rd H r d)) \<le> left T d"
    and scsidma_rd_left: "left T (snd (scsidma_rd H q d)) \<le> left T d"
    and fdma_control_left: "left T (fdma_control H v d) \<le> left T d"
    and fdma_data_left: "left T (snd (fdma_data_rd H d)) \<le> left T d"
    and tt_gpip_left: "left T (snd (tt_gpip H d)) \<le> left T d"
    and mfp_gpip_left: "left T (snd (mfp_gpip H d)) \<le> left T d"
begin

text \<open>A program that does not raise the time left, whatever it returns.\<close>

definition calm :: "('d emu, 'a) state \<Rightarrow> bool" where
  "calm m \<longleftrightarrow> (\<forall>w T. left T (dev (snd (run_state m w))) \<le> left T (dev w))"

lemma calm_return [intro]: "calm (State_Monad.return x)"
  by (simp add: calm_def)

lemma calm_bind [intro]: "calm m \<Longrightarrow> (\<And>x. calm (f x)) \<Longrightarrow> calm (State_Monad.bind m f)"
  unfolding calm_def by (auto split: prod.splits) (metis le_trans snd_conv)

lemma calm_if [intro]: "(b \<Longrightarrow> calm m) \<Longrightarrow> (\<not> b \<Longrightarrow> calm m') \<Longrightarrow> calm (if b then m else m')"
  by simp

lemma calm_get: "(\<And>d T. left T (snd (f d)) \<le> left T d) \<Longrightarrow> calm (get f)"
  unfolding calm_def get_def by (auto split: prod.splits) (metis snd_conv)

lemma calm_put: "(\<And>d T. left T (f d) \<le> left T d) \<Longrightarrow> calm (put f)"
  by (simp add: calm_def put_def)

lemma calm_var [intro]: "calm (var f)"
  by (simp add: calm_def var_def)

lemma calm_is_tt [intro]: "calm is_tt"
  unfolding is_tt_def by (rule calm_var)

lemma calm_fscsi_get [intro]: "calm (fscsi_get H r)"
  unfolding fscsi_get_def by (intro calm_bind calm_put calm_get fdma_control_left fdma_data_left)

lemma calm_polls [intro]:
  "calm (get_icr_reg H)" "calm (get_bus_status_reg H)" "calm (get_dma_status_reg H)"
  unfolding get_icr_reg_def get_bus_status_reg_def get_dma_status_reg_def
  by (intro calm_bind calm_is_tt calm_if calm_get scsi_rd_left calm_fscsi_get calm_return)+

lemma calm_conditions [intro]: "calm (phase_matches H)" "calm (bus_bit H m)"
  unfolding phase_matches_def bus_bit_def by (intro calm_bind calm_polls calm_return)+

lemma now_before:
  assumes "run_state (now H) w = (t, w')" "t < T"
  shows "left T (dev w') < left T (dev w)"
proof -
  obtain d' where hz: "hz_200 H (dev w) = (t, d')" and w': "w' = w\<lparr>dev := d'\<rparr>"
    using assms(1) unfolding now_def get_def by (auto split: prod.splits)
  show ?thesis using hz_tick [OF hz assms(2)] w' by simp
qed

text \<open>
  A polling round: whenever it goes round again, the time left until its deadline fell.
  Such a loop ends, and with one of its round's results.
\<close>

definition polling :: "u32 \<Rightarrow> int set \<Rightarrow> ('d emu, int option) state \<Rightarrow> bool" where
  "polling T R body \<longleftrightarrow> (\<forall>w. case run_state body w of
     (None, w') \<Rightarrow> left T (dev w') < left T (dev w) | (Some r, _) \<Rightarrow> r \<in> R)"

lemma polling_returns:
  assumes "polling T R body"
  shows "\<exists>r w'. st_loop body w = Some (r, w') \<and> r \<in> R"
  by (rule st_loop_total [where I = "\<lambda>_. True" and m = "\<lambda>w. left T (dev w)"])
    (use assms in \<open>auto simp: polling_def split: prod.splits option.splits\<close>)

lemma polling_now:
  assumes "e \<in> R"
  shows "polling T R (do { t \<leftarrow> now H; State_Monad.return (if T \<le> t then Some e else None) })"
  unfolding polling_def
  using assms by (auto split: prod.splits option.splits simp: not_le dest: now_before)

lemma polling_return: "r \<in> R \<Longrightarrow> polling T R (State_Monad.return (Some r))"
  by (simp add: polling_def)

lemma polling_bind:
  assumes "calm m" "\<And>x. polling T R (f x)"
  shows "polling T R (State_Monad.bind m f)"
  unfolding polling_def
proof
  fix w
  obtain x w1 where m: "run_state m w = (x, w1)" by (metis surj_pair)
  have le: "left T (dev w1) \<le> left T (dev w)" using assms(1) m unfolding calm_def by (metis snd_conv)
  have "case run_state (f x) w1 of (None, w') \<Rightarrow> left T (dev w') < left T (dev w1) | (Some r, _) \<Rightarrow> r \<in> R"
    using assms(2) [of x, unfolded polling_def] ..
  with m le show "case run_state (State_Monad.bind m f) w of
      (None, w') \<Rightarrow> left T (dev w') < left T (dev w) | (Some r, _) \<Rightarrow> r \<in> R"
    by (auto split: prod.splits option.splits)
qed

lemma polling_if: "(b \<Longrightarrow> polling T R m) \<Longrightarrow> (\<not> b \<Longrightarrow> polling T R m') \<Longrightarrow> polling T R (if b then m else m')"
  by simp

lemma timed_polling: "calm busy \<Longrightarrow> polling T {0, e} (timed H T busy e)"
  unfolding timed_def by (intro polling_bind polling_if polling_return polling_now) auto

lemma timed_returns: "calm busy \<Longrightarrow> \<exists>r w'. st_loop (timed H T busy e) w = Some (r, w') \<and> r \<in> {0, e}"
  by (rule polling_returns [OF timed_polling])

subsection \<open>The waits return\<close>

lemma wait_phase_change_returns: "\<exists>r w'. wait_phase_change H T w = Some (r, w') \<and> r \<in> {0, TIMEOUT_ERROR}"
  unfolding wait_phase_change_def by (intro timed_returns calm_conditions)

lemma wait_req_returns: "\<exists>r w'. wait_req H T w = Some (r, w') \<and> r \<in> {0, PHASE_CHANGE, TIMEOUT_ERROR}"
proof -
  have "polling T {0, TIMEOUT_ERROR} (req_round H T)"
    unfolding req_round_def by (intro polling_bind polling_if polling_return polling_now calm_conditions) auto
  from polling_returns [OF this] obtain r w1
    where "st_loop (req_round H T) w = Some (r, w1)" "r \<in> {0, TIMEOUT_ERROR}" by blast
  then show ?thesis
    by (auto simp: wait_req_def run_simps split: prod.splits)
qed

lemma handshake_returns: "\<exists>r w'. handshake H T w = Some (r, w') \<and> r \<in> {0, TIMEOUT_ERROR}"
proof -
  obtain w1 where w1: "run_state (or_icr_reg H 0x11) w = ((), w1)" by (rule run_unit)
  from timed_returns [OF calm_conditions(2)] obtain r w2
    where "st_loop (timed H T (bus_bit H 0x20) TIMEOUT_ERROR) w1 = Some (r, w2)" "r \<in> {0, TIMEOUT_ERROR}" by blast
  with w1 show ?thesis by (auto simp: handshake_def run_simps split: prod.splits)
qed

lemma send_byte_returns: "\<exists>r w'. send_byte H b T w = Some (r, w') \<and> r \<in> {0, PHASE_CHANGE, TIMEOUT_ERROR}"
proof -
  obtain r w1 where "wait_req H T w = Some (r, w1)" "r \<in> {0, PHASE_CHANGE, TIMEOUT_ERROR}"
    using wait_req_returns by blast
  moreover obtain w2 where "run_state (put_data_reg H b) w1 = ((), w2)" by (rule run_unit)
  moreover obtain r3 w3 where "handshake H T w2 = Some (r3, w3)" "r3 \<in> {0, TIMEOUT_ERROR}"
    using handshake_returns by blast
  ultimately show ?thesis by (auto simp: send_byte_def run_simps)
qed

definition byte_or_error :: "int \<Rightarrow> bool" where
  "byte_or_error r \<longleftrightarrow> 0 \<le> r \<and> r < 256 \<or> r = PHASE_CHANGE \<or> r = TIMEOUT_ERROR"

lemma receive_byte_returns: "\<exists>r w'. receive_byte H T w = Some (r, w') \<and> byte_or_error r"
proof -
  obtain r w1 where "wait_req H T w = Some (r, w1)" "r \<in> {0, PHASE_CHANGE, TIMEOUT_ERROR}"
    using wait_req_returns by blast
  moreover obtain c w2 where "run_state (get_data_reg H) w1 = (c, w2)" by (metis surj_pair)
  moreover obtain r3 w3 where "handshake H T w2 = Some (r3, w3)" "r3 \<in> {0, TIMEOUT_ERROR}"
    using handshake_returns by blast
  moreover have "uint c < 256" using uint_lt2p [of c] by simp
  ultimately show ?thesis by (auto simp: receive_byte_def run_simps byte_or_error_def)
qed

lemma calm_returns:
  "calm m \<Longrightarrow> run_state m w = (x, w') \<Longrightarrow> left T (dev w') \<le> left T (dev w)"
  unfolding calm_def by (metis snd_conv)

lemma wait_dma_complete_returns:
  "\<exists>r w'. wait_dma_complete H T w = Some (r, w') \<and> r \<in> {0, BUS_ERROR, TIMEOUT_ERROR}"
proof -
  have "polling T {0, BUS_ERROR, TIMEOUT_ERROR} (tt_dma_round H T)"
    unfolding tt_dma_round_def
    by (intro polling_bind polling_if polling_return polling_now calm_if calm_bind calm_get calm_return
        tt_gpip_left scsidma_rd_left) auto
  from polling_returns [OF this, of w] obtain r w1
    where tt: "st_loop (tt_dma_round H T) w = Some (r, w1)" "r \<in> {0, BUS_ERROR, TIMEOUT_ERROR}" by blast
  have "calm (do { g \<leftarrow> get (mfp_gpip H); State_Monad.return (g AND 0x20 \<noteq> 0) })"
    by (intro calm_bind calm_get mfp_gpip_left calm_return)
  from timed_returns [OF this, of T TIMEOUT_ERROR w] obtain r' w1'
    where fal: "st_loop (timed H T (do { g \<leftarrow> get (mfp_gpip H); State_Monad.return (g AND 0x20 \<noteq> 0) }) TIMEOUT_ERROR) w = Some (r', w1')"
      "r' \<in> {0, TIMEOUT_ERROR}" by blast
  show ?thesis
    using tt fal by (auto simp: wait_dma_complete_def run_simps split: prod.splits)
qed

lemma scsi_select_returns: "\<exists>r w'. scsi_select C H device w = Some (r, w') \<and> r \<in> {0, SELECT_ERROR}"
proof -
  obtain t w1 where "run_state (now H) w = (t, w1)" by (metis surj_pair)
  moreover obtain w2 where "run_state (do { or_icr_reg H 0x02; put_data_reg H (hostid_bit w OR push_bit device 1);
      or_icr_reg H 0x01; deskew2_delay H; and_icr_reg H 0xf7; bus_settle_delay H }) w1 = ((), w2)"
    by (rule run_unit)
  moreover have "calm (do { b \<leftarrow> bus_bit H 0x40; State_Monad.return (\<not> b) })"
    by (intro calm_bind calm_conditions calm_return)
  from timed_returns [OF this, of "t + CLOCKS_PER_SEC C div 4" SELECT_ERROR w2] obtain r w3
    where "st_loop (timed H (t + CLOCKS_PER_SEC C div 4) (do { b \<leftarrow> bus_bit H 0x40; State_Monad.return (\<not> b) })
        SELECT_ERROR) w2 = Some (r, w3)" "r \<in> {0, SELECT_ERROR}" by blast
  ultimately show ?thesis
    unfolding scsi_select_def Let_def run_def by (auto split: prod.splits)
qed

lemma bus_free_wait_returns:
  "\<exists>r w'. st_loop (timed H T (bus_bit H 0x40) BUSFREE_ERROR) w = Some (r, w') \<and> r \<in> {0, BUSFREE_ERROR}"
  by (rule timed_returns [OF calm_conditions(2)])

lemma arb_round_returns:
  "(\<exists>w'. arb_round H w = Some (Inl w')) \<or> (\<exists>r w'. arb_round H w = Some (Inr (r, w')) \<and> r \<in> {0, ARBITRATE_ERROR})"
proof -
  obtain t w1 where o: "run_state (offer_id H) w = (t, w1)" by (metis surj_pair)
  have "calm (do { i \<leftarrow> get_icr_reg H; State_Monad.return (i AND 0x40 = 0) })"
    by (intro calm_bind calm_polls calm_return)
  from timed_returns [OF this, of t ARBITRATE_ERROR w1] obtain r w2
    where "st_loop (timed H t (do { i \<leftarrow> get_icr_reg H; State_Monad.return (i AND 0x40 = 0) }) ARBITRATE_ERROR) w1 = Some (r, w2)"
      "r \<in> {0, ARBITRATE_ERROR}" by blast
  then show ?thesis unfolding arb_round_def run_def o by (auto split: prod.splits)
qed

text \<open>The last wait of \<open>reset_bus\<close>; on a Falcon an untimed wait for the DMA controller comes before it.\<close>

lemma reset_wait_returns:
  "\<exists>w'. st_loop (do { t' \<leftarrow> now H; State_Monad.return (if t' < T then None else Some ()) }) w = Some ((), w')"
proof -
  have "\<exists>r w'. st_loop (do { t' \<leftarrow> now H; State_Monad.return (if t' < T then None else Some ()) }) w = Some (r, w') \<and> True"
    by (rule st_loop_total [where I = "\<lambda>_. True" and m = "\<lambda>w. left T (dev w)"])
      (auto split: prod.splits option.splits if_splits dest: now_before)
  then show ?thesis by simp
qed

lemma tt_reset_returns:
  assumes "has_scsi w = TT_SCSI"
  shows "\<exists>w'. reset_bus C H wr w = Some ((), w')"
proof -
  obtain w2 where "run_state (do { put (scsi_wr H S_icr 0x80); rst_hold_delay H; put (scsi_wr H S_icr 0x00) }) w = ((), w2)"
    by (rule run_unit)
  moreover obtain t w3 where "run_state (now H) w2 = (t, w3)" by (metis surj_pair)
  ultimately show ?thesis
    using assms reset_wait_returns [of "t + CLOCKS_PER_SEC C" w3]
    unfolding reset_bus_def run_def by simp
qed

subsection \<open>The bounded handlers return\<close>

lemma skip_bytes_returns: "\<exists>r w'. skip_bytes H T n w = Some (r, w') \<and> r \<in> {0, PHASE_CHANGE, TIMEOUT_ERROR}"
proof (induction n arbitrary: w)
  case (Suc n)
  obtain r w1 where "receive_byte H T w = Some (r, w1)" "byte_or_error r" using receive_byte_returns by blast
  with Suc.IH [of w1] show ?case by (auto simp: byte_or_error_def)
qed simp

lemma msg_out_tries_returns: "\<exists>r w'. msg_out_tries H T msg n w = Some (r, w') \<and> r \<in> {PHASE_CHANGE, TIMEOUT_ERROR}"
proof (induction n arbitrary: w)
  case (Suc n)
  obtain w1 where "run_state (do { put_data_reg H msg; and_icr_reg H 0xfd }) w = ((), w1)"
    by (rule run_unit)
  moreover obtain r2 w2 where "handshake H T w1 = Some (r2, w2)" "r2 \<in> {0, TIMEOUT_ERROR}"
    using handshake_returns by blast
  moreover obtain r3 w3 where "wait_req H T w2 = Some (r3, w3)" "r3 \<in> {0, PHASE_CHANGE, TIMEOUT_ERROR}"
    using wait_req_returns by blast
  ultimately show ?case using Suc.IH [of w3] by (auto simp: run_def)
qed simp

lemma handle_msg_out_returns: "\<exists>r w'. handle_msg_out C H info w = Some (r, w') \<and> r \<in> {PHASE_CHANGE, TIMEOUT_ERROR}"
proof -
  obtain t w1 where s: "run_state (do { t \<leftarrow> now H; set_output_phase H MSG_OUT_PHASE;
      State_Monad.return (t + CLOCKS_PER_SEC C) }) w = (t, w1)" by (metis surj_pair)
  obtain r w2 where "wait_req H t w1 = Some (r, w2)" "r \<in> {0, PHASE_CHANGE, TIMEOUT_ERROR}"
    using wait_req_returns by blast
  then show ?thesis
    using msg_out_tries_returns [of t "next_msg_out info" 3 w2]
    unfolding handle_msg_out_def run_def s by auto
qed

lemma handle_status_returns:
  "\<exists>r info' w'. handle_status C H info w = Some ((r, info'), w') \<and> r \<in> {0, PHASE_ERROR, TIMEOUT_ERROR}"
proof -
  obtain t w1 where s: "run_state (do { t \<leftarrow> now H; set_input_phase H STATUS_PHASE;
      State_Monad.return (t + CLOCKS_PER_SEC C) }) w = (t, w1)" by (metis surj_pair)
  obtain r w2 where "receive_byte H t w1 = Some (r, w2)" "byte_or_error r"
    using receive_byte_returns by blast
  then show ?thesis
    using wait_phase_change_returns [of t w2]
    unfolding handle_status_def run_def s byte_or_error_def by auto
qed

lemma msg_in_rest_returns:
  "\<exists>r w'. msg_in_rest H t b w = Some (r, w') \<and> r \<in> {0, PHASE_CHANGE, TIMEOUT_ERROR}"
proof -
  obtain n w1 where n: "(if b = EXTENDED_MSG then receive_byte H t w
      else if 0x20 \<le> b \<and> b \<le> 0x2f then Some (2, w) else Some (1, w)) = Some (n, w1)" "byte_or_error n"
  proof (cases "b = EXTENDED_MSG")
    case True
    then show ?thesis using that receive_byte_returns [of t w] by auto
  next
    case False
    then show ?thesis using that [of 2 w] that [of 1 w]
      by (cases "0x20 \<le> b \<and> b \<le> 0x2f") (simp_all only: if_True if_False, auto simp: byte_or_error_def)
  qed
  obtain r2 w2 where "skip_bytes H t (nat (n - 1)) w1 = Some (r2, w2)" "r2 \<in> {0, PHASE_CHANGE, TIMEOUT_ERROR}"
    using skip_bytes_returns by blast
  with n(2) show ?thesis
    using wait_phase_change_returns [of t w2] unfolding msg_in_rest_def n(1) by (auto simp: byte_or_error_def)
qed

lemma handle_msg_in_returns:
  "\<exists>r info' w'. handle_msg_in C H info w = Some ((r, info'), w') \<and> r \<in> {0, PHASE_CHANGE, TIMEOUT_ERROR}"
proof -
  obtain t w1 where s: "run_state (do { t \<leftarrow> now H; set_input_phase H MSG_IN_PHASE;
      State_Monad.return (t + CLOCKS_PER_SEC C) }) w = (t, w1)" by (metis surj_pair)
  obtain r w2 where r: "wait_req H t w1 = Some (r, w2)" "r \<in> {0, PHASE_CHANGE, TIMEOUT_ERROR}"
    using wait_req_returns by blast
  obtain b w3 where b: "run_state (get_data_reg H) w2 = (b, w3)" by (metis surj_pair)
  obtain w4 where w4: "run_state (if b \<noteq> COMMAND_COMPLETE_MSG \<and> b \<noteq> MESSAGE_REJECT_MSG
      then or_icr_reg H 0x02 else State_Monad.return ()) w3 = ((), w4)"
    by (rule run_unit)
  obtain r1 w5 where r1: "handshake H t w4 = Some (r1, w5)" "r1 \<in> {0, TIMEOUT_ERROR}"
    using handshake_returns by blast
  obtain r2 w6 where "msg_in_rest H t b w5 = Some (r2, w6)" "r2 \<in> {0, PHASE_CHANGE, TIMEOUT_ERROR}"
    using msg_in_rest_returns by blast
  with r r1 show ?thesis
    unfolding handle_msg_in_def run_def s Let_def by (simp add: b w4) blast
qed


lemmas waits_return = wait_dma_complete_returns wait_phase_change_returns wait_req_returns handshake_returns
  tt_reset_returns reset_wait_returns bus_free_wait_returns arb_round_returns scsi_select_returns
  send_byte_returns receive_byte_returns [unfolded byte_or_error_def]
  handle_status_returns handle_msg_out_returns handle_msg_in_returns

end

end
