(* ===== verification/Emu_Chip.thy ===== *)
theory Emu_Chip
  imports Emu_Clock Chip_Props
begin

text \<open>
  EmuTOS's driver on the chip: a TT whose 5380 is the model of the part. Every register access
  is one clock of the chip with the host port busy, a delay is clocks with the port idle, and
  the rest of the SCSI bus is any sequence \<open>oth\<close> of drives, one per clock. Around the chip it is an
  example machine, and only that: its 200 Hz counter moves on by one each time it is read, its DMA
  chip keeps what is written to it and moves nothing. Statements on this machine are about the
  chip and the driver's accesses to it.

  That the driver's waits return is shown for every machine that satisfies the contract
  \<open>clocked\<close>, which this one does; and on it a driver that lost arbitration never returns.
\<close>

subsection \<open>The machine\<close>

record tt =
  t_chip :: chip
  t_cyc :: nat
  t_hz :: u32
  t_mem :: "u32 \<Rightarrow> byte"
  t_dmac :: "scsidma_reg \<Rightarrow> byte"

fun reg_addr :: "scsi_reg \<Rightarrow> 3 word" where
  "reg_addr S_data = A_CSD"
| "reg_addr S_icr = A_ICR"
| "reg_addr S_mode = A_MR"
| "reg_addr S_tcr = A_TCR"
| "reg_addr S_bus_status = A_CSB"
| "reg_addr S_dma_status = A_BSR"
| "reg_addr S_reset = A_RPI"

definition tt_clock :: "nat \<Rightarrow> (nat \<Rightarrow> scsi_t) \<Rightarrow> mpu_port \<Rightarrow> tt \<Rightarrow> tt" where
  "tt_clock ps oth p d = d\<lparr>t_chip := sys_step ps p False (oth (t_cyc d)) (t_chip d), t_cyc := Suc (t_cyc d)\<rparr>"

definition tt_read :: "nat \<Rightarrow> (nat \<Rightarrow> scsi_t) \<Rightarrow> scsi_reg \<Rightarrow> tt \<Rightarrow> byte \<times> tt" where
  "tt_read ps oth r d =
     (let p = host_read (reg_addr r)
      in (chip_dat_o p (settle (t_chip d) (oth (t_cyc d))) (t_chip d), tt_clock ps oth p d))"

definition tt_hw :: "nat \<Rightarrow> (nat \<Rightarrow> scsi_t) \<Rightarrow> tt emu_hw" where
  "tt_hw ps oth = \<lparr>
     scsi_rd = tt_read ps oth,
     scsi_wr = (\<lambda>r v. tt_clock ps oth (host_write (reg_addr r) v)),
     scsidma_rd = (\<lambda>q d. (t_dmac d q, d)),
     scsidma_wr = (\<lambda>q v d. d\<lparr>t_dmac := (t_dmac d)(q := v)\<rparr>),
     scsidma_residue = (\<lambda>d. (0, d)),
     fdma_control = (\<lambda>_ d. d), fdma_data_rd = (\<lambda>d. (0, d)), fdma_data_wr = (\<lambda>_ d. d), fdma_modectl = (\<lambda>d. (0, d)),
     tt_gpip = (\<lambda>d. (if irq_q (u_bus (t_chip d)) then 0xa0 else 0x20, d)),
     mfp_gpip = (\<lambda>d. (0, d)),
     hz_200 = (\<lambda>d. (t_hz d, d\<lparr>t_hz := t_hz d + 1\<rparr>)),
     delay_loop = (\<lambda>n. tt_clock ps oth no_access ^^ unat n),
     mem_rd = (\<lambda>a d. (t_mem d a, d)),
     mem_wr = (\<lambda>a v d. d\<lparr>t_mem := (t_mem d)(a := v)\<rparr>),
     set_dma_addr = (\<lambda>_ d. d), flush_data_cache = (\<lambda>_ _ d. d), invalidate_data_cache = (\<lambda>_ _ d. d),
     set_flock = (\<lambda>_ d. d), check_read_byte = (\<lambda>_ d. (True, d)), nvmaccess = (\<lambda>d. ((-1, 0), d)),
     get_frb_cookie = (\<lambda>d. (0, d))\<rparr>"

lemma tt_clock_sel [simp]:
  "t_chip (tt_clock ps oth p d) = sys_step ps p False (oth (t_cyc d)) (t_chip d)"
  "t_hz (tt_clock ps oth p d) = t_hz d"
  by (simp_all add: tt_clock_def)

text \<open>The time left to a deadline: how far the counter is below it.\<close>

definition tt_left :: "u32 \<Rightarrow> tt \<Rightarrow> nat" where
  "tt_left T d = unat T - unat (t_hz d)"

interpretation tt: clocked "tt_hw ps oth" tt_left for ps oth
proof
  fix T t d d'
  assume "hz_200 (tt_hw ps oth) d = (t, d')" and "t < T"
  then have t: "t = t_hz d" "t_hz d' = t + 1" by (auto simp: tt_hw_def)
  have "t \<noteq> -1" using \<open>t < T\<close> word_order.extremum [of T] by auto
  then have "1 + t \<noteq> 0" by (metis add.commute eq_neg_iff_add_eq_0)
  from unatSuc [OF this] have "unat (t + 1) = unat t + 1" by (simp add: add.commute)
  with t \<open>t < T\<close> show "tt_left T d' < tt_left T d"
    by (simp add: tt_left_def word_less_nat_alt)
qed (simp_all add: tt_hw_def tt_left_def tt_read_def Let_def)

text \<open>A configuration, for concrete runs.\<close>

definition tos_conf :: emu_conf where
  "tos_conf = \<lparr>CONF_WITH_SCSI = True, CONF_WITH_NVRAM = True, CONF_WITH_FRB = True, CONF_WITH_SCSI_DRIVER = True,
     HAS_VIDEL = False, CLOCKS_PER_SEC = 200, SECTOR_SIZE = 512, DMA_MCBIT3 = 8, WRITE_MODE = 1, DMA_MODE = 2,
     RW_RW = 1, RW_WRITE = 1, READ6 = 0x08, WRITE6 = 0x0a, READ10 = 0x28, WRITE10 = 0x2a, REQUEST_SENSE = 0x03,
     INQUIRY = 0x12, READ_CAPACITY = 0x25, REQSENSE_LENGTH = 16, INQUIRY_LENGTH = 32, READCAP_LENGTH = 8,
     E_OK = 0, ERR = -1, E_CHNG = -14, EDRVNR = -2, EBADRQ = -5, EWRPRO = -13, EGENRL = -12, EUNDEV = -15,
     MEDIANOCHANGE = 0, GET_DISKINFO = 10, GET_DISKNAME = 11, GET_MEDIACHANGE = 12, CHECK_DEVICE = 13,
     FRB_SECS = 128, DSKBUF_SECS = 2, dskbufp = 0x2000, IS_ODD_POINTER = (\<lambda>p. p AND 1 \<noteq> 0),
     IS_STRAM_POINTER = (\<lambda>p. p < 0x1000000), MAKE_UWORD = (\<lambda>h l. push_bit 8 (ucast h) OR ucast l),
     loopcount_1_msec = 1000, reqsense_buffer = 0x3000, inquiry_buffer = 0x3100, cdb_area = 0x3200\<rparr>"

text \<open>A driver on this machine.\<close>

definition tt_driver :: "chip \<Rightarrow> tt emu" where
  "tt_driver c = \<lparr>has_scsi = TT_SCSI, hostid_bit = 0x80, device_exists = 0, arbitration_delay_count = 2,
     bus_clear_count = 1, bus_settle_count = 1, deskew2_count = 1, rst_hold_count = 10, toggle_delay_count = 2,
     dev = \<lparr>t_chip = c, t_cyc = 0, t_hz = 0, t_mem = (\<lambda>_. 0), t_dmac = (\<lambda>_. 0)\<rparr>\<rparr>"

subsection \<open>The waits return\<close>

text \<open>C25: On every machine on which time passes (the contract \<open>clocked\<close>), Falcon or TT, and whatever the
  bus does, every timed wait of the driver returns, with a documented result: the end of a DMA
  transfer, the change of phase, REQ, the handshake of a byte, the wait after a bus reset (and on a
  TT the whole reset), BUS FREE, arbitration in progress, and selection; and with them the
  transfer of a byte and the handlers of the STATUS, MESSAGE OUT and MESSAGE IN phases, whose
  loops are bounded.\<close>

theorem driver_waits_return:
  assumes "clocked H left"
  shows "(\<exists>r w'. wait_dma_complete H T w = Some (r, w') \<and> r \<in> {0, BUS_ERROR, TIMEOUT_ERROR}) \<and>
   (\<exists>r w'. wait_phase_change H T w = Some (r, w') \<and> r \<in> {0, TIMEOUT_ERROR}) \<and>
   (\<exists>r w'. wait_req H T w = Some (r, w') \<and> r \<in> {0, PHASE_CHANGE, TIMEOUT_ERROR}) \<and>
   (\<exists>r w'. handshake H T w = Some (r, w') \<and> r \<in> {0, TIMEOUT_ERROR}) \<and>
   (\<exists>w'. st_loop (do { t' \<leftarrow> now H; State_Monad.return (if t' < T then None else Some ()) }) w = Some ((), w')) \<and>
   (has_scsi w = TT_SCSI \<longrightarrow> (\<exists>w'. reset_bus C H wr w = Some ((), w'))) \<and>
   (\<exists>r w'. st_loop (timed H T (bus_bit H 0x40) BUSFREE_ERROR) w = Some (r, w') \<and> r \<in> {0, BUSFREE_ERROR}) \<and>
   ((\<exists>w'. arb_round H w = Some (Inl w')) \<or> (\<exists>r w'. arb_round H w = Some (Inr (r, w')) \<and> r \<in> {0, ARBITRATE_ERROR})) \<and>
   (\<exists>r w'. scsi_select C H device w = Some (r, w') \<and> r \<in> {0, SELECT_ERROR}) \<and>
   (\<exists>r w'. send_byte H x T w = Some (r, w') \<and> r \<in> {0, PHASE_CHANGE, TIMEOUT_ERROR}) \<and>
   (\<exists>r w'. receive_byte H T w = Some (r, w') \<and> (0 \<le> r \<and> r < 256 \<or> r = PHASE_CHANGE \<or> r = TIMEOUT_ERROR)) \<and>
   (\<exists>r info' w'. handle_status C H info w = Some ((r, info'), w') \<and> r \<in> {0, PHASE_ERROR, TIMEOUT_ERROR}) \<and>
   (\<exists>r w'. handle_msg_out C H info w = Some (r, w') \<and> r \<in> {PHASE_CHANGE, TIMEOUT_ERROR}) \<and>
   (\<exists>r info' w'. handle_msg_in C H info w = Some ((r, info'), w') \<and> r \<in> {0, PHASE_CHANGE, TIMEOUT_ERROR})"
  by (intro conjI impI clocked.waits_return [OF assms])

text \<open>The TT with the chip satisfies the contract: there a driver that resets the bus gets through.\<close>

theorem driver_waits_return_witness:
  "clocked (tt_hw 20000 (\<lambda>_. scsi_idle)) tt_left \<and>
   (\<exists>w'. reset_bus tos_conf (tt_hw 20000 (\<lambda>_. scsi_idle)) True (tt_driver chip_reset) = Some ((), w'))"
proof
  show c: "clocked (tt_hw 20000 (\<lambda>_. scsi_idle)) tt_left" by (rule tt.clocked_axioms)
  show "\<exists>w'. reset_bus tos_conf (tt_hw 20000 (\<lambda>_. scsi_idle)) True (tt_driver chip_reset) = Some ((), w')"
    using driver_waits_return [OF c, where w = "tt_driver chip_reset" and C = tos_conf and wr = True]
    by (simp add: tt_driver_def)
qed

subsection \<open>Lost arbitration\<close>

text \<open>
  A chip that has lost arbitration: LOST ARBITRATION is reported, ARBITRATE is set, and
  nobody resets the bus. The first two last as long as ARBITRATE does.
\<close>

definition lost_arb :: "chip \<Rightarrow> bool" where
  "lost_arb c \<longleftrightarrow> arb_active (u_bus c) \<and> la_q (u_bus c) \<and> bit (mr_q (u_regs c)) MR_ARB_B \<and> \<not> bit (icr_q (u_regs c)) ICR_RST_B"

text \<open>An access that neither clears ARBITRATE nor asserts RST.\<close>

definition keeps_arb :: "mpu_port \<Rightarrow> bool" where
  "keeps_arb p \<longleftrightarrow> (stb_i p \<and> we_i p \<and> \<not> dack_i p \<longrightarrow>
     (adr_i p = A_MR \<longrightarrow> bit (dat_i p) MR_ARB_B) \<and> (adr_i p = A_ICR \<longrightarrow> \<not> bit (dat_i p) ICR_RST_B))"

lemma lost_arb_step:
  assumes "lost_arb c" "keeps_arb p" "\<not> l_rst oth"
  shows "lost_arb (sys_step ps p eop oth c)"
proof -
  let ?b = "settle c oth"
  have "\<not> l_rst ?b"
    using assms(1,3) by (subst settle_fixpoint_aux) (simp add: chip_drive_def drive_o_ctrl lost_arb_def scsi_or_def)
  then have nr: "\<not> scsi_rst_int (u_bus c) ?b" by (simp add: scsi_rst_int_def)
  have addr: "A_MR \<noteq> A_ODR" "A_MR \<noteq> A_ICR" "A_ICR \<noteq> A_ODR" by (simp_all add: addr_defs)
  have "bit (mr_q (regs_write bsy p (u_regs c))) 0" "\<not> bit (icr_q (regs_write bsy p (u_regs c))) 7"
    if "stb_i p \<and> we_i p" for bsy
    using assms(1,2) that addr by (auto simp: regs_write_def keeps_arb_def lost_arb_def)
  then show ?thesis
    using assms(1) nr unfolding sys_step_def lost_arb_def
    by (auto simp: regs_step_def Let_def bit_mask_c0 arb_next_def arbitrate_def)
qed

lemma read_keeps [simp]: "keeps_arb (host_read a)" "keeps_arb no_access"
  by (simp_all add: keeps_arb_def port_defs)

text \<open>A driver state in which the chip has lost, and programs that keep it so.\<close>

definition stuck :: "tt emu \<Rightarrow> bool" where
  "stuck w \<longleftrightarrow> has_scsi w = TT_SCSI \<and> lost_arb (t_chip (dev w))"

definition keeps :: "(tt emu, 'a) state \<Rightarrow> ('a \<Rightarrow> bool) \<Rightarrow> bool" where
  "keeps m P \<longleftrightarrow> (\<forall>w. stuck w \<longrightarrow> stuck (snd (run_state m w)) \<and> P (fst (run_state m w)))"

lemma keeps_bind:
  "keeps m P \<Longrightarrow> (\<And>x. P x \<Longrightarrow> keeps (f x) Q) \<Longrightarrow> keeps (State_Monad.bind m f) Q"
  unfolding keeps_def by (auto split: prod.splits)

lemma keeps_return: "P x \<Longrightarrow> keeps (State_Monad.return x) P"
  by (simp add: keeps_def)

lemma keeps_is_tt: "keeps (do { tt \<leftarrow> is_tt; if tt then m else n }) P = keeps m P"
  by (auto simp: keeps_def is_tt_def var_def stuck_def)

lemma keeps_var: "keeps (var f) (\<lambda>_. True)"
  by (simp add: keeps_def var_def)

lemma keeps_run: "keeps m P \<Longrightarrow> stuck w \<Longrightarrow> run_state m w = (x, w') \<Longrightarrow> stuck w' \<and> P x"
  unfolding keeps_def by (metis fst_conv snd_conv)

text \<open>The machine, with a bus nobody resets.\<close>

lemma keeps_write:
  assumes "\<And>n. \<not> l_rst (oth n)" "keeps_arb (host_write (reg_addr r) v)"
  shows "keeps (put (scsi_wr (tt_hw ps oth) r v)) (\<lambda>_. True)"
  using assms by (auto simp: keeps_def put_def tt_hw_def stuck_def lost_arb_step)

lemma keeps_read:
  assumes "\<And>n. \<not> l_rst (oth n)"
    and "\<And>c b. lost_arb c \<Longrightarrow> P (chip_dat_o (host_read (reg_addr r)) b c)"
  shows "keeps (get (scsi_rd (tt_hw ps oth) r)) P"
  using assms by (auto simp: keeps_def get_def tt_hw_def tt_read_def stuck_def lost_arb_step Let_def)

lemma lost_arb_delay:
  assumes "\<And>n. \<not> l_rst (oth n)" "lost_arb (t_chip d)"
  shows "lost_arb (t_chip ((tt_clock ps oth no_access ^^ k) d))"
  using assms(2) by (induction k) (simp_all add: lost_arb_step assms(1))

lemma keeps_pause:
  assumes "\<And>n. \<not> l_rst (oth n)"
  shows "keeps (pause (tt_hw ps oth) f) (\<lambda>_. True)"
  using lost_arb_delay [OF assms]
  by (simp add: keeps_def pause_def var_def put_def tt_hw_def stuck_def)

lemma keeps_now: "keeps (now (tt_hw ps oth)) (\<lambda>_. True)"
  by (simp add: keeps_def now_def get_def tt_hw_def stuck_def)

text \<open>What a chip that has lost reads: AIP and LOST ARBITRATION both set, ARBITRATE in the mode register.\<close>

lemma lost_arb_icr:
  assumes "lost_arb c"
  shows "chip_dat_o (host_read (reg_addr S_icr)) b c AND 0x40 \<noteq> 0 \<and> chip_dat_o (host_read (reg_addr S_icr)) b c AND 0x20 \<noteq> 0"
  using assms
  by (simp add: chip_dat_o_def regs_dat_o_def host_read_def addr_defs byte_masks bit_icr_rd report_def
      aip_o_def la_o_def arbitrating_def arbitrate_def lost_arb_def)

lemma keeps_icr:
  assumes "\<And>n. \<not> l_rst (oth n)"
  shows "keeps (get_icr_reg (tt_hw ps oth)) (\<lambda>i. i AND 0x40 \<noteq> 0 \<and> i AND 0x20 \<noteq> 0)"
  unfolding get_icr_reg_def keeps_is_tt by (rule keeps_read [OF assms]) (rule lost_arb_icr)

lemma keeps_put_icr:
  assumes "\<And>n. \<not> l_rst (oth n)" "\<not> bit v 7"
  shows "keeps (put_icr_reg (tt_hw ps oth) v) (\<lambda>_. True)"
  unfolding put_icr_reg_def keeps_is_tt
  using assms(2) by (intro keeps_write [OF assms(1)])
    (simp add: keeps_arb_def host_write_def addr_defs bit_ucast_iff)

lemma keeps_put_data:
  assumes "\<And>n. \<not> l_rst (oth n)"
  shows "keeps (put_data_reg (tt_hw ps oth) v) (\<lambda>_. True)"
  unfolding put_data_reg_def keeps_is_tt
  by (intro keeps_write [OF assms]) (simp add: keeps_arb_def host_write_def addr_defs)

lemma keeps_set_arbitrate:
  assumes "\<And>n. \<not> l_rst (oth n)"
  shows "keeps (or_mode_reg (tt_hw ps oth) 0x01) (\<lambda>_. True)"
  unfolding or_mode_reg_def keeps_is_tt tt_or_def
  by (intro keeps_bind [OF keeps_read [OF assms, where P = "\<lambda>_. True"]] keeps_write [OF assms])
    (simp_all add: keeps_arb_def host_write_def addr_defs bit_or_iff)

lemma keeps_offer:
  assumes "\<And>n. \<not> l_rst (oth n)"
  shows "keeps (offer_id (tt_hw ps oth)) (\<lambda>_. True)"
  unfolding offer_id_def
  by (intro keeps_bind [OF keeps_put_icr [OF assms]] keeps_bind [OF keeps_var] keeps_bind [OF keeps_put_data [OF assms]]
      keeps_bind [OF keeps_set_arbitrate [OF assms]] keeps_bind [OF keeps_now] keeps_return) simp_all

text \<open>The wait for AIP ends at its first look, and the driver sees that it lost, again.\<close>

lemma arb_round_again:
  assumes nr: "\<And>n. \<not> l_rst (oth n)" and w: "stuck w"
  shows "\<exists>w'. arb_round (tt_hw ps oth) w = Some (Inl w') \<and> stuck w'"
proof -
  let ?H = "tt_hw ps oth"
  obtain t w1 where o: "run_state (offer_id ?H) w = (t, w1)" by (metis surj_pair)
  have w1: "stuck w1" using keeps_run [OF keeps_offer [OF nr] w o] by simp
  obtain i w2 where i: "run_state (get_icr_reg ?H) w1 = (i, w2)" by (metis surj_pair)
  have w2: "stuck w2" "i AND 0x40 \<noteq> 0" using keeps_run [OF keeps_icr [OF nr] w1 i] by simp_all
  have aip: "st_loop (timed ?H t (do { i \<leftarrow> get_icr_reg ?H; State_Monad.return (i AND 0x40 = 0) }) ARBITRATE_ERROR) w1 = Some (0, w2)"
    unfolding st_loop_def by (subst c_loop.simps) (simp add: timed_def i w2(2))
  have "keeps (do { arbitration_delay ?H; lost_arbitration ?H }) (\<lambda>l. l)"
    unfolding arbitration_delay_def lost_arbitration_def
    by (intro keeps_bind [OF keeps_pause [OF nr]] keeps_bind [OF keeps_icr [OF nr]] keeps_return) simp
  moreover obtain l w3 where l: "run_state (do { arbitration_delay ?H; lost_arbitration ?H }) w2 = (l, w3)"
    by (metis surj_pair)
  ultimately have "stuck w3" "l" using keeps_run [OF _ w2(1) l] by blast+
  then show ?thesis unfolding arb_round_def run_def o by (simp add: aip l del: run_state_bind)
qed

text \<open>C26: On a TT with the chip, a driver that has lost arbitration retries forever: \<open>scsi_arbitrate\<close>
  offers its id again without clearing ARBITRATE, LOST ARBITRATION stays set, and the loop never
  ends unless somebody resets the bus.\<close>

theorem lost_arbitration_never_returns:
  assumes "\<And>n. \<not> l_rst (oth n)" and "has_scsi w = TT_SCSI" and "lost_arb (t_chip (dev w))"
  shows "c_loop (arb_round (tt_hw ps oth)) w = None"
  by (rule c_loop_None [where I = stuck]) (use assms arb_round_again in \<open>simp_all add: stuck_def\<close>)

text \<open>A bus on which nobody else drives anything, and a TT whose chip has just lost.\<close>

definition quiet_bus :: scsi_t where
  "quiet_bus = \<lparr>l_rst = False, l_bsy = False, l_sel = False, l_req = False, l_ack = False, l_atn = False,
     l_msg = False, l_cd = False, l_io = False, l_data = 0, l_dbp = False\<rparr>"

definition loser :: chip where
  "loser = \<lparr>u_regs = regs_reset\<lparr>mr_q := 0x01, icr_q := 0x01, odr_q := 0x80\<rparr>,
     u_bus = bus_reset\<lparr>arb_active := True, la_q := True\<rparr>\<rparr>"

theorem lost_arbitration_never_returns_witness:
  "c_loop (arb_round (tt_hw 10000 (\<lambda>_. quiet_bus))) (tt_driver loser) = None"
  by (rule lost_arbitration_never_returns)
    (simp_all add: quiet_bus_def tt_driver_def loser_def lost_arb_def regs_reset_def)

end
