(* ===== verification/Emu_Props.thy ===== *)
theory Emu_Props
  imports Emu_Chip
begin

text \<open>
  The properties of EmuTOS's SCSI driver that span its levels: the read and write commands it
  builds, the way \<open>scsi_rw\<close> cuts a transfer, the driver's own variables, and the bus as a command
  leaves it on a TT with the chip.
\<close>

subsection \<open>Read and write commands\<close>

text \<open>
  How a target reads a READ or WRITE command: the block address and the number of blocks, where
  the six-byte form holds 21 bits of address and counts 256 blocks as 0.
\<close>

definition cdb_lba :: "byte list \<Rightarrow> nat" where
  "cdb_lba cdb = (if length cdb = 6
     then unat (cdb ! 1 AND 0x1f) * 2 ^ 16 + unat (cdb ! 2) * 2 ^ 8 + unat (cdb ! 3)
     else unat (cdb ! 2) * 2 ^ 24 + unat (cdb ! 3) * 2 ^ 16 + unat (cdb ! 4) * 2 ^ 8 + unat (cdb ! 5))"

definition cdb_blocks :: "byte list \<Rightarrow> nat" where
  "cdb_blocks cdb = (if length cdb = 6 then (if cdb ! 4 = 0 then 256 else unat (cdb ! 4))
     else unat (cdb ! 7) * 2 ^ 8 + unat (cdb ! 8))"

lemma unat_byte: "unat (ucast x :: byte) = unat x mod 256" for x :: "'a::len word"
  by (simp add: unsigned_ucast_eq unsigned_take_bit_eq take_bit_eq_mod)

lemma unat_drop: "unat (drop_bit k x) = unat x div 2 ^ k" for x :: "'a::len word"
  by (subst unat_drop_bit_eq) (simp add: drop_bit_eq_div)

lemma join_bytes:
  fixes n :: nat
  shows "n < 65536 \<Longrightarrow> n div 256 mod 256 * 256 + n mod 256 = n"
    and "n < 16777216 \<Longrightarrow> n div 65536 mod 256 * 65536 + n div 256 mod 256 * 256 + n mod 256 = n"
    and "n < 4294967296 \<Longrightarrow> n div 16777216 mod 256 * 16777216 + n div 65536 mod 256 * 65536
      + n div 256 mod 256 * 256 + n mod 256 = n"
proof -
  define a b c where "a = n div 256" and "b = a div 256" and "c = b div 256"
  have div: "n div 65536 = b" "n div 16777216 = c"
    by (simp_all add: a_def b_def c_def div_mult2_eq [symmetric])
  have n: "n = a * 256 + n mod 256" and a: "a = b * 256 + a mod 256" and b: "b = c * 256 + b mod 256"
    by (simp_all add: a_def b_def c_def)
  show "n < 65536 \<Longrightarrow> n div 256 mod 256 * 256 + n mod 256 = n"
    using n a by (simp add: a_def [symmetric] less_mult_imp_div_less)
  show "n < 16777216 \<Longrightarrow> n div 65536 mod 256 * 65536 + n div 256 mod 256 * 256 + n mod 256 = n"
    unfolding div a_def [symmetric] using n a b by (cases "c = 0") auto
  show "n < 4294967296 \<Longrightarrow> n div 16777216 mod 256 * 16777216 + n div 65536 mod 256 * 65536
      + n div 256 mod 256 * 256 + n mod 256 = n"
    unfolding div a_def [symmetric] using n a b by (cases "c < 256") auto
qed

lemma mask_1f: "unat (w AND 0x1f) = unat w mod 32" for w :: "'a::len word"
proof -
  have "w AND 0x1f = take_bit 5 w" by (simp add: take_bit_eq_mask mask_eq_exp_minus_1)
  moreover have "unat (take_bit 5 w) = unat w mod 32"
    by (subst unsigned_take_bit_eq) (simp add: take_bit_eq_mod)
  ultimately show ?thesis by (simp only:)
qed

text \<open>C16: The command \<open>build_rw_command\<close> builds means, to a target, exactly the sectors asked for: for
  every start sector and every count but 0 the address and the number of blocks it encodes are
  the arguments, in six bytes whenever they fit and in ten otherwise.\<close>

theorem build_rw_command_roundtrip:
  assumes "count \<noteq> 0"
  shows "cdb_lba (build_rw_command C rw sector count) = unat sector \<and>
    cdb_blocks (build_rw_command C rw sector count) = unat count \<and>
    length (build_rw_command C rw sector count) = (if unat sector < 2 ^ 21 \<and> unat count < 2 ^ 8 then 6 else 10)"
proof -
  have lt: "unat sector < 4294967296" "unat count < 65536"
    using unsigned_less [of sector, where ?'a = nat] unsigned_less [of count, where ?'a = nat] by simp_all
  have small: "sector \<le> 0x1fffff \<and> count \<le> 255 \<longleftrightarrow> unat sector < 2 ^ 21 \<and> unat count < 2 ^ 8"
    by (auto simp: word_le_nat_alt)
  have pos: "unat count \<noteq> 0" using assms by (simp add: unat_eq_zero)
  show ?thesis
  proof (cases "unat sector < 2 ^ 21 \<and> unat count < 2 ^ 8")
    case True
    then have "unat sector div 65536 < 32" by (simp add: less_mult_imp_div_less)
    then show ?thesis using True small pos join_bytes(2) [of "unat sector"]
      by (simp add: unat_eq_zero [symmetric] del: unat_eq_zero add: build_rw_command_def cdb_lba_def cdb_blocks_def unat_byte unat_drop mask_1f)
  next
    case False
    then have big: "\<not> (sector \<le> 0x1fffff \<and> count \<le> 255)" using small by simp
    show ?thesis using False lt join_bytes(1) [of "unat count"] join_bytes(3) [of "unat sector"]
      unfolding build_rw_command_def if_not_P [OF big] by (simp add: cdb_lba_def cdb_blocks_def unat_byte unat_drop)
  qed
qed

theorem build_rw_command_roundtrip_witness:
  "cdb_lba (build_rw_command tos_conf 0 0x123456 255) = 0x123456 \<and> cdb_blocks (build_rw_command tos_conf 0 0x123456 256) = 256"
  using build_rw_command_roundtrip [of 255 tos_conf 0 "0x123456"] build_rw_command_roundtrip [of 256 tos_conf 0 "0x123456"] by simp

subsection \<open>Cutting a transfer\<close>

text \<open>The requests a transfer is cut into: start sector, sectors, buffer address.\<close>

function requests :: "emu_conf \<Rightarrow> u16 \<Rightarrow> u16 \<Rightarrow> u32 \<Rightarrow> u32 \<Rightarrow> (u32 \<times> u16 \<times> u32) list" where
  "requests C maxsecs count sector buf =
     (if count = 0 \<or> maxsecs = 0 then []
      else let n = (if count > maxsecs then maxsecs else count)
        in (sector, n, buf) # requests C maxsecs (count - n) (sector + ucast n) (buf + ucast n * SECTOR_SIZE C))"
  by pat_completeness auto
termination
proof (relation "measure (\<lambda>(_, _, count, _, _). unat count)")
  fix C :: emu_conf and maxsecs count n :: u16 and sector buf :: u32
  assume "\<not> (count = 0 \<or> maxsecs = 0)" and n: "n = (if count > maxsecs then maxsecs else count)"
  then have "n \<le> count" "0 < unat n" by (auto simp: unat_gt_0)
  then have "unat (count - n) < unat count" by (simp add: unat_sub word_le_nat_alt)
  then show "((C, maxsecs, count - n, sector + ucast n, buf + ucast n * SECTOR_SIZE C), C, maxsecs, count, sector, buf)
      \<in> measure (\<lambda>(_, _, count, _, _). unat count)" by simp
qed simp

declare requests.simps [simp del]

text \<open>Carrying out a list of requests: each tried twice, the first failure ends the transfer.\<close>

fun perform :: "emu_conf \<Rightarrow> 'd emu_hw \<Rightarrow> u16 \<Rightarrow> nat \<Rightarrow> u32 option \<Rightarrow> (u32 \<times> u16 \<times> u32) list \<Rightarrow> 'd emu \<Rightarrow> (int \<times> 'd emu) option" where
  "perform C H rw device tmp [] w = Some (0, w)"
| "perform C H rw device tmp ((sector, n, buf) # rs) w = do {
     let p = (case tmp of None \<Rightarrow> buf | Some t \<Rightarrow> t);
     let len = unat (ucast n * SECTOR_SIZE C);
     (_, w1) \<leftarrow> run (bounce_out H rw tmp p buf len) w;
     (ret, w2) \<leftarrow> rw_retry C H rw sector n p device 2 0 w1;
     if ret \<noteq> 0 then Some (ret, w2)
     else do {
       (_, w3) \<leftarrow> run (bounce_in H rw tmp p buf len) w2;
       perform C H rw device tmp rs w3 } }"

lemma rw_retry_start: "rw_retry C H rw sector n p device (Suc k) ret w = rw_retry C H rw sector n p device (Suc k) ret' w"
  by simp

lemma rw_loop_performs:
  "maxsecs \<noteq> 0 \<Longrightarrow> c_loop (rw_chunk C H rw device maxsecs tmp) (count, sector, buf, 0, w) =
     perform C H rw device tmp (requests C maxsecs count sector buf) w"
proof (induction C maxsecs count sector buf arbitrary: w rule: requests.induct)
  case (1 C maxsecs count sector buf)
  define n where "n = (if count > maxsecs then maxsecs else count)"
  show ?case
  proof (cases "count = 0")
    case True
    then show ?thesis by (subst c_loop.simps) (simp add: rw_chunk_def requests.simps)
  next
    case False
    let ?p = "case tmp of None \<Rightarrow> buf | Some t \<Rightarrow> t"
    let ?len = "unat (ucast n * SECTOR_SIZE C)"
    have IH: "c_loop (rw_chunk C H rw device maxsecs tmp) (count - n, sector + ucast n, buf + ucast n * SECTOR_SIZE C, 0, w) =
       perform C H rw device tmp (requests C maxsecs (count - n) (sector + ucast n) (buf + ucast n * SECTOR_SIZE C)) w" for w
      using 1 False unfolding n_def by simp
    have rs: "requests C maxsecs count sector buf =
       (sector, n, buf) # requests C maxsecs (count - n) (sector + ucast n) (buf + ucast n * SECTOR_SIZE C)"
      using False 1(2) unfolding n_def by (subst requests.simps) (simp only: Let_def if_False simp_thms)
    obtain w1 where w1: "run_state (bounce_out H rw tmp ?p buf ?len) w = ((), w1)"
      by (rule run_unit)
    show ?thesis
    proof (cases "rw_retry C H rw sector n ?p device 2 0 w1")
      case None
      then show ?thesis unfolding rs
        by (subst c_loop.simps) (simp add: rw_chunk_def False n_def [symmetric] Let_def run_def w1 del: rw_retry.simps)
    next
      case (Some a)
      then obtain ret w2 where r: "rw_retry C H rw sector n ?p device 2 0 w1 = Some (ret, w2)" by (cases a) auto
      obtain w3 where w3: "run_state (bounce_in H rw tmp ?p buf ?len) w2 = ((), w3)"
        by (rule run_unit)
      show ?thesis unfolding rs
        by (subst c_loop.simps) (simp add: rw_chunk_def False n_def [symmetric] Let_def run_def w1 r w3 IH del: rw_retry.simps)
    qed
  qed
qed

text \<open>The sectors the requests before the \<open>i\<close>-th move.\<close>

definition moved :: "(u32 \<times> u16 \<times> u32) list \<Rightarrow> nat \<Rightarrow> nat" where
  "moved rs i = sum_list (map (\<lambda>(_, n, _). unat n) (take i rs))"

lemma moved_simps [simp]:
  "moved rs 0 = 0" "moved ((s, n, b) # rs) (Suc i) = unat n + moved rs i" "moved [] i = 0"
  by (simp_all add: moved_def)

lemma requests_total:
  "maxsecs \<noteq> 0 \<Longrightarrow> moved (requests C maxsecs count sector buf) (length (requests C maxsecs count sector buf)) = unat count"
proof (induction C maxsecs count sector buf rule: requests.induct)
  case (1 C maxsecs count sector buf)
  have "unat (count - maxsecs) = unat count - unat maxsecs" "unat maxsecs \<le> unat count" if "maxsecs < count"
    using that by (simp_all add: unat_sub word_le_nat_alt word_less_nat_alt)
  then show ?case
    using 1 by (subst (1 2) requests.simps) (auto simp: Let_def requests.simps)
qed

lemma requests_nth:
  assumes "maxsecs \<noteq> 0" "i < length (requests C maxsecs count sector buf)"
  shows "\<exists>n. requests C maxsecs count sector buf ! i =
      (sector + of_nat (moved (requests C maxsecs count sector buf) i), n,
       buf + of_nat (moved (requests C maxsecs count sector buf) i) * SECTOR_SIZE C) \<and> n \<noteq> 0 \<and> n \<le> maxsecs"
  using assms
proof (induction C maxsecs count sector buf arbitrary: i rule: requests.induct)
  case (1 C maxsecs count sector buf)
  define n where "n = (if count > maxsecs then maxsecs else count)"
  let ?rest = "requests C maxsecs (count - n) (sector + ucast n) (buf + ucast n * SECTOR_SIZE C)"
  have c: "count \<noteq> 0" using 1(3) by (auto simp: requests.simps)
  have rs: "requests C maxsecs count sector buf = (sector, n, buf) # ?rest"
    using c 1(2) unfolding n_def by (subst requests.simps) (simp only: Let_def if_False simp_thms)
  have n: "n \<noteq> 0" "n \<le> maxsecs" using c 1(2) by (auto simp: n_def)
  show ?case
  proof (cases i)
    case 0
    then show ?thesis unfolding rs using n by simp
  next
    case (Suc j)
    with 1(3) rs have "j < length ?rest" by simp
    with 1(1) [OF _ n_def 1(2)] c 1(2) obtain m where "?rest ! j = (sector + ucast n + of_nat (moved ?rest j), m,
        buf + ucast n * SECTOR_SIZE C + of_nat (moved ?rest j) * SECTOR_SIZE C)" "m \<noteq> 0" "m \<le> maxsecs" by blast
    then show ?thesis unfolding rs Suc by (simp add: algebra_simps)
  qed
qed

lemma rw_plan_nonzero:
  assumes "FRB_SECS C \<noteq> 0" "DSKBUF_SECS C \<noteq> 0" "run_state (rw_plan C H buf) w = ((maxsecs, tmp), w1)"
  shows "maxsecs \<noteq> 0"
  using assms by (auto simp: rw_plan_def is_tt_def var_def Let_def split: if_splits prod.splits)

text \<open>C13: \<open>scsi_rw\<close> is the abstract transfer: it plans once, cuts the sectors into requests and carries
  them out in order, twice at most each and up to the first failure, on every machine whose
  intermediate buffers hold at least a sector. The requests cover the transfer: they follow
  each other without a gap, none is empty or larger than the limit, and they add up.\<close>

theorem scsi_rw_refines:
  assumes "FRB_SECS C \<noteq> 0" "DSKBUF_SECS C \<noteq> 0" "run_state (rw_plan C H buf) w = ((maxsecs, tmp), w1)"
    and "rs = requests C maxsecs count sector buf"
  shows "scsi_rw C H rw sector count buf device w = perform C H (rw AND RW_RW C) device tmp rs w1 \<and>
    moved rs (length rs) = unat count \<and>
    (\<forall>i<length rs. \<exists>n. rs ! i = (sector + of_nat (moved rs i), n, buf + of_nat (moved rs i) * SECTOR_SIZE C) \<and>
       n \<noteq> 0 \<and> n \<le> maxsecs)"
proof (intro conjI)
  have m: "maxsecs \<noteq> 0" using rw_plan_nonzero [OF assms(1-3)] .
  show "scsi_rw C H rw sector count buf device w = perform C H (rw AND RW_RW C) device tmp rs w1"
    unfolding scsi_rw_def Let_def run_def assms(3,4) by (simp add: rw_loop_performs [OF m])
  show "moved rs (length rs) = unat count" unfolding assms(4) by (rule requests_total [OF m])
  show "\<forall>i<length rs. \<exists>n. rs ! i = (sector + of_nat (moved rs i), n, buf + of_nat (moved rs i) * SECTOR_SIZE C) \<and>
       n \<noteq> 0 \<and> n \<le> maxsecs"
    unfolding assms(4) using requests_nth [OF m] by blast
qed

theorem scsi_rw_refines_witness:
  "scsi_rw tos_conf (tt_hw 10000 (\<lambda>_. quiet_bus)) 0 5 3 0x1000 0 (tt_driver chip_reset) =
     perform tos_conf (tt_hw 10000 (\<lambda>_. quiet_bus)) 0 0 None [(5, 3, 0x1000)] (tt_driver chip_reset)"
proof -
  let ?H = "tt_hw 10000 (\<lambda>_. quiet_bus)"
  have plan: "run_state (rw_plan tos_conf ?H 0x1000) (tt_driver chip_reset) = ((65535, None), tt_driver chip_reset)"
    by (simp add: rw_plan_def is_tt_def var_def tt_driver_def)
  have "requests tos_conf 65535 3 5 0x1000 = [(5, 3, 0x1000)]"
    by (subst requests.simps) (simp add: requests.simps)
  moreover have "FRB_SECS tos_conf \<noteq> 0" "DSKBUF_SECS tos_conf \<noteq> 0" by (simp_all add: tos_conf_def)
  ultimately show ?thesis
    using scsi_rw_refines [OF _ _ plan refl, where count = 3 and sector = 5 and rw = 0 and device = 0] by simp
qed

end
