(* ===== verification/Emu_Frame.thy ===== *)
theory Emu_Frame
  imports Emu_Props
begin

text \<open>
  What a SCSI command does to the driver's own variables and, on a TT with the chip, how it
  leaves the bus. \<open>framed\<close> programs touch only the machine; every routine below
  \<open>send_scsi_command\<close> is one, whatever the hardware does and for however long its loops run.
\<close>

subsection \<open>Programs that touch only the machine\<close>

definition same_vars :: "'d emu \<Rightarrow> 'd emu \<Rightarrow> bool" where
  "same_vars w w' \<longleftrightarrow> w' = w\<lparr>dev := dev w'\<rparr>"

lemma same_vars_refl [simp]: "same_vars w w"
  by (simp add: same_vars_def)

lemma same_vars_trans: "same_vars w w1 \<Longrightarrow> same_vars w1 w2 \<Longrightarrow> same_vars w w2"
  by (cases w; cases w1; cases w2) (simp add: same_vars_def)

lemma same_vars_dev [simp]: "same_vars w (w\<lparr>dev := d\<rparr>)"
  by (simp add: same_vars_def)

lemma same_varsD:
  "same_vars w w' \<Longrightarrow> has_scsi w' = has_scsi w \<and> hostid_bit w' = hostid_bit w \<and> device_exists w' = device_exists w"
  by (cases w; cases w') (simp add: same_vars_def)

definition framed :: "('d emu, 'a) state \<Rightarrow> bool" where
  "framed m \<longleftrightarrow> (\<forall>w. same_vars w (snd (run_state m w)))"

text \<open>The same for a result that may not come.\<close>

definition kv :: "'d emu \<Rightarrow> ('a \<times> 'd emu) option \<Rightarrow> bool" where
  "kv w X \<longleftrightarrow> (\<forall>r w'. X = Some (r, w') \<longrightarrow> same_vars w w')"

lemma framed_bind: "framed m \<Longrightarrow> (\<And>x. framed (f x)) \<Longrightarrow> framed (State_Monad.bind m f)"
  unfolding framed_def by (auto split: prod.splits) (metis same_vars_trans snd_conv)

lemma framed_basic: "framed (State_Monad.return x)" "framed (get f)" "framed (put g)" "framed (var h)"
  by (simp_all add: framed_def get_def put_def var_def split: prod.splits)

lemma framed_if: "framed m \<Longrightarrow> framed n \<Longrightarrow> framed (if b then m else n)"
  by simp

lemma framed_Let: "(\<And>x. framed (f x)) \<Longrightarrow> framed (let x = y in f x)"
  by simp

lemmas framed_intros = framed_bind framed_basic framed_if framed_Let

lemma framed_access:
  "framed is_tt" "framed (pause H c)" "framed (fscsi_put H q v)" "framed (fscsi_get H q)" "framed (fscsi_and H q v)"
  "framed (fscsi_or H q v)" "framed (tt_and H r v)" "framed (tt_or H r v)"
  unfolding is_tt_def pause_def fscsi_put_def fscsi_get_def fscsi_and_def fscsi_or_def tt_and_def tt_or_def
  by (intro framed_intros)+

lemma framed_regs:
  "framed (get_data_reg H)" "framed (put_data_reg H b)" "framed (get_icr_reg H)" "framed (put_icr_reg H v)"
  "framed (and_icr_reg H v)" "framed (or_icr_reg H v)" "framed (put_mode_reg H v)" "framed (and_mode_reg H v)"
  "framed (or_mode_reg H v)" "framed (put_tcr_reg H v)" "framed (get_bus_status_reg H)" "framed (get_dma_status_reg H)"
  "framed (put_select_enable_reg H v)" "framed (set_output_phase H p)" "framed (set_input_phase H p)"
  unfolding get_data_reg_def put_data_reg_def get_icr_reg_def put_icr_reg_def and_icr_reg_def or_icr_reg_def
    put_mode_reg_def and_mode_reg_def or_mode_reg_def put_tcr_reg_def get_bus_status_reg_def get_dma_status_reg_def
    put_select_enable_reg_def set_output_phase_def set_input_phase_def
  by (intro framed_intros framed_access)+

lemma framed_delays:
  "framed (arbitration_delay H)" "framed (bus_clear_delay H)" "framed (bus_settle_delay H)"
  "framed (deskew2_delay H)" "framed (rst_hold_delay H)" "framed (toggle_delay H)" "framed (now H)"
  unfolding arbitration_delay_def bus_clear_delay_def bus_settle_delay_def deskew2_delay_def rst_hold_delay_def
    toggle_delay_def now_def by (intro framed_access framed_basic)+

lemma framed_store_bytes: "framed (store_bytes H p xs)"
  by (induction H p xs rule: store_bytes.induct) (simp_all add: framed_intros)

lemma framed_more:
  "framed (get_next_phase H)" "framed (setup_tt_dma H info)" "framed (toggle_dmaout H b)" "framed (cleanup_tt_dma H)"
  "framed (phase_matches H)" "framed (bus_bit H m)" "framed (lost_arbitration H)" "framed (offer_id H)"
  unfolding get_next_phase_def setup_tt_dma_def toggle_dmaout_def cleanup_tt_dma_def phase_matches_def bus_bit_def
    lost_arbitration_def offer_id_def
  by (intro framed_intros framed_access framed_regs framed_delays framed_store_bytes)+

lemmas framed_rules = framed_intros framed_access framed_regs framed_delays framed_store_bytes framed_more

lemma framed_timed: "framed busy \<Longrightarrow> framed (timed H t busy e)"
  unfolding timed_def by (intro framed_rules)

lemma framed_rounds: "framed (tt_dma_round H t)" "framed (req_round H t)"
  unfolding tt_dma_round_def req_round_def by (intro framed_rules)+

subsection \<open>Programs with loops\<close>

lemma kv_run: "framed m \<Longrightarrow> kv w (run m w)"
  unfolding kv_def framed_def run_def by (metis option.inject snd_conv)

lemma kv_Some: "same_vars w w' \<Longrightarrow> kv w (Some (r, w'))"
  by (simp add: kv_def)

lemma kv_bind:
  assumes "kv w X" "\<And>x w1. kv w1 (G x w1)"
  shows "kv w (X \<bind> (\<lambda>(x, w1). G x w1))"
  using assms unfolding kv_def by (auto simp: bind_eq_Some_conv intro: same_vars_trans)

lemma kv_if: "kv w X \<Longrightarrow> kv w Y \<Longrightarrow> kv w (if b then X else Y)"
  by simp

lemma framedD: "framed m \<Longrightarrow> run_state m w = (x, w') \<Longrightarrow> same_vars w w'"
  unfolding framed_def by (metis snd_conv)

lemma kv_st_loop:
  assumes "framed body"
  shows "kv w (st_loop body w)"
  unfolding kv_def
proof (intro allI impI)
  fix r w' assume "st_loop body w = Some (r, w')"
  then show "same_vars w w'"
    by (rule st_loop_partial [where I = "same_vars w"]) (auto intro: same_vars_trans dest: framedD [OF assms])
qed

lemma kv_case: "(\<And>a b. kv w (f a b)) \<Longrightarrow> kv w (case p of (a, b) \<Rightarrow> f a b)"
  by (cases p) simp

lemma kv_Let: "(\<And>x. kv w (f x)) \<Longrightarrow> kv w (let x = y in f x)"
  by simp

text \<open>The round of a loop: \<open>pr\<close> is the driver state in the loop's state.\<close>

definition kvs :: "('s \<Rightarrow> 'd emu) \<Rightarrow> 'd emu \<Rightarrow> ('s + ('a \<times> 'd emu)) option \<Rightarrow> bool" where
  "kvs pr w X \<longleftrightarrow> (\<forall>s'. X = Some (Inl s') \<longrightarrow> same_vars w (pr s')) \<and>
     (\<forall>r w'. X = Some (Inr (r, w')) \<longrightarrow> same_vars w w')"

lemma kvs_bind:
  assumes "kv w X" "\<And>x w1. kvs pr w1 (G x w1)"
  shows "kvs pr w (X \<bind> (\<lambda>(x, w1). G x w1))"
  using assms unfolding kv_def kvs_def by (auto simp: bind_eq_Some_conv) (blast intro: same_vars_trans)+

lemma kvs_case: "(\<And>a b. kvs pr w (f a b)) \<Longrightarrow> kvs pr w (case p of (a, b) \<Rightarrow> f a b)"
  by (cases p) simp

lemma kvs_if: "kvs pr w X \<Longrightarrow> kvs pr w Y \<Longrightarrow> kvs pr w (if b then X else Y)"
  by simp

lemma kvs_Some:
  "same_vars w (pr s) \<Longrightarrow> kvs pr w (Some (Inl s))" "same_vars w w' \<Longrightarrow> kvs pr w (Some (Inr (r, w')))"
  "kvs pr w (Some X) \<Longrightarrow> kvs pr w (Some Y) \<Longrightarrow> kvs pr w (Some (if b then X else Y))"
  by (simp_all add: kvs_def)

lemma kv_c_loop:
  assumes "\<And>s. kvs pr (pr s) (body s)"
  shows "kv (pr s) (c_loop body s)"
  unfolding kv_def
proof (intro allI impI)
  fix r w' assume "c_loop body s = Some (r, w')"
  then have "case (r, w') of (r, w') \<Rightarrow> same_vars (pr s) w'"
    by (rule c_loop_partial [where I = "\<lambda>s'. same_vars (pr s) (pr s')"])
      (use assms in \<open>auto simp: kvs_def intro: same_vars_trans\<close>)
  then show "same_vars (pr s) w'" by simp
qed

lemmas kv_intros = kv_bind kv_if kv_case kv_Let kv_run kv_st_loop framed_timed framed_rounds framed_rules
lemmas kvs_intros = kvs_bind kvs_case kvs_if kvs_Some

lemma kv_waits:
  "kv w (setup_falcon_dma C H info w)" "kv w (wait_phase_change H t w)" "kv w (wait_req H t w)" "kv w (handshake H t w)"
  unfolding setup_falcon_dma_def wait_phase_change_def wait_req_def handshake_def
  by (intro kv_intros kv_Some same_vars_refl)+

lemma kv_dma:
  "kv w (init_data_out C H info w)" "kv w (init_data_in C H info w)" "kv w (wait_dma_complete H t w)"
  unfolding init_data_out_def init_data_in_def wait_dma_complete_def
  by (intro kv_intros kv_waits kv_Some same_vars_refl)+

lemma kv_bytes: "kv w (send_byte H b t w)" "kv w (receive_byte H t w)"
  unfolding send_byte_def receive_byte_def by (intro kv_intros kv_waits kv_Some same_vars_refl)+

lemma kv_reset_bus: "kv w (reset_bus C H b w)"
  unfolding reset_bus_def by (intro kv_intros kv_Some same_vars_refl)

lemma kv_arbitrate: "kv w (scsi_arbitrate C H w)"
proof -
  have 1: "kv w (c_loop (arb_round H) w)" for w
    by (rule kv_c_loop [where pr = "\<lambda>w. w"]) (unfold arb_round_def, intro kvs_intros kv_intros same_vars_refl)
  have 2: "kv w (c_loop (arb_outer H) w)" for w
    by (rule kv_c_loop [where pr = "\<lambda>w. w"]) (unfold arb_outer_def, intro kvs_intros kv_intros same_vars_refl 1)
  show ?thesis unfolding scsi_arbitrate_def by (intro kv_intros 2 kv_Some same_vars_refl)
qed

lemma kv_select: "kv w (scsi_select C H device w)"
  unfolding scsi_select_def by (intro kv_intros kv_Some same_vars_refl)

lemma kv_pio:
  "kv w (c_loop (pio_out_round H t) (p, w))" "kv w (c_loop (pio_in_round H t) (p, w))" "kv w (c_loop (command_round H t) (p, w))"
proof -
  show "kv w (c_loop (pio_out_round H t) (p, w))"
    by (rule kv_c_loop [where pr = snd and s = "(p, w)", simplified])
      (auto simp: pio_out_round_def split: prod.splits intro!: kvs_intros kv_run kv_bytes framed_basic)
  show "kv w (c_loop (pio_in_round H t) (p, w))"
    by (rule kv_c_loop [where pr = snd and s = "(p, w)", simplified])
      (auto simp: pio_in_round_def split: prod.splits intro!: kvs_intros kv_run kv_bytes framed_basic)
  show "kv w (c_loop (command_round H t) (p, w))"
    by (rule kv_c_loop [where pr = snd and s = "(p, w)", simplified])
      (auto simp: command_round_def split: prod.splits intro!: kvs_intros kv_run kv_bytes framed_basic)
qed

lemma kv_msg_out_tries: "kv w (msg_out_tries H t msg n w)"
proof (induction n arbitrary: w)
  case (Suc n)
  show ?case unfolding msg_out_tries.simps by (intro kv_intros kv_waits kv_Some same_vars_refl Suc.IH)
qed (simp add: kv_Some)

lemma kv_skip_bytes: "kv w (skip_bytes H t n w)"
proof (induction n arbitrary: w)
  case (Suc n)
  show ?case unfolding skip_bytes.simps by (intro kv_intros kv_bytes kv_Some same_vars_refl Suc.IH)
qed (simp add: kv_Some)

lemma kv_msg_in_rest: "kv w (msg_in_rest H t b w)"
  unfolding msg_in_rest_def by (intro kv_intros kv_waits kv_bytes kv_skip_bytes kv_Some same_vars_refl)

lemma kv_handlers:
  "kv w (handle_data_out C H info w)" "kv w (handle_data_in C H info w)" "kv w (handle_command C H info w)"
  "kv w (handle_status C H info w)" "kv w (handle_msg_out C H info w)" "kv w (handle_msg_in C H info w)"
  unfolding handle_data_out_def handle_data_in_def handle_command_def handle_status_def handle_msg_out_def handle_msg_in_def
  by (intro kv_intros kv_waits kv_bytes kv_dma kv_pio kv_msg_out_tries kv_msg_in_rest kv_Some same_vars_refl)+

lemma kv_dispatcher: "kv w (scsi_dispatcher C H info w)"
  unfolding scsi_dispatcher_def
  by (rule kv_c_loop [where pr = snd and s = "(info, w)", simplified])
    (auto simp: dispatch_round_def split: prod.splits
      intro!: kvs_bind kvs_case kvs_Some kv_if kv_bind kv_run framed_more kv_handlers kv_Some)

lemma kv_case_app: "(\<And>a b. kv w (f a b w)) \<Longrightarrow> kv w ((case p of (a, b) \<Rightarrow> f a b) w)"
  by (cases p) simp

lemma kv_bring_up: "kv w (bring_up C H device info w)"
  unfolding bring_up_def
  by (intro kv_intros kv_case_app kv_arbitrate kv_select kv_waits kv_dispatcher kv_Some same_vars_refl)

lemma framed_cleanup: "framed (cleanup_scsi H)"
  unfolding cleanup_scsi_def by (intro framed_rules)

subsection \<open>A command\<close>

lemma framed_ends: "framed (prepare C H info)" "framed (wind_up C H ret info)"
  unfolding prepare_def wind_up_def use_dma_def by (intro framed_rules framed_cleanup)+

text \<open>Every return of a command goes through \<open>aftermath\<close> and \<open>wind_up\<close>, from a state with the same variables.\<close>

lemma send_command_shape:
  assumes "send_scsi_command C H device info w = Some ((ret, info'), w')" "has_scsi w \<noteq> 0"
  shows "\<exists>w2 w3. same_vars w w2 \<and> aftermath C H device ret info' w2 = Some ((), w3) \<and>
    run_state (wind_up C H ret info') w3 = ((ret, info'), w')"
proof -
  obtain info2 w1 where p: "run_state (prepare C H info) w = (info2, w1)" by (metis surj_pair)
  from assms p obtain r i w2 w3 where b: "bring_up C H device info2 w1 = Some ((r, i), w2)"
    and a: "aftermath C H device r i w2 = Some ((), w3)"
    and u: "run_state (wind_up C H r i) w3 = ((ret, info'), w')"
    by (auto simp: send_scsi_command_def run_def bind_eq_Some_conv)
  have "r = ret \<and> i = info'" using u by (auto simp: wind_up_def split: prod.splits if_splits)
  moreover have "same_vars w w2"
    using framedD [OF framed_ends(1) p] kv_bring_up [of w1 C H device info2] b unfolding kv_def
    by (metis same_vars_trans)
  ultimately show ?thesis using a u by blast
qed

text \<open>The driver knows a device exactly from its successes: after a command returns, its bit is set
  if the command succeeded and as it was otherwise, no other bit has changed, and neither have
  the host id and the kind of hardware.\<close>

theorem device_exists_tracks_success:
  assumes "send_scsi_command C H device info w = Some ((ret, info'), w')" "has_scsi w \<noteq> 0"
  shows "device_exists w' = (if ret \<ge> 0 then device_exists w OR push_bit device 1 else device_exists w) \<and>
    hostid_bit w' = hostid_bit w \<and> has_scsi w' = has_scsi w"
proof -
  obtain w2 w3 where s: "same_vars w w2" and a: "aftermath C H device ret info' w2 = Some ((), w3)"
    and u: "run_state (wind_up C H ret info') w3 = ((ret, info'), w')"
    using send_command_shape [OF assms] by blast
  have 3: "same_vars w3 w'" by (rule framedD [OF framed_ends(2) u])
  have "same_vars w2 w3" if "\<not> ret \<ge> 0"
    using that a kv_reset_bus [of w2 C H "mode info' AND WRITE_MODE C \<noteq> 0"] unfolding kv_def aftermath_def
    by (auto split: if_splits)
  with same_varsD [OF s] same_varsD [OF 3] a show ?thesis
    by (cases "ret \<ge> 0") (auto simp: aftermath_def dest!: same_varsD)
qed

subsection \<open>A bus that is never free\<close>

text \<open>A concrete command: BSY is held by another device and the driver gives up.\<close>

definition busy_bus :: scsi_t where "busy_bus = quiet_bus\<lparr>l_bsy := True\<rparr>"

definition hasty_conf :: emu_conf where "hasty_conf = tos_conf\<lparr>CLOCKS_PER_SEC := 0\<rparr>"

abbreviation (input) "busy_tt \<equiv> tt_hw 10000 (\<lambda>_. busy_bus)"

lemma busy_bus_status:
  assumes "has_scsi w = TT_SCSI"
  shows "run_state (bus_bit busy_tt 0x40) w = (True, w\<lparr>dev := tt_clock 10000 (\<lambda>_. busy_bus) (host_read A_CSB) (dev w)\<rparr>)"
proof -
  have "l_bsy (settle c busy_bus)" for c by (subst settle_fixpoint_aux) (simp add: busy_bus_def)
  then show ?thesis using assms
    by (simp add: bus_bit_def get_bus_status_reg_def is_tt_def var_def get_def tt_hw_def tt_read_def Let_def
        chip_dat_o_def regs_dat_o_def host_read_def addr_defs report_def byte_masks csb_o_bits)
qed

lemma tt_now: "run_state (now (tt_hw ps oth)) w = (t_hz (dev w), w\<lparr>dev := (dev w)\<lparr>t_hz := t_hz (dev w) + 1\<rparr>\<rparr>)"
  by (simp add: now_def get_def tt_hw_def)

lemma busy_arbitrate: "\<exists>w'. scsi_arbitrate hasty_conf busy_tt (tt_driver c) = Some (BUSFREE_ERROR, w')"
proof -
  let ?w = "(tt_driver c)\<lparr>dev := (dev (tt_driver c))\<lparr>t_hz := 1\<rparr>\<rparr>"
  have n: "run_state (now busy_tt) (tt_driver c) = (0, ?w)"
    by (simp add: tt_now tt_driver_def)
  have w: "has_scsi ?w = TT_SCSI" by (simp add: tt_driver_def)
  have "\<exists>w'. st_loop (timed busy_tt 0 (bus_bit busy_tt 0x40) BUSFREE_ERROR) ?w = Some (BUSFREE_ERROR, w')"
    unfolding st_loop_def
    by (subst c_loop.simps) (simp add: timed_def busy_bus_status [OF w] tt_now)
  then show ?thesis
    unfolding scsi_arbitrate_def run_def n by (auto simp: hasty_conf_def)
qed

lemma busy_command:
  "\<exists>info' w'. send_scsi_command hasty_conf busy_tt 0 info (tt_driver c) = Some ((BUSFREE_ERROR, info'), w')"
proof -
  obtain info2 w1 where p: "run_state (prepare hasty_conf busy_tt info) (tt_driver c) = (info2, w1)" by (metis surj_pair)
  have w1: "w1 = tt_driver c"
    using p by (auto simp: prepare_def use_dma_def is_tt_def var_def tt_driver_def Let_def put_def tt_hw_def
        split: if_splits prod.splits)
  obtain w2 where a: "scsi_arbitrate hasty_conf busy_tt (tt_driver c) = Some (BUSFREE_ERROR, w2)"
    using busy_arbitrate by blast
  have dx: "device_exists w2 = 0"
    using kv_arbitrate [of "tt_driver c" hasty_conf busy_tt] a unfolding kv_def
    by (auto dest!: same_varsD simp: tt_driver_def)
  have u: "\<exists>w'. run_state (wind_up hasty_conf busy_tt BUSFREE_ERROR info2) w2 = ((BUSFREE_ERROR, info2), w')"
    by (simp add: wind_up_def split: prod.splits)
  have "has_scsi (tt_driver c) \<noteq> 0" by (simp add: tt_driver_def)
  then show ?thesis
    using u unfolding send_scsi_command_def run_def p w1 bring_up_def
    by (auto simp: a aftermath_def dx)
qed

theorem device_exists_tracks_success_witness:
  "\<exists>info' w'. send_scsi_command hasty_conf busy_tt 0 cmdinfo_zero (tt_driver chip_reset) = Some ((BUSFREE_ERROR, info'), w') \<and>
     device_exists w' = 0"
proof -
  obtain info' w' where s: "send_scsi_command hasty_conf busy_tt 0 cmdinfo_zero (tt_driver chip_reset) = Some ((BUSFREE_ERROR, info'), w')"
    using busy_command by blast
  show ?thesis using device_exists_tracks_success [OF s] s by (auto simp: tt_driver_def)
qed

subsection \<open>Off the bus\<close>

text \<open>A chip whose mode register is clear and whose Initiator Command Register holds RST at most.\<close>

definition off_bus :: "chip \<Rightarrow> bool" where
  "off_bus c \<longleftrightarrow> mr_q (u_regs c) = 0 \<and> icr_q (u_regs c) AND 0x7f = 0"

lemma put_bit_0 [simp]: "put_bit n False 0 = 0"
  by (rule bit_word_eqI) auto

lemma mode_cleared: "mr_q (u_regs (sys_step ps (host_write A_MR 0) eop oth c)) = 0"
  by (simp add: sys_step_def regs_step_def Let_def regs_write_def host_write_def addr_defs)

lemma mask_7f: "(w AND 0x7f = 0) = (\<forall>n<7. \<not> bit w n)" for w :: byte
  by (simp add: bit_eq_iff bit_and_iff) (auto simp: bit_byte_ge numeral_eq_Suc less_Suc_eq dest: bit_imp_le_length)

lemma icr_cleared:
  assumes "mr_q (u_regs c) = 0"
  shows "off_bus (sys_step ps (host_write A_ICR 0) eop oth c)"
proof -
  have "(w AND 0x80) AND 0x7f = 0" "((w AND 0x80) AND 0xc0) AND 0x7f = 0" for w :: byte
    by (simp_all add: and.assoc)
  then show ?thesis
    using assms unfolding off_bus_def
    by (simp add: sys_step_def regs_step_def Let_def regs_write_def host_write_def addr_defs)
qed

lemma off_bus_drives:
  assumes "off_bus c"
  shows "chip_drive c b = \<lparr>l_rst = bit (icr_q (u_regs c)) ICR_RST_B, l_bsy = False, l_sel = False, l_req = False,
     l_ack = False, l_atn = False, l_msg = False, l_cd = False, l_io = False, l_data = 0, l_dbp = False\<rparr>"
proof -
  have icr: "\<not> bit (icr_q (u_regs c)) n" if "n < 7" for n
    using assms that by (simp add: off_bus_def mask_7f)
  have mr: "mr_q (u_regs c) = 0" using assms by (simp add: off_bus_def)
  show ?thesis
    by (simp add: chip_drive_def drive_o_def Let_def mode_defs mr icr drive_data_def arbitrating_def dma_ack_def dma_req_def)
qed

text \<open>
  Clearing the mode register leaves ASSERT RST alone, so in the next clock the chip drives RST
  only if the bus had it in this one: its own RST is no edge, and clearing the Initiator Command
  Register drops it, unless another device raises RST in that very clock.
\<close>

lemma own_reset_no_edge:
  assumes c1: "c1 = sys_step ps (host_write A_MR 0) eop oth c"
    and drives: "l_rst (chip_drive c1 b)"
  shows "rst_q (u_bus c1)"
proof -
  let ?b = "settle c oth"
  have icr: "icr_q (u_regs c1) = icr_q (u_regs c) \<or> icr_q (u_regs c1) = icr_q (u_regs c) AND 0xc0"
    if "\<not> scsi_rst_int (u_bus c) ?b"
    using that by (simp add: c1 sys_step_def regs_step_def Let_def regs_write_def host_write_def addr_defs)
  have rst: "rst_q (u_bus c1) = l_rst ?b" by (simp add: c1 sys_step_def)
  show ?thesis
  proof (cases "scsi_rst_int (u_bus c) ?b")
    case True
    with rst show ?thesis by (simp add: scsi_rst_int_def)
  next
    case False
    from icr [OF this] drives have "\<not> test_mode (u_regs c) \<and> bit (icr_q (u_regs c)) ICR_RST_B"
      by (auto simp: chip_drive_def drive_o_ctrl mode_defs bit_mask_c0)
    then have "l_rst ?b" by (subst settle_fixpoint_aux) (simp add: chip_drive_def drive_o_ctrl)
    with rst show ?thesis by simp
  qed
qed

lemma icr_released:
  assumes "c1 = sys_step ps (host_write A_MR 0) eop oth c" "\<not> l_rst oth'"
  shows "icr_q (u_regs (sys_step ps (host_write A_ICR 0) eop' oth' c1)) = 0"
proof -
  have "l_rst (settle c1 oth') \<Longrightarrow> rst_q (u_bus c1)"
    using assms(2) own_reset_no_edge [OF assms(1)] by (subst (asm) settle_fixpoint_aux) simp
  then have "\<not> scsi_rst_int (u_bus c1) (settle c1 oth')" by (auto simp: scsi_rst_int_def)
  then show ?thesis
    by (simp add: sys_step_def regs_step_def Let_def regs_write_def host_write_def addr_defs)
qed

text \<open>The clean-up, on the TT: the mode register, then the Initiator Command Register.\<close>

lemma cleanup_off_bus:
  assumes "has_scsi w = TT_SCSI" "run_state (cleanup_scsi (tt_hw ps oth)) w = ((), w')"
  shows "off_bus (t_chip (dev w')) \<and>
    (\<not> l_rst (oth (t_cyc (dev w') - 1)) \<longrightarrow> icr_q (u_regs (t_chip (dev w'))) = 0)"
  using assms icr_cleared [OF mode_cleared] icr_released [OF refl]
  by (auto simp: cleanup_scsi_def is_tt_def var_def get_def put_def tt_hw_def tt_read_def tt_clock_def Let_def)

lemma wind_up_off_bus:
  assumes "has_scsi w = TT_SCSI" "run_state (wind_up C (tt_hw ps oth) ret info) w = (x, w')"
  shows "off_bus (t_chip (dev w')) \<and>
    (\<not> l_rst (oth (t_cyc (dev w') - 1)) \<longrightarrow> icr_q (u_regs (t_chip (dev w'))) = 0)"
proof -
  obtain w1 where c: "run_state (cleanup_scsi (tt_hw ps oth)) w = ((), w1)" by (rule run_unit)
  note cleanup_off_bus [OF assms(1) c]
  moreover have "invalidate_data_cache (tt_hw ps oth) p n d = d" "set_flock (tt_hw ps oth) k d = d" for p n k d
    by (simp_all add: tt_hw_def)
  then have "t_chip (dev w') = t_chip (dev w1) \<and> t_cyc (dev w') = t_cyc (dev w1)"
    using assms(2) unfolding wind_up_def by (auto simp: c put_def var_def split: if_splits)
  ultimately show ?thesis by simp
qed

text \<open>C7: However a command ends on a TT with the chip, and whatever the rest of the bus does meanwhile,
  the chip has left the bus when \<open>send_scsi_command\<close> returns: every mode is off and on any state
  of the bus the chip drives nothing at all, RST included. The one exception is a bus reset by
  another device in the very clock in which the driver clears the Initiator Command Register
  (the last clock of the command): the chip keeps ASSERT RST through a reset, so RST alone may
  stay driven.\<close>

theorem send_command_releases_bus:
  assumes "send_scsi_command C (tt_hw ps oth) device info w = Some ((ret, info'), w')" "has_scsi w = TT_SCSI"
  shows "mr_q (u_regs (t_chip (dev w'))) = 0 \<and>
    (\<not> l_rst (oth (t_cyc (dev w') - 1)) \<longrightarrow> chip_drive (t_chip (dev w')) b = scsi_idle) \<and>
    chip_drive (t_chip (dev w')) b = scsi_idle\<lparr>l_rst := bit (icr_q (u_regs (t_chip (dev w')))) ICR_RST_B\<rparr>"
proof -
  obtain w2 w3 where s: "same_vars w w2" and a: "aftermath C (tt_hw ps oth) device ret info' w2 = Some ((), w3)"
    and u: "run_state (wind_up C (tt_hw ps oth) ret info') w3 = ((ret, info'), w')"
    using send_command_shape [OF assms(1)] assms(2) by auto
  have "has_scsi w3 = has_scsi w2"
    using a kv_reset_bus [of w2 C "tt_hw ps oth" "mode info' AND WRITE_MODE C \<noteq> 0"] unfolding kv_def aftermath_def
    by (auto split: if_splits dest: same_varsD)
  with same_varsD [OF s] assms(2) have "has_scsi w3 = TT_SCSI" by simp
  from wind_up_off_bus [OF this u] show ?thesis
    using off_bus_drives [of "t_chip (dev w')" b] by (auto simp: off_bus_def scsi_idle_def)
qed

theorem send_command_releases_bus_witness:
  "\<exists>info' w'. send_scsi_command hasty_conf busy_tt 0 cmdinfo_zero (tt_driver loser) = Some ((BUSFREE_ERROR, info'), w') \<and>
     mr_q (u_regs (t_chip (dev w'))) = 0 \<and> chip_drive (t_chip (dev w')) busy_bus = scsi_idle"
proof -
  obtain info' w' where s: "send_scsi_command hasty_conf busy_tt 0 cmdinfo_zero (tt_driver loser) = Some ((BUSFREE_ERROR, info'), w')"
    using busy_command by blast
  show ?thesis using send_command_releases_bus [OF s, of busy_bus] s
    by (auto simp: tt_driver_def busy_bus_def quiet_bus_def)
qed

end
