(* ===== verification/Sdmm.thy ===== *)
theory Sdmm
  imports Prelude
begin

text \<open>
  The FatFs disk layer for SD cards by bit-banged SPI, \<^verbatim>\<open>src/doc/drivers/SD/FatFs/sdmm.c\<close>: the four
  pins, the serial shift in and out, the command packet, data blocks, and the five entry
  points. The port's latch and direction register are in the driver's state; the card is a
  parameter that answers a read of \<open>PINB\<close> and sees every write to \<open>PORTB\<close>. \<open>UINT\<close> is the
  16-bit unsigned of the AVR. Every loop of the file is bounded.
\<close>

subsection \<open>The port and the card\<close>

text \<open>\<open>pin_in\<close> is a read of \<open>PINB\<close>, \<open>pin_out\<close> a write of \<open>PORTB\<close>; \<open>loop_reads\<close> the reads in one round of \<open>dly_us\<close>.\<close>

record 'c sd_hw =
  pin_in :: "'c \<Rightarrow> byte \<times> 'c"
  pin_out :: "byte \<Rightarrow> 'c \<Rightarrow> 'c"
  loop_reads :: nat

text \<open>The names of \<open>diskio.h\<close> the driver uses.\<close>

record diskio =
  STA_NOINIT :: byte
  RES_OK :: int
  RES_ERROR :: int
  RES_NOTRDY :: int
  RES_PARERR :: int
  CT_MMC :: byte
  CT_SD1 :: byte
  CT_SD2 :: byte
  CT_SDC :: byte
  CT_BLOCK :: byte
  CTRL_SYNC :: byte
  GET_SECTOR_COUNT :: byte
  GET_BLOCK_SIZE :: byte

record 'c sdmm =
  PORTB :: byte
  DDRB :: byte
  Stat :: byte
  CardType :: byte
  card :: 'c

abbreviation (input) "CMD0 \<equiv> (0::byte)"
abbreviation (input) "CMD1 \<equiv> (1::byte)"
abbreviation (input) "ACMD41 \<equiv> (0x80 + 41::byte)"
abbreviation (input) "CMD8 \<equiv> (8::byte)"
abbreviation (input) "CMD9 \<equiv> (9::byte)"
abbreviation (input) "CMD12 \<equiv> (12::byte)"
abbreviation (input) "CMD16 \<equiv> (16::byte)"
abbreviation (input) "CMD17 \<equiv> (17::byte)"
abbreviation (input) "CMD18 \<equiv> (18::byte)"
abbreviation (input) "ACMD23 \<equiv> (0x80 + 23::byte)"
abbreviation (input) "CMD24 \<equiv> (24::byte)"
abbreviation (input) "CMD25 \<equiv> (25::byte)"
abbreviation (input) "CMD55 \<equiv> (55::byte)"
abbreviation (input) "CMD58 \<equiv> (58::byte)"

definition port_wr :: "'c sd_hw \<Rightarrow> (byte \<Rightarrow> byte) \<Rightarrow> ('c sdmm, unit) state" where
  "port_wr H f = State (\<lambda>w. ((), w\<lparr>PORTB := f (PORTB w), card := pin_out H (f (PORTB w)) (card w)\<rparr>))"
definition port_rd :: "'c sd_hw \<Rightarrow> ('c sdmm, byte) state" where
  "port_rd H = State (\<lambda>w. case pin_in H (card w) of (v, c) \<Rightarrow> (v, w\<lparr>card := c\<rparr>))"

definition DO :: "'c sd_hw \<Rightarrow> ('c sdmm, bool) state" where
  "DO H = do { v \<leftarrow> port_rd H; State_Monad.return (v AND 0x01 \<noteq> 0) }"
definition DI_H :: "'c sd_hw \<Rightarrow> ('c sdmm, unit) state" where "DI_H H = port_wr H (\<lambda>p. p OR 0x02)"
definition DI_L :: "'c sd_hw \<Rightarrow> ('c sdmm, unit) state" where "DI_L H = port_wr H (\<lambda>p. p AND 0xFD)"
definition CK_H :: "'c sd_hw \<Rightarrow> ('c sdmm, unit) state" where "CK_H H = port_wr H (\<lambda>p. p OR 0x04)"
definition CK_L :: "'c sd_hw \<Rightarrow> ('c sdmm, unit) state" where "CK_L H = port_wr H (\<lambda>p. p AND 0xFB)"
definition CS_H :: "'c sd_hw \<Rightarrow> ('c sdmm, unit) state" where "CS_H H = port_wr H (\<lambda>p. p OR 0x08)"
definition CS_L :: "'c sd_hw \<Rightarrow> ('c sdmm, unit) state" where "CS_L H = port_wr H (\<lambda>p. p AND 0xF7)"
definition dir_or :: "byte \<Rightarrow> ('c sdmm, unit) state" where
  "dir_or v = State (\<lambda>w. ((), w\<lparr>DDRB := DDRB w OR v\<rparr>))"
definition DI_INIT :: "('c sdmm, unit) state" where "DI_INIT = dir_or 0x02"
definition CK_INIT :: "('c sdmm, unit) state" where "CK_INIT = dir_or 0x04"
definition CS_INIT :: "('c sdmm, unit) state" where "CS_INIT = dir_or 0x08"

text \<open>\<open>do ... while (--n)\<close> on a 16-bit counter: 0 means 65536 rounds.\<close>

definition rounds :: "u16 \<Rightarrow> nat" where "rounds n = (if n = 0 then 65536 else unat n)"

fun pin_reads :: "'c sd_hw \<Rightarrow> nat \<Rightarrow> ('c sdmm, unit) state" where
  "pin_reads H 0 = State_Monad.return ()"
| "pin_reads H (Suc k) = do { v \<leftarrow> port_rd H; pin_reads H k }"

definition dly_us :: "'c sd_hw \<Rightarrow> u16 \<Rightarrow> ('c sdmm, unit) state" where
  "dly_us H n = pin_reads H (rounds n * loop_reads H)"

subsection \<open>Bytes, a bit at a time\<close>

definition clock_pulse :: "'c sd_hw \<Rightarrow> ('c sdmm, unit) state" where
  "clock_pulse H = do { CK_H H; CK_L H }"

definition send_bit :: "'c sd_hw \<Rightarrow> bool \<Rightarrow> ('c sdmm, unit) state" where
  "send_bit H b = do { (if b then DI_H H else DI_L H); clock_pulse H }"

definition xmit_byte :: "'c sd_hw \<Rightarrow> byte \<Rightarrow> ('c sdmm, unit) state" where
  "xmit_byte H d = do {
     send_bit H (d AND 0x80 \<noteq> 0);
     send_bit H (d AND 0x40 \<noteq> 0);
     send_bit H (d AND 0x20 \<noteq> 0);
     send_bit H (d AND 0x10 \<noteq> 0);
     send_bit H (d AND 0x08 \<noteq> 0);
     send_bit H (d AND 0x04 \<noteq> 0);
     send_bit H (d AND 0x02 \<noteq> 0);
     send_bit H (d AND 0x01 \<noteq> 0) }"

text \<open>Every call passes at least one byte, so the \<open>do ... while (--bc)\<close> is a walk over the bytes; a count of 0,
  which would send 65536, does not occur.\<close>

fun xmit_mmc :: "'c sd_hw \<Rightarrow> byte list \<Rightarrow> ('c sdmm, unit) state" where
  "xmit_mmc H [] = State_Monad.return ()"
| "xmit_mmc H (d # ds) = do { xmit_byte H d; xmit_mmc H ds }"

text \<open>\<open>r <<= 1; if (DO) r++;\<close> and a clock pulse.\<close>

definition take_bit_in :: "'c sd_hw \<Rightarrow> byte \<Rightarrow> ('c sdmm, byte) state" where
  "take_bit_in H r = do { b \<leftarrow> DO H; clock_pulse H; State_Monad.return (push_bit 1 r + (if b then 1 else 0)) }"

definition rcvr_byte :: "'c sd_hw \<Rightarrow> ('c sdmm, byte) state" where
  "rcvr_byte H = do {
     r7 \<leftarrow> take_bit_in H 0;
     r6 \<leftarrow> take_bit_in H r7;
     r5 \<leftarrow> take_bit_in H r6;
     r4 \<leftarrow> take_bit_in H r5;
     r3 \<leftarrow> take_bit_in H r4;
     r2 \<leftarrow> take_bit_in H r3;
     r1 \<leftarrow> take_bit_in H r2;
     take_bit_in H r1 }"

fun rcvr_bytes :: "'c sd_hw \<Rightarrow> nat \<Rightarrow> ('c sdmm, byte list) state" where
  "rcvr_bytes H 0 = State_Monad.return []"
| "rcvr_bytes H (Suc n) = do { r \<leftarrow> rcvr_byte H; rs \<leftarrow> rcvr_bytes H n; State_Monad.return (r # rs) }"

definition rcvr_mmc :: "'c sd_hw \<Rightarrow> u16 \<Rightarrow> ('c sdmm, byte list) state" where
  "rcvr_mmc H bc = do { DI_H H; rcvr_bytes H (rounds bc) }"

definition rcvr1 :: "'c sd_hw \<Rightarrow> ('c sdmm, byte) state" where
  "rcvr1 H = do { d \<leftarrow> rcvr_mmc H 1; State_Monad.return (d ! 0) }"

subsection \<open>Selecting the card\<close>

fun ready_loop :: "'c sd_hw \<Rightarrow> nat \<Rightarrow> ('c sdmm, bool) state" where
  "ready_loop H 0 = State_Monad.return False"
| "ready_loop H (Suc tmr) = do {
     d \<leftarrow> rcvr1 H;
     if d = 0xFF then State_Monad.return True
     else do { dly_us H 100; ready_loop H tmr } }"

definition wait_ready :: "'c sd_hw \<Rightarrow> ('c sdmm, bool) state" where
  "wait_ready H = ready_loop H 5000"

definition deselect :: "'c sd_hw \<Rightarrow> ('c sdmm, unit) state" where
  "deselect H = do { CS_H H; d \<leftarrow> rcvr1 H; State_Monad.return () }"

definition select :: "'c sd_hw \<Rightarrow> ('c sdmm, bool) state" where
  "select H = do {
     CS_L H;
     d \<leftarrow> rcvr1 H;
     ok \<leftarrow> wait_ready H;
     if ok then State_Monad.return True
     else do { deselect H; State_Monad.return False } }"

subsection \<open>Data blocks and commands\<close>

text \<open>The wait for a data token: the last byte received, or 0xFF when the time is up.\<close>

fun token_loop :: "'c sd_hw \<Rightarrow> nat \<Rightarrow> ('c sdmm, byte) state" where
  "token_loop H 0 = State_Monad.return 0xFF"
| "token_loop H (Suc tmr) = do {
     d \<leftarrow> rcvr1 H;
     if d \<noteq> 0xFF then State_Monad.return d
     else do { dly_us H 100; token_loop H tmr } }"

definition rcvr_datablock :: "'c sd_hw \<Rightarrow> u16 \<Rightarrow> ('c sdmm, byte list option) state" where
  "rcvr_datablock H btr = do {
     d \<leftarrow> token_loop H 1000;
     if d \<noteq> 0xFE then State_Monad.return None
     else do {
       buff \<leftarrow> rcvr_mmc H btr;
       crc \<leftarrow> rcvr_mmc H 2;
       State_Monad.return (Some buff) } }"

definition xmit_datablock :: "'c sd_hw \<Rightarrow> byte list \<Rightarrow> byte \<Rightarrow> ('c sdmm, bool) state" where
  "xmit_datablock H buff token = do {
     rdy \<leftarrow> wait_ready H;
     if \<not> rdy then State_Monad.return False
     else do {
       xmit_mmc H [token];
       if token \<noteq> 0xFD then do {
         xmit_mmc H (take 512 buff);
         crc \<leftarrow> rcvr_mmc H 2;
         d \<leftarrow> rcvr1 H;
         State_Monad.return (d AND 0x1F = 0x05) }
       else State_Monad.return True } }"

definition cmd_packet :: "byte \<Rightarrow> u32 \<Rightarrow> byte list" where
  "cmd_packet cmd arg =
     [0x40 OR cmd, ucast (drop_bit 24 arg), ucast (drop_bit 16 arg), ucast (drop_bit 8 arg), ucast arg,
      if cmd = CMD8 then 0x87 else if cmd = CMD0 then 0x95 else 0x01]"

text \<open>\<open>do rcvr_mmc(&d, 1); while ((d & 0x80) && --n)\<close>, from \<open>n\<close> attempts.\<close>

fun response_loop :: "'c sd_hw \<Rightarrow> nat \<Rightarrow> ('c sdmm, byte) state" where
  "response_loop H n = do {
     d \<leftarrow> rcvr1 H;
     if d AND 0x80 \<noteq> 0 \<and> n > 1 then response_loop H (n - 1) else State_Monad.return d }"

declare response_loop.simps [simp del]

text \<open>A command that is not an application command.\<close>

definition send_plain :: "'c sd_hw \<Rightarrow> byte \<Rightarrow> u32 \<Rightarrow> ('c sdmm, byte) state" where
  "send_plain H cmd arg = do {
     ok \<leftarrow> (if cmd \<noteq> CMD12 then do { deselect H; select H } else State_Monad.return True);
     if \<not> ok then State_Monad.return 0xFF
     else do {
       xmit_mmc H (cmd_packet cmd arg);
       (if cmd = CMD12 then do { d \<leftarrow> rcvr1 H; State_Monad.return () } else State_Monad.return ());
       response_loop H 10 } }"

definition send_cmd :: "'c sd_hw \<Rightarrow> byte \<Rightarrow> u32 \<Rightarrow> ('c sdmm, byte) state" where
  "send_cmd H cmd arg =
     (if cmd AND 0x80 \<noteq> 0 then do {
        n \<leftarrow> send_plain H CMD55 0;
        if n > 1 then State_Monad.return n else send_plain H (cmd AND 0x7F) arg }
      else send_plain H cmd arg)"

end
