(* ===== verification/Sdmm_Disk.thy ===== *)
theory Sdmm_Disk
  imports Sdmm
begin

text \<open>
  The entry points of \<^verbatim>\<open>sdmm.c\<close>: status, initialisation with its card detection, reading, writing
  and the control functions with the capacity computed from the CSD register. A read returns
  the bytes it stored in the caller's buffer beside its result.
\<close>

definition disk_status :: "diskio \<Rightarrow> byte \<Rightarrow> 'c sdmm \<Rightarrow> byte" where
  "disk_status D drv w = (if drv \<noteq> 0 then STA_NOINIT D else Stat w)"

fun dummy_clocks :: "'c sd_hw \<Rightarrow> nat \<Rightarrow> ('c sdmm, unit) state" where
  "dummy_clocks H 0 = State_Monad.return ()"
| "dummy_clocks H (Suc n) = do { b \<leftarrow> rcvr1 H; dummy_clocks H n }"

text \<open>\<open>for (tmr = 1000; tmr; tmr--)\<close> until the card leaves the idle state.\<close>

fun idle_loop :: "'c sd_hw \<Rightarrow> nat \<Rightarrow> byte \<Rightarrow> u32 \<Rightarrow> ('c sdmm, bool) state" where
  "idle_loop H 0 cmd arg = State_Monad.return False"
| "idle_loop H (Suc tmr) cmd arg = do {
     r \<leftarrow> send_cmd H cmd arg;
     if r = 0 then State_Monad.return True
     else do { dly_us H 1000; idle_loop H tmr cmd arg } }"

definition probe_sd2 :: "diskio \<Rightarrow> 'c sd_hw \<Rightarrow> ('c sdmm, byte) state" where
  "probe_sd2 D H = do {
     buf \<leftarrow> rcvr_mmc H 4;
     if buf ! 2 = 0x01 \<and> buf ! 3 = 0xAA then do {
       ok \<leftarrow> idle_loop H 1000 ACMD41 (push_bit 30 1);
       if \<not> ok then State_Monad.return 0
       else do {
         r \<leftarrow> send_cmd H CMD58 0;
         if r = 0 then do {
           ocr \<leftarrow> rcvr_mmc H 4;
           State_Monad.return (if ocr ! 0 AND 0x40 \<noteq> 0 then CT_SD2 D OR CT_BLOCK D else CT_SD2 D) }
         else State_Monad.return 0 } }
     else State_Monad.return 0 }"

definition probe_old :: "diskio \<Rightarrow> 'c sd_hw \<Rightarrow> ('c sdmm, byte) state" where
  "probe_old D H = do {
     r \<leftarrow> send_cmd H ACMD41 0;
     let (ty, cmd) = (if r \<le> 1 then (CT_SD1 D, ACMD41) else (CT_MMC D, CMD1));
     ok \<leftarrow> idle_loop H 1000 cmd 0;
     if \<not> ok then State_Monad.return 0
     else do {
       r16 \<leftarrow> send_cmd H CMD16 512;
       State_Monad.return (if r16 \<noteq> 0 then 0 else ty) } }"

definition probe :: "diskio \<Rightarrow> 'c sd_hw \<Rightarrow> ('c sdmm, byte) state" where
  "probe D H = do {
     r0 \<leftarrow> send_cmd H CMD0 0;
     if r0 \<noteq> 1 then State_Monad.return 0
     else do {
       r8 \<leftarrow> send_cmd H CMD8 0x1AA;
       if r8 = 1 then probe_sd2 D H else probe_old D H } }"

text \<open>The first return is \<open>RES_NOTRDY\<close>, a result code where a status is expected.\<close>

definition disk_initialize :: "diskio \<Rightarrow> 'c sd_hw \<Rightarrow> byte \<Rightarrow> ('c sdmm, int) state" where
  "disk_initialize D H drv =
     (if drv \<noteq> 0 then State_Monad.return (RES_NOTRDY D)
      else do {
        dly_us H 10000;
        CS_INIT; CS_H H;
        CK_INIT; CK_L H;
        DI_INIT;
        dummy_clocks H 10;
        ty \<leftarrow> probe D H;
        let s = (if ty \<noteq> 0 then 0 else STA_NOINIT D);
        State (\<lambda>w. ((), w\<lparr>CardType := ty, Stat := s\<rparr>));
        deselect H;
        State_Monad.return (uint s) })"

subsection \<open>Reading and writing\<close>

text \<open>The start address: blocks on a block-addressed card, bytes otherwise (a 32-bit product).\<close>

definition card_address :: "diskio \<Rightarrow> byte \<Rightarrow> u32 \<Rightarrow> u32" where
  "card_address D ty sector = (if ty AND CT_BLOCK D = 0 then sector * 512 else sector)"

text \<open>\<open>do { ... } while (--count)\<close>: the bytes stored and the count at the end.\<close>

fun read_blocks :: "'c sd_hw \<Rightarrow> nat \<Rightarrow> ('c sdmm, byte list \<times> u16) state" where
  "read_blocks H 0 = State_Monad.return ([], 0)"
| "read_blocks H (Suc k) = do {
     b \<leftarrow> rcvr_datablock H 512;
     case b of None \<Rightarrow> State_Monad.return ([], word_of_nat (Suc k))
     | Some bs \<Rightarrow> do { (rest, c) \<leftarrow> read_blocks H k; State_Monad.return (bs @ rest, c) } }"

definition disk_read :: "diskio \<Rightarrow> 'c sd_hw \<Rightarrow> byte \<Rightarrow> u32 \<Rightarrow> u16 \<Rightarrow> ('c sdmm, int \<times> byte list) state" where
  "disk_read D H drv sector count = do {
     s \<leftarrow> State (\<lambda>w. (disk_status D drv w, w));
     if s AND STA_NOINIT D \<noteq> 0 then State_Monad.return (RES_NOTRDY D, [])
     else do {
       ty \<leftarrow> State (\<lambda>w. (CardType w, w));
       let cmd = (if count > 1 then CMD18 else CMD17);
       r \<leftarrow> send_cmd H cmd (card_address D ty sector);
       (buff, c) \<leftarrow> (if r = 0 then do {
            (bs, c) \<leftarrow> read_blocks H (rounds count);
            (if cmd = CMD18 then do { x \<leftarrow> send_cmd H CMD12 0; State_Monad.return () } else State_Monad.return ());
            State_Monad.return (bs, c) }
          else State_Monad.return ([], count));
       deselect H;
       State_Monad.return (if c \<noteq> 0 then RES_ERROR D else RES_OK D, buff) } }"

fun write_blocks :: "'c sd_hw \<Rightarrow> nat \<Rightarrow> byte list \<Rightarrow> ('c sdmm, u16) state" where
  "write_blocks H 0 buff = State_Monad.return 0"
| "write_blocks H (Suc k) buff = do {
     ok \<leftarrow> xmit_datablock H buff 0xFC;
     if \<not> ok then State_Monad.return (word_of_nat (Suc k))
     else write_blocks H k (drop 512 buff) }"

definition disk_write :: "diskio \<Rightarrow> 'c sd_hw \<Rightarrow> byte \<Rightarrow> byte list \<Rightarrow> u32 \<Rightarrow> u16 \<Rightarrow> ('c sdmm, int) state" where
  "disk_write D H drv buff sector count = do {
     s \<leftarrow> State (\<lambda>w. (disk_status D drv w, w));
     if s AND STA_NOINIT D \<noteq> 0 then State_Monad.return (RES_NOTRDY D)
     else do {
       ty \<leftarrow> State (\<lambda>w. (CardType w, w));
       let addr = card_address D ty sector;
       c \<leftarrow> (if count = 1 then do {
           r \<leftarrow> send_cmd H CMD24 addr;
           if r = 0 then do {
             ok \<leftarrow> xmit_datablock H buff 0xFE;
             State_Monad.return (if ok then 0 else count) }
           else State_Monad.return count }
         else do {
           (if ty AND CT_SDC D \<noteq> 0 then do { x \<leftarrow> send_cmd H ACMD23 (ucast count); State_Monad.return () }
            else State_Monad.return ());
           r \<leftarrow> send_cmd H CMD25 addr;
           if r = 0 then do {
             c \<leftarrow> write_blocks H (rounds count) buff;
             stop \<leftarrow> xmit_datablock H [] 0xFD;
             State_Monad.return (if \<not> stop then 1 else c) }
           else State_Monad.return count });
       deselect H;
       State_Monad.return (if c \<noteq> 0 then RES_ERROR D else RES_OK D) } }"

subsection \<open>Control\<close>

text \<open>
  The capacity in sectors from the card's CSD. On a version 1 register with a block length
  field so small that \<open>n < 9\<close> the shift is undefined in C: \<open>None\<close>.
\<close>

definition csd_sectors :: "byte list \<Rightarrow> u32 option" where
  "csd_sectors csd =
     (if drop_bit 6 (csd ! 0) = 1 then
        let cs = ucast (ucast (csd ! 9) + push_bit 8 (ucast (csd ! 8)) :: u16)
               + push_bit 16 (ucast (csd ! 7 AND 63)) + 1 :: u32
        in Some (push_bit 10 cs)
      else
        let n = (csd ! 5 AND 15) + drop_bit 7 (csd ! 10 AND 128) + push_bit 1 (csd ! 9 AND 3) + 2 :: byte;
            cs = ucast (ucast (drop_bit 6 (csd ! 8)) + push_bit 2 (ucast (csd ! 7)) + push_bit 10 (ucast (csd ! 6 AND 3)) + 1 :: u16) :: u32
        in if unat n < 9 then None else Some (push_bit (unat n - 9) cs))"

text \<open>The result and the \<open>DWORD\<close> stored through \<open>buff\<close>, if one is; the outer \<open>None\<close> is the undefined shift.\<close>

definition disk_ioctl :: "diskio \<Rightarrow> 'c sd_hw \<Rightarrow> byte \<Rightarrow> byte \<Rightarrow> ('c sdmm, (int \<times> u32 option) option) state" where
  "disk_ioctl D H drv ctrl = do {
     s \<leftarrow> State (\<lambda>w. (disk_status D drv w, w));
     if s AND STA_NOINIT D \<noteq> 0 then State_Monad.return (Some (RES_NOTRDY D, None))
     else do {
       res \<leftarrow> (if ctrl = CTRL_SYNC D then do {
           ok \<leftarrow> select H;
           State_Monad.return (Some (if ok then RES_OK D else RES_ERROR D, None)) }
         else if ctrl = GET_SECTOR_COUNT D then do {
           r \<leftarrow> send_cmd H CMD9 0;
           if r \<noteq> 0 then State_Monad.return (Some (RES_ERROR D, None))
           else do {
             b \<leftarrow> rcvr_datablock H 16;
             State_Monad.return (case b of None \<Rightarrow> Some (RES_ERROR D, None)
               | Some csd \<Rightarrow> (case csd_sectors csd of None \<Rightarrow> None | Some n \<Rightarrow> Some (RES_OK D, Some n))) } }
         else if ctrl = GET_BLOCK_SIZE D then State_Monad.return (Some (RES_OK D, Some 128))
         else State_Monad.return (Some (RES_PARERR D, None)));
       deselect H;
       State_Monad.return res } }"

end
