(* ===== verification/Sdmm_Props.thy ===== *)
theory Sdmm_Props
  imports Sdmm_Disk
begin

text \<open>
  The properties of the bit-banged SD driver: the serial protocol on any card, read off a log
  of the port; the command packets; what a successful read has received and stored; the driver's status;
  and the capacity arithmetic.
\<close>

subsection \<open>The port, recorded\<close>

datatype pin_ev = In byte | Out byte

definition tapped :: "'c sd_hw \<Rightarrow> (pin_ev list \<times> 'c) sd_hw" where
  "tapped H = \<lparr>pin_in = (\<lambda>(l, c). case pin_in H c of (v, c') \<Rightarrow> (v, l @ [In v], c')),
     pin_out = (\<lambda>v (l, c). (l @ [Out v], pin_out H v c)), loop_reads = loop_reads H\<rparr>"

text \<open>The bits of a byte as they go over the line.\<close>

definition msb_first :: "byte \<Rightarrow> bool list" where
  "msb_first x = map (bit x) (rev [0..<8])"

text \<open>What a card sees: the data line at each rising edge of the clock, from the clock level before.\<close>

fun clocked_in :: "bool \<Rightarrow> pin_ev list \<Rightarrow> bool list" where
  "clocked_in ck [] = []"
| "clocked_in ck (In v # t) = clocked_in ck t"
| "clocked_in ck (Out v # t) = (if bit v 2 \<and> \<not> ck then bit v 1 # clocked_in True t else clocked_in (bit v 2) t)"

text \<open>The levels of the card's output the driver took.\<close>

fun levels :: "pin_ev list \<Rightarrow> bool list" where
  "levels [] = []"
| "levels (In v # t) = bit v 0 # levels t"
| "levels (Out v # t) = levels t"

fun clock_after :: "bool \<Rightarrow> pin_ev list \<Rightarrow> bool" where
  "clock_after ck [] = ck"
| "clock_after ck (In v # t) = clock_after ck t"
| "clock_after ck (Out v # t) = clock_after (bit v 2) t"

lemma trace_append [simp]:
  "clocked_in ck (s @ t) = clocked_in ck s @ clocked_in (clock_after ck s) t"
  "levels (s @ t) = levels s @ levels t"
  "clock_after ck (s @ t) = clock_after (clock_after ck s) t"
  by (induction s arbitrary: ck rule: levels.induct) auto

text \<open>
  \<open>plays I J m P\<close>: from a port with the clock low and the latch in \<open>I\<close>, \<open>m\<close> ends with the
  clock low and the latch in \<open>J\<close>, and its result, the bits it clocked out and the levels it
  took satisfy \<open>P\<close>.
\<close>

definition plays :: "(byte \<Rightarrow> bool) \<Rightarrow> (byte \<Rightarrow> bool) \<Rightarrow> ((pin_ev list \<times> 'c) sdmm, 'a) state \<Rightarrow>
    ('a \<Rightarrow> bool list \<Rightarrow> bool list \<Rightarrow> bool) \<Rightarrow> bool" where
  "plays I J m P \<longleftrightarrow> (\<forall>w. \<not> bit (PORTB w) 2 \<and> I (PORTB w) \<longrightarrow>
     (case run_state m w of (x, w') \<Rightarrow> \<not> bit (PORTB w') 2 \<and> J (PORTB w') \<and>
        (\<exists>t. fst (card w') = fst (card w) @ t \<and> \<not> clock_after False t \<and> P x (clocked_in False t) (levels t))))"

abbreviation (input) "any_latch \<equiv> \<lambda>_::byte. True"
abbreviation (input) "di_high \<equiv> \<lambda>p::byte. bit p 1"

lemma plays_bind:
  assumes "plays I J m P" "\<And>x ci lv. P x ci lv \<Longrightarrow> plays J K (f x) (\<lambda>y ci' lv'. Q y (ci @ ci') (lv @ lv'))"
  shows "plays I K (State_Monad.bind m f) Q"
  unfolding plays_def
proof (intro allI impI)
  fix w :: "(pin_ev list \<times> 'a) sdmm" assume w: "\<not> bit (PORTB w) 2 \<and> I (PORTB w)"
  obtain x w1 where m: "run_state m w = (x, w1)" by (metis surj_pair)
  with assms(1) w obtain t where w1: "\<not> bit (PORTB w1) 2" "J (PORTB w1)" and t: "fst (card w1) = fst (card w) @ t"
    "\<not> clock_after False t" "P x (clocked_in False t) (levels t)" by (auto simp: plays_def)
  obtain y w2 where f: "run_state (f x) w1 = (y, w2)" by (metis surj_pair)
  with assms(2) [OF t(3)] w1 obtain t' where "\<not> bit (PORTB w2) 2" "K (PORTB w2)" "fst (card w2) = fst (card w1) @ t'"
    "\<not> clock_after False t'" "Q y (clocked_in False t @ clocked_in False t') (levels t @ levels t')" by (auto simp: plays_def)
  with m f t show "case run_state (State_Monad.bind m f) w of (x, w') \<Rightarrow> \<not> bit (PORTB w') 2 \<and> K (PORTB w') \<and>
     (\<exists>t. fst (card w') = fst (card w) @ t \<and> \<not> clock_after False t \<and> Q x (clocked_in False t) (levels t))"
    by (auto intro!: exI [of _ "t @ t'"])
qed

lemma plays_return: "P x [] [] \<Longrightarrow> plays I I (State_Monad.return x) P"
  by (auto simp: plays_def intro!: exI [of _ "[]"])

lemma plays_mono: "plays I J m P \<Longrightarrow> (\<And>x ci lv. P x ci lv \<Longrightarrow> Q x ci lv) \<Longrightarrow> plays I J m Q"
  unfolding plays_def by (fastforce split: prod.splits)

lemma port_bits:
  fixes p :: byte
  shows "bit (p OR 0x02) 2 = bit p 2" "bit (p AND 0xFD) 2 = bit p 2" "bit (p OR 0x04) 2" "\<not> bit (p AND 0xFB) 2"
    "bit (p OR 0x02) 1" "\<not> bit (p AND 0xFD) 1" "bit (p OR 0x04) 1 = bit p 1" "bit (p AND 0xFB) 1 = bit p 1"
    "bit (p OR 0x08) 2 = bit p 2" "bit (p AND 0xF7) 2 = bit p 2"
  by (simp_all add: bit_or_iff bit_and_iff)

lemmas pin_defs = clock_pulse_def DI_H_def DI_L_def CK_H_def CK_L_def port_wr_def port_rd_def DO_def tapped_def
  port_bits port_bits [unfolded One_nat_def]

lemma plays_send_bit: "plays any_latch any_latch (send_bit (tapped H) b) (\<lambda>_ ci lv. ci = [b] \<and> lv = [])"
  unfolding plays_def send_bit_def
  by (auto simp: pin_defs split: prod.splits intro!: exI [of _ "[_, _, _]"])

lemma plays_DI_H: "plays any_latch di_high (DI_H (tapped H)) (\<lambda>_ ci lv. ci = [] \<and> lv = [])"
  unfolding plays_def by (auto simp: pin_defs split: prod.splits intro!: exI [of _ "[_]"])

lemma plays_take_bit:
  "plays di_high di_high (take_bit_in (tapped H) r)
     (\<lambda>x ci lv. ci = [True] \<and> (\<exists>b. lv = [b] \<and> x = push_bit 1 r + (if b then 1 else 0)))"
  unfolding plays_def take_bit_in_def
  by (auto simp: pin_defs byte_masks split: prod.splits intro!: exI [of _ "[_, _, _]"])

lemma msb_first_eq: "msb_first x = [bit x 7, bit x 6, bit x 5, bit x 4, bit x 3, bit x 2, bit x 1, bit x 0]"
  by (simp add: msb_first_def upt_rec numeral_eq_Suc)

lemma plays_xmit_byte: "plays any_latch any_latch (xmit_byte (tapped H) d) (\<lambda>_ ci lv. ci = msb_first d \<and> lv = [])"
  unfolding xmit_byte_def
  apply (rule plays_bind [OF plays_send_bit])+
  apply (rule plays_mono [OF plays_send_bit])
  apply (auto simp: msb_first_eq byte_masks)
  done

text \<open>Shifting in eight levels, most significant first, rebuilds the byte they spell.\<close>

definition shift_in :: "byte \<Rightarrow> bool \<Rightarrow> byte" where
  "shift_in r b = push_bit 1 r + (if b then 1 else 0)"

lemma bit_shift_in: "bit (shift_in r b) n = (if n = 0 then b else n < 8 \<and> bit r (n - 1))"
proof -
  have "push_bit 1 r AND 1 = 0"
    by (rule bit_word_eqI) (unfold bit_and_iff bit_push_bit_iff bit_1_iff, auto)
  then have "push_bit 1 r + 1 = push_bit 1 r OR 1" by (rule disjunctive_add_eq_or)
  then have "shift_in r b = push_bit 1 r OR (if b then 1 else 0)" unfolding shift_in_def by (cases b) (simp_all only: if_True if_False or.right_neutral add_0_right)
  then show ?thesis
    by (simp only:) (unfold bit_or_iff bit_push_bit_iff, cases b, auto simp: bit_1_iff dest: bit_imp_le_length)
qed

lemma plays_rcvr_byte:
  "plays di_high di_high (rcvr_byte (tapped H)) (\<lambda>x ci lv. ci = replicate 8 True \<and> lv = msb_first x)"
  unfolding rcvr_byte_def
  apply (rule plays_bind [OF plays_take_bit])+
  apply (rule plays_mono [OF plays_take_bit])
  apply (auto simp: msb_first_eq shift_in_def [symmetric] bit_shift_in numeral_eq_Suc)
  done

lemma plays_xmit_mmc:
  "plays any_latch any_latch (xmit_mmc (tapped H) ds) (\<lambda>_ ci lv. ci = concat (map msb_first ds) \<and> lv = [])"
proof (induction ds)
  case (Cons d ds)
  show ?case unfolding xmit_mmc.simps
    by (rule plays_bind [OF plays_xmit_byte], rule plays_mono [OF Cons.IH]) simp
qed (simp add: plays_return)

lemma plays_rcvr_bytes:
  "plays di_high di_high (rcvr_bytes (tapped H) n)
     (\<lambda>rs ci lv. length rs = n \<and> ci = replicate (8 * n) True \<and> lv = concat (map msb_first rs))"
proof (induction n)
  case (Suc n)
  show ?case unfolding rcvr_bytes.simps
    by (rule plays_bind [OF plays_rcvr_byte], rule plays_bind [OF Suc.IH], rule plays_return)
      (simp add: replicate_add [symmetric])
qed (simp add: plays_return)

lemma plays_rcvr_mmc:
  "plays any_latch di_high (rcvr_mmc (tapped H) bc)
     (\<lambda>rs ci lv. length rs = rounds bc \<and> ci = replicate (8 * rounds bc) True \<and> lv = concat (map msb_first rs))"
  unfolding rcvr_mmc_def by (rule plays_bind [OF plays_DI_H], rule plays_mono [OF plays_rcvr_bytes]) simp

lemma playsD:
  assumes "plays I J m P" "run_state m w = (x, w')" "\<not> bit (PORTB w) 2" "I (PORTB w)" "card w = ([], c)"
  shows "\<not> bit (PORTB w') 2 \<and> P x (clocked_in False (fst (card w'))) (levels (fst (card w')))"
  using assms unfolding plays_def by fastforce

text \<open>C17: Whatever the card, \<open>xmit_mmc\<close> clocks out the bits of its bytes in order, most significant bit
  first, one at each rising edge, and takes nothing from the card; it starts and ends with the
  clock low.\<close>

theorem xmit_mmc_serial:
  assumes "run_state (xmit_mmc (tapped H) ds) w = ((), w')" "\<not> bit (PORTB w) 2" "card w = ([], c)"
  shows "\<not> bit (PORTB w') 2 \<and> clocked_in False (fst (card w')) = concat (map msb_first ds) \<and>
    levels (fst (card w')) = []"
  using playsD [OF plays_xmit_mmc assms(1,2) _ assms(3)] by simp

text \<open>C18: Whatever the card, \<open>rcvr_mmc\<close> gives it eight clocks per byte with the data line high, and the
  bytes it returns are the levels of the card's output before each of those clocks, most
  significant bit first.\<close>

theorem rcvr_mmc_serial:
  assumes "run_state (rcvr_mmc (tapped H) bc) w = (rs, w')" "\<not> bit (PORTB w) 2" "card w = ([], c)"
  shows "\<not> bit (PORTB w') 2 \<and> length rs = rounds bc \<and>
    clocked_in False (fst (card w')) = replicate (8 * rounds bc) True \<and>
    levels (fst (card w')) = concat (map msb_first rs)"
  using playsD [OF plays_rcvr_mmc assms(1,2) _ assms(3)] by simp

text \<open>A card that always answers with the same level, and the driver after reset.\<close>

definition mute_card :: "unit sd_hw" where
  "mute_card = \<lparr>pin_in = (\<lambda>c. (0xFF, c)), pin_out = (\<lambda>_ c. c), loop_reads = 1\<rparr>"

definition sd_start :: "'c \<Rightarrow> 'c sdmm" where
  "sd_start c = \<lparr>PORTB = 0, DDRB = 0, Stat = 1, CardType = 0, card = c\<rparr>"

theorem xmit_mmc_serial_witness:
  "clocked_in False (fst (card (snd (run_state (xmit_mmc (tapped mute_card) [0xA5]) (sd_start ([], ())))))) =
     [True, False, True, False, False, True, False, True]"
proof -
  let ?r = "run_state (xmit_mmc (tapped mute_card) [0xA5]) (sd_start ([], ()))"
  have r: "?r = ((), snd ?r)" by (simp add: prod_eq_iff)
  show ?thesis using xmit_mmc_serial [OF r, of "()"] by (simp add: sd_start_def msb_first_eq)
qed

theorem rcvr_mmc_serial_witness:
  "levels (fst (card (snd (run_state (rcvr_mmc (tapped mute_card) 1) (sd_start ([], ())))))) =
     concat (map msb_first (fst (run_state (rcvr_mmc (tapped mute_card) 1) (sd_start ([], ())))))"
proof -
  let ?r = "run_state (rcvr_mmc (tapped mute_card) 1) (sd_start ([], ()))"
  have r: "?r = (fst ?r, snd ?r)" by simp
  show ?thesis using rcvr_mmc_serial [OF r, of "()"] by (simp add: sd_start_def)
qed

subsection \<open>Command packets\<close>

text \<open>The CRC of an SD command: 7 bits, polynomial \<open>x^7 + x^3 + 1\<close>, over the bits most significant first.\<close>

definition crc7_bit :: "byte \<Rightarrow> bool \<Rightarrow> byte" where
  "crc7_bit crc b = (let inv = (bit crc 6 \<noteq> b); s = push_bit 1 crc AND 0x7F in if inv then s XOR 0x09 else s)"

definition crc7 :: "byte list \<Rightarrow> byte" where
  "crc7 xs = foldl crc7_bit 0 (concat (map msb_first xs))"

definition packet_cmd :: "byte list \<Rightarrow> byte" where "packet_cmd p = p ! 0 AND 0x3F"
definition packet_arg :: "byte list \<Rightarrow> u32" where
  "packet_arg p = push_bit 24 (ucast (p ! 1)) OR push_bit 16 (ucast (p ! 2)) OR push_bit 8 (ucast (p ! 3)) OR ucast (p ! 4)"

definition packet_crc_ok :: "byte list \<Rightarrow> bool" where
  "packet_crc_ok p \<longleftrightarrow> p ! 5 = push_bit 1 (crc7 (take 5 p)) OR 1"

lemma take6: "w AND 0x3F = take_bit 6 w" for w :: byte
  by (simp add: take_bit_eq_mask mask_eq_exp_minus_1)

lemma small_cmd:
  assumes "cmd < (0x40 :: byte)"
  shows "(0x40 OR cmd) AND 0x3F = cmd" "\<not> bit cmd 7" "\<not> bit cmd 6"
proof -
  have "unat cmd < 64" using assms by (simp add: word_less_nat_alt)
  then have "take_bit 6 (unat cmd) = unat cmd" by (simp add: take_bit_nat_eq_self)
  then have t: "take_bit 6 cmd = cmd" by (metis unsigned_take_bit_eq word_unat_eq_iff)
  have "take_bit 6 (0x40 OR cmd) = cmd" unfolding take_bit_or t by simp
  then show "(0x40 OR cmd) AND 0x3F = cmd" by (simp only: take6)
  show "\<not> bit cmd 7" "\<not> bit cmd 6" using t bit_take_bit_iff [of 6 cmd] by (metis less_irrefl numeral_less_iff semiring_norm)+
qed

lemma join_arg:
  "push_bit 24 (ucast (ucast (drop_bit 24 arg) :: byte)) OR push_bit 16 (ucast (ucast (drop_bit 16 arg) :: byte)) OR
     push_bit 8 (ucast (ucast (drop_bit 8 arg) :: byte)) OR ucast (ucast arg :: byte) = arg" (is "?l = arg") for arg :: u32
proof (rule bit_word_eqI)
  fix n assume "n < LENGTH(32)"
  then consider "n < 8" | "8 \<le> n" "n < 16" | "16 \<le> n" "n < 24" | "24 \<le> n" "n < 32" by force
  then show "bit ?l n = bit arg n"
    by cases (auto simp: bit_or_iff bit_push_bit_iff bit_ucast_iff bit_drop_bit_eq)
qed

text \<open>The packet \<open>send_cmd\<close> sends for a command below 64 carries that command and its whole 32-bit
  argument between a start and a stop bit, and its CRC is right for the two commands a card
  checks it on: CMD0 and CMD8 with 0x1AA.\<close>

theorem cmd_packet_wellformed:
  assumes "cmd < 0x40"
  shows "length (cmd_packet cmd arg) = 6 \<and> packet_cmd (cmd_packet cmd arg) = cmd \<and> packet_arg (cmd_packet cmd arg) = arg \<and>
    \<not> bit (cmd_packet cmd arg ! 0) 7 \<and> bit (cmd_packet cmd arg ! 0) 6 \<and> bit (cmd_packet cmd arg ! 5) 0 \<and>
    packet_crc_ok (cmd_packet CMD0 0) \<and> packet_crc_ok (cmd_packet CMD8 0x1AA)"
proof -
  have "packet_crc_ok (cmd_packet CMD0 0)" by code_simp
  moreover have "packet_crc_ok (cmd_packet CMD8 0x1AA)" by code_simp
  ultimately show ?thesis
    using small_cmd [OF assms] by (simp add: cmd_packet_def packet_cmd_def packet_arg_def join_arg bit_or_iff)
qed

theorem cmd_packet_wellformed_witness: "packet_arg (cmd_packet CMD17 0x12345678) = 0x12345678"
  using cmd_packet_wellformed [of CMD17 "0x12345678"] by simp

subsection \<open>What a read has stored\<close>

lemma length_rcvr_bytes: "run_state (rcvr_bytes H n) w = (rs, w') \<Longrightarrow> length rs = n"
  by (induction n arbitrary: w rs w') (auto split: prod.splits)

lemma length_rcvr_mmc: "run_state (rcvr_mmc H bc) w = (rs, w') \<Longrightarrow> length rs = rounds bc"
  by (auto simp: rcvr_mmc_def split: prod.splits dest: length_rcvr_bytes)

lemma length_datablock: "run_state (rcvr_datablock H btr) w = (Some bs, w') \<Longrightarrow> length bs = rounds btr"
  by (auto simp: rcvr_datablock_def split: prod.splits if_splits dest: length_rcvr_mmc)

text \<open>The blocks received and the ones still missing add up to the request.\<close>

lemma read_blocks_count:
  "run_state (read_blocks H k) w = ((bs, c), w') \<Longrightarrow> \<exists>j\<le>k. length bs = 512 * (k - j) \<and> c = word_of_nat j"
proof (induction k arbitrary: w bs c w')
  case (Suc k)
  obtain b w1 where b: "run_state (rcvr_datablock H 512) w = (b, w1)" by (metis surj_pair)
  show ?case
  proof (cases b)
    case None
    with Suc.prems b show ?thesis by (auto intro!: exI [of _ "Suc k"])
  next
    case (Some xs)
    obtain rest c1 w2 where r: "run_state (read_blocks H k) w1 = ((rest, c1), w2)" by (metis surj_pair)
    from Suc.IH [OF r] obtain j where "j \<le> k" "length rest = 512 * (k - j)" "c1 = word_of_nat j" by blast
    moreover have "length xs = 512" using length_datablock b Some by (fastforce simp: rounds_def)
    ultimately show ?thesis
      using Suc.prems b Some r by (auto intro!: exI [of _ j] simp: Suc_diff_le)
  qed
qed auto

text \<open>
  \<open>awaits H d w w'\<close>: from \<open>w\<close> the driver takes a byte, and while it is 0xFF waits 100 us and takes
  another; the first other byte is \<open>d\<close> and leaves \<open>w'\<close>.
\<close>

inductive awaits :: "'c sd_hw \<Rightarrow> byte \<Rightarrow> 'c sdmm \<Rightarrow> 'c sdmm \<Rightarrow> bool" for H where
  arrived: "run_state (rcvr1 H) w = (d, w') \<Longrightarrow> d \<noteq> 0xFF \<Longrightarrow> awaits H d w w'"
| later: "run_state (rcvr1 H) w = (0xFF, w1) \<Longrightarrow> run_state (dly_us H 100) w1 = ((), w2) \<Longrightarrow>
    awaits H d w2 w' \<Longrightarrow> awaits H d w w'"

text \<open>
  \<open>sectors H k bs w w'\<close>: between \<open>w\<close> and \<open>w'\<close> the card sent \<open>k\<close> data blocks, each of them a data token
  0xFE, 512 bytes and a CRC of two bytes, and \<open>bs\<close> is what the blocks carried, in order.
\<close>

inductive sectors :: "'c sd_hw \<Rightarrow> nat \<Rightarrow> byte list \<Rightarrow> 'c sdmm \<Rightarrow> 'c sdmm \<Rightarrow> bool" for H where
  no_sector: "sectors H 0 [] w w"
| sector: "awaits H 0xFE w w1 \<Longrightarrow> run_state (rcvr_mmc H 512) w1 = (bs, w2) \<Longrightarrow>
    run_state (rcvr_mmc H 2) w2 = (crc, w3) \<Longrightarrow> sectors H k rest w3 w' \<Longrightarrow> sectors H (Suc k) (bs @ rest) w w'"

lemma token_awaited: "run_state (token_loop H n) w = (d, w') \<Longrightarrow> d \<noteq> 0xFF \<Longrightarrow> awaits H d w w'"
proof (induction n arbitrary: w)
  case (Suc n)
  then show ?case by (fastforce split: prod.splits if_splits intro: arrived later)
qed simp

lemma datablock_sent:
  assumes "run_state (rcvr_datablock H btr) w = (Some bs, w')"
  obtains w1 w2 crc where "awaits H 0xFE w w1" "run_state (rcvr_mmc H btr) w1 = (bs, w2)"
    "run_state (rcvr_mmc H 2) w2 = (crc, w')"
  using assms token_awaited [of H 1000 w "0xFE"]
  by (fastforce simp: rcvr_datablock_def split: prod.splits if_splits)

lemma read_blocks_sectors:
  "run_state (read_blocks H k) w = ((bs, c), w') \<Longrightarrow> length bs = 512 * k \<Longrightarrow> sectors H k bs w w'"
proof (induction k arbitrary: w bs c w')
  case (Suc k)
  obtain b w1 where b: "run_state (rcvr_datablock H 512) w = (b, w1)" by (metis surj_pair)
  with Suc.prems obtain xs where xs: "b = Some xs" by (cases b) auto
  obtain rest c1 w2 where r: "run_state (read_blocks H k) w1 = ((rest, c1), w2)" by (metis surj_pair)
  have "length xs = 512" using length_datablock b xs by (fastforce simp: rounds_def)
  with Suc.prems b xs r have "length rest = 512 * k" "bs = xs @ rest" "w' = w2" by auto
  with Suc.IH [OF r] b xs show ?case by (auto elim!: datablock_sent intro: sector)
qed (auto intro: no_sector)

text \<open>What follows the blocks: the stop command after a read of several sectors, and the deselection.\<close>

definition read_end :: "'c sd_hw \<Rightarrow> bool \<Rightarrow> ('c sdmm, unit) state" where
  "read_end H many = do { (if many then do { x \<leftarrow> send_cmd H CMD12 0; State_Monad.return () } else State_Monad.return ());
     deselect H }"

text \<open>C36: When \<open>disk_read\<close> of \<open>count\<close> sectors returns OK on an initialised drive, the card accepted the read
  command with the address of the sector, and then sent exactly \<open>count\<close> data blocks, each announced
  by the data token 0xFE (an error token or a timeout makes no block); the buffer holds the 512 bytes
  of each of them in order, and the driver ends with the stop command when several were asked for,
  and deselects the card. Every other result is RES_ERROR and leaves fewer whole sectors stored.\<close>

theorem disk_read_complete:
  assumes "run_state (disk_read D H 0 sector count) w = ((r, buff), w')" "Stat w AND STA_NOINIT D = 0"
    and "count \<noteq> 0" "RES_OK D \<noteq> RES_ERROR D"
  shows "(r = RES_OK D \<longrightarrow> length buff = 512 * unat count \<and>
      (\<exists>w0 w1. run_state (send_cmd H (if count > 1 then CMD18 else CMD17) (card_address D (CardType w) sector)) w = (0, w0) \<and>
         sectors H (unat count) buff w0 w1 \<and> run_state (read_end H (count > 1)) w1 = ((), w'))) \<and>
    (r \<noteq> RES_OK D \<longrightarrow> r = RES_ERROR D \<and> (\<exists>k<unat count. length buff = 512 * k))"
proof -
  define cmd where "cmd = (if count > 1 then CMD18 else CMD17)"
  obtain rc w1 where s: "run_state (send_cmd H cmd (card_address D (CardType w) sector)) w = (rc, w1)" by (metis surj_pair)
  have k: "rounds count = unat count" "0 < unat count" using assms(3) by (auto simp: rounds_def unat_gt_0)
  show ?thesis
  proof (cases "rc = 0")
    case True
    obtain bs c w2 where b: "run_state (read_blocks H (rounds count)) w1 = ((bs, c), w2)" by (metis surj_pair)
    from read_blocks_count [OF b] obtain j where j: "j \<le> unat count" "length bs = 512 * (unat count - j)"
      "c = word_of_nat j" unfolding k by blast
    have "j < 2 ^ 16" using j(1) unsigned_less [of count, where ?'a = nat] by simp
    then have c: "c = 0 \<longleftrightarrow> j = 0" using j(3) by (auto simp: word_of_nat_eq_0_iff dest: dvd_imp_le)
    have res: "buff = bs" "r = (if c \<noteq> 0 then RES_ERROR D else RES_OK D)" "run_state (read_end H (count > 1)) w2 = ((), w')"
      using assms(1,2) s True b unfolding disk_read_def cmd_def read_end_def
      by (auto simp: disk_status_def Let_def split: prod.splits if_splits)
    show ?thesis
    proof (cases "j = 0")
      case True
      with j have "length bs = 512 * unat count" by simp
      moreover from read_blocks_sectors [OF b] this k(1) have "sectors H (unat count) bs w1 w2" by simp
      ultimately show ?thesis using True s \<open>rc = 0\<close> res c assms(4) unfolding cmd_def by auto
    next
      case False
      with j k(2) have "unat count - j < unat count" by simp
      then show ?thesis using False j res c assms(4) by auto
    qed
  next
    case False
    then have "buff = [] \<and> r = RES_ERROR D"
      using assms(1,2,3) s unfolding disk_read_def cmd_def
      by (auto simp: disk_status_def Let_def split: prod.splits if_splits)
    then show ?thesis using k(2) assms(4) by auto
  qed
qed

definition ff_diskio :: diskio where
  "ff_diskio = \<lparr>STA_NOINIT = 1, RES_OK = 0, RES_ERROR = 1, RES_NOTRDY = 3, RES_PARERR = 4, CT_MMC = 1, CT_SD1 = 2,
     CT_SD2 = 4, CT_SDC = 6, CT_BLOCK = 8, CTRL_SYNC = 0, GET_SECTOR_COUNT = 1, GET_BLOCK_SIZE = 3\<rparr>"

text \<open>
  A card that serves one read: its output by the number of clocks it has seen. It is ready, takes
  the command (clocks 24 to 71), answers 0x00, sends the token 0xFE and then bytes 0x55.
\<close>

definition served :: "nat \<Rightarrow> bool" where
  "served n = (if n < 72 then True else if n < 80 then False else if n < 88 then n \<noteq> 87 else odd n)"

definition reading_card :: "(nat \<times> bool) sd_hw" where
  "reading_card = \<lparr>pin_in = (\<lambda>(n, ck). (if served n then 1 else 0, n, ck)),
     pin_out = (\<lambda>v (n, ck). (if bit v 2 \<and> \<not> ck then Suc n else n, bit v 2)), loop_reads = 1\<rparr>"

text \<open>\<open>serves m n x n'\<close>: with the clock low after \<open>n\<close> clocks, \<open>m\<close> returns \<open>x\<close> after \<open>n'\<close> clocks, the clock low again.\<close>

definition serves :: "((nat \<times> bool) sdmm, 'a) state \<Rightarrow> nat \<Rightarrow> 'a \<Rightarrow> nat \<Rightarrow> bool" where
  "serves m n x n' \<longleftrightarrow> (\<forall>w. \<not> bit (PORTB w) 2 \<and> card w = (n, False) \<longrightarrow>
     (\<exists>w'. run_state m w = (x, w') \<and> \<not> bit (PORTB w') 2 \<and> card w' = (n', False)))"

lemma serves_bind: "serves m n x n1 \<Longrightarrow> serves (f x) n1 y n' \<Longrightarrow> serves (State_Monad.bind m f) n y n'"
  unfolding serves_def by (fastforce split: prod.splits)

lemma serves_return: "serves (State_Monad.return x) n x n"
  by (simp add: serves_def)

lemma serves_pins:
  "serves (DI_H reading_card) n () n" "serves (CS_H reading_card) n () n" "serves (CS_L reading_card) n () n"
  "serves (send_bit reading_card b) n () (Suc n)"
  "serves (take_bit_in reading_card r) n (shift_in r (served n)) (Suc n)"
  by (auto simp: serves_def shift_in_def CS_H_def CS_L_def send_bit_def take_bit_in_def pin_defs reading_card_def)

lemma serves_xmit_byte: "serves (xmit_byte reading_card d) n () (n + 8)"
  unfolding xmit_byte_def
  using serves_pins(4) by (intro serves_bind [where x = "()"]) (simp_all add: numeral_eq_Suc)

lemma serves_xmit_mmc: "serves (xmit_mmc reading_card ds) n () (n + 8 * length ds)"
proof (induction ds arbitrary: n)
  case (Cons d ds)
  show ?case using serves_bind [OF serves_xmit_byte Cons.IH, of d n] by (simp add: algebra_simps)
qed (simp add: serves_return)

definition served_byte :: "nat \<Rightarrow> byte" where
  "served_byte n = foldl shift_in 0 (map served [n ..< n + 8])"

lemma serves_rcvr_byte: "serves (rcvr_byte reading_card) n (served_byte n) (n + 8)"
proof -
  have "map served [n ..< n + 8] = map (\<lambda>i. served (i + n)) [0, 1, 2, 3, 4, 5, 6, 7]"
    by (simp add: upt_rec numeral_eq_Suc)
  then show ?thesis unfolding rcvr_byte_def served_byte_def
    by (auto simp: numeral_eq_Suc intro!: serves_bind [OF serves_pins(5)] serves_pins(5))
qed

lemma serves_rcvr_bytes:
  "serves (rcvr_bytes reading_card k) n (map (\<lambda>i. served_byte (n + 8 * i)) [0..<k]) (n + 8 * k)"
proof (induction k arbitrary: n)
  case (Suc k)
  have "map (\<lambda>i. served_byte (n + 8 * i)) [0..<Suc k] = served_byte n # map (\<lambda>i. served_byte (n + 8 + 8 * i)) [0..<k]"
    by (simp add: map_upt_Suc algebra_simps del: upt_Suc)
  with serves_bind [OF serves_rcvr_byte [of n] serves_bind [OF Suc.IH [of "n + 8"] serves_return]]
  show ?case by (simp add: algebra_simps del: upt_Suc)
qed (simp add: serves_return)

lemma serves_rcvr_mmc:
  "serves (rcvr_mmc reading_card bc) n (map (\<lambda>i. served_byte (n + 8 * i)) [0..<rounds bc]) (n + 8 * rounds bc)"
  unfolding rcvr_mmc_def by (rule serves_bind [OF serves_pins(1) serves_rcvr_bytes])

lemma serves_rcvr1: "serves (rcvr1 reading_card) n (served_byte n) (n + 8)"
  unfolding rcvr1_def
  by (rule serves_bind [where x = "[served_byte n]" and ?n1.0 = "n + 8"])
    (use serves_rcvr_mmc [of 1 n] serves_return [of "served_byte n"] in \<open>simp_all add: rounds_def\<close>)

lemma serves_next: "served_byte n = d \<Longrightarrow> serves (f d) (n + 8) y n' \<Longrightarrow> serves (State_Monad.bind (rcvr1 reading_card) f) n y n'"
  using serves_bind [OF serves_rcvr1] by metis

lemma served_bytes: "served_byte 16 = 0xFF" "served_byte 72 = 0" "served_byte 80 = 0xFE" "served_byte (88 + 8 * i) = 0x55"
  by (simp_all add: served_byte_def served_def upt_rec shift_in_def)

lemma serves_deselect: "serves (deselect reading_card) n () (n + 8)"
  unfolding deselect_def by (intro serves_bind [OF serves_pins(2)] serves_bind [OF serves_rcvr1] serves_return)

lemma serves_select: "serves (select reading_card) 8 True 24"
proof -
  have "serves (ready_loop reading_card (Suc k)) 16 True 24" for k
    using serves_return [of True 24] by (auto intro!: serves_next [OF served_bytes(1)])
  from this [of 4999] have "serves (wait_ready reading_card) 16 True 24" by (simp add: wait_ready_def del: ready_loop.simps)
  then have "serves (do { ok \<leftarrow> wait_ready reading_card; if ok then State_Monad.return True else m }) 16 True 24" for m
    by (rule serves_bind) (simp only: if_True serves_return)
  then show ?thesis unfolding select_def
    by (intro serves_bind [OF serves_pins(3)] serves_next [OF refl]) simp
qed

lemma serves_command: "serves (send_cmd reading_card CMD17 a) 0 0 80"
proof -
  have "serves (response_loop reading_card 10) 72 0 80"
    using serves_return [of 0 80] by (subst response_loop.simps) (auto intro!: serves_next [OF served_bytes(2)])
  moreover have "serves (xmit_mmc reading_card (cmd_packet CMD17 a)) 24 () 72"
    using serves_xmit_mmc [of "cmd_packet CMD17 a" 24] by (simp add: cmd_packet_def)
  ultimately have body: "serves (do { xmit_mmc reading_card (cmd_packet CMD17 a); State_Monad.return (); response_loop reading_card 10 }) 24 0 80"
    using serves_bind serves_return by metis
  have "serves (do { deselect reading_card; select reading_card }) 0 True 24"
    using serves_bind [OF serves_deselect [of 0]] serves_select by simp
  then have "serves (do { ok \<leftarrow> do { deselect reading_card; select reading_card }; if \<not> ok then m else do {
      xmit_mmc reading_card (cmd_packet CMD17 a); State_Monad.return (); response_loop reading_card 10 } }) 0 0 80" for m
    by (rule serves_bind) (simp only: not_True_eq_False if_False body)
  then show ?thesis unfolding send_cmd_def send_plain_def by simp
qed

lemma serves_block: "serves (rcvr_datablock reading_card 512) 80 (Some (replicate 512 0x55)) 4200"
proof -
  have "serves (token_loop reading_card (Suc k)) 80 0xFE 88" for k
    using serves_return [of "0xFE" 88] by (auto intro!: serves_next [OF served_bytes(3)])
  from this [of 999] have "serves (token_loop reading_card 1000) 80 0xFE 88" by (simp del: token_loop.simps)
  moreover have "serves (rcvr_mmc reading_card 512) 88 (replicate 512 0x55) 4184"
    using serves_rcvr_mmc [of 512 88] by (simp add: rounds_def served_bytes map_replicate_const)
  moreover have "serves (do { crc \<leftarrow> rcvr_mmc reading_card 2; State_Monad.return (Some (replicate 512 0x55)) }) 4184
      (Some (replicate 512 (0x55 :: byte))) 4200"
    using serves_bind [OF serves_rcvr_mmc [of 2 4184] serves_return] by (simp add: rounds_def)
  ultimately show ?thesis unfolding rcvr_datablock_def
    using serves_bind [where x = "0xFE"] serves_bind [where x = "replicate 512 0x55"] by (simp add: serves_bind)
qed

lemma reading_card_read:
  "\<exists>w'. run_state (disk_read ff_diskio reading_card 0 0 1) ((sd_start (0, False))\<lparr>Stat := 0\<rparr>) = ((0, replicate 512 0x55), w')"
proof -
  let ?w = "(sd_start (0, False))\<lparr>Stat := 0\<rparr> :: (nat \<times> bool) sdmm"
  have "\<not> bit (PORTB ?w) 2 \<and> card ?w = (0, False)" by (simp add: sd_start_def)
  with serves_command [of 0] obtain w0 where c: "run_state (send_cmd reading_card CMD17 0) ?w = (0, w0)"
    and w0: "\<not> bit (PORTB w0) 2 \<and> card w0 = (80, False)" unfolding serves_def by blast
  from serves_block w0 obtain w1 where "run_state (rcvr_datablock reading_card 512) w0 = (Some (replicate 512 0x55), w1)"
    unfolding serves_def by blast
  then have "run_state (read_blocks reading_card 1) w0 = ((replicate 512 0x55, 0), w1)" by (simp add: One_nat_def)
  with c show ?thesis
    by (simp add: disk_read_def disk_status_def ff_diskio_def sd_start_def card_address_def rounds_def Let_def split: prod.splits)
qed

theorem disk_read_complete_witness:
  "\<exists>w0 w1 w'. run_state (disk_read ff_diskio reading_card 0 0 1) ((sd_start (0, False))\<lparr>Stat := 0\<rparr>) = ((0, replicate 512 0x55), w') \<and>
     run_state (send_cmd reading_card CMD17 0) ((sd_start (0, False))\<lparr>Stat := 0\<rparr>) = (0, w0) \<and>
     sectors reading_card 1 (replicate 512 0x55) w0 w1 \<and> run_state (read_end reading_card False) w1 = ((), w')"
proof -
  obtain w' where r: "run_state (disk_read ff_diskio reading_card 0 0 1) ((sd_start (0, False))\<lparr>Stat := 0\<rparr>) = ((0, replicate 512 0x55), w')"
    using reading_card_read by blast
  show ?thesis using disk_read_complete [OF r] r by (simp add: ff_diskio_def sd_start_def card_address_def)
qed

subsection \<open>The driver's status\<close>

text \<open>Programs that leave the driver's two variables alone.\<close>

definition leaves :: "('c sdmm, 'a) state \<Rightarrow> bool" where
  "leaves m \<longleftrightarrow> (\<forall>w. Stat (snd (run_state m w)) = Stat w \<and> CardType (snd (run_state m w)) = CardType w)"

lemma leaves_bind: "leaves m \<Longrightarrow> (\<And>x. leaves (f x)) \<Longrightarrow> leaves (State_Monad.bind m f)"
  unfolding leaves_def by (auto split: prod.splits) (metis snd_conv)+

lemma leaves_basic: "leaves (State_Monad.return x)" "leaves (port_wr H f)" "leaves (port_rd H)"
  by (simp_all add: leaves_def port_wr_def port_rd_def split: prod.splits)

lemma leaves_rcvr_byte: "leaves (rcvr_byte H)"
  unfolding rcvr_byte_def take_bit_in_def clock_pulse_def DO_def CK_H_def CK_L_def
  by (intro leaves_bind leaves_basic)

lemma leaves_rcvr_bytes: "leaves (rcvr_bytes H n)"
  by (induction n) (simp_all add: leaves_bind leaves_basic leaves_rcvr_byte)

lemma leaves_deselect: "leaves (deselect H)"
  unfolding deselect_def rcvr1_def rcvr_mmc_def CS_H_def DI_H_def
  by (intro leaves_bind leaves_basic leaves_rcvr_bytes)

text \<open>After \<open>disk_initialize\<close> of drive 0 the status it returns is the status it keeps, and that is
  ``initialised'' exactly when a card type was found, whatever the card did; so a drive whose
  initialisation failed refuses every transfer.\<close>

theorem disk_initialize_status:
  assumes "run_state (disk_initialize D H 0) w = (s, w')" "STA_NOINIT D \<noteq> 0"
  shows "s = uint (Stat w') \<and> Stat w' = (if CardType w' = 0 then STA_NOINIT D else 0) \<and>
    (s \<noteq> 0 \<longrightarrow> run_state (disk_read D H 0 sector count) w' = ((RES_NOTRDY D, []), w') \<and>
       run_state (disk_write D H 0 buff sector count) w' = (RES_NOTRDY D, w'))"
proof -
  obtain ty w1 where p: "run_state (do { dly_us H 10000; CS_INIT; CS_H H; CK_INIT; CK_L H; DI_INIT;
      dummy_clocks H 10; probe D H }) w = (ty, w1)" by (metis surj_pair)
  define w2 where "w2 = w1\<lparr>CardType := ty, Stat := (if ty \<noteq> 0 then 0 else STA_NOINIT D)\<rparr>"
  have d: "w' = snd (run_state (deselect H) w2)" "s = uint (Stat w2)"
    using assms(1) p by (auto simp: disk_initialize_def w2_def Let_def split: prod.splits)
  have "Stat w' = Stat w2" "CardType w' = CardType w2" using leaves_deselect [of H] d(1) by (simp_all add: leaves_def)
  with d(2) have st: "s = uint (Stat w')" "Stat w' = (if CardType w' = 0 then STA_NOINIT D else 0)"
    by (simp_all add: w2_def)
  moreover have "Stat w' AND STA_NOINIT D \<noteq> 0" if "s \<noteq> 0" using st that assms(2) by (auto split: if_splits)
  ultimately show ?thesis by (simp add: disk_read_def disk_write_def disk_status_def)
qed

theorem disk_initialize_status_witness:
  "let (s, w') = run_state (disk_initialize ff_diskio mute_card 0) (sd_start ()) in s = uint (Stat w')"
proof -
  let ?r = "run_state (disk_initialize ff_diskio mute_card 0) (sd_start ())"
  have r: "?r = (fst ?r, snd ?r)" by simp
  have "STA_NOINIT ff_diskio \<noteq> 0" by (simp add: ff_diskio_def)
  from disk_initialize_status [OF r this] show ?thesis by (auto split: prod.splits)
qed

subsection \<open>Capacity\<close>

text \<open>The fields of a CSD register: \<open>C_SIZE\<close> of a version 2 card, and the three of a version 1 card.\<close>

definition csd2_c_size :: "byte list \<Rightarrow> nat" where
  "csd2_c_size csd = unat (csd ! 7 AND 63) * 65536 + unat (csd ! 8) * 256 + unat (csd ! 9)"
definition csd1_c_size :: "byte list \<Rightarrow> nat" where
  "csd1_c_size csd = unat (csd ! 6 AND 3) * 1024 + unat (csd ! 7) * 4 + unat (drop_bit 6 (csd ! 8))"
definition csd1_mult :: "byte list \<Rightarrow> nat" where
  "csd1_mult csd = unat (csd ! 9 AND 3) * 2 + unat (drop_bit 7 (csd ! 10))"
definition csd1_bl_len :: "byte list \<Rightarrow> nat" where
  "csd1_bl_len csd = unat (csd ! 5 AND 15)"

lemma as_nat:
  "(ucast x :: 'a::len word) = word_of_nat (unat x)" "push_bit k (word_of_nat m :: 'a word) = word_of_nat (m * 2 ^ k)"
  for x :: byte
  by (simp_all add: push_bit_eq_mult)

lemma widen: "m < 65536 \<Longrightarrow> (ucast (word_of_nat m :: u16) :: u32) = word_of_nat m"
proof -
  assume "m < 65536"
  then have "unat (word_of_nat m :: u16) = m" by (simp add: unat_of_nat)
  then show ?thesis by (metis of_nat_unat)
qed

lemma byte_lt: "unat w < 256" for w :: byte
  using unsigned_less [of w, where ?'a = nat] by simp

lemma csd2_sectors:
  assumes "drop_bit 6 (csd ! 0) = 1"
  shows "csd_sectors csd = Some (word_of_nat ((csd2_c_size csd + 1) * 1024))"
proof -
  have low: "unat (csd ! 9) + unat (csd ! 8) * 256 < 65536" using byte_lt [of "csd ! 9"] byte_lt [of "csd ! 8"] by simp
  have "(ucast (ucast (csd ! 9) + push_bit 8 (ucast (csd ! 8)) :: u16) :: u32) = word_of_nat (unat (csd ! 9) + unat (csd ! 8) * 256)"
    unfolding as_nat of_nat_add [symmetric] using widen [OF low] by simp
  moreover have "(push_bit 16 (ucast (csd ! 7 AND 63)) :: u32) = word_of_nat (unat (csd ! 7 AND 63) * 65536)"
    unfolding as_nat by simp
  ultimately have "csd_sectors csd = Some (push_bit 10 (word_of_nat (csd2_c_size csd + 1)))"
    unfolding csd_sectors_def if_P [OF assms] Let_def csd2_c_size_def by (simp add: algebra_simps del: of_nat_unat)
  then show ?thesis unfolding as_nat by simp
qed

text \<open>The capacity of a version 2 card is 1024 sectors per unit of \<open>C_SIZE + 1\<close>, modulo \<open>2 ^ 32\<close>: right
  for every card but the largest, whose \<open>2 ^ 32\<close> sectors come out as 0.\<close>

theorem csd2_capacity:
  assumes "drop_bit 6 (csd ! 0) = 1"
  shows "\<exists>n. csd_sectors csd = Some n \<and> unat n = (csd2_c_size csd + 1) * 1024 mod 2 ^ 32 \<and>
    (csd2_c_size csd < 2 ^ 22 - 1 \<longrightarrow> unat n = (csd2_c_size csd + 1) * 1024) \<and>
    (csd2_c_size csd = 2 ^ 22 - 1 \<longrightarrow> n = 0)"
proof -
  let ?n = "word_of_nat ((csd2_c_size csd + 1) * 1024) :: u32"
  have "unat ?n = (csd2_c_size csd + 1) * 1024 mod 2 ^ 32" by (subst unat_of_nat) simp
  then show ?thesis using csd2_sectors [OF assms] by (auto simp: unat_eq_zero [symmetric] simp del: unat_eq_zero)
qed

theorem csd2_capacity_witness:
  "\<exists>n. csd_sectors [0x40, 0, 0, 0, 0, 0, 0, 0, 0x1d, 0x8a, 0, 0, 0, 0, 0, 0] = Some n \<and> unat n = 7744512"
  using csd2_capacity [of "[0x40, 0, 0, 0, 0, 0, 0, 0, 0x1d, 0x8a, 0, 0, 0, 0, 0, 0]"]
  by (auto simp: csd2_c_size_def)

lemma and_low: "unat (w AND 3) = unat w mod 4" "unat (w AND 15) = unat w mod 16" for w :: byte
proof -
  have "w AND 3 = take_bit 2 w" "w AND 15 = take_bit 4 w" by (simp_all add: take_bit_eq_mask mask_eq_exp_minus_1)
  moreover have "unat (take_bit 2 w) = unat w mod 4" "unat (take_bit 4 w) = unat w mod 16"
    by (subst unsigned_take_bit_eq, simp add: take_bit_eq_mod)+
  ultimately show "unat (w AND 3) = unat w mod 4" "unat (w AND 15) = unat w mod 16" by (simp_all only:)
qed

lemma top_bit: "drop_bit 7 (w AND 128) = drop_bit 7 w" for w :: byte
  by (simp add: byte_eq_iff_bits bit_drop_bit_eq bit_and_iff bit_byte_ge)

lemma unat_drop_byte: "unat (drop_bit k w) = unat w div 2 ^ k" for w :: byte
  by (subst unat_drop_bit_eq) (simp add: drop_bit_eq_div)

lemma csd1_shift:
  "unat ((csd ! 5 AND 15) + drop_bit 7 (csd ! 10 AND 128) + push_bit 1 (csd ! 9 AND 3) + 2 :: byte) =
     csd1_bl_len csd + csd1_mult csd + 2"
proof -
  let ?m = "csd1_bl_len csd + csd1_mult csd + 2"
  have "csd1_bl_len csd < 16" "unat (csd ! 9 AND 3) < 4" "unat (drop_bit 7 (csd ! 10)) < 2"
    using byte_lt [of "csd ! 10"] by (simp_all add: csd1_bl_len_def and_low unat_drop_byte less_mult_imp_div_less)
  then have m: "?m < 256" by (simp add: csd1_mult_def)
  have "(csd ! 5 AND 15) + drop_bit 7 (csd ! 10 AND 128) + push_bit 1 (csd ! 9 AND 3) + 2 = (word_of_nat ?m :: byte)"
    unfolding top_bit by (simp add: csd1_bl_len_def csd1_mult_def push_bit_eq_mult)
  then show ?thesis using m by (simp only: unat_of_nat) simp
qed

text \<open>C39: The capacity of a version 1 card, in 512-byte sectors, is its number of blocks times the block
  length: \<open>(C_SIZE + 1) * 2 ^ (C_SIZE_MULT + 2)\<close> blocks of \<open>2 ^ READ_BL_LEN\<close> bytes, with no
  overflow, for every block length the standard allows.\<close>

theorem csd1_capacity:
  assumes "drop_bit 6 (csd ! 0) \<noteq> 1" "9 \<le> csd1_bl_len csd"
  shows "\<exists>n. csd_sectors csd = Some n \<and>
    unat n * 512 = (csd1_c_size csd + 1) * 2 ^ (csd1_mult csd + 2) * 2 ^ csd1_bl_len csd"
proof -
  let ?c = "csd1_c_size csd" and ?k = "csd1_bl_len csd + csd1_mult csd + 2 - 9"
  have bounds: "csd1_bl_len csd < 16" "csd1_mult csd < 8" "?c < 4096"
    using byte_lt [of "csd ! 10"] byte_lt [of "csd ! 7"] byte_lt [of "csd ! 8"]
      less_mult_imp_div_less [of "unat (csd ! 8)" 4 64] less_mult_imp_div_less [of "unat (csd ! 10)" 2 128]
      mod_less_divisor [of 4 "unat (csd ! 6)"] mod_less_divisor [of 4 "unat (csd ! 9)"]
    by (simp_all add: csd1_bl_len_def csd1_mult_def csd1_c_size_def and_low unat_drop_byte)
  have cs: "(ucast (ucast (drop_bit 6 (csd ! 8)) + push_bit 2 (ucast (csd ! 7)) + push_bit 10 (ucast (csd ! 6 AND 3)) + 1 :: u16) :: u32)
      = word_of_nat (?c + 1)"
  proof -
    have "(ucast (drop_bit 6 (csd ! 8)) + push_bit 2 (ucast (csd ! 7)) + push_bit 10 (ucast (csd ! 6 AND 3)) + 1 :: u16) = word_of_nat (?c + 1)"
      by (simp add: csd1_c_size_def push_bit_eq_mult)
    moreover have "?c + 1 < 65536" using bounds(3) by simp
    ultimately show ?thesis using widen [of "?c + 1"] by (simp only:)
  qed
  have "(?c + 1) * 2 ^ ?k \<le> 4096 * 2 ^ 15" using bounds by (intro mult_mono power_increasing) auto
  then have "unat (word_of_nat ((?c + 1) * 2 ^ ?k) :: u32) = (?c + 1) * 2 ^ ?k" by (simp only: unat_of_nat) simp
  moreover have "csd_sectors csd = Some (word_of_nat ((?c + 1) * 2 ^ ?k))"
  proof -
    have "\<not> csd1_bl_len csd + csd1_mult csd + 2 < 9" using assms(2) by simp
    then show ?thesis
      unfolding csd_sectors_def if_not_P [OF assms(1)] Let_def csd1_shift cs by (simp only: if_False as_nat(2))
  qed
  moreover have "(?c + 1) * 2 ^ ?k * 512 = (?c + 1) * 2 ^ (csd1_mult csd + 2) * 2 ^ csd1_bl_len csd"
  proof -
    have "(2::nat) ^ ?k * 2 ^ 9 = 2 ^ (csd1_mult csd + 2) * 2 ^ csd1_bl_len csd"
      unfolding power_add [symmetric] using assms(2) by (intro arg_cong [where f = "\<lambda>e. 2 ^ e"]) simp
    then have "(?c + 1) * (2 ^ ?k * 2 ^ 9) = (?c + 1) * (2 ^ (csd1_mult csd + 2) * 2 ^ csd1_bl_len csd)" by (simp only:)
    then show ?thesis by (simp only: mult.assoc [symmetric]) simp
  qed
  ultimately show ?thesis by metis
qed

theorem csd1_capacity_witness:
  "\<exists>n. csd_sectors [0, 0, 0, 0, 0, 0x09, 0x03, 0xff, 0xc0, 0x03, 0x80, 0, 0, 0, 0, 0] = Some n \<and> unat n * 512 = 4096 * 2 ^ 9 * 2 ^ 9"
  using csd1_capacity [of "[0, 0, 0, 0, 0, 0x09, 0x03, 0xff, 0xc0, 0x03, 0x80, 0, 0, 0, 0, 0]"]
  by (auto simp: csd1_c_size_def csd1_mult_def csd1_bl_len_def)

end
