(* ===== verification/Mmc_Spi.thy ===== *)
theory Mmc_Spi
  imports Prelude
begin

text \<open>
  U-Boot's driver for SD cards behind an SPI controller,
  \<^verbatim>\<open>src/doc/drivers/SD/u-boot/mmc_spi.c\<close>: a command with its response, data blocks in both
  directions, and \<open>dm_mmc_spi_request\<close>, the whole transaction between claiming and releasing
  the bus. The controller is a parameter whose transfers may fail; what U-Boot supplies
  (the two CRCs, error numbers, command numbers) is a field of \<open>ub\<close>.

  A transfer returns its error code and the bytes it received. A variable the C code leaves
  uninitialised starts from an arbitrary value, an argument here.
\<close>

subsection \<open>The controller and U-Boot\<close>

datatype xfer_flag = F_none | SPI_XFER_BEGIN | SPI_XFER_END

record 'd spi_hw =
  xfer_out :: "byte list \<Rightarrow> xfer_flag \<Rightarrow> 'd \<Rightarrow> int \<times> 'd"
  xfer_in :: "nat \<Rightarrow> 'd \<Rightarrow> (int \<times> byte list) \<times> 'd"
  claim_bus :: "'d \<Rightarrow> 'd"
  release_bus :: "'d \<Rightarrow> 'd"

record ub =
  CRC_ON :: bool
  crc7 :: "byte list \<Rightarrow> byte"
  crc16_ccitt :: "byte list \<Rightarrow> byte list"
  ETIMEDOUT :: int
  ECOMM :: int
  OCR_BUSY :: u32
  MMC_STATUS_ERROR :: u32
  MMC_STATUS_RDY_FOR_DATA :: u32
  native_words :: "byte list \<Rightarrow> u32 list"
  cpu_to_be32 :: "u32 \<Rightarrow> u32"

text \<open>The commands the driver tells apart.\<close>

datatype mmc_cmdidx =
    SD_CMD_APP_SEND_OP_COND | MMC_CMD_SEND_OP_COND | SD_CMD_SEND_IF_COND | MMC_CMD_SPI_READ_OCR
  | MMC_CMD_SEND_STATUS | MMC_CMD_SET_BLOCKLEN | MMC_CMD_SPI_CRC_ON_OFF | MMC_CMD_STOP_TRANSMISSION
  | MMC_CMD_ERASE | MMC_CMD_SEND_CSD | MMC_CMD_SEND_CID | MMC_CMD_READ_SINGLE_BLOCK
  | MMC_CMD_READ_MULTIPLE_BLOCK | MMC_CMD_WRITE_SINGLE_BLOCK | MMC_CMD_WRITE_MULTIPLE_BLOCK
  | MMC_CMD_APP_CMD | SD_CMD_ERASE_WR_BLK_START | SD_CMD_ERASE_WR_BLK_END | Other_cmd

text \<open>\<open>number\<close> is the value behind \<open>cmdidx\<close>, as it goes into the command packet.\<close>

record mmc_cmd =
  cmdidx :: mmc_cmdidx
  number :: byte
  cmdarg :: u32
  response :: "u32 list"

datatype mmc_dir = MMC_DATA_READ | MMC_DATA_WRITE | Other_flags

record mmc_data =
  flags :: mmc_dir
  blocks :: nat
  blocksize :: nat
  src_data :: "byte list"

abbreviation (input) "R1_SPI_IDLE \<equiv> (0x01::byte)"
abbreviation (input) "R1_SPI_COM_CRC \<equiv> (0x08::byte)"
abbreviation (input) "R1_SPI_ERROR \<equiv> (0x80::byte)"
abbreviation (input) "SPI_RESPONSE_ACCEPTED \<equiv> (0x05::byte)"
abbreviation (input) "SPI_TOKEN_SINGLE \<equiv> (0xfe::byte)"
abbreviation (input) "SPI_TOKEN_MULTI_WRITE \<equiv> (0xfc::byte)"
abbreviation (input) "SPI_TOKEN_STOP_TRAN \<equiv> (0xfd::byte)"
abbreviation (input) "CMD_TIMEOUT \<equiv> (8::nat)"
abbreviation (input) "READ_TIMEOUT \<equiv> (3000000::nat)"
abbreviation (input) "WRITE_TIMEOUT \<equiv> (3000000::nat)"
abbreviation (input) "R1B_TIMEOUT \<equiv> (3000000::nat)"

definition MMC_SPI_CMD :: "byte \<Rightarrow> byte" where "MMC_SPI_CMD x = 0x40 OR x"

definition xin :: "'d spi_hw \<Rightarrow> nat \<Rightarrow> ('d, int \<times> byte list) state" where "xin H n = State (xfer_in H n)"
definition xin1 :: "'d spi_hw \<Rightarrow> ('d, int \<times> byte) state" where
  "xin1 H = do { (ret, bs) \<leftarrow> xin H 1; State_Monad.return (ret, bs ! 0) }"
definition xout :: "'d spi_hw \<Rightarrow> byte list \<Rightarrow> xfer_flag \<Rightarrow> ('d, int) state" where
  "xout H bs f = State (xfer_out H bs f)"

subsection \<open>A command\<close>

definition cmdo :: "ub \<Rightarrow> byte \<Rightarrow> u32 \<Rightarrow> byte list" where
  "cmdo U idx arg =
     (let body = [MMC_SPI_CMD idx, ucast (drop_bit 24 arg), ucast (drop_bit 16 arg), ucast (drop_bit 8 arg), ucast arg]
      in 0xff # body @ [push_bit 1 (crc7 U body) OR 0x01])"

text \<open>The wait for a response byte, \<open>i\<close> attempts left: an error, or the byte.\<close>

fun resp_wait :: "ub \<Rightarrow> 'd spi_hw \<Rightarrow> byte option \<Rightarrow> nat \<Rightarrow> byte \<Rightarrow> ('d, int + byte) state" where
  "resp_wait U H m 0 r = State_Monad.return (Inr r)"
| "resp_wait U H m (Suc i) _ = do {
     (ret, r) \<leftarrow> xin1 H;
     if ret \<noteq> 0 then State_Monad.return (Inl ret)
     else if (case m of Some v \<Rightarrow> r = v | None \<Rightarrow> r AND 0x80 = 0) then State_Monad.return (Inr r)
     else if i = 0 then State_Monad.return (Inl (- ETIMEDOUT U))
     else resp_wait U H m i r }"

fun resp_rest :: "'d spi_hw \<Rightarrow> nat \<Rightarrow> ('d, int + byte list) state" where
  "resp_rest H 0 = State_Monad.return (Inr [])"
| "resp_rest H (Suc n) = do {
     (ret, r) \<leftarrow> xin1 H;
     if ret \<noteq> 0 then State_Monad.return (Inl ret)
     else do {
       x \<leftarrow> resp_rest H n;
       State_Monad.return (case x of Inl e \<Rightarrow> Inl e | Inr rs \<Rightarrow> Inr (r # rs)) } }"

text \<open>
  The busy wait of an R1b response. The loop leaves on a nonzero byte after it has counted
  the attempt, and a count of 0 is a timeout, also when the last attempt succeeded.
\<close>

fun r1b_wait :: "ub \<Rightarrow> 'd spi_hw \<Rightarrow> nat \<Rightarrow> ('d, int) state" where
  "r1b_wait U H 0 = State_Monad.return (- ETIMEDOUT U)"
| "r1b_wait U H (Suc i) = do {
     (ret, r) \<leftarrow> xin1 H;
     if ret \<noteq> 0 then State_Monad.return ret
     else if r \<noteq> 0 then State_Monad.return (if i = 0 then - ETIMEDOUT U else 0)
     else r1b_wait U H i }"

definition mmc_spi_sendcmd :: "ub \<Rightarrow> 'd spi_hw \<Rightarrow> byte \<Rightarrow> u32 \<Rightarrow> nat \<Rightarrow> byte option \<Rightarrow> bool \<Rightarrow> ('d, int \<times> byte list) state" where
  "mmc_spi_sendcmd U H idx arg resp_size resp_match r1b =
     (if resp_size = 0 then State_Monad.return (0, [])
      else do {
        ret \<leftarrow> xout H (cmdo U idx arg) SPI_XFER_BEGIN;
        if ret \<noteq> 0 then State_Monad.return (ret, [])
        else do {
          (ret1, r) \<leftarrow> xin1 H;
          if ret1 \<noteq> 0 then State_Monad.return (ret1, [])
          else do {
            x \<leftarrow> resp_wait U H resp_match CMD_TIMEOUT r;
            case x of Inl e \<Rightarrow> State_Monad.return (e, [])
            | Inr r0 \<Rightarrow> do {
                y \<leftarrow> resp_rest H (resp_size - 1);
                case y of Inl e \<Rightarrow> State_Monad.return (e, [])
                | Inr rs \<Rightarrow>
                    if r1b then do { e \<leftarrow> r1b_wait U H R1B_TIMEOUT; State_Monad.return (e, r0 # rs) }
                    else State_Monad.return (0, r0 # rs) } } } })"

subsection \<open>Data\<close>

text \<open>The wait for a data token: the last byte seen, or an error of the controller.\<close>

fun token_wait :: "'d spi_hw \<Rightarrow> nat \<Rightarrow> byte \<Rightarrow> ('d, int + byte) state" where
  "token_wait H 0 r = State_Monad.return (Inr r)"
| "token_wait H (Suc n) _ = do {
     (ret, r) \<leftarrow> xin1 H;
     if ret \<noteq> 0 then State_Monad.return (Inl ret)
     else if r = SPI_TOKEN_SINGLE then State_Monad.return (Inr r)
     else token_wait H n r }"

text \<open>The result from the last status byte: a CRC error, another error, or \<open>ret\<close>.\<close>

definition r1_result :: "ub \<Rightarrow> byte \<Rightarrow> int \<Rightarrow> int" where
  "r1_result U r1 ret = (if r1 AND R1_SPI_COM_CRC \<noteq> 0 then - ECOMM U else if r1 \<noteq> 0 then - ETIMEDOUT U else ret)"

text \<open>\<open>while (bcnt--)\<close>: the data stored and the result; \<open>r1\<close> is the status of the block before.\<close>

fun readdata :: "ub \<Rightarrow> 'd spi_hw \<Rightarrow> nat \<Rightarrow> nat \<Rightarrow> byte \<Rightarrow> ('d, int \<times> byte list) state" where
  "readdata U H 0 bsize r1 = State_Monad.return (r1_result U r1 0, [])"
| "readdata U H (Suc bcnt) bsize _ = do {
     x \<leftarrow> token_wait H READ_TIMEOUT 0;
     case x of Inl e \<Rightarrow> State_Monad.return (e, [])
     | Inr t \<Rightarrow>
         if t = SPI_TOKEN_SINGLE then do {
           (ret, buf) \<leftarrow> xin H bsize;
           if ret \<noteq> 0 then State_Monad.return (ret, buf)
           else do {
             (ret2, crc) \<leftarrow> xin H 2;
             if ret2 \<noteq> 0 then State_Monad.return (ret2, buf)
             else if CRC_ON U \<and> crc16_ccitt U buf \<noteq> crc
             then State_Monad.return (r1_result U R1_SPI_COM_CRC 0, buf)
             else do {
               (ret3, rest) \<leftarrow> readdata U H bcnt bsize 0;
               State_Monad.return (ret3, buf @ rest) } } }
         else State_Monad.return (r1_result U R1_SPI_ERROR 0, []) }"

definition mmc_spi_readdata :: "ub \<Rightarrow> 'd spi_hw \<Rightarrow> byte \<Rightarrow> nat \<Rightarrow> nat \<Rightarrow> ('d, int \<times> byte list) state" where
  "mmc_spi_readdata U H r1_0 bcnt bsize = readdata U H bcnt bsize r1_0"

fun accept_wait :: "'d spi_hw \<Rightarrow> nat \<Rightarrow> byte \<Rightarrow> ('d, byte) state" where
  "accept_wait H 0 r = State_Monad.return r"
| "accept_wait H (Suc n) _ = do {
     (ret, r) \<leftarrow> xin1 H;
     if r AND 0x10 = 0 then State_Monad.return r else accept_wait H n r }"

text \<open>\<open>for (i = 0; i < WRITE_TIMEOUT; i++)\<close> until a byte after the first is 0xff; \<open>i\<close> of \<open>n + i\<close> done.\<close>

fun busy_wait :: "'d spi_hw \<Rightarrow> nat \<Rightarrow> nat \<Rightarrow> ('d, bool) state" where
  "busy_wait H 0 i = State_Monad.return False"
| "busy_wait H (Suc n) i = do {
     (ret, r) \<leftarrow> xin1 H;
     if i \<noteq> 0 \<and> r = 0xff then State_Monad.return True else busy_wait H n (Suc i) }"

definition stop_tran :: "ub \<Rightarrow> 'd spi_hw \<Rightarrow> ('d, byte) state" where
  "stop_tran U H = do {
     _ \<leftarrow> xout H [0xff, SPI_TOKEN_STOP_TRAN] F_none;
     ok \<leftarrow> busy_wait H WRITE_TIMEOUT 0;
     State_Monad.return (if ok then 0 else R1_SPI_ERROR) }"

text \<open>The block loop: the last status, and whether the loop ran to its end (\<open>bcnt == -1\<close>).\<close>

fun writeblocks :: "ub \<Rightarrow> 'd spi_hw \<Rightarrow> byte \<Rightarrow> byte list \<Rightarrow> nat \<Rightarrow> byte list \<Rightarrow> nat \<Rightarrow> byte \<Rightarrow> ('d, byte \<times> bool) state" where
  "writeblocks U H tok junk 0 buf bsize r1 = State_Monad.return (r1, True)"
| "writeblocks U H tok junk (Suc bcnt) buf bsize r1 = do {
     _ \<leftarrow> xout H [0xff, tok] F_none;
     _ \<leftarrow> xout H (take bsize buf) F_none;
     _ \<leftarrow> xout H (if CRC_ON U then crc16_ccitt U (take bsize buf) else junk) F_none;
     r \<leftarrow> accept_wait H CMD_TIMEOUT r1;
     if r AND 0x1f = SPI_RESPONSE_ACCEPTED then do {
       ok \<leftarrow> busy_wait H WRITE_TIMEOUT 0;
       if ok then writeblocks U H tok junk bcnt (drop bsize buf) bsize 0
       else State_Monad.return (R1_SPI_ERROR, False) }
     else State_Monad.return (R1_SPI_COM_CRC, False) }"

definition mmc_spi_writedata :: "ub \<Rightarrow> 'd spi_hw \<Rightarrow> byte \<Rightarrow> byte list \<Rightarrow> byte list \<Rightarrow> nat \<Rightarrow> nat \<Rightarrow> bool \<Rightarrow> ('d, int) state" where
  "mmc_spi_writedata U H r1_0 junk buf bcnt bsize multi = do {
     (r1, ended) \<leftarrow> writeblocks U H (if multi then SPI_TOKEN_MULTI_WRITE else SPI_TOKEN_SINGLE) junk bcnt buf bsize r1_0;
     r \<leftarrow> (if multi \<and> ended then stop_tran U H else State_Monad.return r1);
     State_Monad.return (r1_result U r 0) }"

subsection \<open>A request\<close>

text \<open>The first \<open>switch\<close>: the argument sent, the size of the response, the byte it must match, R1b.\<close>

fun resp_plan :: "mmc_cmdidx \<Rightarrow> u32 \<Rightarrow> u32 \<times> nat \<times> byte option \<times> bool" where
  "resp_plan SD_CMD_APP_SEND_OP_COND arg = (0x40000000, 1, None, False)"
| "resp_plan MMC_CMD_SEND_OP_COND arg = (0x40000000, 1, None, False)"
| "resp_plan SD_CMD_SEND_IF_COND arg = (arg, 5, Some R1_SPI_IDLE, False)"
| "resp_plan MMC_CMD_SPI_READ_OCR arg = (arg, 5, None, False)"
| "resp_plan MMC_CMD_SEND_STATUS arg = (arg, 2, None, False)"
| "resp_plan MMC_CMD_SET_BLOCKLEN arg = (arg, 1, Some 0, False)"
| "resp_plan MMC_CMD_SPI_CRC_ON_OFF arg = (arg, 1, Some 0, False)"
| "resp_plan MMC_CMD_STOP_TRANSMISSION arg = (arg, 1, None, True)"
| "resp_plan MMC_CMD_ERASE arg = (arg, 1, None, True)"
| "resp_plan MMC_CMD_SEND_CSD arg = (arg, 1, None, False)"
| "resp_plan MMC_CMD_SEND_CID arg = (arg, 1, None, False)"
| "resp_plan MMC_CMD_READ_SINGLE_BLOCK arg = (arg, 1, None, False)"
| "resp_plan MMC_CMD_READ_MULTIPLE_BLOCK arg = (arg, 1, None, False)"
| "resp_plan MMC_CMD_WRITE_SINGLE_BLOCK arg = (arg, 1, None, False)"
| "resp_plan MMC_CMD_WRITE_MULTIPLE_BLOCK arg = (arg, 1, None, False)"
| "resp_plan MMC_CMD_APP_CMD arg = (arg, 1, None, False)"
| "resp_plan SD_CMD_ERASE_WR_BLK_START arg = (arg, 1, None, False)"
| "resp_plan SD_CMD_ERASE_WR_BLK_END arg = (arg, 1, None, False)"
| "resp_plan Other_cmd arg = (arg, 1, Some R1_SPI_IDLE, False)"

text \<open>The second \<open>switch\<close>, for the commands that have no data of their own: \<open>response[0]\<close>.\<close>

definition resp_word :: "ub \<Rightarrow> mmc_cmdidx \<Rightarrow> byte list \<Rightarrow> u32" where
  "resp_word U idx resp =
     (if idx = SD_CMD_APP_SEND_OP_COND \<or> idx = MMC_CMD_SEND_OP_COND
      then (if resp ! 0 AND R1_SPI_IDLE \<noteq> 0 then 0 else OCR_BUSY U)
      else if idx = SD_CMD_SEND_IF_COND \<or> idx = MMC_CMD_SPI_READ_OCR
      then ucast (resp ! 4) OR push_bit 8 (ucast (resp ! 3)) OR push_bit 16 (ucast (resp ! 2)) OR push_bit 24 (ucast (resp ! 1))
      else if idx = MMC_CMD_SEND_STATUS
      then (if resp ! 0 \<noteq> 0 \<or> resp ! 1 \<noteq> 0 then MMC_STATUS_ERROR U else MMC_STATUS_RDY_FOR_DATA U)
      else ucast (resp ! 0))"

definition data_phase :: "ub \<Rightarrow> 'd spi_hw \<Rightarrow> byte \<Rightarrow> byte list \<Rightarrow> mmc_cmdidx \<Rightarrow> mmc_data option \<Rightarrow> ('d, int \<times> byte list) state" where
  "data_phase U H r1_0 junk idx data = (case data of None \<Rightarrow> State_Monad.return (0, [])
     | Some dt \<Rightarrow> (case flags dt of
         MMC_DATA_READ \<Rightarrow> mmc_spi_readdata U H r1_0 (blocks dt) (blocksize dt)
       | MMC_DATA_WRITE \<Rightarrow> do {
           ret \<leftarrow> mmc_spi_writedata U H r1_0 junk (src_data dt) (blocks dt) (blocksize dt)
             (idx = MMC_CMD_WRITE_MULTIPLE_BLOCK);
           State_Monad.return (ret, []) }
       | Other_flags \<Rightarrow> State_Monad.return (0, [])))"

text \<open>The label \<open>done\<close>: end the transfer, release the bus.\<close>

definition request_done :: "'d spi_hw \<Rightarrow> 'a \<Rightarrow> ('d, 'a) state" where
  "request_done H x = do {
     _ \<leftarrow> xout H [] SPI_XFER_END;
     State (\<lambda>d. ((), release_bus H d));
     State_Monad.return x }"

text \<open>
  The whole request: the result, the command with its response, the data read. A failed read
  of CID or CSD returns from the middle and does not reach \<open>done\<close>.
\<close>

definition dm_mmc_spi_request :: "ub \<Rightarrow> 'd spi_hw \<Rightarrow> byte \<Rightarrow> byte list \<Rightarrow> mmc_cmd \<Rightarrow> mmc_data option \<Rightarrow>
    ('d, int \<times> mmc_cmd \<times> byte list) state" where
  "dm_mmc_spi_request U H r1_0 junk cmd data = do {
     State (\<lambda>d. ((), claim_bus H d));
     let (arg, size, want, r1b) = resp_plan (cmdidx cmd) (cmdarg cmd);
     let cmd1 = cmd\<lparr>cmdarg := arg, response := [0, 0, 0, 0]\<rparr>;
     (ret, resp) \<leftarrow> mmc_spi_sendcmd U H (number cmd) arg size want r1b;
     if ret \<noteq> 0 then request_done H (ret, cmd1, [])
     else if cmdidx cmd = MMC_CMD_SEND_CID \<or> cmdidx cmd = MMC_CMD_SEND_CSD then do {
       (ret1, bytes) \<leftarrow> mmc_spi_readdata U H r1_0 1 16;
       let cmd2 = (if length bytes = 16 then cmd1\<lparr>response := native_words U bytes\<rparr> else cmd1);
       if ret1 \<noteq> 0 then State_Monad.return (ret1, cmd2, [])
       else do {
         let cmd3 = cmd2\<lparr>response := map (cpu_to_be32 U) (response cmd2)\<rparr>;
         (ret2, buf) \<leftarrow> data_phase U H r1_0 junk (cmdidx cmd) data;
         request_done H (ret2, cmd3, buf) } }
     else do {
       let cmd2 = cmd1\<lparr>response := [resp_word U (cmdidx cmd) resp, 0, 0, 0]\<rparr>;
       (ret2, buf) \<leftarrow> data_phase U H r1_0 junk (cmdidx cmd) data;
       request_done H (ret2, cmd2, buf) } }"

definition dm_mmc_spi_set_ios :: "('d, int) state" where
  "dm_mmc_spi_set_ios = State_Monad.return 0"

end
