(* ===== verification/Mmc_Props.thy ===== *)
theory Mmc_Props
  imports Mmc_Spi
begin

text \<open>
  The properties of U-Boot's SD driver: what a successful read has received and stored, the busy wait that
  loses its last look, a write that cannot see an error of the controller, and which requests
  leave the bus claimed.
\<close>

subsection \<open>Busy after a command\<close>

text \<open>A controller that works, in front of a card whose next bytes are given, 0xff after them.\<close>

definition script_spi :: "byte list spi_hw" where
  "script_spi = \<lparr>xfer_out = (\<lambda>_ _ d. (0, d)), xfer_in = (\<lambda>n d. ((0, take n (d @ replicate n 0xff)), drop n d)),
     claim_bus = (\<lambda>d. d), release_bus = (\<lambda>d. d)\<rparr>"

lemma script_xin [simp]: "run_state (xin script_spi n) d = ((0, take n (d @ replicate n 0xff)), drop n d)"
  by (simp add: xin_def script_spi_def)

lemma script_xin1 [simp]: "run_state (xin1 script_spi) (b # bs) = ((0, b), bs)"
  by (simp add: xin1_def)

text \<open>A U-Boot with its CRC checks off, for concrete runs.\<close>

definition plain_ub :: ub where
  "plain_ub = \<lparr>CRC_ON = False, crc7 = (\<lambda>_. 0), crc16_ccitt = (\<lambda>_. [0, 0]), ETIMEDOUT = 110, ECOMM = 70,
     OCR_BUSY = 0x80000000, MMC_STATUS_ERROR = 0x80000, MMC_STATUS_RDY_FOR_DATA = 0x100,
     native_words = (\<lambda>_. [0, 0, 0, 0]), cpu_to_be32 = (\<lambda>x. x)\<rparr>"

lemma plain_ub_sel [simp]: "CRC_ON plain_ub = False" "ETIMEDOUT plain_ub = 110" "ECOMM plain_ub = 70"
  "native_words plain_ub bs = [0, 0, 0, 0]"
  by (simp_all add: plain_ub_def)

text \<open>The busy wait of an R1b command gives up one look too early: with a card that is busy for \<open>k\<close>
  bytes and then ready, \<open>n\<close> looks succeed when \<open>k + 1 < n\<close>; when the last look is the one that
  finds the card ready, the result is a timeout all the same.\<close>

theorem r1b_wait_last_look:
  assumes "b \<noteq> 0"
  shows "fst (run_state (r1b_wait U script_spi n) (replicate k 0 @ b # bs)) = (if k + 1 < n then 0 else - ETIMEDOUT U)"
proof (induction k arbitrary: n)
  case 0
  show ?case using assms by (cases n) auto
next
  case (Suc k)
  show ?case using Suc.IH by (cases n) (auto simp: Suc.IH)
qed

theorem r1b_wait_last_look_witness:
  "fst (run_state (r1b_wait plain_ub script_spi 3) [0, 0, 0xff]) = - 110"
  using r1b_wait_last_look [where U = plain_ub and n = 3 and k = 2 and b = "0xff" and bs = "[]"] by (simp add: numeral_eq_Suc)

subsection \<open>Reading\<close>

text \<open>The controller with a record of every transfer in: the bytes asked for, the error code, the bytes.\<close>

type_synonym xfer_rec = "nat \<times> int \<times> byte list"

definition recorded :: "'d spi_hw \<Rightarrow> (xfer_rec list \<times> 'd) spi_hw" where
  "recorded H = \<lparr>
     xfer_out = (\<lambda>bs f (l, d). (fst (xfer_out H bs f d), l, snd (xfer_out H bs f d))),
     xfer_in = (\<lambda>n (l, d). (fst (xfer_in H n d), l @ [(n, fst (xfer_in H n d))], snd (xfer_in H n d))),
     claim_bus = (\<lambda>(l, d). (l, claim_bus H d)),
     release_bus = (\<lambda>(l, d). (l, release_bus H d))\<rparr>"

text \<open>
  \<open>good_blocks U bsize k l buf\<close>: the transfers \<open>l\<close> are \<open>k\<close> blocks and nothing else, none of them with an
  error code, and \<open>buf\<close> is what the blocks carried. A block is single bytes that are no start token,
  fewer than the timeout allows, then the start token 0xfe, \<open>bsize\<close> bytes of data and two bytes of CRC,
  which are the CRC of the data when the checks are on.
\<close>

definition no_token :: "xfer_rec \<Rightarrow> bool" where
  "no_token = (\<lambda>(n, e, bs). n = 1 \<and> e = 0 \<and> bs ! 0 \<noteq> SPI_TOKEN_SINGLE)"

inductive good_blocks :: "ub \<Rightarrow> nat \<Rightarrow> nat \<Rightarrow> xfer_rec list \<Rightarrow> byte list \<Rightarrow> bool" for U bsize where
  no_block: "good_blocks U bsize 0 [] []"
| block: "length ws < READ_TIMEOUT \<Longrightarrow> list_all no_token ws \<Longrightarrow>
    tok ! 0 = SPI_TOKEN_SINGLE \<Longrightarrow> (CRC_ON U \<Longrightarrow> crc16_ccitt U bs = crc) \<Longrightarrow> good_blocks U bsize k l buf \<Longrightarrow>
    good_blocks U bsize (Suc k) (ws @ (1, 0, tok) # (bsize, 0, bs) # (2, 0, crc) # l) (bs @ buf)"

lemma recorded_xin:
  "run_state (xin (recorded H) n) (l, d) = ((e, bs), l', d') \<Longrightarrow> l' = l @ [(n, e, bs)]"
  by (auto simp: xin_def recorded_def)

lemma recorded_xin1:
  "run_state (xin1 (recorded H)) (l, d) = ((e, b), l', d') \<Longrightarrow> \<exists>bs. b = bs ! 0 \<and> l' = l @ [(1, e, bs)]"
  by (auto simp: xin1_def split: prod.splits dest: recorded_xin)

text \<open>The wait for a token ends with an error of the controller, or has taken bytes that are no token up to its result.\<close>

lemma token_wait_error: "run_state (token_wait H n r) d = (Inl e, d') \<Longrightarrow> e \<noteq> 0"
  by (induction n arbitrary: r d) (auto split: prod.splits if_splits)

lemma token_wait_found:
  "run_state (token_wait (recorded H) n r) (l, d) = (Inr SPI_TOKEN_SINGLE, l', d') \<Longrightarrow> r \<noteq> SPI_TOKEN_SINGLE \<Longrightarrow>
     \<exists>ws tok. length ws < n \<and> list_all no_token ws \<and>
       tok ! 0 = SPI_TOKEN_SINGLE \<and> l' = l @ ws @ [(1, 0, tok)]"
proof (induction n arbitrary: r l d)
  case (Suc n)
  obtain e b l1 d1 where x: "run_state (xin1 (recorded H)) (l, d) = ((e, b), l1, d1)" by (metis surj_pair)
  from recorded_xin1 [OF x] obtain bs where bs: "b = bs ! 0" "l1 = l @ [(1, e, bs)]" by blast
  from Suc.prems x have e: "e = 0" by (auto split: if_splits)
  show ?case
  proof (cases "b = SPI_TOKEN_SINGLE")
    case True
    with Suc.prems x bs e show ?thesis by (auto intro!: exI [of _ "[] :: xfer_rec list"] exI [of _ bs])
  next
    case False
    with Suc.prems x e have "run_state (token_wait (recorded H) n b) (l1, d1) = (Inr SPI_TOKEN_SINGLE, l', d')" by simp
    from Suc.IH [OF this False] obtain ws tok where "length ws < n"
      "list_all no_token ws" "tok ! 0 = SPI_TOKEN_SINGLE"
      "l' = l1 @ ws @ [(1, 0, tok)]" by blast
    with bs e False show ?thesis by (auto simp: no_token_def intro!: exI [of _ "(1, 0, bs) # ws"] exI [of _ tok])
  qed
qed simp

lemma readdata_block:
  assumes "run_state (readdata U (recorded H) (Suc k) bsize r1) (l, d) = ((0, buf), l', d')" "ETIMEDOUT U \<noteq> 0" "ECOMM U \<noteq> 0"
  obtains ws tok bs crc rest d1 where "length ws < READ_TIMEOUT"
    "list_all no_token ws" "tok ! 0 = SPI_TOKEN_SINGLE"
    "CRC_ON U \<Longrightarrow> crc16_ccitt U bs = crc" "buf = bs @ rest"
    "run_state (readdata U (recorded H) k bsize 0) (l @ ws @ [(1, 0, tok), (bsize, 0, bs), (2, 0, crc)], d1) = ((0, rest), l', d')"
proof -
  have r1: "r1_result U r 0 = 0 \<longleftrightarrow> r = 0" for r using assms(2,3) by (auto simp: r1_result_def)
  obtain x l1 d1 where x: "run_state (token_wait (recorded H) READ_TIMEOUT 0) (l, d) = (x, l1, d1)" by (metis surj_pair)
  have xt: "x = Inr SPI_TOKEN_SINGLE"
    using assms(1) x token_wait_error [of "recorded H"] by (auto simp: r1 split: sum.splits if_splits)
  obtain e bs l2 d2 where b: "run_state (xin (recorded H) bsize) (l1, d1) = ((e, bs), l2, d2)" by (metis surj_pair)
  obtain e2 crc l3 d3 where c: "run_state (xin (recorded H) 2) (l2, d2) = ((e2, crc), l3, d3)" by (metis surj_pair)
  obtain rest where rest: "e = 0" "e2 = 0" "CRC_ON U \<Longrightarrow> crc16_ccitt U bs = crc" "buf = bs @ rest"
    "run_state (readdata U (recorded H) k bsize 0) (l3, d3) = ((0, rest), l', d')"
    using assms(1) x xt b c by (auto simp: r1 split: prod.splits if_splits)
  obtain ws tok where "length ws < READ_TIMEOUT" "list_all no_token ws"
    "tok ! 0 = SPI_TOKEN_SINGLE" "l1 = l @ ws @ [(1, 0, tok)]"
    using token_wait_found [OF x [unfolded xt]] by auto
  then show ?thesis using rest recorded_xin [OF b] recorded_xin [OF c]
    by (intro that [of ws tok bs crc rest d3]) simp_all
qed

text \<open>C38: When \<open>mmc_spi_readdata\<close> returns 0, whatever the controller and the card did, the transfers it made are
  exactly \<open>bcnt\<close> good blocks: each announced by the start token within the timeout, no transfer with an
  error code, the CRC right when the checks are on; and the buffer holds the data of the blocks in
  order. A request for no block returns 0 only when the uninitialised status byte happens to be 0.\<close>

theorem readdata_complete:
  assumes "run_state (mmc_spi_readdata U (recorded H) r1_0 bcnt bsize) ([], d) = ((ret, buf), l, d')"
    and "ret = 0" "ETIMEDOUT U \<noteq> 0" "ECOMM U \<noteq> 0"
  shows "good_blocks U bsize bcnt l buf \<and> (bcnt = 0 \<longrightarrow> r1_0 = 0)"
proof -
  have "\<exists>t. l' = l @ t \<and> good_blocks U bsize bcnt t buf \<and> (bcnt = 0 \<longrightarrow> r1 = 0)"
    if "run_state (readdata U (recorded H) bcnt bsize r1) (l, d) = ((0, buf), l', d')" for buf r1 l d l' d'
    using that
  proof (induction bcnt arbitrary: buf r1 l d)
    case 0
    then show ?case using assms(3,4) by (auto simp: r1_result_def no_block split: if_splits)
  next
    case (Suc bcnt)
    show ?case by (rule readdata_block [OF Suc.prems assms(3,4)], drule Suc.IH) (auto intro!: block [unfolded One_nat_def])
  qed
  from this [of r1_0 "[]" d buf l d'] show ?thesis using assms(1,2) by (simp add: mmc_spi_readdata_def)
qed

text \<open>U-Boot with its CRC checks on, the CRC of a block taken to be its length, for a concrete run.\<close>

definition checked_ub :: ub where
  "checked_ub = plain_ub\<lparr>CRC_ON := True, crc16_ccitt := \<lambda>bs. [0, of_nat (length bs)]\<rparr>"

lemma recorded_script_xin [simp]:
  "run_state (xin (recorded script_spi) n) (l, d) = ((0, take n (d @ replicate n 0xff)), l @ [(n, 0, take n (d @ replicate n 0xff))], drop n d)"
  by (simp add: xin_def recorded_def script_spi_def)

lemma recorded_script_xin1 [simp]: "run_state (xin1 (recorded script_spi)) (l, b # bs) = ((0, b), l @ [(1, 0, [b])], bs)"
  by (simp add: xin1_def)

lemma recorded_token:
  "run_state (token_wait (recorded script_spi) READ_TIMEOUT r) (l, 0xff # SPI_TOKEN_SINGLE # bs) =
     (Inr SPI_TOKEN_SINGLE, l @ [(1, 0, [0xff]), (1, 0, [SPI_TOKEN_SINGLE])], bs)"
proof -
  have "run_state (token_wait (recorded script_spi) (Suc (Suc n)) r) (l, 0xff # SPI_TOKEN_SINGLE # bs) =
     (Inr SPI_TOKEN_SINGLE, l @ [(1, 0, [0xff]), (1, 0, [SPI_TOKEN_SINGLE])], bs)" for n by simp
  from this [of "READ_TIMEOUT - 2"] show ?thesis by (simp del: token_wait.simps)
qed

theorem readdata_complete_witness:
  "good_blocks checked_ub 2 1 [(1, 0, [0xff]), (1, 0, [0xfe]), (2, 0, [1, 7]), (2, 0, [0, 2])] [1, 7]"
proof -
  have r: "run_state (mmc_spi_readdata checked_ub (recorded script_spi) 0 1 2) ([], [0xff, 0xfe, 1, 7, 0, 2]) =
      ((0, [1, 7]), [(1, 0, [0xff]), (1, 0, [0xfe]), (2, 0, [1, 7]), (2, 0, [0, 2])], [])"
    by (simp add: mmc_spi_readdata_def recorded_token checked_ub_def plain_ub_def r1_result_def numeral_2_eq_2 One_nat_def)
  show ?thesis using readdata_complete [OF r] by (simp add: checked_ub_def plain_ub_def)
qed

subsection \<open>Writing\<close>

text \<open>The controller with its error codes erased.\<close>

definition deaf :: "'d spi_hw \<Rightarrow> 'd spi_hw" where
  "deaf H = H\<lparr>xfer_out := \<lambda>bs f d. (0, snd (xfer_out H bs f d)),
     xfer_in := \<lambda>n d. ((0, snd (fst (xfer_in H n d))), snd (xfer_in H n d))\<rparr>"

lemma deaf_run:
  "run_state (xin1 (deaf H)) d = ((0, snd (fst (run_state (xin1 H) d))), snd (run_state (xin1 H) d))"
  "run_state (xout (deaf H) bs fl) d = (0, snd (run_state (xout H bs fl) d))"
  by (simp_all add: xin1_def xin_def xout_def deaf_def split: prod.splits)

lemma accept_wait_deaf: "run_state (accept_wait (deaf H) n r) d = run_state (accept_wait H n r) d"
  by (induction n arbitrary: r d) (simp_all add: deaf_run split: prod.splits)

lemma busy_wait_deaf: "run_state (busy_wait (deaf H) n i) d = run_state (busy_wait H n i) d"
  by (induction n arbitrary: i d) (simp_all add: deaf_run split: prod.splits)

lemma writeblocks_deaf:
  "run_state (writeblocks U (deaf H) tok junk bcnt buf bsize r1) d = run_state (writeblocks U H tok junk bcnt buf bsize r1) d"
proof (induction bcnt arbitrary: buf r1 d)
  case (Suc bcnt)
  show ?case
    unfolding writeblocks.simps
    by (simp add: deaf_run accept_wait_deaf busy_wait_deaf Suc.IH split: prod.splits del: accept_wait.simps busy_wait.simps)
qed simp

text \<open>C40: A write cannot see an error of the controller: \<open>mmc_spi_writedata\<close> does and returns exactly the
  same when every error code the controller returns is replaced by success.\<close>

theorem writedata_ignores_errors:
  "run_state (mmc_spi_writedata U H r1_0 junk buf bcnt bsize multi) d =
     run_state (mmc_spi_writedata U (deaf H) r1_0 junk buf bcnt bsize multi) d"
  unfolding mmc_spi_writedata_def stop_tran_def
  by (simp add: writeblocks_deaf deaf_run busy_wait_deaf split: prod.splits)

subsection \<open>Claiming and releasing\<close>

text \<open>A controller that counts: how often the bus was claimed, a transfer ended, the bus released.\<close>

record tally =
  claims :: nat
  ends :: nat
  releases :: nat

definition spied :: "'d spi_hw \<Rightarrow> (tally \<times> 'd) spi_hw" where
  "spied H = \<lparr>
     xfer_out = (\<lambda>bs f (t, d). (fst (xfer_out H bs f d),
        if f = SPI_XFER_END then t\<lparr>ends := Suc (ends t)\<rparr> else t, snd (xfer_out H bs f d))),
     xfer_in = (\<lambda>n (t, d). (fst (xfer_in H n d), t, snd (xfer_in H n d))),
     claim_bus = (\<lambda>(t, d). (t\<lparr>claims := Suc (claims t)\<rparr>, claim_bus H d)),
     release_bus = (\<lambda>(t, d). (t\<lparr>releases := Suc (releases t)\<rparr>, release_bus H d))\<rparr>"

definition quiet :: "(tally \<times> 'd, 'a) state \<Rightarrow> bool" where
  "quiet m \<longleftrightarrow> (\<forall>s. fst (snd (run_state m s)) = fst s)"

lemma quiet_bind: "quiet m \<Longrightarrow> (\<And>x. quiet (f x)) \<Longrightarrow> quiet (State_Monad.bind m f)"
  unfolding quiet_def by (auto split: prod.splits) (metis fst_conv snd_conv)

lemma quiet_return: "quiet (State_Monad.return x)"
  by (simp add: quiet_def)

lemma quiet_if: "quiet m \<Longrightarrow> quiet n \<Longrightarrow> quiet (if b then m else n)"
  by simp

lemma quiet_split: "(\<And>a b. quiet (f a b)) \<Longrightarrow> quiet (case p of (a, b) \<Rightarrow> f a b)"
  "(\<And>a. quiet (g a)) \<Longrightarrow> (\<And>b. quiet (h b)) \<Longrightarrow> quiet (case s of Inl a \<Rightarrow> g a | Inr b \<Rightarrow> h b)"
  by (simp_all split: prod.splits sum.splits)

lemma quiet_io: "quiet (xin (spied H) n)" "f \<noteq> SPI_XFER_END \<Longrightarrow> quiet (xout (spied H) bs f)"
  by (auto simp: quiet_def xin_def xout_def spied_def)

lemma quiet_xin1: "quiet (xin1 (spied H))"
  unfolding xin1_def by (intro quiet_bind quiet_io quiet_split quiet_return)

lemmas quiet_intros = quiet_bind quiet_return quiet_if quiet_split quiet_io(1) quiet_xin1

lemma quiet_loops:
  "quiet (resp_wait U (spied H) m n r)" "quiet (resp_rest (spied H) n)" "quiet (r1b_wait U (spied H) n)"
  "quiet (token_wait (spied H) n r)" "quiet (accept_wait (spied H) n r)" "quiet (busy_wait (spied H) n i)"
proof -
  show "quiet (resp_wait U (spied H) m n r)"
    by (induction n arbitrary: r) (simp_all only: resp_wait.simps, (intro quiet_intros | assumption)+)
  show "quiet (resp_rest (spied H) n)"
    by (induction n) (simp_all only: resp_rest.simps, (intro quiet_intros | assumption)+)
  show "quiet (r1b_wait U (spied H) n)"
    by (induction n) (simp_all only: r1b_wait.simps, (intro quiet_intros | assumption)+)
  show "quiet (token_wait (spied H) n r)"
    by (induction n arbitrary: r) (simp_all only: token_wait.simps, (intro quiet_intros | assumption)+)
  show "quiet (accept_wait (spied H) n r)"
    by (induction n arbitrary: r) (simp_all only: accept_wait.simps, (intro quiet_intros | assumption)+)
  show "quiet (busy_wait (spied H) n i)"
    by (induction n arbitrary: i) (simp_all only: busy_wait.simps, (intro quiet_intros | assumption)+)
qed

lemma quiet_sendcmd: "quiet (mmc_spi_sendcmd U (spied H) idx arg sz want r1b)"
  unfolding mmc_spi_sendcmd_def by (intro quiet_intros quiet_io(2) quiet_loops) simp

lemma quiet_readdata: "quiet (mmc_spi_readdata U (spied H) r1_0 bcnt bsize)"
proof -
  have "quiet (readdata U (spied H) bcnt bsize r1_0)" for r1_0
    by (induction bcnt arbitrary: r1_0) (simp_all only: readdata.simps, (intro quiet_intros quiet_loops | assumption)+)
  then show ?thesis by (simp add: mmc_spi_readdata_def)
qed

lemma quiet_writedata: "quiet (mmc_spi_writedata U (spied H) r1_0 junk buf bcnt bsize multi)"
proof -
  have "quiet (writeblocks U (spied H) tok junk bcnt buf bsize r1)" for tok r1 buf
    by (induction bcnt arbitrary: r1 buf)
      (simp_all only: writeblocks.simps, (intro quiet_intros quiet_io(2) quiet_loops xfer_flag.distinct | assumption)+)
  then show ?thesis unfolding mmc_spi_writedata_def stop_tran_def
    by (intro quiet_intros quiet_io(2) quiet_loops) simp_all
qed

lemma quiet_data_phase: "quiet (data_phase U (spied H) r1_0 junk idx data)"
  unfolding data_phase_def
  by (auto split: option.split mmc_dir.split intro!: quiet_bind quiet_return quiet_readdata quiet_writedata)

lemma quietD: "quiet m \<Longrightarrow> run_state m (t, d) = (x, t', d') \<Longrightarrow> t' = t"
  unfolding quiet_def by (metis fst_conv snd_conv)

lemma request_done_tally:
  "run_state (request_done (spied H) x) (t, d) = (y, t', d') \<Longrightarrow>
     y = x \<and> t' = t\<lparr>ends := Suc (ends t), releases := Suc (releases t)\<rparr>"
  by (auto simp: request_done_def xout_def spied_def)

text \<open>C37: Every request claims the bus once, and ends the transfer and releases the bus once before it
  returns, with one exception: a read of CID or CSD whose data phase fails returns an error with
  the transfer still open and the bus still claimed.\<close>

theorem request_releases_bus:
  assumes "run_state (dm_mmc_spi_request U (spied H) r1_0 junk cmd data) (t, d) = ((ret, cmd', buf), t', d')"
  shows "claims t' = Suc (claims t) \<and>
    (ends t' = Suc (ends t) \<and> releases t' = Suc (releases t) \<or>
     ends t' = ends t \<and> releases t' = releases t \<and> ret \<noteq> 0 \<and> cmdidx cmd \<in> {MMC_CMD_SEND_CID, MMC_CMD_SEND_CSD})"
proof -
  let ?t = "t\<lparr>claims := Suc (claims t)\<rparr>"
  obtain arg sz want r1b where plan: "resp_plan (cmdidx cmd) (cmdarg cmd) = (arg, sz, want, r1b)" by (metis prod_cases4)
  obtain r resp d1 where s: "run_state (mmc_spi_sendcmd U (spied H) (number cmd) arg sz want r1b) (?t, claim_bus H d) = ((r, resp), ?t, d1)"
    using quietD [OF quiet_sendcmd] by (metis surj_pair)
  obtain r1 bytes d2 where rd: "run_state (mmc_spi_readdata U (spied H) r1_0 1 16) (?t, d1) = ((r1, bytes), ?t, d2)"
    using quietD [OF quiet_readdata] by (metis surj_pair)
  have dp: "\<exists>r2 b2 d3. run_state (data_phase U (spied H) r1_0 junk (cmdidx cmd) data) (?t, d0) = ((r2, b2), ?t, d3)" for d0
    using quietD [OF quiet_data_phase] by (metis surj_pair)
  obtain r2 b2 d3 where p1: "run_state (data_phase U (spied H) r1_0 junk (cmdidx cmd) data) (?t, d1) = ((r2, b2), ?t, d3)"
    using dp by blast
  obtain r3 b3 d4 where p2: "run_state (data_phase U (spied H) r1_0 junk (cmdidx cmd) data) (?t, d2) = ((r3, b3), ?t, d4)"
    using dp by blast
  have cl: "run_state (State (\<lambda>d. ((), claim_bus (spied H) d))) (t, d) = ((), ?t, claim_bus H d)"
    by (simp add: spied_def)
  show ?thesis
    using assms cl s rd p1 p2 plan unfolding dm_mmc_spi_request_def
    by (auto simp: Let_def split: if_splits dest!: request_done_tally)
qed

text \<open>A controller whose long transfers fail: the CSD is announced but cannot be read.\<close>

definition short_spi :: "byte list spi_hw" where
  "short_spi = script_spi\<lparr>xfer_in := \<lambda>n d. ((if n > 2 then -5 else 0, take n (d @ replicate n 0xff)), drop n d)\<rparr>"

definition csd_cmd :: mmc_cmd where
  "csd_cmd = \<lparr>cmdidx = MMC_CMD_SEND_CSD, number = 9, cmdarg = 0, response = [0, 0, 0, 0]\<rparr>"

lemma short_xin [simp]:
  "run_state (xin (spied short_spi) n) (t, d) =
     ((if n > 2 then -5 else 0, take n (d @ replicate n 0xff)), t, drop n d)"
  by (simp add: xin_def short_spi_def script_spi_def spied_def)

lemma short_xin1 [simp]: "run_state (xin1 (spied short_spi)) (t, b # bs) = ((0, b), t, bs)"
  by (simp add: xin1_def)

lemma short_token:
  "run_state (token_wait (spied short_spi) READ_TIMEOUT r) (t, SPI_TOKEN_SINGLE # bs) = (Inr SPI_TOKEN_SINGLE, t, bs)"
proof -
  have "run_state (token_wait (spied short_spi) (Suc n) r) (t, SPI_TOKEN_SINGLE # bs) = (Inr SPI_TOKEN_SINGLE, t, bs)" for n by simp
  from this [of "READ_TIMEOUT - 1"] show ?thesis by (simp del: token_wait.simps)
qed

lemma short_csd:
  "run_state (dm_mmc_spi_request plain_ub (spied short_spi) 0 [] csd_cmd None) (\<lparr>claims = 0, ends = 0, releases = 0\<rparr>, [0xff, 0, 0xfe]) =
     ((-5, csd_cmd\<lparr>response := [0, 0, 0, 0]\<rparr>, []), \<lparr>claims = 1, ends = 0, releases = 0\<rparr>, [])"
proof -
  have cl: "claim_bus (spied short_spi) (t, d) = (t\<lparr>claims := Suc (claims t)\<rparr>, d)" for t d
    by (simp add: spied_def short_spi_def script_spi_def)
  have out: "run_state (xout (spied short_spi) bs SPI_XFER_BEGIN) (t, d) = (0, t, d)" for bs t d
    by (simp add: xout_def spied_def short_spi_def script_spi_def)
  have w: "run_state (resp_wait plain_ub (spied short_spi) None CMD_TIMEOUT r) (t, 0 # bs) = (Inr 0, t, bs)" for r t bs
    by (simp add: numeral_eq_Suc)
  show ?thesis
    by (simp add: dm_mmc_spi_request_def csd_cmd_def mmc_spi_sendcmd_def mmc_spi_readdata_def cl out w short_token Let_def
        del: resp_wait.simps token_wait.simps)
qed

theorem request_releases_bus_witness:
  "claims (fst (snd (run_state (dm_mmc_spi_request plain_ub (spied short_spi) 0 [] csd_cmd None)
     (\<lparr>claims = 0, ends = 0, releases = 0\<rparr>, [0xff, 0, 0xfe])))) = 1"
  using request_releases_bus [OF short_csd] short_csd by simp

end
