(* ===== verification/Ncr_Base.thy ===== *)
theory Ncr_Base
  imports Prelude
begin

text \<open>
  The ground of the Linux driver \<^verbatim>\<open>src/doc/drivers/Linux/NCR5380.c\<close>: its data (\<open>scsi_cmnd\<close> with
  its \<open>NCR5380_cmd\<close>, and \<open>NCR5380_hostdata\<close>), access to the chip, the polling loops and the
  programmed transfer. The configuration is the generic one: no debugging code
  (\<open>NDEBUG\<close> is 0) and none of the \<open>CONFIG_SUN3\<close> branches.

  The lock. Code that holds \<open>hostdata->lock\<close> runs undisturbed. Code that has released it can
  be interrupted before every access to the chip, by the interrupt handler and by the entry
  points of the mid-layer. What runs at such a point is a parameter \<open>y\<close> of the access: nothing
  (\<open>held\<close>) for code that holds the lock, the next entry of the schedule \<open>sched\<close> otherwise.

  Pointers are 32-bit addresses of a memory behind the device state; a local variable whose
  address is passed has a cell of its own there.
\<close>

subsection \<open>Registers\<close>

abbreviation (input) "OUTPUT_DATA_REG \<equiv> (0::3 word)"
abbreviation (input) "CURRENT_SCSI_DATA_REG \<equiv> (0::3 word)"
abbreviation (input) "INITIATOR_COMMAND_REG \<equiv> (1::3 word)"
abbreviation (input) "MODE_REG \<equiv> (2::3 word)"
abbreviation (input) "TARGET_COMMAND_REG \<equiv> (3::3 word)"
abbreviation (input) "STATUS_REG \<equiv> (4::3 word)"
abbreviation (input) "SELECT_ENABLE_REG \<equiv> (4::3 word)"
abbreviation (input) "BUS_AND_STATUS_REG \<equiv> (5::3 word)"
abbreviation (input) "START_DMA_SEND_REG \<equiv> (5::3 word)"
abbreviation (input) "INPUT_DATA_REG \<equiv> (6::3 word)"
abbreviation (input) "RESET_PARITY_INTERRUPT_REG \<equiv> (7::3 word)"
abbreviation (input) "START_DMA_INITIATOR_RECEIVE_REG \<equiv> (7::3 word)"

abbreviation (input) "ICR_BASE \<equiv> (0::byte)"
abbreviation (input) "ICR_ASSERT_RST \<equiv> (0x80::byte)"
abbreviation (input) "ICR_ARBITRATION_PROGRESS \<equiv> (0x40::byte)"
abbreviation (input) "ICR_ARBITRATION_LOST \<equiv> (0x20::byte)"
abbreviation (input) "ICR_ASSERT_ACK \<equiv> (0x10::byte)"
abbreviation (input) "ICR_ASSERT_BSY \<equiv> (0x08::byte)"
abbreviation (input) "ICR_ASSERT_SEL \<equiv> (0x04::byte)"
abbreviation (input) "ICR_ASSERT_ATN \<equiv> (0x02::byte)"
abbreviation (input) "ICR_ASSERT_DATA \<equiv> (0x01::byte)"
abbreviation (input) "MR_BASE \<equiv> (0::byte)"
abbreviation (input) "MR_ENABLE_EOP_INTR \<equiv> (0x08::byte)"
abbreviation (input) "MR_MONITOR_BSY \<equiv> (0x04::byte)"
abbreviation (input) "MR_DMA_MODE \<equiv> (0x02::byte)"
abbreviation (input) "MR_ARBITRATE \<equiv> (0x01::byte)"
abbreviation (input) "SR_RST \<equiv> (0x80::byte)"
abbreviation (input) "SR_BSY \<equiv> (0x40::byte)"
abbreviation (input) "SR_REQ \<equiv> (0x20::byte)"
abbreviation (input) "SR_MSG \<equiv> (0x10::byte)"
abbreviation (input) "SR_IO \<equiv> (0x04::byte)"
abbreviation (input) "SR_SEL \<equiv> (0x02::byte)"
abbreviation (input) "BASR_DRQ \<equiv> (0x40::byte)"
abbreviation (input) "BASR_IRQ \<equiv> (0x10::byte)"
abbreviation (input) "BASR_PHASE_MATCH \<equiv> (0x08::byte)"
abbreviation (input) "BASR_ACK \<equiv> (0x01::byte)"
abbreviation (input) "PHASE_MASK \<equiv> (0x1c::byte)"
abbreviation (input) "PHASE_DATAOUT \<equiv> (0x00::byte)"
abbreviation (input) "PHASE_DATAIN \<equiv> (0x04::byte)"
abbreviation (input) "PHASE_CMDOUT \<equiv> (0x08::byte)"
abbreviation (input) "PHASE_STATIN \<equiv> (0x0c::byte)"
abbreviation (input) "PHASE_MSGOUT \<equiv> (0x18::byte)"
abbreviation (input) "PHASE_MSGIN \<equiv> (0x1c::byte)"
abbreviation (input) "PHASE_UNKNOWN \<equiv> (0xff::byte)"
abbreviation (input) "FLAG_DMA_FIXUP \<equiv> (1::u32)"
abbreviation (input) "FLAG_LATE_DMA_SETUP \<equiv> (32::u32)"
abbreviation (input) "FLAG_TOSHIBA_DELAY \<equiv> (128::u32)"
abbreviation (input) "NCR5380_PIO_CHUNK_SIZE \<equiv> (256::int)"
abbreviation (input) "NCR5380_REG_POLL_TIME \<equiv> (10::nat)"

definition PHASE_SR_TO_TCR :: "byte \<Rightarrow> byte" where "PHASE_SR_TO_TCR p = drop_bit 2 p"

text \<open>Message codes of the SCSI-2 standard.\<close>

abbreviation (input) "COMMAND_COMPLETE \<equiv> (0x00::byte)"
abbreviation (input) "EXTENDED_MESSAGE \<equiv> (0x01::byte)"
abbreviation (input) "SAVE_POINTERS \<equiv> (0x02::byte)"
abbreviation (input) "RESTORE_POINTERS \<equiv> (0x03::byte)"
abbreviation (input) "DISCONNECT \<equiv> (0x04::byte)"
abbreviation (input) "ABORT \<equiv> (0x06::byte)"
abbreviation (input) "MESSAGE_REJECT \<equiv> (0x07::byte)"
abbreviation (input) "NOP \<equiv> (0x08::byte)"
abbreviation (input) "SIMPLE_QUEUE_TAG \<equiv> (0x20::byte)"
abbreviation (input) "HEAD_OF_QUEUE_TAG \<equiv> (0x21::byte)"
abbreviation (input) "ORDERED_QUEUE_TAG \<equiv> (0x22::byte)"

definition IDENTIFY :: "bool \<Rightarrow> nat \<Rightarrow> byte" where
  "IDENTIFY can_disconnect lun = 0x80 OR (if can_disconnect then 0x40 else 0) OR (word_of_nat lun AND 0x07)"

subsection \<open>Data\<close>

text \<open>The results the driver's routines return: 0 and two error numbers.\<close>

datatype rc = RC_OK | ETIMEDOUT | ENXIO

text \<open>
  A command: what the mid-layer fills in (target and LUN, the address and length of the CDB,
  the data buffer as a scatter-gather list of addresses and lengths), its result (host byte
  and status byte of \<open>result\<close>), and the driver's part from \<open>ptr\<close> on. \<open>buffer\<close> is the rest of the list from
  the current entry on; the null pointer is \<open>[]\<close>.
\<close>

record scsi_cmnd =
  scmd_id :: nat
  lun :: nat
  cmnd :: u32
  cmd_len :: int
  bufflen :: nat
  sglist :: "(u32 \<times> int) list"
  host_byte :: byte
  status_byte :: byte
  resid :: int
  ptr :: u32
  this_residual :: int
  buffer :: "(u32 \<times> int) list"
  status :: byte
  phase :: byte

text \<open>What can run while the lock is free: the mid-layer's entry points and the interrupt handler.\<close>

datatype other = Queue_command nat | Abort nat | Host_reset | Intr

text \<open>
  \<open>NCR5380_hostdata\<close> and what belongs to it: commands are named by numbers and live in \<open>cmds\<close>;
  \<open>borken\<close> and \<open>simple_tags\<close> are fields of the device of a target and LUN; \<open>entered\<close> lists the
  commands accepted by \<open>NCR5380_queue_command\<close>, \<open>finished\<close> those handed back by \<open>scsi_done\<close>, with their results; \<open>work\<close> is whether the work item is queued.
\<close>

record 'd host =
  connected :: "nat option"
  disconnected :: "nat list"
  unissued :: "nat list"
  selecting :: "nat option"
  autosense :: "nat list"
  sensing :: "nat option"
  ses :: "byte list"
  busy :: "nat \<Rightarrow> byte"
  id_mask :: byte
  id_higher_mask :: byte
  last_message :: byte
  flags :: u32
  dma_len :: int
  read_overruns :: int
  poll_loops :: nat
  has_irq :: bool
  cmds :: "nat \<Rightarrow> scsi_cmnd"
  borken :: "nat \<times> nat \<Rightarrow> bool"
  simple_tags :: "nat \<times> nat \<Rightarrow> bool"
  entered :: "nat list"
  finished :: "(nat \<times> byte \<times> byte) list"
  work :: bool
  sched :: "other list list"
  dev :: 'd

text \<open>
  The board and the kernel: registers, memory, time, the board's DMA routines (named
  \<open>NCR5380_dma_xfer_len\<close> and so on in the source), \<open>scsi_eh_prep_cmnd\<close> and \<open>scsi_eh_restore_cmnd\<close>
  (the saved state is opaque), and the kernel's constants. \<open>tmp_at\<close> and \<open>ext_at\<close> are the cells of the
  local variables whose address is passed.
\<close>

record 'd ncr_hw =
  reg_rd :: "3 word \<Rightarrow> 'd \<Rightarrow> byte \<times> 'd"
  reg_wr :: "3 word \<Rightarrow> byte \<Rightarrow> 'd \<Rightarrow> 'd"
  mem_rd :: "u32 \<Rightarrow> 'd \<Rightarrow> byte \<times> 'd"
  mem_wr :: "u32 \<Rightarrow> byte \<Rightarrow> 'd \<Rightarrow> 'd"
  jiffies :: "'d \<Rightarrow> nat"
  cpu_relax :: "'d \<Rightarrow> 'd"
  schedule_timeout :: "'d \<Rightarrow> 'd"
  udelay :: "nat \<Rightarrow> 'd \<Rightarrow> 'd"
  msleep :: "nat \<Rightarrow> 'd \<Rightarrow> 'd"
  acquire_dma_irq :: "'d \<Rightarrow> bool \<times> 'd"
  release_dma_irq :: "'d \<Rightarrow> 'd"
  dma_xfer_len :: "u32 \<Rightarrow> scsi_cmnd \<Rightarrow> 'd \<Rightarrow> int \<times> 'd"
  dma_send_setup :: "u32 \<Rightarrow> int \<Rightarrow> 'd \<Rightarrow> int \<times> 'd"
  dma_recv_setup :: "u32 \<Rightarrow> int \<Rightarrow> 'd \<Rightarrow> int \<times> 'd"
  dma_residual :: "'d \<Rightarrow> int \<times> 'd"
  eh_prep :: "scsi_cmnd \<Rightarrow> 'd \<Rightarrow> (scsi_cmnd \<times> byte list) \<times> 'd"
  eh_restore :: "byte list \<Rightarrow> scsi_cmnd \<Rightarrow> 'd \<Rightarrow> scsi_cmnd \<times> 'd"
  alloc_workqueue :: "'d \<Rightarrow> bool \<times> 'd"
  msecs_to_jiffies :: "nat \<Rightarrow> nat"
  HZ :: nat
  disconnect_mask :: u32
  tmp_at :: u32
  ext_at :: u32
  REQUEST_SENSE :: byte
  DID_BAD_TARGET :: byte
  DID_ERROR :: byte
  DID_ABORT :: byte
  DID_RESET :: byte
  SAM_STAT_GOOD :: byte
  SAM_STAT_CHECK_CONDITION :: byte
  SAM_STAT_COMMAND_TERMINATED :: byte

subsection \<open>Access\<close>

definition ask :: "('d host \<Rightarrow> 'a) \<Rightarrow> ('d host, 'a) state" where "ask f = State (\<lambda>h. (f h, h))"
definition upd :: "('d host \<Rightarrow> 'd host) \<Rightarrow> ('d host, unit) state" where "upd f = State (\<lambda>h. ((), f h))"
definition dget :: "('d \<Rightarrow> 'a \<times> 'd) \<Rightarrow> ('d host, 'a) state" where
  "dget f = State (\<lambda>h. case f (dev h) of (x, d) \<Rightarrow> (x, h\<lparr>dev := d\<rparr>))"
definition dput :: "('d \<Rightarrow> 'd) \<Rightarrow> ('d host, unit) state" where
  "dput f = State (\<lambda>h. ((), h\<lparr>dev := f (dev h)\<rparr>))"
definition cmd_upd :: "nat \<Rightarrow> (scsi_cmnd \<Rightarrow> scsi_cmnd) \<Rightarrow> ('d host, unit) state" where
  "cmd_upd c f = upd (\<lambda>h. h\<lparr>cmds := (cmds h)(c := f (cmds h c))\<rparr>)"
definition cmd_get :: "nat \<Rightarrow> (scsi_cmnd \<Rightarrow> 'a) \<Rightarrow> ('d host, 'a) state" where
  "cmd_get c f = ask (\<lambda>h. f (cmds h c))"

abbreviation held :: "('d host, unit) state" where "held \<equiv> State_Monad.return ()"

definition NCR5380_read :: "'d ncr_hw \<Rightarrow> ('d host, unit) state \<Rightarrow> 3 word \<Rightarrow> ('d host, byte) state" where
  "NCR5380_read H y r = do { y; dget (reg_rd H r) }"
definition NCR5380_write :: "'d ncr_hw \<Rightarrow> ('d host, unit) state \<Rightarrow> 3 word \<Rightarrow> byte \<Rightarrow> ('d host, unit) state" where
  "NCR5380_write H y r v = do { y; dput (reg_wr H r v) }"

subsection \<open>The scatter-gather list\<close>

definition initialize_SCp :: "nat \<Rightarrow> ('d host, unit) state" where
  "initialize_SCp c = cmd_upd c (\<lambda>s.
     if bufflen s \<noteq> 0 then s\<lparr>buffer := sglist s, ptr := fst (hd (sglist s)), this_residual := snd (hd (sglist s)), status := 0\<rparr>
     else s\<lparr>buffer := [], ptr := 0, this_residual := 0, status := 0\<rparr>)"

definition sg_advanced :: "scsi_cmnd \<Rightarrow> scsi_cmnd" where
  "sg_advanced s = (case buffer s of
       _ # (a, l) # rest \<Rightarrow> if this_residual s = 0 then s\<lparr>buffer := (a, l) # rest, ptr := a, this_residual := l\<rparr> else s
     | _ \<Rightarrow> s)"

definition advance_sg_buffer :: "nat \<Rightarrow> ('d host, unit) state" where
  "advance_sg_buffer c = cmd_upd c sg_advanced"

text \<open>What the list still has room for: the rest of the current entry and all of the later ones.\<close>

definition sg_rest :: "scsi_cmnd \<Rightarrow> int" where
  "sg_rest s = this_residual s + sum_list (map snd (tl (buffer s)))"

definition set_resid_from_SCp :: "nat \<Rightarrow> ('d host, unit) state" where
  "set_resid_from_SCp c = cmd_upd c (\<lambda>s. s\<lparr>resid := sg_rest s\<rparr>)"

subsection \<open>Polling\<close>

definition poll_once :: "'d ncr_hw \<Rightarrow> ('d host, unit) state \<Rightarrow> 3 word \<Rightarrow> byte \<Rightarrow> byte \<Rightarrow> 3 word \<Rightarrow> byte \<Rightarrow> byte \<Rightarrow> ('d host, bool) state" where
  "poll_once H y reg1 bit1 val1 reg2 bit2 val2 = do {
     a \<leftarrow> NCR5380_read H y reg1;
     if a AND bit1 = val1 then State_Monad.return True
     else do {
       b \<leftarrow> NCR5380_read H y reg2;
       State_Monad.return (b AND bit2 = val2) } }"

text \<open>\<open>do { ... } while (n--)\<close>: \<open>n + 1\<close> looks.\<close>

fun poll_quick :: "'d ncr_hw \<Rightarrow> ('d host, bool) state \<Rightarrow> nat \<Rightarrow> ('d host, bool) state" where
  "poll_quick H once n = do {
     hit \<leftarrow> once;
     if hit then State_Monad.return True
     else do {
       dput (cpu_relax H);
       (case n of 0 \<Rightarrow> State_Monad.return False | Suc k \<Rightarrow> poll_quick H once k) } }"

declare poll_quick.simps [simp del]

text \<open>
  The sleeping loop, \<open>while (time_is_after_jiffies(deadline))\<close>. The deadline is \<open>wait\<close> ticks after a
  time read before, a sleep of one tick takes a tick or more, and whatever runs in between only lets
  more time pass; so after \<open>wait\<close> rounds at the latest the deadline is over. The first argument counts them.
\<close>

fun poll_sleep :: "'d ncr_hw \<Rightarrow> ('d host, bool) state \<Rightarrow> nat \<Rightarrow> nat \<Rightarrow> ('d host, bool) state" where
  "poll_sleep H once 0 deadline = State_Monad.return False"
| "poll_sleep H once (Suc k) deadline = do {
     now \<leftarrow> ask (\<lambda>h. jiffies H (dev h));
     if now < deadline then do {
       dput (schedule_timeout H);
       hit \<leftarrow> once;
       if hit then State_Monad.return True else poll_sleep H once k deadline }
     else State_Monad.return False }"

definition NCR5380_poll_politely2 :: "'d ncr_hw \<Rightarrow> ('d host, unit) state \<Rightarrow> 3 word \<Rightarrow> byte \<Rightarrow> byte \<Rightarrow> 3 word \<Rightarrow> byte \<Rightarrow> byte \<Rightarrow> nat \<Rightarrow> ('d host, rc) state" where
  "NCR5380_poll_politely2 H y reg1 bit1 val1 reg2 bit2 val2 wait = do {
     n \<leftarrow> ask poll_loops;
     now \<leftarrow> ask (\<lambda>h. jiffies H (dev h));
     hit \<leftarrow> poll_quick H (poll_once H y reg1 bit1 val1 reg2 bit2 val2) n;
     if hit then State_Monad.return RC_OK
     else if wait = 0 then State_Monad.return ETIMEDOUT
     else do {
       hit2 \<leftarrow> poll_sleep H (poll_once H y reg1 bit1 val1 reg2 bit2 val2) wait (now + wait);
       State_Monad.return (if hit2 then RC_OK else ETIMEDOUT) } }"

definition NCR5380_poll_politely :: "'d ncr_hw \<Rightarrow> ('d host, unit) state \<Rightarrow> 3 word \<Rightarrow> byte \<Rightarrow> byte \<Rightarrow> nat \<Rightarrow> ('d host, rc) state" where
  "NCR5380_poll_politely H y reg msk val wait = do {
     a \<leftarrow> NCR5380_read H y reg;
     if a AND msk = val then State_Monad.return RC_OK
     else NCR5380_poll_politely2 H y reg msk val reg msk val wait }"

subsection \<open>Programmed transfer\<close>

text \<open>
  \<open>--c\<close> on a C int (the kernel is compiled so that it wraps), and how often \<open>do { ... } while (--c)\<close>
  goes round at most: a count of 0 means \<open>2 ^ 32\<close> rounds.
\<close>

definition dec32 :: "int \<Rightarrow> int" where "dec32 c = (if c = - (2 ^ 31) then 2 ^ 31 - 1 else c - 1)"
definition pio_rounds :: "int \<Rightarrow> nat" where "pio_rounds c = nat (if c > 0 then c else c + 2 ^ 32)"

definition pio_put_icr :: "'d ncr_hw \<Rightarrow> ('d host, unit) state \<Rightarrow> byte \<Rightarrow> int \<Rightarrow> ('d host, unit) state" where
  "pio_put_icr H y p c =
     (if p AND SR_IO = 0 then
        (if \<not> (p AND SR_MSG \<noteq> 0 \<and> c > 1) then do {
           NCR5380_write H y INITIATOR_COMMAND_REG (ICR_BASE OR ICR_ASSERT_DATA);
           NCR5380_write H y INITIATOR_COMMAND_REG (ICR_BASE OR ICR_ASSERT_DATA OR ICR_ASSERT_ACK) }
         else do {
           NCR5380_write H y INITIATOR_COMMAND_REG (ICR_BASE OR ICR_ASSERT_DATA OR ICR_ASSERT_ATN);
           NCR5380_write H y INITIATOR_COMMAND_REG (ICR_BASE OR ICR_ASSERT_DATA OR ICR_ASSERT_ATN OR ICR_ASSERT_ACK) })
      else NCR5380_write H y INITIATOR_COMMAND_REG (ICR_BASE OR ICR_ASSERT_ACK))"

text \<open>One byte: whether the loop goes on, and \<open>d\<close>. \<open>False\<close> is a \<open>break\<close>.\<close>

definition pio_round :: "'d ncr_hw \<Rightarrow> ('d host, unit) state \<Rightarrow> byte \<Rightarrow> nat \<Rightarrow> int \<Rightarrow> u32 \<Rightarrow> ('d host, bool \<times> u32) state" where
  "pio_round H y p can_sleep c d = do {
     r \<leftarrow> NCR5380_poll_politely H y STATUS_REG (SR_REQ OR SR_BSY) (SR_REQ OR SR_BSY) (HZ H * can_sleep);
     if r \<noteq> RC_OK then State_Monad.return (False, d)
     else do {
       s \<leftarrow> NCR5380_read H y STATUS_REG;
       if s AND PHASE_MASK \<noteq> p then State_Monad.return (False, d)
       else do {
         (if p AND SR_IO = 0 then do { b \<leftarrow> dget (mem_rd H d); NCR5380_write H y OUTPUT_DATA_REG b }
          else do { b \<leftarrow> NCR5380_read H y CURRENT_SCSI_DATA_REG; dput (mem_wr H d b) });
         pio_put_icr H y p c;
         r2 \<leftarrow> NCR5380_poll_politely H y STATUS_REG SR_REQ 0 (5 * HZ H * can_sleep);
         if r2 \<noteq> RC_OK then State_Monad.return (False, d + 1)
         else do {
           (if \<not> (p = PHASE_MSGIN \<and> c = 1) then
              (if p = PHASE_MSGOUT \<and> c > 1 then NCR5380_write H y INITIATOR_COMMAND_REG (ICR_BASE OR ICR_ASSERT_ATN)
               else NCR5380_write H y INITIATOR_COMMAND_REG ICR_BASE)
            else State_Monad.return ());
           State_Monad.return (True, d + 1) } } } }"

fun pio_loop :: "'d ncr_hw \<Rightarrow> ('d host, unit) state \<Rightarrow> byte \<Rightarrow> nat \<Rightarrow> nat \<Rightarrow> int \<Rightarrow> u32 \<Rightarrow> ('d host, int \<times> u32) state" where
  "pio_loop H y p can_sleep 0 c d = State_Monad.return (c, d)"
| "pio_loop H y p can_sleep (Suc n) c d = do {
     (more, d1) \<leftarrow> pio_round H y p can_sleep c d;
     if \<not> more then State_Monad.return (c, d1)
     else if dec32 c = 0 then State_Monad.return (0, d1)
     else pio_loop H y p can_sleep n (dec32 c) d1 }"

text \<open>The phase found at the end, the count left, the data pointer.\<close>

definition NCR5380_transfer_pio :: "'d ncr_hw \<Rightarrow> ('d host, unit) state \<Rightarrow> byte \<Rightarrow> int \<Rightarrow> u32 \<Rightarrow> nat \<Rightarrow> ('d host, byte \<times> int \<times> u32) state" where
  "NCR5380_transfer_pio H y p count data can_sleep = do {
     NCR5380_write H y TARGET_COMMAND_REG (PHASE_SR_TO_TCR p);
     (c, d) \<leftarrow> pio_loop H y p can_sleep (pio_rounds count) count data;
     tmp \<leftarrow> NCR5380_read H y STATUS_REG;
     State_Monad.return
       (if tmp AND SR_REQ \<noteq> 0 \<or> (tmp AND SR_IO \<noteq> 0 \<and> c = 0) then tmp AND PHASE_MASK else PHASE_UNKNOWN, c, d) }"

subsection \<open>Reset and abort on the bus\<close>

definition do_reset :: "'d ncr_hw \<Rightarrow> ('d host, unit) state" where
  "do_reset H = do {
     s \<leftarrow> NCR5380_read H held STATUS_REG;
     NCR5380_write H held TARGET_COMMAND_REG (PHASE_SR_TO_TCR (s AND PHASE_MASK));
     NCR5380_write H held INITIATOR_COMMAND_REG (ICR_BASE OR ICR_ASSERT_RST);
     dput (udelay H 50);
     NCR5380_write H held INITIATOR_COMMAND_REG ICR_BASE;
     _ \<leftarrow> NCR5380_read H held RESET_PARITY_INTERRUPT_REG;
     State_Monad.return () }"

text \<open>Handshaking whatever byte the target offers, so that it gets to see ATN.\<close>

definition abort_skip :: "'d ncr_hw \<Rightarrow> nat \<Rightarrow> ('d host, rc) state" where
  "abort_skip H can_sleep = do {
     NCR5380_write H held INITIATOR_COMMAND_REG (ICR_BASE OR ICR_ASSERT_ATN OR ICR_ASSERT_ACK);
     r \<leftarrow> NCR5380_poll_politely H held STATUS_REG SR_REQ 0 (3 * HZ H * can_sleep);
     if r \<noteq> RC_OK then State_Monad.return r
     else do {
       NCR5380_write H held INITIATOR_COMMAND_REG (ICR_BASE OR ICR_ASSERT_ATN);
       State_Monad.return RC_OK } }"

definition abort_message :: "'d ncr_hw \<Rightarrow> nat \<Rightarrow> ('d host, rc) state" where
  "abort_message H can_sleep = do {
     dput (mem_wr H (tmp_at H) ABORT);
     (_, len, _) \<leftarrow> NCR5380_transfer_pio H held PHASE_MSGOUT 1 (tmp_at H) can_sleep;
     State_Monad.return (if len \<noteq> 0 then ENXIO else RC_OK) }"

definition do_abort :: "'d ncr_hw \<Rightarrow> nat \<Rightarrow> ('d host, rc) state" where
  "do_abort H can_sleep = do {
     NCR5380_write H held INITIATOR_COMMAND_REG (ICR_BASE OR ICR_ASSERT_ATN);
     r \<leftarrow> NCR5380_poll_politely H held STATUS_REG SR_REQ SR_REQ (10 * HZ H * can_sleep);
     r2 \<leftarrow> (if r \<noteq> RC_OK then State_Monad.return r
       else do {
         s \<leftarrow> NCR5380_read H held STATUS_REG;
         let tmp = s AND PHASE_MASK;
         NCR5380_write H held TARGET_COMMAND_REG (PHASE_SR_TO_TCR tmp);
         r1 \<leftarrow> (if tmp \<noteq> PHASE_MSGOUT then abort_skip H can_sleep else State_Monad.return RC_OK);
         if r1 \<noteq> RC_OK then State_Monad.return r1 else abort_message H can_sleep });
     NCR5380_write H held INITIATOR_COMMAND_REG ICR_BASE;
     State_Monad.return r2 }"

subsection \<open>Start-up\<close>

text \<open>\<open>for (i = id_mask; i <= 0x80; i <<= 1) if (i > id_mask) ...\<close>: the bits above ours.\<close>

fun higher_ids :: "nat \<Rightarrow> nat \<Rightarrow> byte" where
  "higher_ids this_id 0 = 0"
| "higher_ids this_id (Suc k) = higher_ids this_id k OR (if k > this_id then push_bit k 1 else 0)"

definition tick_wait :: "'d ncr_hw \<Rightarrow> nat \<Rightarrow> ('d host, unit option) state" where
  "tick_wait H deadline = do {
     dput (cpu_relax H);
     now \<leftarrow> ask (\<lambda>h. jiffies H (dev h));
     State_Monad.return (if now < deadline then None else Some ()) }"

definition calibrate_round :: "'d ncr_hw \<Rightarrow> nat \<Rightarrow> nat \<times> 'd host \<Rightarrow> ((nat \<times> 'd host) + (nat \<times> 'd host)) option" where
  "calibrate_round H deadline s = (case s of (i, h) \<Rightarrow>
     (case run_state (do { _ \<leftarrow> NCR5380_read H held STATUS_REG; dput (cpu_relax H) }) h of (_, h1) \<Rightarrow>
        Some (if jiffies H (dev h1) < deadline then Inl (Suc i, h1) else Inr (Suc i, h1))))"

text \<open>\<open>True\<close> is the return of 0, \<open>False\<close> of \<open>-ENOMEM\<close>; \<open>None\<close> is a clock that stands still.\<close>

definition NCR5380_init :: "'d ncr_hw \<Rightarrow> nat \<Rightarrow> u32 \<Rightarrow> 'd host \<Rightarrow> (bool \<times> 'd host) option" where
  "NCR5380_init H this_id fl h =
     (let h0 = h\<lparr>id_mask := push_bit this_id 1, id_higher_mask := higher_ids this_id 8, busy := (\<lambda>_. 0), dma_len := 0,
          connected := None, sensing := None, autosense := [], unissued := [], disconnected := [], flags := fl\<rparr>
      in case run_state (dget (alloc_workqueue H)) h0 of (ok, h1) \<Rightarrow>
        if \<not> ok then Some (False, h1)
        else case run_state (do {
            NCR5380_write H held INITIATOR_COMMAND_REG ICR_BASE;
            NCR5380_write H held MODE_REG MR_BASE;
            NCR5380_write H held TARGET_COMMAND_REG 0;
            NCR5380_write H held SELECT_ENABLE_REG 0;
            ask (\<lambda>h. jiffies H (dev h) + 1) }) h1 of (deadline, h2) \<Rightarrow> do {
          (_, h3) \<leftarrow> st_loop (tick_wait H deadline) h2;
          (i, h4) \<leftarrow> c_loop (calibrate_round H (deadline + msecs_to_jiffies H 256)) (0, h3);
          Some (True, h4\<lparr>poll_loops := NCR5380_REG_POLL_TIME * (i div 256) div 2\<rparr>) })"

text \<open>The passes of \<open>NCR5380_maybe_reset_bus\<close>, from \<open>pass\<close> on; six at most.\<close>

fun reset_passes :: "'d ncr_hw \<Rightarrow> nat \<Rightarrow> nat \<Rightarrow> ('d host, rc) state" where
  "reset_passes H 0 pass = State_Monad.return RC_OK"
| "reset_passes H (Suc k) pass = do {
     s \<leftarrow> NCR5380_read H held STATUS_REG;
     if s AND SR_BSY = 0 \<or> pass > 6 then State_Monad.return RC_OK
     else if pass = 6 then State_Monad.return ENXIO
     else do {
       (if pass = 2 then do { _ \<leftarrow> do_abort H 1; State_Monad.return () }
        else if pass = 4 then do {
          do_reset H;
          fl \<leftarrow> ask flags;
          dput (msleep H (if fl AND FLAG_TOSHIBA_DELAY \<noteq> 0 then 2500 else 500)) }
        else do { _ \<leftarrow> NCR5380_poll_politely H held STATUS_REG SR_BSY 0 (5 * HZ H); State_Monad.return () });
       reset_passes H k (Suc pass) } }"

definition NCR5380_maybe_reset_bus :: "'d ncr_hw \<Rightarrow> ('d host, rc) state" where
  "NCR5380_maybe_reset_bus H = reset_passes H 7 1"

end
