(* ===== verification/Ncr_Queue.thy ===== *)
theory Ncr_Queue
  imports Ncr_Base
begin

text \<open>
  The queues of the Linux driver: a command enters on \<open>unissued\<close>, moves through \<open>selecting\<close>,
  \<open>connected\<close>, \<open>disconnected\<close> and \<open>autosense\<close>, and leaves through \<open>scsi_done\<close>. Here are the
  operations on them that hold the lock throughout: completion, queueing, taking the next
  command, the error handlers, and the DMA transfer with its end.
\<close>

subsection \<open>Completion\<close>

text \<open>\<open>cmd->result = host << 16\<close>, \<open>set_host_byte\<close> and \<open>set_status_byte\<close> of the mid-layer.\<close>

definition set_result :: "nat \<Rightarrow> byte \<Rightarrow> ('d host, unit) state" where
  "set_result c host = cmd_upd c (\<lambda>s. s\<lparr>host_byte := host, status_byte := 0\<rparr>)"
definition set_host_byte :: "nat \<Rightarrow> byte \<Rightarrow> ('d host, unit) state" where
  "set_host_byte c host = cmd_upd c (\<lambda>s. s\<lparr>host_byte := host\<rparr>)"
definition set_status_byte :: "nat \<Rightarrow> byte \<Rightarrow> ('d host, unit) state" where
  "set_status_byte c st = cmd_upd c (\<lambda>s. s\<lparr>status_byte := st\<rparr>)"

definition scsi_done :: "nat \<Rightarrow> ('d host, unit) state" where
  "scsi_done c = upd (\<lambda>h. h\<lparr>finished := finished h @ [(c, host_byte (cmds h c), status_byte (cmds h c))]\<rparr>)"

definition scsi_eh_prep_cmnd :: "'d ncr_hw \<Rightarrow> nat \<Rightarrow> ('d host, unit) state" where
  "scsi_eh_prep_cmnd H c = do {
     s \<leftarrow> cmd_get c id;
     (s1, saved) \<leftarrow> dget (eh_prep H s);
     cmd_upd c (\<lambda>_. s1);
     upd (\<lambda>h. h\<lparr>ses := saved\<rparr>) }"

definition scsi_eh_restore_cmnd :: "'d ncr_hw \<Rightarrow> nat \<Rightarrow> ('d host, unit) state" where
  "scsi_eh_restore_cmnd H c = do {
     s \<leftarrow> cmd_get c id;
     saved \<leftarrow> ask ses;
     s1 \<leftarrow> dget (eh_restore H saved s);
     cmd_upd c (\<lambda>_. s1) }"

text \<open>Autosense processing ends with the completion of its command.\<close>

definition end_sensing :: "'d ncr_hw \<Rightarrow> nat \<Rightarrow> ('d host, unit) state" where
  "end_sensing H c = do {
     st \<leftarrow> cmd_get c status_byte;
     (if st \<noteq> SAM_STAT_GOOD H then scsi_eh_restore_cmnd H c
      else do { scsi_eh_restore_cmnd H c; set_status_byte c (SAM_STAT_CHECK_CONDITION H) });
     upd (\<lambda>h. h\<lparr>sensing := None\<rparr>) }"

definition complete_cmd :: "'d ncr_hw \<Rightarrow> nat \<Rightarrow> ('d host, unit) state" where
  "complete_cmd H c = do {
     sn \<leftarrow> ask sensing;
     (if sn = Some c then end_sensing H c else State_Monad.return ());
     scsi_done c }"

definition queue_work :: "('d host, unit) state" where
  "queue_work = upd (\<lambda>h. h\<lparr>work := True\<rparr>)"

definition opcode :: "'d ncr_hw \<Rightarrow> nat \<Rightarrow> ('d host, byte) state" where
  "opcode H c = do { a \<leftarrow> cmd_get c cmnd; dget (mem_rd H a) }"

subsection \<open>Queueing\<close>

text \<open>\<open>False\<close> is \<open>SCSI_MLQUEUE_HOST_BUSY\<close>.\<close>

definition NCR5380_queue_command :: "'d ncr_hw \<Rightarrow> nat \<Rightarrow> ('d host, bool) state" where
  "NCR5380_queue_command H c = do {
     set_result c 0;
     ok \<leftarrow> dget (acquire_dma_irq H);
     if \<not> ok then State_Monad.return False
     else do {
       op \<leftarrow> opcode H c;
       (if op = REQUEST_SENSE H then upd (\<lambda>h. h\<lparr>unissued := c # unissued h\<rparr>)
        else upd (\<lambda>h. h\<lparr>unissued := unissued h @ [c]\<rparr>));
       upd (\<lambda>h. h\<lparr>entered := entered h @ [c]\<rparr>);
       queue_work;
       State_Monad.return True } }"

definition maybe_release_dma_irq :: "'d ncr_hw \<Rightarrow> ('d host, unit) state" where
  "maybe_release_dma_irq H = do {
     idle \<leftarrow> ask (\<lambda>h. disconnected h = [] \<and> unissued h = [] \<and> autosense h = [] \<and> connected h = None \<and> selecting h = None);
     (if idle then dput (release_dma_irq H) else State_Monad.return ()) }"

text \<open>The LUN of a command is busy: its bit in the byte of its target.\<close>

definition lun_bit :: "scsi_cmnd \<Rightarrow> byte" where "lun_bit s = push_bit (lun s) 1"

definition lun_busy :: "'d host \<Rightarrow> nat \<Rightarrow> bool" where
  "lun_busy h c \<longleftrightarrow> busy h (scmd_id (cmds h c)) AND lun_bit (cmds h c) \<noteq> 0"

definition set_busy :: "nat \<Rightarrow> ('d host, unit) state" where
  "set_busy c = upd (\<lambda>h. let s = cmds h c in h\<lparr>busy := (busy h)(scmd_id s := busy h (scmd_id s) OR lun_bit s)\<rparr>)"
definition clear_busy :: "nat \<Rightarrow> ('d host, unit) state" where
  "clear_busy c = upd (\<lambda>h. let s = cmds h c in h\<lparr>busy := (busy h)(scmd_id s := busy h (scmd_id s) AND NOT (lun_bit s))\<rparr>)"

definition dequeue_next_cmd :: "'d ncr_hw \<Rightarrow> ('d host, nat option) state" where
  "dequeue_next_cmd H = do {
     sn \<leftarrow> ask sensing;
     as \<leftarrow> ask autosense;
     if sn \<noteq> None \<or> as = [] then do {
       x \<leftarrow> ask (\<lambda>h. find (\<lambda>c. \<not> lun_busy h c) (unissued h));
       case x of None \<Rightarrow> State_Monad.return None
       | Some c \<Rightarrow> do { upd (\<lambda>h. h\<lparr>unissued := remove1 c (unissued h)\<rparr>); State_Monad.return (Some c) } }
     else do {
       let c = hd as;
       upd (\<lambda>h. h\<lparr>autosense := tl (autosense h)\<rparr>);
       scsi_eh_prep_cmnd H c;
       upd (\<lambda>h. h\<lparr>sensing := Some c\<rparr>);
       State_Monad.return (Some c) } }"

definition requeue_cmd :: "'d ncr_hw \<Rightarrow> nat \<Rightarrow> ('d host, unit) state" where
  "requeue_cmd H c = do {
     sn \<leftarrow> ask sensing;
     if sn = Some c then do {
       scsi_eh_restore_cmnd H c;
       upd (\<lambda>h. h\<lparr>autosense := c # autosense h\<rparr>);
       upd (\<lambda>h. h\<lparr>sensing := None\<rparr>) }
     else upd (\<lambda>h. h\<lparr>unissued := c # unissued h\<rparr>) }"

subsection \<open>Error handling\<close>

definition list_find_cmd :: "nat list \<Rightarrow> nat \<Rightarrow> bool" where
  "list_find_cmd haystack needle = (needle \<in> set haystack)"

text \<open>\<open>list_del_cmd\<close> on one of the lists: the field's read and its update are arguments.\<close>

definition list_del_cmd :: "('d host \<Rightarrow> nat list) \<Rightarrow> ((nat list \<Rightarrow> nat list) \<Rightarrow> 'd host \<Rightarrow> 'd host) \<Rightarrow> nat \<Rightarrow> ('d host, bool) state" where
  "list_del_cmd q q_update c = do {
     xs \<leftarrow> ask q;
     if list_find_cmd xs c then do { upd (q_update (remove1 c)); State_Monad.return True }
     else State_Monad.return False }"

fun for_each :: "(nat \<Rightarrow> ('d host, unit) state) \<Rightarrow> nat list \<Rightarrow> ('d host, unit) state" where
  "for_each f [] = State_Monad.return ()"
| "for_each f (c # cs) = do { f c; for_each f cs }"

definition reset_done :: "'d ncr_hw \<Rightarrow> nat \<Rightarrow> ('d host, unit) state" where
  "reset_done H c = do { set_host_byte c (DID_RESET H); complete_cmd H c }"

text \<open>The four places a bus reset finds commands.\<close>

definition reset_selecting :: "'d ncr_hw \<Rightarrow> ('d host, unit) state" where
  "reset_selecting H = do {
     sel \<leftarrow> ask selecting;
     case sel of None \<Rightarrow> State_Monad.return ()
     | Some c \<Rightarrow> do { set_result c (DID_RESET H); complete_cmd H c; upd (\<lambda>h. h\<lparr>selecting := None\<rparr>) } }"

definition reset_disconnected :: "'d ncr_hw \<Rightarrow> ('d host, unit) state" where
  "reset_disconnected H = do {
     dis \<leftarrow> ask disconnected;
     for_each (reset_done H) dis;
     upd (\<lambda>h. h\<lparr>disconnected := []\<rparr>) }"

definition reset_autosense :: "('d host, unit) state" where
  "reset_autosense = do {
     au \<leftarrow> ask autosense;
     for_each scsi_done au;
     upd (\<lambda>h. h\<lparr>autosense := []\<rparr>) }"

definition reset_connected :: "'d ncr_hw \<Rightarrow> ('d host, unit) state" where
  "reset_connected H = do {
     con \<leftarrow> ask connected;
     case con of None \<Rightarrow> State_Monad.return ()
     | Some c \<Rightarrow> do { reset_done H c; upd (\<lambda>h. h\<lparr>connected := None\<rparr>) } }"

definition bus_reset_cleanup :: "'d ncr_hw \<Rightarrow> ('d host, unit) state" where
  "bus_reset_cleanup H = do {
     NCR5380_write H held MODE_REG MR_BASE;
     NCR5380_write H held TARGET_COMMAND_REG 0;
     NCR5380_write H held SELECT_ENABLE_REG 0;
     reset_selecting H;
     reset_disconnected H;
     reset_autosense;
     reset_connected H;
     upd (\<lambda>h. h\<lparr>busy := (\<lambda>_. 0)\<rparr>);
     upd (\<lambda>h. h\<lparr>dma_len := 0\<rparr>);
     queue_work }"

text \<open>The five places \<open>NCR5380_abort\<close> looks for the command; the result is whether it is \<open>SUCCESS\<close>.\<close>

definition abort_connected :: "'d ncr_hw \<Rightarrow> nat \<Rightarrow> ('d host, bool) state" where
  "abort_connected H c = do {
     upd (\<lambda>h. h\<lparr>connected := None\<rparr>);
     upd (\<lambda>h. h\<lparr>dma_len := 0\<rparr>);
     r \<leftarrow> do_abort H 0;
     if r \<noteq> RC_OK then do { set_host_byte c (DID_ERROR H); complete_cmd H c; State_Monad.return False }
     else do { set_host_byte c (DID_ABORT H); complete_cmd H c; State_Monad.return True } }"

definition abort_search :: "'d ncr_hw \<Rightarrow> nat \<Rightarrow> ('d host, bool) state" where
  "abort_search H c = do {
     un \<leftarrow> list_del_cmd unissued unissued_update c;
     if un then do { set_result c (DID_ABORT H); scsi_done c; State_Monad.return True }
     else do {
       sel \<leftarrow> ask selecting;
       if sel = Some c then do {
         upd (\<lambda>h. h\<lparr>selecting := None\<rparr>);
         set_result c (DID_ABORT H);
         complete_cmd H c;
         State_Monad.return True }
       else do {
         dis \<leftarrow> list_del_cmd disconnected disconnected_update c;
         if dis then do { set_host_byte c (DID_ERROR H); complete_cmd H c; State_Monad.return False }
         else do {
           con \<leftarrow> ask connected;
           if con = Some c then abort_connected H c
           else do {
             as \<leftarrow> list_del_cmd autosense autosense_update c;
             (if as then complete_cmd H c else State_Monad.return ());
             State_Monad.return True } } } } }"

definition NCR5380_abort :: "'d ncr_hw \<Rightarrow> nat \<Rightarrow> ('d host, bool) state" where
  "NCR5380_abort H c = do {
     ok \<leftarrow> abort_search H c;
     (if ok then clear_busy c else State_Monad.return ());
     queue_work;
     State_Monad.return ok }"

definition reset_unissued :: "'d ncr_hw \<Rightarrow> ('d host, unit) state" where
  "reset_unissued H = do {
     un \<leftarrow> ask unissued;
     for_each (\<lambda>c. do { set_result c (DID_RESET H); scsi_done c }) un;
     upd (\<lambda>h. h\<lparr>unissued := []\<rparr>) }"

definition NCR5380_host_reset :: "'d ncr_hw \<Rightarrow> ('d host, bool) state" where
  "NCR5380_host_reset H = do {
     reset_unissued H;
     do_reset H;
     bus_reset_cleanup H;
     State_Monad.return True }"

subsection \<open>DMA\<close>

text \<open>The byte the chip acknowledged beyond the end of a receive, if there is one.\<close>

definition overrun_byte :: "'d ncr_hw \<Rightarrow> byte \<Rightarrow> ('d host, byte option) state" where
  "overrun_byte H p = do {
     ro \<leftarrow> ask read_overruns;
     if ro \<noteq> 0 \<and> p AND SR_IO \<noteq> 0 then do {
       dput (udelay H 10);
       b \<leftarrow> NCR5380_read H held BUS_AND_STATUS_REG;
       if b AND (BASR_PHASE_MATCH OR BASR_ACK) = BASR_PHASE_MATCH OR BASR_ACK then do {
         v \<leftarrow> NCR5380_read H held INPUT_DATA_REG;
         State_Monad.return (Some v) }
       else State_Monad.return None }
     else State_Monad.return None }"

text \<open>The bytes a shortened receive left to programmed transfer.\<close>

definition overrun_pio :: "'d ncr_hw \<Rightarrow> nat \<Rightarrow> byte \<Rightarrow> byte option \<Rightarrow> ('d host, unit) state" where
  "overrun_pio H c p saved = do {
     ro \<leftarrow> ask read_overruns;
     if ro = 0 then State_Monad.return ()
     else do {
       s \<leftarrow> NCR5380_read H held STATUS_REG;
       if s AND PHASE_MASK = p \<and> p AND SR_IO \<noteq> 0 then do {
         (case saved of None \<Rightarrow> State_Monad.return ()
          | Some v \<Rightarrow> do {
              d \<leftarrow> cmd_get c ptr;
              dput (mem_wr H d v);
              cmd_upd c (\<lambda>s. s\<lparr>ptr := ptr s + 1, this_residual := this_residual s - 1\<rparr>) });
         let toPIO = (if saved = None then ro else ro - 1);
         (if toPIO > 0 then do {
            d \<leftarrow> cmd_get c ptr;
            (_, cnt, d1) \<leftarrow> NCR5380_transfer_pio H held p toPIO d 0;
            cmd_upd c (\<lambda>s. s\<lparr>ptr := d1, this_residual := this_residual s - (toPIO - cnt)\<rparr>) }
          else State_Monad.return ()) }
       else State_Monad.return () } }"

text \<open>\<open>c\<close> is the connected command.\<close>

definition NCR5380_dma_complete :: "'d ncr_hw \<Rightarrow> nat \<Rightarrow> ('d host, unit) state" where
  "NCR5380_dma_complete H c = do {
     p \<leftarrow> cmd_get c phase;
     saved \<leftarrow> overrun_byte H p;
     NCR5380_write H held MODE_REG MR_BASE;
     NCR5380_write H held INITIATOR_COMMAND_REG ICR_BASE;
     _ \<leftarrow> NCR5380_read H held RESET_PARITY_INTERRUPT_REG;
     residual \<leftarrow> dget (dma_residual H);
     len \<leftarrow> ask dma_len;
     let transferred = len - residual;
     upd (\<lambda>h. h\<lparr>dma_len := 0\<rparr>);
     cmd_upd c (\<lambda>s. s\<lparr>ptr := ptr s + word_of_int transferred, this_residual := this_residual s - transferred\<rparr>);
     overrun_pio H c p saved }"

definition dma_setup :: "'d ncr_hw \<Rightarrow> byte \<Rightarrow> u32 \<Rightarrow> int \<Rightarrow> ('d host, int) state" where
  "dma_setup H p d c = (if p AND SR_IO \<noteq> 0 then dget (dma_recv_setup H d c) else dget (dma_send_setup H d c))"

text \<open>
  The workaround for early silicon after a pseudo DMA transfer: the last byte of a receive is
  fetched by hand, the last byte of a send is awaited. \<open>False\<close> is the result \<open>-1\<close>.
\<close>

definition dma_fixup :: "'d ncr_hw \<Rightarrow> nat \<Rightarrow> byte \<Rightarrow> u32 \<Rightarrow> int \<Rightarrow> ('d host, bool) state" where
  "dma_fixup H cmd p d c = do {
     r \<leftarrow> NCR5380_poll_politely H held BUS_AND_STATUS_REG BASR_DRQ BASR_DRQ 0;
     if r = RC_OK then
       (if p AND SR_IO = 0 then State_Monad.return True
        else do {
          b \<leftarrow> NCR5380_read H held BUS_AND_STATUS_REG;
          if b AND BASR_PHASE_MATCH = 0 then State_Monad.return True
          else do {
            r2 \<leftarrow> NCR5380_poll_politely H held STATUS_REG SR_REQ 0 0;
            if r2 = RC_OK then do {
              v \<leftarrow> NCR5380_read H held INPUT_DATA_REG;
              dput (mem_wr H (d + word_of_int c) v);
              cmd_upd cmd (\<lambda>s. s\<lparr>this_residual := this_residual s - 1\<rparr>);
              State_Monad.return True }
            else State_Monad.return False } })
     else do {
       b \<leftarrow> NCR5380_read H held BUS_AND_STATUS_REG;
       State_Monad.return (b AND BASR_PHASE_MATCH = 0) } }"

text \<open>The end of a pseudo DMA transfer of \<open>c\<close> bytes: the workaround if the board asks for it, and the clean-up.\<close>

definition pdma_end :: "'d ncr_hw \<Rightarrow> nat \<Rightarrow> byte \<Rightarrow> u32 \<Rightarrow> int \<Rightarrow> ('d host, int) state" where
  "pdma_end H cmd p d c = do {
     upd (\<lambda>h. h\<lparr>dma_len := c\<rparr>);
     fl \<leftarrow> ask flags;
     ok \<leftarrow> (if fl AND FLAG_DMA_FIXUP \<noteq> 0 then do {
         b \<leftarrow> NCR5380_read H held BUS_AND_STATUS_REG;
         if b AND BASR_PHASE_MATCH \<noteq> 0 then dma_fixup H cmd p d c else State_Monad.return True }
       else State_Monad.return True);
     NCR5380_dma_complete H cmd;
     State_Monad.return (if ok then 0 else -1) }"

definition NCR5380_transfer_dma :: "'d ncr_hw \<Rightarrow> nat \<Rightarrow> byte \<Rightarrow> int \<Rightarrow> ('d host, int) state" where
  "NCR5380_transfer_dma H cmd p count = do {
     d \<leftarrow> cmd_get cmd ptr;
     s \<leftarrow> NCR5380_read H held STATUS_REG;
     if s AND PHASE_MASK \<noteq> p then State_Monad.return (-1)
     else do {
       cmd_upd cmd (\<lambda>s. s\<lparr>phase := p\<rparr>);
       ro \<leftarrow> ask read_overruns;
       fl \<leftarrow> ask flags;
       let c = (if p AND SR_IO \<noteq> 0 then (if ro \<noteq> 0 then count - ro else if fl AND FLAG_DMA_FIXUP \<noteq> 0 then count - 1 else count) else count);
       NCR5380_write H held TARGET_COMMAND_REG (PHASE_SR_TO_TCR p);
       NCR5380_write H held MODE_REG (MR_BASE OR MR_DMA_MODE OR MR_MONITOR_BSY OR MR_ENABLE_EOP_INTR);
       r0 \<leftarrow> (if fl AND FLAG_LATE_DMA_SETUP = 0 then dma_setup H p d c else State_Monad.return 0);
       (if p AND SR_IO \<noteq> 0 then do {
          NCR5380_write H held INITIATOR_COMMAND_REG ICR_BASE;
          NCR5380_write H held START_DMA_INITIATOR_RECEIVE_REG 0 }
        else do {
          NCR5380_write H held INITIATOR_COMMAND_REG (ICR_BASE OR ICR_ASSERT_DATA);
          NCR5380_write H held START_DMA_SEND_REG 0 });
       r \<leftarrow> (if fl AND FLAG_LATE_DMA_SETUP \<noteq> 0 then dma_setup H p d c else State_Monad.return r0);
       if r < 0 then State_Monad.return r
       else if r > 0 then do { upd (\<lambda>h. h\<lparr>dma_len := r\<rparr>); State_Monad.return 0 }
       else pdma_end H cmd p d c } }"

end
