(* ===== verification/Ncr_Nexus.thy ===== *)
theory Ncr_Nexus
  imports Ncr_Queue
begin

text \<open>
  The moving parts of the Linux driver: reselection and the interrupt handler, which hold the
  lock; what can happen while the lock is free; selection, information transfer and the main
  loop, which release it.
\<close>

subsection \<open>Reselection\<close>

text \<open>The reselected command: the first disconnected one of that target and LUN.\<close>

definition find_nexus :: "'d host \<Rightarrow> byte \<Rightarrow> byte \<Rightarrow> nat option" where
  "find_nexus h target_mask l =
     find (\<lambda>c. target_mask = push_bit (scmd_id (cmds h c)) 1 \<and> l = word_of_nat (lun (cmds h c))) (disconnected h)"

text \<open>\<open>ffs(mask) - 1\<close> for a byte with a single bit: the number of that bit.\<close>

definition mask_target :: "byte \<Rightarrow> nat" where
  "mask_target m = (case find (\<lambda>i. bit m i) [0..<8] of Some i \<Rightarrow> i | None \<Rightarrow> 0)"

definition reselect_identified :: "'d ncr_hw \<Rightarrow> byte \<Rightarrow> byte \<Rightarrow> ('d host, unit) state" where
  "reselect_identified H target_mask l = do {
     x \<leftarrow> ask (\<lambda>h. find_nexus h target_mask l);
     case x of None \<Rightarrow> do {
         r \<leftarrow> do_abort H 0;
         (if r = RC_OK then
            upd (\<lambda>h. h\<lparr>busy := (busy h)(mask_target target_mask := busy h (mask_target target_mask) AND NOT (push_bit (unat l) 1))\<rparr>)
          else State_Monad.return ()) }
     | Some c \<Rightarrow> do {
         upd (\<lambda>h. h\<lparr>disconnected := remove1 c (disconnected h)\<rparr>);
         NCR5380_write H held INITIATOR_COMMAND_REG ICR_BASE;
         upd (\<lambda>h. h\<lparr>connected := Some c\<rparr>) } }"

text \<open>The IDENTIFY message of the target that reselected us.\<close>

definition reselect_message :: "'d ncr_hw \<Rightarrow> byte \<Rightarrow> ('d host, unit) state" where
  "reselect_message H target_mask = do {
     (_, len, _) \<leftarrow> NCR5380_transfer_pio H held PHASE_MSGIN 1 (tmp_at H) 0;
     if len \<noteq> 0 then do { _ \<leftarrow> do_abort H 0; State_Monad.return () }
     else do {
       msg \<leftarrow> dget (mem_rd H (tmp_at H));
       if msg AND 0x80 = 0 then do { _ \<leftarrow> do_abort H 0; State_Monad.return () }
       else reselect_identified H target_mask (msg AND 0x07) } }"

definition NCR5380_reselect :: "'d ncr_hw \<Rightarrow> ('d host, unit) state" where
  "NCR5380_reselect H = do {
     NCR5380_write H held MODE_REG MR_BASE;
     b \<leftarrow> NCR5380_read H held CURRENT_SCSI_DATA_REG;
     idm \<leftarrow> ask id_mask;
     let target_mask = b AND NOT idm;
     if target_mask = 0 \<or> target_mask AND (target_mask - 1) \<noteq> 0 then State_Monad.return ()
     else do {
       NCR5380_write H held INITIATOR_COMMAND_REG (ICR_BASE OR ICR_ASSERT_BSY);
       r \<leftarrow> NCR5380_poll_politely H held STATUS_REG SR_SEL 0 0;
       if r \<noteq> RC_OK then NCR5380_write H held INITIATOR_COMMAND_REG ICR_BASE
       else do {
         NCR5380_write H held INITIATOR_COMMAND_REG ICR_BASE;
         r2 \<leftarrow> NCR5380_poll_politely H held STATUS_REG SR_REQ SR_REQ 0;
         if r2 \<noteq> RC_OK then do {
           s \<leftarrow> NCR5380_read H held STATUS_REG;
           if s AND (SR_BSY OR SR_SEL) = 0 then State_Monad.return ()
           else do { _ \<leftarrow> do_abort H 0; State_Monad.return () } }
         else reselect_message H target_mask } } }"

subsection \<open>Interrupts\<close>

definition intr_dma :: "'d ncr_hw \<Rightarrow> ('d host, unit) state" where
  "intr_dma H = do {
     con \<leftarrow> ask connected;
     case con of
       Some c \<Rightarrow> do { NCR5380_dma_complete H c; queue_work }
     | None \<Rightarrow> do {
         NCR5380_write H held MODE_REG MR_BASE;
         _ \<leftarrow> NCR5380_read H held RESET_PARITY_INTERRUPT_REG;
         State_Monad.return () } }"

definition intr_reselect :: "'d ncr_hw \<Rightarrow> ('d host, unit) state" where
  "intr_reselect H = do {
     NCR5380_write H held SELECT_ENABLE_REG 0;
     _ \<leftarrow> NCR5380_read H held RESET_PARITY_INTERRUPT_REG;
     con \<leftarrow> ask connected;
     (if con = None then do { NCR5380_reselect H; queue_work } else State_Monad.return ());
     con2 \<leftarrow> ask connected;
     idm \<leftarrow> ask id_mask;
     (if con2 = None then NCR5380_write H held SELECT_ENABLE_REG idm else State_Monad.return ()) }"

definition intr_reset :: "'d ncr_hw \<Rightarrow> byte \<Rightarrow> ('d host, unit) state" where
  "intr_reset H sr = do {
     _ \<leftarrow> NCR5380_read H held RESET_PARITY_INTERRUPT_REG;
     (if sr AND SR_RST \<noteq> 0 then bus_reset_cleanup H else State_Monad.return ()) }"

text \<open>The result is whether the interrupt was ours.\<close>

definition NCR5380_intr :: "'d ncr_hw \<Rightarrow> ('d host, bool) state" where
  "NCR5380_intr H = do {
     basr \<leftarrow> NCR5380_read H held BUS_AND_STATUS_REG;
     if basr AND BASR_IRQ = 0 then State_Monad.return False
     else do {
       mr \<leftarrow> NCR5380_read H held MODE_REG;
       sr \<leftarrow> NCR5380_read H held STATUS_REG;
       if mr AND MR_DMA_MODE \<noteq> 0 \<or> mr AND MR_MONITOR_BSY \<noteq> 0 then do { intr_dma H; State_Monad.return True }
       else do {
         csd \<leftarrow> NCR5380_read H held CURRENT_SCSI_DATA_REG;
         idm \<leftarrow> ask id_mask;
         if csd AND idm \<noteq> 0 \<and> sr AND (SR_SEL OR SR_IO OR SR_BSY OR SR_RST) = SR_SEL OR SR_IO
         then do { intr_reselect H; State_Monad.return True }
         else do { intr_reset H sr; State_Monad.return True } } } }"

subsection \<open>While the lock is free\<close>

text \<open>The commands the driver holds.\<close>

definition opt_list :: "'a option \<Rightarrow> 'a list" where
  "opt_list x = (case x of None \<Rightarrow> [] | Some a \<Rightarrow> [a])"

definition owned :: "'d host \<Rightarrow> nat list" where
  "owned h = unissued h @ disconnected h @ autosense h @ opt_list (selecting h) @ opt_list (connected h)"

text \<open>The mid-layer hands over a command only while the driver does not hold it.\<close>

fun run_other :: "'d ncr_hw \<Rightarrow> other \<Rightarrow> ('d host, unit) state" where
  "run_other H (Queue_command c) = do {
     inside \<leftarrow> ask (\<lambda>h. c \<in> set (owned h));
     if inside then State_Monad.return () else do { _ \<leftarrow> NCR5380_queue_command H c; State_Monad.return () } }"
| "run_other H (Abort c) = do { _ \<leftarrow> NCR5380_abort H c; State_Monad.return () }"
| "run_other H Host_reset = do { _ \<leftarrow> NCR5380_host_reset H; State_Monad.return () }"
| "run_other H Intr = do { _ \<leftarrow> NCR5380_intr H; State_Monad.return () }"

fun run_others :: "'d ncr_hw \<Rightarrow> other list \<Rightarrow> ('d host, unit) state" where
  "run_others H [] = State_Monad.return ()"
| "run_others H (x # xs) = do { run_other H x; run_others H xs }"

definition yields :: "'d ncr_hw \<Rightarrow> ('d host, unit) state" where
  "yields H = do {
     s \<leftarrow> ask sched;
     case s of [] \<Rightarrow> State_Monad.return ()
     | xs # rest \<Rightarrow> do { upd (\<lambda>h. h\<lparr>sched := rest\<rparr>); run_others H xs } }"

subsection \<open>Selection\<close>

text \<open>The label \<open>out\<close>. The result is whether the command should be tried again.\<close>

definition select_out :: "bool \<Rightarrow> ('d host, bool) state" where
  "select_out ret = do {
     sel \<leftarrow> ask selecting;
     if sel = None then State_Monad.return False
     else do { upd (\<lambda>h. h\<lparr>selecting := None\<rparr>); State_Monad.return ret } }"

definition select_identify :: "'d ncr_hw \<Rightarrow> nat \<Rightarrow> bool \<Rightarrow> ('d host, bool) state" where
  "select_identify H c can_disconnect = do {
     l \<leftarrow> cmd_get c lun;
     dput (mem_wr H (tmp_at H) (IDENTIFY can_disconnect l));
     (_, len, _) \<leftarrow> NCR5380_transfer_pio H held PHASE_MSGOUT 1 (tmp_at H) 0;
     if len \<noteq> 0 then do {
       NCR5380_write H held INITIATOR_COMMAND_REG ICR_BASE;
       set_result c (DID_ERROR H);
       complete_cmd H c;
       select_out False }
     else do {
       upd (\<lambda>h. h\<lparr>connected := Some c\<rparr>);
       set_busy c;
       initialize_SCp c;
       select_out False } }"

text \<open>BSY came from the target: release SEL, wait for REQ.\<close>

definition select_answered :: "'d ncr_hw \<Rightarrow> nat \<Rightarrow> bool \<Rightarrow> ('d host, bool) state" where
  "select_answered H c can_disconnect = do {
     dput (udelay H 1);
     NCR5380_write H (yields H) INITIATOR_COMMAND_REG (ICR_BASE OR ICR_ASSERT_ATN);
     r \<leftarrow> NCR5380_poll_politely H (yields H) STATUS_REG SR_REQ SR_REQ (HZ H);
     yields H;
     if r \<noteq> RC_OK then do { NCR5380_write H held INITIATOR_COMMAND_REG ICR_BASE; select_out True }
     else do {
       sel \<leftarrow> ask selecting;
       if sel = None then do { _ \<leftarrow> do_abort H 0; State_Monad.return False }
       else select_identify H c can_disconnect } }"

text \<open>Arbitration is won: both ids and ATN on the bus, BSY released, the target awaited.\<close>

definition select_won :: "'d ncr_hw \<Rightarrow> nat \<Rightarrow> bool \<Rightarrow> ('d host, bool) state" where
  "select_won H c can_disconnect = do {
     idm \<leftarrow> ask id_mask;
     t \<leftarrow> cmd_get c scmd_id;
     NCR5380_write H held OUTPUT_DATA_REG (idm OR push_bit t 1);
     NCR5380_write H held INITIATOR_COMMAND_REG (ICR_BASE OR ICR_ASSERT_BSY OR ICR_ASSERT_DATA OR ICR_ASSERT_ATN OR ICR_ASSERT_SEL);
     NCR5380_write H held MODE_REG MR_BASE;
     NCR5380_write H held SELECT_ENABLE_REG 0;
     dput (udelay H 1);
     NCR5380_write H (yields H) INITIATOR_COMMAND_REG (ICR_BASE OR ICR_ASSERT_DATA OR ICR_ASSERT_ATN OR ICR_ASSERT_SEL);
     dput (udelay H 1);
     r \<leftarrow> NCR5380_poll_politely H (yields H) STATUS_REG SR_BSY SR_BSY (msecs_to_jiffies H 250);
     s \<leftarrow> NCR5380_read H (yields H) STATUS_REG;
     if s AND (SR_SEL OR SR_IO) = SR_SEL OR SR_IO then do {
       yields H;
       NCR5380_write H held INITIATOR_COMMAND_REG ICR_BASE;
       NCR5380_reselect H;
       select_out True }
     else if r \<noteq> RC_OK then do {
       yields H;
       NCR5380_write H held INITIATOR_COMMAND_REG ICR_BASE;
       sel \<leftarrow> ask selecting;
       if sel = None then State_Monad.return False
       else do { set_result c (DID_BAD_TARGET H); complete_cmd H c; select_out False } }
     else select_answered H c can_disconnect }"

definition arbitration_lost :: "'d ncr_hw \<Rightarrow> ('d host, bool) state" where
  "arbitration_lost H = do {
     i \<leftarrow> NCR5380_read H (yields H) INITIATOR_COMMAND_REG;
     if i AND ICR_ARBITRATION_LOST \<noteq> 0 then State_Monad.return True
     else do {
       b \<leftarrow> NCR5380_read H (yields H) CURRENT_SCSI_DATA_REG;
       hi \<leftarrow> ask id_higher_mask;
       if b AND hi \<noteq> 0 then State_Monad.return True
       else do {
         i2 \<leftarrow> NCR5380_read H (yields H) INITIATOR_COMMAND_REG;
         State_Monad.return (i2 AND ICR_ARBITRATION_LOST \<noteq> 0) } } }"

text \<open>Arbitration is under way: see who won.\<close>

definition select_arbitrated :: "'d ncr_hw \<Rightarrow> nat \<Rightarrow> bool \<Rightarrow> ('d host, bool) state" where
  "select_arbitrated H c can_disconnect = do {
     dput (udelay H 3);
     lost \<leftarrow> arbitration_lost H;
     if lost then do { NCR5380_write H (yields H) MODE_REG MR_BASE; yields H; select_out True }
     else do {
       NCR5380_write H (yields H) INITIATOR_COMMAND_REG (ICR_BASE OR ICR_ASSERT_SEL OR ICR_ASSERT_BSY);
       fl \<leftarrow> ask flags;
       dput (udelay H (if fl AND FLAG_TOSHIBA_DELAY \<noteq> 0 then 15 else 2));
       yields H;
       m \<leftarrow> NCR5380_read H held MODE_REG;
       if m AND MR_ARBITRATE = 0 then select_out True
       else do {
         sel \<leftarrow> ask selecting;
         if sel = None then do {
           NCR5380_write H held MODE_REG MR_BASE;
           NCR5380_write H held INITIATOR_COMMAND_REG ICR_BASE;
           State_Monad.return False }
         else select_won H c can_disconnect } } }"

definition NCR5380_select :: "'d ncr_hw \<Rightarrow> nat \<Rightarrow> ('d host, bool) state" where
  "NCR5380_select H c = do {
     irq \<leftarrow> ask has_irq;
     op \<leftarrow> opcode H c;
     t \<leftarrow> cmd_get c scmd_id;
     let can_disconnect = (irq \<and> op \<noteq> REQUEST_SENSE H \<and> bit (disconnect_mask H) t);
     upd (\<lambda>h. h\<lparr>selecting := Some c\<rparr>);
     NCR5380_write H held TARGET_COMMAND_REG 0;
     idm \<leftarrow> ask id_mask;
     NCR5380_write H held OUTPUT_DATA_REG idm;
     NCR5380_write H held MODE_REG MR_ARBITRATE;
     r \<leftarrow> NCR5380_poll_politely2 H (yields H) MODE_REG MR_ARBITRATE 0
       INITIATOR_COMMAND_REG ICR_ARBITRATION_PROGRESS ICR_ARBITRATION_PROGRESS (HZ H);
     yields H;
     m \<leftarrow> NCR5380_read H held MODE_REG;
     if m AND MR_ARBITRATE = 0 then select_out True
     else do {
       sel \<leftarrow> ask selecting;
       if sel = None then do { NCR5380_write H held MODE_REG MR_BASE; State_Monad.return False }
       else if r \<noteq> RC_OK then do { NCR5380_write H held MODE_REG MR_BASE; select_out True }
       else select_arbitrated H c can_disconnect } }"

subsection \<open>Information transfer\<close>

text \<open>
  The locals of the loop: whether it is in the inner \<open>while (REQ)\<close>, \<open>msgout\<close>, \<open>sink\<close>. A round
  gives the next locals, or \<open>None\<close> when the function returns.
\<close>

type_synonym info = "bool \<times> byte \<times> bool"

definition info_data :: "'d ncr_hw \<Rightarrow> nat \<Rightarrow> byte \<Rightarrow> ('d host, unit) state" where
  "info_data H c p = do {
     advance_sg_buffer c;
     s \<leftarrow> cmd_get c id;
     bork \<leftarrow> ask (\<lambda>h. borken h (scmd_id s, lun s));
     fl \<leftarrow> ask flags;
     size \<leftarrow> (if bork then State_Monad.return 0 else dget (dma_xfer_len H fl s));
     if size > 0 then do {
       r \<leftarrow> NCR5380_transfer_dma H c p size;
       (if r \<noteq> 0 then do {
          upd (\<lambda>h. h\<lparr>borken := (borken h)((scmd_id s, lun s) := True)\<rparr>);
          do_reset H;
          bus_reset_cleanup H }
        else State_Monad.return ()) }
     else do {
       let chunk = min (this_residual s) NCR5380_PIO_CHUNK_SIZE;
       (_, len, d) \<leftarrow> NCR5380_transfer_pio H held p chunk (ptr s) 0;
       cmd_upd c (\<lambda>s. s\<lparr>ptr := d, this_residual := this_residual s - (chunk - len)\<rparr>) } }"

definition info_complete :: "'d ncr_hw \<Rightarrow> nat \<Rightarrow> byte \<Rightarrow> ('d host, unit) state" where
  "info_complete H c msg = do {
     (if msg = ABORT then set_host_byte c (DID_ABORT H) else State_Monad.return ());
     NCR5380_write H held INITIATOR_COMMAND_REG ICR_BASE;
     upd (\<lambda>h. h\<lparr>connected := None\<rparr>);
     clear_busy c;
     st \<leftarrow> cmd_get c status;
     set_status_byte c st;
     set_resid_from_SCp c;
     op \<leftarrow> opcode H c;
     (if op = REQUEST_SENSE H then complete_cmd H c
      else if st = SAM_STAT_CHECK_CONDITION H \<or> st = SAM_STAT_COMMAND_TERMINATED H
      then upd (\<lambda>h. h\<lparr>autosense := autosense h @ [c]\<rparr>)
      else complete_cmd H c);
     NCR5380_write H held TARGET_COMMAND_REG 0 }"

text \<open>The rest of an extended message, received without the lock. The length byte is the target's.\<close>

definition info_extended :: "'d ncr_hw \<Rightarrow> ('d host, unit) state" where
  "info_extended H = do {
     dput (mem_wr H (ext_at H) EXTENDED_MESSAGE);
     NCR5380_write H held INITIATOR_COMMAND_REG ICR_BASE;
     (_, len, _) \<leftarrow> NCR5380_transfer_pio H (yields H) PHASE_MSGIN 2 (ext_at H + 1) 1;
     l \<leftarrow> dget (mem_rd H (ext_at H + 1));
     (if len = 0 \<and> l > 0 \<and> l \<le> 8 then do {
        NCR5380_write H (yields H) INITIATOR_COMMAND_REG ICR_BASE;
        _ \<leftarrow> NCR5380_transfer_pio H (yields H) PHASE_MSGIN (uint l - 1) (ext_at H + 3) 1;
        State_Monad.return () }
      else State_Monad.return ());
     yields H }"

definition info_reject :: "'d ncr_hw \<Rightarrow> bool \<Rightarrow> ('d host, info option) state" where
  "info_reject H sink = do {
     NCR5380_write H held INITIATOR_COMMAND_REG (ICR_BASE OR ICR_ASSERT_ATN);
     State_Monad.return (Some (False, MESSAGE_REJECT, sink)) }"

definition info_rejected :: "nat \<Rightarrow> ('d host, unit) state" where
  "info_rejected c = do {
     lm \<leftarrow> ask last_message;
     if lm = HEAD_OF_QUEUE_TAG \<or> lm = ORDERED_QUEUE_TAG \<or> lm = SIMPLE_QUEUE_TAG then do {
       upd (\<lambda>h. h\<lparr>simple_tags := (simple_tags h)((scmd_id (cmds h c), lun (cmds h c)) := False)\<rparr>);
       set_busy c }
     else State_Monad.return () }"

definition info_msgin :: "'d ncr_hw \<Rightarrow> nat \<Rightarrow> byte \<Rightarrow> bool \<Rightarrow> ('d host, info option) state" where
  "info_msgin H c msgout sink = do {
     dput (mem_wr H (tmp_at H) 0xff);
     _ \<leftarrow> NCR5380_transfer_pio H held PHASE_MSGIN 1 (tmp_at H) 0;
     tmp \<leftarrow> dget (mem_rd H (tmp_at H));
     if tmp = 0xff then State_Monad.return (Some (False, msgout, sink))
     else if tmp = ABORT \<or> tmp = COMMAND_COMPLETE then do { info_complete H c tmp; State_Monad.return None }
     else if tmp = MESSAGE_REJECT then do {
       NCR5380_write H held INITIATOR_COMMAND_REG ICR_BASE;
       info_rejected c;
       State_Monad.return (Some (False, msgout, sink)) }
     else if tmp = DISCONNECT then do {
       NCR5380_write H held INITIATOR_COMMAND_REG ICR_BASE;
       upd (\<lambda>h. h\<lparr>connected := None\<rparr>);
       upd (\<lambda>h. h\<lparr>disconnected := c # disconnected h\<rparr>);
       NCR5380_write H held TARGET_COMMAND_REG 0;
       State_Monad.return None }
     else if tmp = SAVE_POINTERS \<or> tmp = RESTORE_POINTERS then do {
       NCR5380_write H held INITIATOR_COMMAND_REG ICR_BASE;
       State_Monad.return (Some (False, msgout, sink)) }
     else if tmp = EXTENDED_MESSAGE then do {
       info_extended H;
       con \<leftarrow> ask connected;
       if con = None then State_Monad.return None else info_reject H sink }
     else info_reject H sink }"

definition info_msgout :: "'d ncr_hw \<Rightarrow> nat \<Rightarrow> byte \<Rightarrow> bool \<Rightarrow> ('d host, info option) state" where
  "info_msgout H c msgout sink = do {
     upd (\<lambda>h. h\<lparr>last_message := msgout\<rparr>);
     dput (mem_wr H (tmp_at H) msgout);
     _ \<leftarrow> NCR5380_transfer_pio H held PHASE_MSGOUT 1 (tmp_at H) 0;
     if msgout = ABORT then do {
       upd (\<lambda>h. h\<lparr>connected := None\<rparr>);
       clear_busy c;
       set_result c (DID_ERROR H);
       complete_cmd H c;
       State_Monad.return None }
     else State_Monad.return (Some (False, NOP, sink)) }"

definition info_cmdout :: "'d ncr_hw \<Rightarrow> nat \<Rightarrow> ('d host, unit) state" where
  "info_cmdout H c = do {
     s \<leftarrow> cmd_get c id;
     _ \<leftarrow> NCR5380_transfer_pio H held PHASE_CMDOUT (cmd_len s) (cmnd s) 0;
     State_Monad.return () }"

definition info_statin :: "'d ncr_hw \<Rightarrow> nat \<Rightarrow> ('d host, unit) state" where
  "info_statin H c = do {
     st \<leftarrow> cmd_get c status;
     dput (mem_wr H (tmp_at H) st);
     _ \<leftarrow> NCR5380_transfer_pio H held PHASE_STATIN 1 (tmp_at H) 0;
     tmp \<leftarrow> dget (mem_rd H (tmp_at H));
     cmd_upd c (\<lambda>s. s\<lparr>status := tmp\<rparr>) }"

text \<open>A round with REQ: \<open>tmp\<close> is the status read.\<close>

definition info_phase :: "'d ncr_hw \<Rightarrow> nat \<Rightarrow> byte \<Rightarrow> byte \<Rightarrow> bool \<Rightarrow> ('d host, info option) state" where
  "info_phase H c tmp msgout sink =
     (let p = tmp AND PHASE_MASK in
      if sink \<and> p \<noteq> PHASE_MSGOUT then do {
        NCR5380_write H held TARGET_COMMAND_REG (PHASE_SR_TO_TCR tmp);
        NCR5380_write H held INITIATOR_COMMAND_REG (ICR_BASE OR ICR_ASSERT_ATN OR ICR_ASSERT_ACK);
        State_Monad.return (Some (True, msgout, sink)) }
      else if p = PHASE_DATAOUT \<or> p = PHASE_DATAIN then do { info_data H c p; State_Monad.return None }
      else if p = PHASE_MSGIN then info_msgin H c msgout sink
      else if p = PHASE_MSGOUT then info_msgout H c msgout sink
      else if p = PHASE_CMDOUT then do { info_cmdout H c; State_Monad.return (Some (False, msgout, sink)) }
      else if p = PHASE_STATIN then do { info_statin H c; State_Monad.return (Some (False, msgout, sink)) }
      else State_Monad.return (Some (False, msgout, sink)))"

text \<open>A round without REQ: wait for it without the lock.\<close>

definition info_idle :: "'d ncr_hw \<Rightarrow> ('d host, unit) state" where
  "info_idle H = do {
     r \<leftarrow> NCR5380_poll_politely H (yields H) STATUS_REG SR_REQ SR_REQ (HZ H);
     yields H;
     con \<leftarrow> ask connected;
     if r \<noteq> RC_OK \<and> con \<noteq> None then do {
       s \<leftarrow> NCR5380_read H held STATUS_REG;
       (if s AND SR_BSY = 0 then do { do_reset H; bus_reset_cleanup H } else State_Monad.return ()) }
     else State_Monad.return () }"

definition info_round :: "'d ncr_hw \<Rightarrow> info \<Rightarrow> ('d host, info option) state" where
  "info_round H i = (case i of (sinking, msgout, sink) \<Rightarrow>
     if sinking then do {
       s \<leftarrow> NCR5380_read H held STATUS_REG;
       if s AND SR_REQ \<noteq> 0 then State_Monad.return (Some i)
       else do {
         NCR5380_write H held INITIATOR_COMMAND_REG (ICR_BASE OR ICR_ASSERT_ATN);
         State_Monad.return (Some (False, msgout, False)) } }
     else do {
       con \<leftarrow> ask connected;
       case con of None \<Rightarrow> State_Monad.return None
       | Some c \<Rightarrow> do {
           tmp \<leftarrow> NCR5380_read H held STATUS_REG;
           if tmp AND SR_REQ \<noteq> 0 then info_phase H c tmp msgout sink
           else do { info_idle H; State_Monad.return (Some (False, msgout, sink)) } } })"

definition info_step :: "'d ncr_hw \<Rightarrow> info \<times> 'd host \<Rightarrow> ((info \<times> 'd host) + 'd host) option" where
  "info_step H s = (case run_state (info_round H (fst s)) (snd s) of
     (None, h) \<Rightarrow> Some (Inr h) | (Some i, h) \<Rightarrow> Some (Inl (i, h)))"

definition NCR5380_information_transfer :: "'d ncr_hw \<Rightarrow> 'd host \<Rightarrow> 'd host option" where
  "NCR5380_information_transfer H h = c_loop (info_step H) ((False, NOP, False), h)"

subsection \<open>The main loop\<close>

text \<open>A round of \<open>while (!connected && !selecting)\<close>: \<open>False\<close> leaves the loop.\<close>

definition main_select :: "'d ncr_hw \<Rightarrow> ('d host, bool) state" where
  "main_select H = do {
     free \<leftarrow> ask (\<lambda>h. connected h = None \<and> selecting h = None);
     if \<not> free then State_Monad.return False
     else do {
       x \<leftarrow> dequeue_next_cmd H;
       case x of None \<Rightarrow> State_Monad.return False
       | Some c \<Rightarrow> do {
           again \<leftarrow> NCR5380_select H c;
           (if again then requeue_cmd H c else State_Monad.return ());
           State_Monad.return True } } }"

definition main_selects :: "'d ncr_hw \<Rightarrow> 'd host \<Rightarrow> 'd host option" where
  "main_selects H = c_loop (\<lambda>h. case run_state (main_select H) h of
     (True, h1) \<Rightarrow> Some (Inl h1) | (False, h1) \<Rightarrow> Some (Inr h1))"

definition main_idle :: "'d ncr_hw \<Rightarrow> ('d host, unit) state" where
  "main_idle H = do {
     con \<leftarrow> ask connected;
     idm \<leftarrow> ask id_mask;
     if con = None then do { NCR5380_write H held SELECT_ENABLE_REG idm; maybe_release_dma_irq H }
     else State_Monad.return () }"

text \<open>A round of the outer \<open>do ... while (!done)\<close>; between two rounds the lock is free.\<close>

definition main_round :: "'d ncr_hw \<Rightarrow> 'd host \<Rightarrow> ('d host + 'd host) option" where
  "main_round H h = do {
     h1 \<leftarrow> main_selects H h;
     if connected h1 \<noteq> None \<and> dma_len h1 = 0 then do {
       h2 \<leftarrow> NCR5380_information_transfer H h1;
       Some (Inl (snd (run_state (do { main_idle H; yields H }) h2))) }
     else Some (Inr (snd (run_state (main_idle H) h1))) }"

definition NCR5380_main :: "'d ncr_hw \<Rightarrow> 'd host \<Rightarrow> 'd host option" where
  "NCR5380_main H = c_loop (main_round H)"

end
