(* ===== verification/Ncr_Blind.thy ===== *)
theory Ncr_Blind
  imports Ncr_Nexus
begin

text \<open>
  Invariants that look at the queues only. Most of the Linux driver moves bytes and never
  touches a queue; an invariant that does not look at the chip, the commands' own fields and
  the bookkeeping of the transfer is kept by all of that code, whether it holds the lock or
  not, as long as what runs in between keeps the invariant too. The locale \<open>dev_blind\<close> is for
  invariants that do not look at the device, which all access to the chip and to memory keeps;
  \<open>blind\<close> extends it by the rest of what an invariant of the queues does not see.
\<close>

locale dev_blind =
  fixes I :: "'d host \<Rightarrow> bool"
  assumes dev: "I (h\<lparr>dev := d\<rparr>) = I h"
begin

lemma ask: "preserves I (ask g)"
  by (simp add: ask_def triple_State)

lemma dget: "preserves I (dget g)"
  by (auto simp: dget_def dev split: prod.splits intro!: triple_State)

lemma dput: "preserves I (dput g)"
  by (auto simp: dput_def dev intro!: triple_State)

lemma cmd_get: "preserves I (cmd_get c g)"
  by (simp add: cmd_get_def ask)

lemmas dprims = ask dget dput cmd_get preserves_rules

lemma reg_read: "preserves I y \<Longrightarrow> preserves I (NCR5380_read H y r)"
  unfolding NCR5380_read_def by (intro dprims)

lemma reg_write: "preserves I y \<Longrightarrow> preserves I (NCR5380_write H y r v)"
  unfolding NCR5380_write_def by (intro dprims)

lemma poll_quick: "preserves I once \<Longrightarrow> preserves I (poll_quick H once n)"
proof (induction n)
  case 0
  then show ?case by (subst poll_quick.simps) (auto intro!: dprims)
next
  case (Suc n)
  then show ?case by (subst poll_quick.simps) (auto intro!: dprims)
qed

lemma poll_sleep: "preserves I once \<Longrightarrow> preserves I (poll_sleep H once k deadline)"
  by (induction k) (auto intro!: dprims)

lemma poll2: "preserves I y \<Longrightarrow> preserves I (NCR5380_poll_politely2 H y r1 b1 v1 r2 b2 v2 w)"
  unfolding NCR5380_poll_politely2_def poll_once_def by (intro dprims poll_quick poll_sleep reg_read)

lemma poll: "preserves I y \<Longrightarrow> preserves I (NCR5380_poll_politely H y r b v w)"
  unfolding NCR5380_poll_politely_def by (intro dprims reg_read poll2)

lemma pio_round: "preserves I y \<Longrightarrow> preserves I (pio_round H y p s c d)"
  unfolding pio_round_def pio_put_icr_def by (intro dprims reg_read reg_write poll)

lemma pio_loop: "preserves I y \<Longrightarrow> preserves I (pio_loop H y p s n c d)"
proof (induction n arbitrary: c d)
  case 0
  show ?case by (simp add: preserves_return)
next
  case (Suc n)
  then show ?case unfolding pio_loop.simps by (intro dprims pio_round)
qed

lemma pio: "preserves I y \<Longrightarrow> preserves I (NCR5380_transfer_pio H y p c d s)"
  unfolding NCR5380_transfer_pio_def by (intro dprims reg_read reg_write pio_loop)

lemmas held_io = reg_read [OF preserves_return] reg_write [OF preserves_return] poll [OF preserves_return] pio [OF preserves_return]

lemma do_reset: "preserves I (do_reset H)"
  unfolding do_reset_def by (intro dprims held_io)

lemma do_abort: "preserves I (do_abort H s)"
  unfolding do_abort_def abort_skip_def abort_message_def Let_def by (intro dprims held_io)

end

locale blind = dev_blind I for I :: "'d host \<Rightarrow> bool" +
  assumes cmds: "I (h\<lparr>cmds := f\<rparr>) = I h"
    and busy: "I (h\<lparr>busy := b\<rparr>) = I h"
    and dma_len: "I (h\<lparr>dma_len := n\<rparr>) = I h"
    and work: "I (h\<lparr>work := w\<rparr>) = I h"
    and ses: "I (h\<lparr>ses := z\<rparr>) = I h"
    and borken: "I (h\<lparr>borken := k\<rparr>) = I h"
    and simple_tags: "I (h\<lparr>simple_tags := t\<rparr>) = I h"
    and last_message: "I (h\<lparr>last_message := m\<rparr>) = I h"
begin

lemma cmd_upd: "preserves I (cmd_upd c g)"
  by (auto simp: cmd_upd_def upd_def cmds intro!: triple_State)

lemma field_upds:
  "preserves I (upd (\<lambda>h. h\<lparr>dma_len := n\<rparr>))" "preserves I (upd (\<lambda>h. h\<lparr>busy := fb h\<rparr>))"
  "preserves I (upd (\<lambda>h. h\<lparr>ses := z\<rparr>))" "preserves I (upd (\<lambda>h. h\<lparr>borken := fk h\<rparr>))"
  "preserves I (upd (\<lambda>h. h\<lparr>simple_tags := ft h\<rparr>))" "preserves I (upd (\<lambda>h. h\<lparr>last_message := m\<rparr>))"
  by (auto simp: upd_def dma_len busy ses borken simple_tags last_message intro!: triple_State)

lemma queue_work: "preserves I queue_work"
  by (auto simp: queue_work_def upd_def work intro!: triple_State)

lemma busy_upds: "preserves I (set_busy c)" "preserves I (clear_busy c)"
  by (auto simp: set_busy_def clear_busy_def Let_def intro: field_upds)

lemmas prims = ask dget dput cmd_upd cmd_get field_upds queue_work busy_upds preserves_rules

lemma dma_complete: "preserves I (NCR5380_dma_complete H c)"
  unfolding NCR5380_dma_complete_def overrun_byte_def overrun_pio_def Let_def
  by (intro prims held_io)

lemma transfer_dma: "preserves I (NCR5380_transfer_dma H c p n)"
  unfolding NCR5380_transfer_dma_def pdma_end_def dma_fixup_def dma_setup_def Let_def
  by (intro prims held_io dma_complete)

lemma results: "preserves I (set_result c v)" "preserves I (set_host_byte c v)" "preserves I (set_status_byte c v)"
  unfolding set_result_def set_host_byte_def set_status_byte_def by (rule cmd_upd)+

lemma eh: "preserves I (scsi_eh_prep_cmnd H c)" "preserves I (scsi_eh_restore_cmnd H c)"
  unfolding scsi_eh_prep_cmnd_def scsi_eh_restore_cmnd_def by (intro prims)+

lemma sg: "preserves I (initialize_SCp c)" "preserves I (advance_sg_buffer c)" "preserves I (set_resid_from_SCp c)"
  unfolding initialize_SCp_def advance_sg_buffer_def set_resid_from_SCp_def by (intro prims)+

lemma opcode: "preserves I (opcode H c)"
  unfolding opcode_def by (intro prims)

lemma info_moves: "preserves I (info_rejected c)" "preserves I (info_cmdout H c)" "preserves I (info_statin H c)"
  "preserves I (info_reject H sink)"
  unfolding info_rejected_def info_cmdout_def info_statin_def info_reject_def by (intro prims held_io)+

lemma maybe_release: "preserves I (maybe_release_dma_irq H)"
  unfolding maybe_release_dma_irq_def by (intro prims)

lemma main_idle: "preserves I (main_idle H)"
  unfolding main_idle_def by (intro prims held_io maybe_release)

lemmas moves = held_io do_reset do_abort dma_complete transfer_dma results eh sg opcode info_moves maybe_release main_idle prims

end

end
