(* ===== verification/Ncr_Books.thy ===== *)
theory Ncr_Books
  imports Ncr_Blind "HOL-Library.Multiset"
begin

text \<open>
  No command is lost and none is handed back twice: the books of the Linux driver. \<open>ledger\<close>
  compares what was accepted with what the driver holds (on its queues, and \<open>hand\<close>, the
  commands a routine has taken off a queue) and what it has handed back.

  The strict ledger balances. The lossy one only says that nothing was made up; it holds even
  when an interrupt reconnects a command that a selection then overwrites, which the strict one
  excludes by leaving interrupts out of the schedule.
\<close>

subsection \<open>The books\<close>

lemma opt_list_simps [simp]: "opt_list None = []" "opt_list (Some x) = [x]"
  by (simp_all add: opt_list_def)

lemma set_opt_list [simp]: "x \<in> set (opt_list q) \<longleftrightarrow> q = Some x"
  by (cases q) auto

lemma distinct_opt_list [simp]: "distinct (opt_list q)"
  by (cases q) auto

text \<open>The queues as one value: \<open>unissued\<close>, \<open>disconnected\<close>, \<open>autosense\<close>, \<open>selecting\<close>, \<open>connected\<close>.\<close>

type_synonym queues = "nat list \<times> nat list \<times> nat list \<times> nat option \<times> nat option"

definition queues :: "'d host \<Rightarrow> queues" where
  "queues h = (unissued h, disconnected h, autosense h, selecting h, connected h)"

fun all_of :: "queues \<Rightarrow> nat list" where
  "all_of (un, dis, au, sel, con) = un @ dis @ au @ opt_list sel @ opt_list con"

lemma all_of_queues: "all_of (queues h) = owned h"
  by (simp add: queues_def owned_def)

definition held_back :: "bool \<Rightarrow> nat multiset \<Rightarrow> nat multiset \<Rightarrow> bool" where
  "held_back lossy a e = (if lossy then a \<subseteq># e else a = e)"

text \<open>The books of a state whose queues are taken to be \<open>q\<close>.\<close>

definition ledger_of :: "bool \<Rightarrow> nat list \<Rightarrow> queues \<Rightarrow> 'd host \<Rightarrow> bool" where
  "ledger_of lossy hand q h \<longleftrightarrow>
     held_back lossy (mset (hand @ all_of q) + mset (map fst (finished h))) (mset (entered h)) \<and>
     distinct (hand @ all_of q)"

definition ledger :: "bool \<Rightarrow> nat list \<Rightarrow> 'd host \<Rightarrow> bool" where
  "ledger lossy hand h = ledger_of lossy hand (queues h) h"

text \<open>Books kept for \<open>q\<close> while the fields still hold \<open>q0\<close>.\<close>

definition booked :: "bool \<Rightarrow> nat list \<Rightarrow> queues \<Rightarrow> queues \<Rightarrow> 'd host \<Rightarrow> bool" where
  "booked lossy hand q q0 h \<longleftrightarrow> ledger_of lossy hand q h \<and> queues h = q0"

lemma ledger_booked: "ledger lossy hand h \<longleftrightarrow> booked lossy hand (queues h) (queues h) h"
  by (simp add: ledger_def booked_def)

lemma booked_ledger: "booked lossy hand q q h \<Longrightarrow> ledger lossy hand h"
  by (auto simp: ledger_def booked_def)

interpretation bk: blind "booked lossy hand q q0" for lossy hand q q0
  by unfold_locales (simp_all add: booked_def ledger_of_def queues_def)

interpretation led: blind "ledger lossy hand" for lossy hand
  by unfold_locales (simp_all add: ledger_def ledger_of_def queues_def)

lemma triple_upd: "(\<And>h. P h \<Longrightarrow> Q () (f h)) \<Longrightarrow> triple P (upd f) Q"
  by (auto simp: upd_def intro: triple_State)

lemma triple_upd_bind: "(\<And>h. P h \<Longrightarrow> R (f h)) \<Longrightarrow> triple R (g ()) Q \<Longrightarrow> triple P (State_Monad.bind (upd f) g) Q"
  by (auto simp: triple_def upd_def)

lemma triple_ask: "(\<And>x. triple (\<lambda>h. P h \<and> f h = x) (g x) Q) \<Longrightarrow> triple P (State_Monad.bind (ask f) g) Q"
  by (fastforce simp: triple_def ask_def split: prod.splits)

lemma triple_known: "(\<And>h. P h \<Longrightarrow> f h = v) \<Longrightarrow> triple P (g v) Q \<Longrightarrow> triple P (State_Monad.bind (ask f) g) Q"
  by (auto simp: triple_def ask_def)

lemma booked_fields:
  "booked lossy hand q (un, dis, au, sel, con) h \<Longrightarrow>
     unissued h = un \<and> disconnected h = dis \<and> autosense h = au \<and> selecting h = sel \<and> connected h = con"
  by (auto simp: booked_def queues_def)

text \<open>A statement about the books is proved for every value of the queues.\<close>

lemma triple_ledger: "(\<And>q. triple (booked lossy hand q q) m Q) \<Longrightarrow> triple (ledger lossy hand) m Q"
  by (simp add: triple_def ledger_booked)

subsection \<open>Moving commands\<close>

text \<open>Moving commands between the queues and the hand changes nothing that was accepted or returned.\<close>

lemma ledger_of_move:
  assumes "ledger_of lossy hand q h" "mset (hand' @ all_of q') = mset (hand @ all_of q)"
  shows "ledger_of lossy hand' q' h"
  using assms(1) mset_eq_imp_distinct_iff [OF assms(2)] unfolding ledger_of_def assms(2) by simp

lemma booked_move:
  assumes "booked lossy hand q q0 h" "mset (hand' @ all_of q') = mset (hand @ all_of q)"
  shows "booked lossy hand' q' q0 h"
  using assms unfolding booked_def by (auto intro!: ledger_of_move [where hand = hand and q = q])

lemma scsi_done_books:
  "triple (booked lossy (c # hand) q q0) (scsi_done c) (\<lambda>_. booked lossy hand q q0)"
  unfolding scsi_done_def
  by (rule triple_upd) (auto simp: booked_def ledger_of_def held_back_def queues_def ac_simps)

lemma end_sensing_books: "preserves (booked lossy hand q q0) (end_sensing H c)"
  unfolding end_sensing_def
  by (intro triple_preserves bk.moves triple_upd) (auto simp: booked_def ledger_of_def queues_def)

lemma complete_cmd_books:
  "triple (booked lossy (c # hand) q q0) (complete_cmd H c) (\<lambda>_. booked lossy hand q q0)"
  unfolding complete_cmd_def
  by (intro triple_preserves bk.moves preserves_if end_sensing_books scsi_done_books)

lemma for_each_books:
  assumes "\<And>c hand. c \<in> set xs \<Longrightarrow> triple (booked lossy (c # hand) q q0) (f c) (\<lambda>_. booked lossy hand q q0)"
  shows "triple (booked lossy (xs @ hand) q q0) (for_each f xs) (\<lambda>_. booked lossy hand q q0)"
  using assms
proof (induction xs)
  case Nil
  show ?case by (simp add: preserves_return)
next
  case (Cons c xs)
  show ?case unfolding for_each.simps append_Cons
    by (rule triple_bind [OF Cons.prems], simp, rule Cons.IH, rule Cons.prems, simp)
qed

text \<open>The same of the books with the queues as they are.\<close>

lemma complete_ledger: "triple (ledger lossy (c # hand)) (complete_cmd H c) (\<lambda>_. ledger lossy hand)"
  by (intro triple_ledger triple_cons [OF complete_cmd_books]) (auto dest: booked_ledger)

lemma done_ledger: "triple (ledger lossy (c # hand)) (scsi_done c) (\<lambda>_. ledger lossy hand)"
  by (intro triple_ledger triple_cons [OF scsi_done_books]) (auto dest: booked_ledger)

subsection \<open>Bus reset\<close>

text \<open>Commands on a queue that is about to be emptied count as in hand.\<close>

lemma booked_pick:
  "booked lossy hand (un, dis, au, Some c, con) q0 h \<Longrightarrow> booked lossy (c # hand) (un, dis, au, None, con) q0 h"
  "booked lossy hand (un, dis, au, sel, Some c) q0 h \<Longrightarrow> booked lossy (c # hand) (un, dis, au, sel, None) q0 h"
  "booked lossy hand (un, dis, au, sel, con) q0 h \<Longrightarrow> booked lossy (un @ hand) ([], dis, au, sel, con) q0 h"
  "booked lossy hand (un, dis, au, sel, con) q0 h \<Longrightarrow> booked lossy (dis @ hand) (un, [], au, sel, con) q0 h"
  "booked lossy hand (un, dis, au, sel, con) q0 h \<Longrightarrow> booked lossy (au @ hand) (un, dis, [], sel, con) q0 h"
  by (auto simp: booked_def ledger_of_def ac_simps)

lemma reset_selecting_books:
  "triple (booked lossy [] (un, dis, au, sel, con) (un, dis, au, sel, con)) (reset_selecting H)
     (\<lambda>_. booked lossy [] (un, dis, au, None, con) (un, dis, au, None, con))"
proof (cases sel)
  case None
  show ?thesis unfolding reset_selecting_def None
    by (rule triple_known [where v = None]) (auto dest: booked_fields intro: triple_return)
next
  case (Some c)
  let ?q = "(un, dis, au, sel, con)" and ?q' = "(un, dis, au, None, con)"
  have "triple (booked lossy [c] ?q' ?q) (do { set_result c (DID_RESET H); complete_cmd H c; upd (\<lambda>h. h\<lparr>selecting := None\<rparr>) })
      (\<lambda>_. booked lossy [] ?q' ?q')"
    by (intro triple_preserves bk.moves triple_bind [OF complete_cmd_books] triple_upd)
      (auto simp: booked_def ledger_of_def queues_def)
  then show ?thesis unfolding reset_selecting_def
    by (intro triple_known [where v = "Some c"]) (auto dest: booked_fields simp: Some elim!: triple_pre intro: booked_pick)
qed

lemma reset_done_books:
  "triple (booked lossy (c # hand) q q0) (reset_done H c) (\<lambda>_. booked lossy hand q q0)"
  unfolding reset_done_def by (intro triple_preserves bk.moves complete_cmd_books)

lemma reset_disconnected_books:
  "triple (booked lossy [] (un, dis, au, sel, con) (un, dis, au, sel, con)) (reset_disconnected H)
     (\<lambda>_. booked lossy [] (un, [], au, sel, con) (un, [], au, sel, con))"
proof -
  let ?q = "(un, dis, au, sel, con)" and ?q' = "(un, [], au, sel, con)"
  have "triple (booked lossy (dis @ []) ?q' ?q) (do { for_each (reset_done H) dis; upd (\<lambda>h. h\<lparr>disconnected := []\<rparr>) })
      (\<lambda>_. booked lossy [] ?q' ?q')"
    by (intro triple_bind [OF for_each_books] reset_done_books triple_upd)
      (auto simp: booked_def ledger_of_def queues_def)
  then show ?thesis unfolding reset_disconnected_def
    by (intro triple_known [where v = dis]) (auto dest: booked_fields elim!: triple_pre dest: booked_pick(4))
qed

lemma reset_autosense_books:
  "triple (booked lossy [] (un, dis, au, sel, con) (un, dis, au, sel, con)) reset_autosense
     (\<lambda>_. booked lossy [] (un, dis, [], sel, con) (un, dis, [], sel, con))"
proof -
  let ?q = "(un, dis, au, sel, con)" and ?q' = "(un, dis, [], sel, con)"
  have F: "triple (booked lossy (au @ []) ?q' ?q) (do { for_each scsi_done au; upd (\<lambda>h. h\<lparr>autosense := []\<rparr>) })
      (\<lambda>_. booked lossy [] ?q' ?q')"
    by (intro triple_bind [OF for_each_books] scsi_done_books triple_upd) (auto simp: booked_def ledger_of_def queues_def)
  show ?thesis unfolding reset_autosense_def
    by (rule triple_known [where v = au], blast dest: booked_fields, rule triple_pre [OF F], drule booked_pick(5), simp)
qed

lemma reset_connected_books:
  "triple (booked lossy [] (un, dis, au, sel, con) (un, dis, au, sel, con)) (reset_connected H)
     (\<lambda>_. booked lossy [] (un, dis, au, sel, None) (un, dis, au, sel, None))"
proof (cases con)
  case None
  show ?thesis unfolding reset_connected_def None
    by (rule triple_known [where v = None]) (auto dest: booked_fields intro: triple_return)
next
  case (Some c)
  let ?q = "(un, dis, au, sel, con)" and ?q' = "(un, dis, au, sel, None)"
  have "triple (booked lossy [c] ?q' ?q) (do { reset_done H c; upd (\<lambda>h. h\<lparr>connected := None\<rparr>) })
      (\<lambda>_. booked lossy [] ?q' ?q')"
    by (intro triple_bind [OF reset_done_books] triple_upd) (auto simp: booked_def ledger_of_def queues_def)
  then show ?thesis unfolding reset_connected_def
    by (intro triple_known [where v = "Some c"]) (auto dest: booked_fields simp: Some elim!: triple_pre intro: booked_pick)
qed

lemma reset_unissued_books:
  "triple (booked lossy [] (un, dis, au, sel, con) (un, dis, au, sel, con)) (reset_unissued H)
     (\<lambda>_. booked lossy [] ([], dis, au, sel, con) ([], dis, au, sel, con))"
proof -
  let ?q = "(un, dis, au, sel, con)" and ?q' = "([], dis, au, sel, con)"
  have F: "triple (booked lossy (un @ []) ?q' ?q)
      (do { for_each (\<lambda>c. do { set_result c (DID_RESET H); scsi_done c }) un; upd (\<lambda>h. h\<lparr>unissued := []\<rparr>) })
      (\<lambda>_. booked lossy [] ?q' ?q')"
    by (intro triple_bind [OF for_each_books] triple_preserves bk.moves scsi_done_books triple_upd)
      (auto simp: booked_def ledger_of_def queues_def)
  show ?thesis unfolding reset_unissued_def
    by (rule triple_known [where v = un], blast dest: booked_fields, rule triple_pre [OF F], drule booked_pick(3), simp)
qed

text \<open>A bus reset hands back everything but the commands not yet issued.\<close>

lemma bus_reset_cleanup_books:
  "triple (booked lossy [] (un, dis, au, sel, con) (un, dis, au, sel, con)) (bus_reset_cleanup H)
     (\<lambda>_. booked lossy [] (un, [], [], None, None) (un, [], [], None, None))"
  unfolding bus_reset_cleanup_def
  by (intro triple_preserves bk.moves triple_bind [OF reset_selecting_books] triple_bind [OF reset_disconnected_books]
      triple_bind [OF reset_autosense_books] triple_bind [OF reset_connected_books])

lemma host_reset_books:
  "triple (booked lossy [] (un, dis, au, sel, con) (un, dis, au, sel, con)) (NCR5380_host_reset H)
     (\<lambda>_. booked lossy [] ([], [], [], None, None) ([], [], [], None, None))"
  unfolding NCR5380_host_reset_def
  by (intro triple_bind [OF reset_unissued_books] triple_bind [OF bus_reset_cleanup_books] triple_preserves bk.do_reset bk.moves)

text \<open>Statements for every value of the queues, as statements about the books as they are.\<close>

lemma books_ledger:
  assumes "\<And>un dis au sel con. triple (booked lossy [] (un, dis, au, sel, con) (un, dis, au, sel, con)) m (\<lambda>_. ledger lossy [])"
  shows "preserves (ledger lossy []) m"
proof (rule triple_ledger)
  fix q :: queues
  obtain un dis au sel con where q: "q = (un, dis, au, sel, con)" by (metis surj_pair)
  show "triple (booked lossy [] q q) m (\<lambda>_. ledger lossy [])"
    unfolding q by (rule assms)
qed

lemma bus_reset_ledger: "preserves (ledger lossy []) (bus_reset_cleanup H)"
  by (intro books_ledger triple_cons [OF bus_reset_cleanup_books]) (auto intro: booked_ledger)

lemma host_reset_ledger: "preserves (ledger lossy []) (NCR5380_host_reset H)"
  by (intro books_ledger triple_cons [OF host_reset_books]) (auto intro: booked_ledger)

end
