(* ===== verification/Ncr_Frame.thy ===== *)
theory Ncr_Frame
  imports Ncr_Books
begin

text \<open>
  What the routines that hold the lock leave alone. The locale \<open>frame\<close> adds to \<open>blind\<close> that
  an invariant does not look at the lists and allows \<open>selecting\<close> and \<open>connected\<close> to be cleared;
  then aborting and resetting keep it. \<open>frame_in\<close> does not look at the accepted commands either, and
  adds queueing. \<open>frame_all\<close> also allows a command to become connected, and adds the interrupt handler.
\<close>

lemma del_upds:
  "upd (unissued_update (remove1 c)) = upd (\<lambda>h. h\<lparr>unissued := remove1 c (unissued h)\<rparr>)"
  "upd (disconnected_update (remove1 c)) = upd (\<lambda>h. h\<lparr>disconnected := remove1 c (disconnected h)\<rparr>)"
  "upd (autosense_update (remove1 c)) = upd (\<lambda>h. h\<lparr>autosense := remove1 c (autosense h)\<rparr>)"
  by (auto simp: upd_def fun_eq_iff intro!: host.equality)

locale frame = blind I for I :: "'d host \<Rightarrow> bool" +
  assumes unissued: "I (h\<lparr>unissued := xs\<rparr>) = I h"
    and disconnected: "I (h\<lparr>disconnected := xs\<rparr>) = I h"
    and autosense: "I (h\<lparr>autosense := xs\<rparr>) = I h"
    and finished: "I (h\<lparr>finished := ys\<rparr>) = I h"
    and sensing: "I (h\<lparr>sensing := s\<rparr>) = I h"
    and deselect: "I h \<Longrightarrow> I (h\<lparr>selecting := None\<rparr>)"
    and disconnect: "I h \<Longrightarrow> I (h\<lparr>connected := None\<rparr>)"
begin

lemma list_upds:
  "preserves I (upd (\<lambda>h. h\<lparr>unissued := f h\<rparr>))" "preserves I (upd (\<lambda>h. h\<lparr>disconnected := f h\<rparr>))"
  "preserves I (upd (\<lambda>h. h\<lparr>autosense := f h\<rparr>))"
  "preserves I (upd (\<lambda>h. h\<lparr>sensing := g h\<rparr>))" "preserves I (upd (\<lambda>h. h\<lparr>selecting := None\<rparr>))"
  "preserves I (upd (\<lambda>h. h\<lparr>connected := None\<rparr>))" "preserves I (scsi_done c)"
  unfolding scsi_done_def
  by (auto intro!: triple_upd simp: unissued disconnected autosense sensing deselect disconnect finished)

lemma complete_cmd: "preserves I (complete_cmd H c)"
  unfolding complete_cmd_def end_sensing_def by (intro moves list_upds)

lemma for_each: "(\<And>c. preserves I (f c)) \<Longrightarrow> preserves I (for_each f xs)"
  by (induction xs) (auto intro!: prims)

lemma bus_reset: "preserves I (bus_reset_cleanup H)"
  unfolding bus_reset_cleanup_def reset_selecting_def reset_disconnected_def reset_autosense_def reset_connected_def reset_done_def
  by (intro moves list_upds complete_cmd for_each)

lemma host_reset: "preserves I (NCR5380_host_reset H)"
  unfolding NCR5380_host_reset_def reset_unissued_def by (intro moves list_upds bus_reset for_each)

lemma list_del:
  "preserves I (list_del_cmd unissued unissued_update c)" "preserves I (list_del_cmd disconnected disconnected_update c)"
  "preserves I (list_del_cmd autosense autosense_update c)"
  unfolding list_del_cmd_def del_upds by (intro prims list_upds)+

lemma abort: "preserves I (NCR5380_abort H c)"
  unfolding NCR5380_abort_def abort_search_def abort_connected_def by (intro moves list_upds list_del complete_cmd)

lemma dequeue: "preserves I (dequeue_next_cmd H)"
  unfolding dequeue_next_cmd_def Let_def by (intro moves list_upds)

lemma requeue: "preserves I (requeue_cmd H c)"
  unfolding requeue_cmd_def by (intro moves list_upds)

end

locale frame_in = frame +
  assumes entered: "I (h\<lparr>entered := xs\<rparr>) = I h"
begin

lemma enter: "preserves I (upd (\<lambda>h. h\<lparr>entered := f h\<rparr>))"
  by (rule triple_upd) (simp add: entered)

lemma queue_command: "preserves I (NCR5380_queue_command H c)"
  unfolding NCR5380_queue_command_def by (intro moves list_upds enter)

lemma run_other_quiet: "x \<noteq> Intr \<Longrightarrow> preserves I (run_other H x)"
  by (cases x) (auto intro!: prims queue_command abort host_reset)

end

locale frame_all = frame_in +
  assumes connect: "I h \<Longrightarrow> I (h\<lparr>connected := Some c\<rparr>)"
begin

lemma connected_upd: "preserves I (upd (\<lambda>h. h\<lparr>connected := Some c\<rparr>))"
  by (rule triple_upd) (rule connect)

lemma reselect: "preserves I (NCR5380_reselect H)"
  unfolding NCR5380_reselect_def reselect_message_def reselect_identified_def Let_def
  by (intro moves list_upds connected_upd)

lemma intr: "preserves I (NCR5380_intr H)"
  unfolding NCR5380_intr_def intr_dma_def intr_reselect_def intr_reset_def by (intro moves reselect bus_reset)

lemma run_other: "preserves I (run_other H x)"
  by (cases x) (auto intro!: prims queue_command abort host_reset intr)

end

end
