(* ===== verification/Ncr_Flow.thy ===== *)
theory Ncr_Flow
  imports Ncr_Frame
begin

text \<open>
  The books of the Linux driver through its whole life: each routine that holds the lock keeps
  them; selection, information transfer and the main loop keep them for every schedule of what
  runs while the lock is free.
\<close>

subsection \<open>Routines that hold the lock\<close>

lemma ledger_move:
  assumes "ledger lossy hand h" "finished h' = finished h" "entered h' = entered h"
    and "mset (hand' @ owned h') = mset (hand @ owned h)"
  shows "ledger lossy hand' h'"
  using assms(1-3) mset_eq_imp_distinct_iff [OF assms(4)] unfolding ledger_def ledger_of_def all_of_queues assms(4) by simp

lemma ledger_drop:
  assumes "ledger True hand h" "finished h' = finished h" "entered h' = entered h"
    and "mset (hand' @ owned h') \<subseteq># mset (hand @ owned h)"
  shows "ledger True hand' h'"
proof -
  have "mset (hand' @ owned h') + mset (map fst (finished h)) \<subseteq># mset (hand @ owned h) + mset (map fst (finished h))"
    using assms(4) by (rule mset_subset_eq_mono_add_right_cancel [THEN iffD2])
  moreover obtain xs where "mset (hand @ owned h) = mset ((hand' @ owned h') @ xs)"
    using assms(4) by (metis ex_mset mset_append subset_mset.add_diff_inverse)
  then have "distinct (hand @ owned h) \<Longrightarrow> distinct (hand' @ owned h')"
    using mset_eq_imp_distinct_iff [of "hand @ owned h" "(hand' @ owned h') @ xs"] by auto
  ultimately show ?thesis
    using assms(1) unfolding ledger_def ledger_of_def all_of_queues held_back_def assms(2,3) if_True
    by (blast intro: subset_mset.trans)
qed

lemma list_del_ledger:
  "triple (ledger lossy []) (list_del_cmd unissued unissued_update c) (\<lambda>b. ledger lossy (if b then [c] else []))"
  "triple (ledger lossy []) (list_del_cmd disconnected disconnected_update c) (\<lambda>b. ledger lossy (if b then [c] else []))"
  "triple (ledger lossy []) (list_del_cmd autosense autosense_update c) (\<lambda>b. ledger lossy (if b then [c] else []))"
  unfolding list_del_cmd_def list_find_cmd_def
  by (intro triple_ask triple_if triple_upd_bind [where R = "ledger lossy [c]"] triple_return;
      force elim!: ledger_move simp: owned_def)+

text \<open>A search that takes the command in hand when it finds it.\<close>

lemma triple_found:
  assumes "triple P m (\<lambda>b. ledger lossy (if b then [c] else []))"
    and "triple (ledger lossy [c]) n Q" and "triple (ledger lossy []) k Q"
  shows "triple P (State_Monad.bind m (\<lambda>b. if b then n else k)) Q"
proof (rule triple_bind [OF assms(1)])
  fix b show "triple (ledger lossy (if b then [c] else [])) (if b then n else k) Q" using assms(2,3) by (cases b) auto
qed

text \<open>A command in hand whose result is set is handed back.\<close>

lemma answered:
  "triple (ledger lossy [c]) (do { set_result c v; scsi_done c; State_Monad.return x }) (\<lambda>_. ledger lossy [])"
  "triple (ledger lossy [c]) (do { set_result c v; complete_cmd H c; State_Monad.return x }) (\<lambda>_. ledger lossy [])"
  "triple (ledger lossy [c]) (do { set_host_byte c v; complete_cmd H c; State_Monad.return x }) (\<lambda>_. ledger lossy [])"
  by (rule triple_preserves [OF led.results(1)] triple_preserves [OF led.results(2)],
      rule triple_bind [OF done_ledger] triple_bind [OF complete_ledger], rule preserves_return)+

lemma abort_connected_ledger:
  "triple (\<lambda>h. ledger lossy [] h \<and> connected h = Some c) (abort_connected H c) (\<lambda>_. ledger lossy [])"
  unfolding abort_connected_def
  by (rule triple_upd_bind [where R = "ledger lossy [c]"])
    (auto elim!: ledger_move simp: owned_def
      intro!: triple_preserves [OF led.field_upds(1)] triple_preserves [OF led.do_abort] answered)

lemma abort_selecting_ledger:
  "triple (\<lambda>h. ledger lossy [] h \<and> selecting h = Some c)
     (do { upd (\<lambda>h. h\<lparr>selecting := None\<rparr>); set_result c v; complete_cmd H c; State_Monad.return x }) (\<lambda>_. ledger lossy [])"
  by (rule triple_upd_bind [where R = "ledger lossy [c]"]) (auto elim!: ledger_move simp: owned_def intro!: answered)

lemma triple_asked:
  assumes "\<And>x. x \<noteq> v \<Longrightarrow> triple P (n x) Q" and "triple (\<lambda>h. P h \<and> f h = v) m Q"
  shows "triple P (State_Monad.bind (ask f) (\<lambda>x. if x = v then m else n x)) Q"
  by (rule triple_ask, rule triple_if) (use assms(2) in \<open>auto elim!: triple_pre intro: triple_pre [OF assms(1)]\<close>)

lemma abort_sensed_ledger:
  "preserves (ledger lossy []) (do { as \<leftarrow> list_del_cmd autosense autosense_update c;
     (if as then complete_cmd H c else State_Monad.return ()); State_Monad.return True })"
proof (rule triple_bind [OF list_del_ledger(3)])
  fix as
  show "triple (ledger lossy (if as then [c] else []))
      (do { (if as then complete_cmd H c else State_Monad.return ()); State_Monad.return True }) (\<lambda>_. ledger lossy [])"
    by (cases as) (auto intro!: triple_bind [OF complete_ledger] preserves_return)
qed

lemma abort_search_ledger: "preserves (ledger lossy []) (abort_search H c)"
  unfolding abort_search_def
  by (intro triple_found [OF list_del_ledger(1)] triple_found [OF list_del_ledger(2)] triple_asked
      answered abort_selecting_ledger abort_connected_ledger abort_sensed_ledger)

lemma abort_ledger: "preserves (ledger lossy []) (NCR5380_abort H c)"
  unfolding NCR5380_abort_def by (intro preserves_bind abort_search_ledger led.prims)

text \<open>A new command.\<close>

definition fresh :: "bool \<Rightarrow> nat \<Rightarrow> 'd host \<Rightarrow> bool" where
  "fresh lossy c h \<longleftrightarrow> ledger lossy [] h \<and> c \<notin> set (owned h)"

interpretation fr: blind "fresh lossy c" for lossy c
  by unfold_locales (simp_all add: fresh_def ledger_def ledger_of_def queues_def owned_def)

lemma owned_entered: "owned (h\<lparr>entered := es\<rparr>) = owned h"
  by (simp add: owned_def)

lemma entered_ledger:
  "fresh lossy c h \<Longrightarrow> mset (owned h') = add_mset c (mset (owned h)) \<Longrightarrow> finished h' = finished h \<Longrightarrow> entered h' = entered h \<Longrightarrow>
     ledger lossy [] (h'\<lparr>entered := entered h' @ [c]\<rparr>)"
  using mset_eq_imp_distinct_iff [of "owned h'" "c # owned h"]
  unfolding fresh_def ledger_def ledger_of_def all_of_queues held_back_def
  by (auto simp: owned_entered)

lemma queue_command_ledger: "triple (fresh lossy c) (NCR5380_queue_command H c) (\<lambda>_. ledger lossy [])"
proof -
  have add: "triple (fresh lossy c)
      (if b then upd (\<lambda>h. h\<lparr>unissued := c # unissued h\<rparr>) else upd (\<lambda>h. h\<lparr>unissued := unissued h @ [c]\<rparr>))
      (\<lambda>_ h. ledger lossy [] (h\<lparr>entered := entered h @ [c]\<rparr>))" for b
    by (auto intro!: triple_upd elim!: entered_ledger simp: owned_def)
  have enter: "triple (\<lambda>h. ledger lossy [] (h\<lparr>entered := entered h @ [c]\<rparr>))
      (do { upd (\<lambda>h. h\<lparr>entered := entered h @ [c]\<rparr>); queue_work; State_Monad.return True }) (\<lambda>_. ledger lossy [])"
    by (rule triple_upd_bind [where R = "ledger lossy []"]) (auto intro!: led.prims)
  show ?thesis
    unfolding NCR5380_queue_command_def
    by (rule triple_preserves [OF fr.results(1)], rule triple_preserves [OF fr.dget], rule triple_if,
        rule triple_return, simp add: fresh_def, rule triple_preserves [OF fr.opcode], rule triple_bind [OF add enter])
qed

text \<open>Reselection: the command found becomes the connected one, so there must be room for it.\<close>

definition room :: "bool \<Rightarrow> nat list \<Rightarrow> 'd host \<Rightarrow> bool" where
  "room lossy hand h \<longleftrightarrow> ledger lossy hand h \<and> (lossy \<or> connected h = None)"

interpretation rm: blind "room lossy hand" for lossy hand
  by unfold_locales (simp_all add: room_def ledger_def ledger_of_def queues_def)

lemma room_ledger: "room lossy hand h \<Longrightarrow> ledger lossy hand h"
  by (simp add: room_def)

lemma connect_ledger: "triple (room lossy [c]) (upd (\<lambda>h. h\<lparr>connected := Some c\<rparr>)) (\<lambda>_. ledger lossy [])"
proof (rule triple_upd)
  fix h :: "'d host" assume R: "room lossy [c] h"
  show "ledger lossy [] (h\<lparr>connected := Some c\<rparr>)"
  proof (cases "connected h")
    case None
    with R show ?thesis by (auto simp: room_def owned_def elim!: ledger_move)
  next
    case (Some d)
    with R show ?thesis by (auto simp: room_def owned_def elim!: ledger_drop)
  qed
qed

lemma find_nexus_in: "find_nexus h m l = Some c \<Longrightarrow> c \<in> set (disconnected h)"
  unfolding find_nexus_def by (auto simp: find_Some_iff)

lemma reselected_ledger:
  "triple (\<lambda>h. room lossy [] h \<and> find_nexus h m l = Some c)
     (do { upd (\<lambda>h. h\<lparr>disconnected := remove1 c (disconnected h)\<rparr>);
           NCR5380_write H held INITIATOR_COMMAND_REG ICR_BASE; upd (\<lambda>h. h\<lparr>connected := Some c\<rparr>) })
     (\<lambda>_. ledger lossy [])"
  by (rule triple_upd_bind [where R = "room lossy [c]"])
    (auto simp: room_def owned_def dest!: find_nexus_in elim!: ledger_move
      intro!: triple_preserves [OF rm.held_io(2)] connect_ledger)

lemma reselect_identified_ledger: "triple (room lossy []) (reselect_identified H m l) (\<lambda>_. ledger lossy [])"
  unfolding reselect_identified_def
proof (intro triple_ask triple_option)
  fix x :: "nat option"
  have "preserves (room lossy []) (do { r \<leftarrow> do_abort H 0; if r = RC_OK then
      upd (\<lambda>h. h\<lparr>busy := (busy h)(mask_target m := busy h (mask_target m) AND NOT (push_bit (unat l) 1))\<rparr>)
      else State_Monad.return () })" by (intro rm.moves)
  then show "triple (\<lambda>h. room lossy [] h \<and> find_nexus h m l = x) (do { r \<leftarrow> do_abort H 0; if r = RC_OK then
      upd (\<lambda>h. h\<lparr>busy := (busy h)(mask_target m := busy h (mask_target m) AND NOT (push_bit (unat l) 1))\<rparr>)
      else State_Monad.return () }) (\<lambda>_. ledger lossy [])" by (rule triple_cons) (auto simp: room_ledger)
qed (auto intro: triple_pre [OF reselected_ledger])

lemma reselect_message_ledger: "triple (room lossy []) (reselect_message H m) (\<lambda>_. ledger lossy [])"
  unfolding reselect_message_def
  by (rule triple_preserves [OF rm.held_io(4)])
    (auto intro!: triple_prod triple_if triple_preserves [OF rm.dget] triple_preserves [OF rm.do_abort] triple_return
      reselect_identified_ledger simp: room_ledger)

lemma reselect_ledger: "triple (room lossy []) (NCR5380_reselect H) (\<lambda>_. ledger lossy [])"
proof -
  have quit: "triple (room lossy []) (State_Monad.return ()) (\<lambda>_. ledger lossy [])"
    "triple (room lossy []) (NCR5380_write H held r v) (\<lambda>_. ledger lossy [])"
    "triple (room lossy []) (do { _ \<leftarrow> do_abort H 0; State_Monad.return () }) (\<lambda>_. ledger lossy [])" for r v
    by (rule triple_cons [where Q = "\<lambda>_. room lossy []"], rule rm.moves preserves_bind [OF rm.do_abort preserves_return];
        simp add: room_ledger)+
  show ?thesis
    unfolding NCR5380_reselect_def Let_def
    by (intro triple_preserves [OF rm.held_io(1)] triple_preserves [OF rm.held_io(2)] triple_preserves [OF rm.held_io(3)]
        triple_preserves [OF rm.ask] triple_if reselect_message_ledger quit)
qed

lemma intr_reselect_ledger: "preserves (ledger lossy []) (intr_reselect H)"
proof -
  have "triple (\<lambda>h. ledger lossy [] h \<and> connected h = None) (NCR5380_reselect H) (\<lambda>_. ledger lossy [])"
    by (rule triple_pre [OF reselect_ledger]) (simp add: room_def)
  then have "preserves (ledger lossy []) (do { con \<leftarrow> ask connected;
      (if con = None then do { NCR5380_reselect H; queue_work } else State_Monad.return ());
      con2 \<leftarrow> ask connected; idm \<leftarrow> ask id_mask;
      (if con2 = None then NCR5380_write H held SELECT_ENABLE_REG idm else State_Monad.return ()) })"
    by (intro triple_ask triple_bind [where R = "\<lambda>_. ledger lossy []"] triple_if triple_return led.moves)
      (auto elim!: triple_pre)
  then show ?thesis unfolding intr_reselect_def
    by (intro triple_preserves [OF led.held_io(1)] triple_preserves [OF led.held_io(2)])
qed

lemma intr_ledger: "preserves (ledger lossy []) (NCR5380_intr H)"
  unfolding NCR5380_intr_def intr_dma_def intr_reset_def
  by (intro led.moves intr_reselect_ledger bus_reset_ledger)

lemma run_other_ledger: "preserves (ledger lossy []) (run_other H x)"
proof (cases x)
  case (Queue_command c)
  have "triple (\<lambda>h. ledger lossy [] h \<and> (c \<in> set (owned h)) = b)
      (if b then State_Monad.return () else do { _ \<leftarrow> NCR5380_queue_command H c; State_Monad.return () }) (\<lambda>_. ledger lossy [])" for b
    by (cases b) (auto intro!: triple_return triple_bind [OF triple_pre [OF queue_command_ledger]] simp: fresh_def)
  then show ?thesis unfolding Queue_command run_other.simps by (intro triple_ask)
qed (auto intro!: preserves_bind preserves_return abort_ledger host_reset_ledger intr_ledger)

end
