(* ===== verification/Ncr_Sched.thy ===== *)
theory Ncr_Sched
  imports Ncr_Flow
begin

text \<open>
  The books of the Linux driver while the lock is released: selection, information transfer and
  the main loop, for every schedule of interrupts and calls of the mid-layer.
\<close>

subsection \<open>Schedules\<close>

text \<open>A schedule without interrupts.\<close>

definition no_intr :: "other list list \<Rightarrow> bool" where
  "no_intr s = list_all (\<lambda>xs. Intr \<notin> set xs) s"

definition calm :: "bool \<Rightarrow> 'd host \<Rightarrow> bool" where
  "calm lossy h \<longleftrightarrow> lossy \<or> no_intr (sched h)"

interpretation cm: frame_all "calm lossy" for lossy
  by unfold_locales (simp_all add: calm_def)

definition books :: "bool \<Rightarrow> nat list \<Rightarrow> 'd host \<Rightarrow> bool" where
  "books lossy hand h \<longleftrightarrow> ledger lossy hand h \<and> calm lossy h"

interpretation bs: blind "books lossy hand" for lossy hand
  by unfold_locales (simp_all add: books_def calm_def ledger_def ledger_of_def queues_def)

lemma triple_books:
  "triple (ledger lossy hand) m (\<lambda>x. ledger lossy (f x)) \<Longrightarrow> preserves (calm lossy) m \<Longrightarrow> triple (books lossy hand) m (\<lambda>x. books lossy (f x))"
  unfolding books_def by (rule triple_conj)

lemma run_others_preserves:
  "(\<And>x. x \<in> set xs \<Longrightarrow> preserves I (run_other H x)) \<Longrightarrow> preserves I (run_others H xs)"
  by (induction xs) (auto intro!: preserves_bind preserves_return)

lemma yields_preserves:
  assumes calm: "\<And>h. I h \<Longrightarrow> calm lossy h" and sched: "\<And>h xs. I h \<Longrightarrow> calm lossy (h\<lparr>sched := xs\<rparr>) \<Longrightarrow> I (h\<lparr>sched := xs\<rparr>)"
    and other: "\<And>x. lossy \<or> x \<noteq> Intr \<Longrightarrow> preserves I (run_other H x)"
  shows "preserves I (yields H)"
proof -
  have "triple (\<lambda>h. I h \<and> sched h = xs # rest) (do { upd (\<lambda>h. h\<lparr>sched := rest\<rparr>); run_others H xs }) (\<lambda>_. I)" for xs rest
  proof (cases "lossy \<or> Intr \<notin> set xs")
    case True
    show ?thesis
      by (rule triple_upd_bind [where R = I]) (use True in \<open>auto intro!: sched run_others_preserves other dest: calm simp: calm_def no_intr_def\<close>)
  next
    case False
    then show ?thesis by (fastforce simp: triple_def calm_def no_intr_def dest!: calm)
  qed
  then show ?thesis unfolding yields_def
    by (intro triple_ask) (auto intro!: triple_return split: list.split)
qed

lemma run_other_books: "preserves (books lossy []) (run_other H x)"
  by (intro triple_books run_other_ledger cm.run_other)

lemma ledger_sched: "ledger lossy hand (h\<lparr>sched := s\<rparr>) = ledger lossy hand h"
  by (simp add: ledger_def ledger_of_def queues_def)

lemma yields_books: "preserves (books lossy []) (yields H)"
  by (rule yields_preserves [where lossy = lossy]) (auto intro: run_other_books simp: books_def ledger_sched)

subsection \<open>Selection\<close>

text \<open>While \<open>c\<close> is being selected nothing else is, and without interrupts nothing becomes connected.\<close>

definition tied :: "bool \<Rightarrow> nat \<Rightarrow> 'd host \<Rightarrow> bool" where
  "tied lossy c h \<longleftrightarrow> (selecting h = None \<or> selecting h = Some c) \<and> (lossy \<or> connected h = None)"

interpretation ti: frame_in "tied lossy c" for lossy c
  by unfold_locales (auto simp: tied_def)

interpretation tl: frame_all "tied True c" for c
  by unfold_locales (auto simp: tied_def)

definition selects :: "bool \<Rightarrow> nat \<Rightarrow> 'd host \<Rightarrow> bool" where
  "selects lossy c h \<longleftrightarrow> books lossy [] h \<and> tied lossy c h"

interpretation se: blind "selects lossy c" for lossy c
  by unfold_locales (simp_all add: selects_def books_def tied_def calm_def ledger_def ledger_of_def queues_def)

lemma run_other_selects: "lossy \<or> x \<noteq> Intr \<Longrightarrow> preserves (selects lossy c) (run_other H x)"
  unfolding selects_def
  by (intro triple_conj run_other_books) (cases lossy; auto intro: tl.run_other ti.run_other_quiet)

lemma yields_selects: "preserves (selects lossy c) (yields H)"
  by (rule yields_preserves [where lossy = lossy])
    (auto intro: run_other_selects simp: selects_def books_def tied_def ledger_sched)

lemmas select_io = se.reg_read [OF yields_selects] se.reg_write [OF yields_selects] se.poll [OF yields_selects]
  se.poll2 [OF yields_selects] yields_selects


text \<open>The end of a selection: what is still in \<open>selecting\<close> goes back to the caller, or is dealt with.\<close>

definition served :: "bool \<Rightarrow> nat list \<Rightarrow> 'd host \<Rightarrow> bool" where
  "served lossy hand h = books lossy hand (h\<lparr>selecting := None\<rparr>)"

interpretation sv: blind "served lossy hand" for lossy hand
  by unfold_locales (simp_all add: served_def books_def calm_def ledger_def ledger_of_def queues_def)

definition chosen :: "bool \<Rightarrow> nat \<Rightarrow> 'd host \<Rightarrow> bool" where
  "chosen lossy c h \<longleftrightarrow> selects lossy c h \<and> selecting h = Some c"

interpretation ch: blind "chosen lossy c" for lossy c
  by unfold_locales (simp_all add: chosen_def selects_def books_def tied_def calm_def ledger_def ledger_of_def queues_def)

lemma books_move:
  "books lossy hand h \<Longrightarrow> finished h' = finished h \<Longrightarrow> entered h' = entered h \<Longrightarrow> sched h' = sched h \<Longrightarrow>
     mset (hand' @ owned h') = mset (hand @ owned h) \<Longrightarrow> books lossy hand' h'"
  unfolding books_def calm_def by (auto intro: ledger_move simp del: mset_append)

lemma chosen_served: "chosen lossy c h \<Longrightarrow> served lossy [c] h"
  unfolding chosen_def selects_def served_def by (auto elim!: books_move simp: owned_def)

lemma complete_served: "triple (served lossy (c # hand)) (complete_cmd H c) (\<lambda>_. served lossy hand)"
proof -
  have "preserves (served lossy hand') (end_sensing H c)" for hand'
    unfolding end_sensing_def
    by (intro triple_preserves sv.moves triple_upd) (auto simp: served_def books_def calm_def ledger_def ledger_of_def queues_def)
  moreover have "triple (served lossy (c # hand)) (scsi_done c) (\<lambda>_. served lossy hand)"
    unfolding scsi_done_def
    by (rule triple_upd) (auto simp: served_def books_def calm_def ledger_def ledger_of_def held_back_def queues_def ac_simps)
  ultimately show ?thesis unfolding complete_cmd_def by (intro triple_preserves sv.moves preserves_if)
qed

lemma select_out_again:
  "triple (\<lambda>h. books lossy [] h \<and> tied True c h) (select_out True) (\<lambda>b. books lossy (if b then [c] else []))"
  unfolding select_out_def
  by (intro triple_ask triple_if triple_return triple_upd_bind [where R = "books lossy [c]"])
    (auto simp: tied_def owned_def elim!: books_move)

lemma select_out_True: "triple (selects lossy c) (select_out True) (\<lambda>b. books lossy (if b then [c] else []))"
  by (rule triple_pre [OF select_out_again]) (auto simp: selects_def tied_def)

lemma select_out_served: "triple (served lossy []) (select_out False) (\<lambda>b. books lossy (if b then [c] else []))"
  unfolding select_out_def
  by (intro triple_ask triple_if triple_return triple_upd_bind [where R = "books lossy []"])
    (auto simp: served_def owned_def elim!: books_move)

lemma select_fail:
  "triple (chosen lossy c) (do { set_result c v; complete_cmd H c; select_out False }) (\<lambda>b. books lossy (if b then [c] else []))"
  by (rule triple_preserves [OF ch.results(1)], rule triple_bind [OF triple_pre [OF complete_served chosen_served] select_out_served])

lemma select_connect:
  "triple (chosen lossy c) (upd (\<lambda>h. h\<lparr>connected := Some c\<rparr>)) (\<lambda>_. served lossy [])"
proof (rule triple_upd)
  fix h :: "'d host" assume C: "chosen lossy c h"
  then have "room lossy [c] (h\<lparr>selecting := None\<rparr>)"
    using chosen_served [OF C] by (auto simp: room_def served_def books_def chosen_def selects_def tied_def)
  then have "ledger lossy [] (h\<lparr>selecting := None, connected := Some c\<rparr>)"
    using connect_ledger [of lossy c] by (fastforce simp: triple_def upd_def)
  then have "ledger lossy [] (h\<lparr>connected := Some c, selecting := None\<rparr>)"
    by (auto elim!: ledger_move simp: owned_def)
  with C show "served lossy [] (h\<lparr>connected := Some c\<rparr>)"
    by (auto simp: served_def books_def chosen_def selects_def calm_def)
qed

lemma select_identify_books:
  "triple (chosen lossy c) (select_identify H c can) (\<lambda>b. books lossy (if b then [c] else []))"
proof -
  have fail: "triple (chosen lossy c) (do { NCR5380_write H held r w; set_result c v; complete_cmd H c; select_out False })
      (\<lambda>b. books lossy (if b then [c] else []))" for r w v
    by (rule triple_preserves [OF ch.held_io(2) select_fail])
  have conn: "triple (chosen lossy c) (do { upd (\<lambda>h. h\<lparr>connected := Some c\<rparr>); set_busy c; initialize_SCp c; select_out False })
      (\<lambda>b. books lossy (if b then [c] else []))"
    by (rule triple_bind [OF select_connect], rule triple_preserves [OF sv.busy_upds(1)],
        rule triple_preserves [OF sv.sg(1)], rule select_out_served)
  show ?thesis
    unfolding select_identify_def
    by (intro triple_preserves [OF ch.cmd_get] triple_preserves [OF ch.dput] triple_preserves [OF ch.held_io(4)] triple_prod triple_if fail conn)
qed

lemma select_answered_books:
  "triple (selects lossy c) (select_answered H c can) (\<lambda>b. books lossy (if b then [c] else []))"
proof -
  have late: "triple (selects lossy c) (do { NCR5380_write H held r v; select_out True }) (\<lambda>b. books lossy (if b then [c] else []))" for r v
    by (rule triple_preserves [OF se.held_io(2) select_out_True])
  have gone: "triple (selects lossy c) (do { _ \<leftarrow> do_abort H 0; State_Monad.return False }) (\<lambda>b. books lossy (if b then [c] else []))"
    by (rule triple_preserves [OF se.do_abort]) (auto intro: triple_return simp: selects_def)
  have here: "triple (\<lambda>h. selects lossy c h \<and> selecting h = x)
      (if x = None then do { _ \<leftarrow> do_abort H 0; State_Monad.return False } else select_identify H c can)
      (\<lambda>b. books lossy (if b then [c] else []))" for x
    by (rule triple_if) (auto intro: triple_pre [OF gone] triple_pre [OF select_identify_books] simp: chosen_def selects_def tied_def)
  show ?thesis
    unfolding select_answered_def
    by (rule triple_preserves [OF se.dput], (rule triple_preserves [OF select_io(2)] triple_preserves [OF select_io(3)] triple_preserves [OF select_io(5)])+,
        rule triple_if, rule late, rule triple_ask, rule here)
qed


text \<open>A target that reselects us while we select: its command connects, ours is tried again.\<close>

lemma select_reselected_books:
  "triple (selects lossy c) (do { NCR5380_reselect H; select_out True }) (\<lambda>b. books lossy (if b then [c] else []))"
proof -
  have "triple (\<lambda>h. room lossy [] h \<and> calm lossy h \<and> tied True c h) (NCR5380_reselect H)
      (\<lambda>_ h. ledger lossy [] h \<and> calm lossy h \<and> tied True c h)"
    by (intro triple_conj reselect_ledger cm.reselect tl.reselect)
  then have "triple (selects lossy c) (NCR5380_reselect H) (\<lambda>_ h. books lossy [] h \<and> tied True c h)"
    by (rule triple_cons) (auto simp: selects_def books_def tied_def room_def)
  then show ?thesis by (rule triple_bind) (rule select_out_again)
qed

lemma select_won_books:
  "triple (selects lossy c) (select_won H c can) (\<lambda>b. books lossy (if b then [c] else []))"
proof -
  have resel: "triple (selects lossy c) (do { yields H; NCR5380_write H held r v; NCR5380_reselect H; select_out True })
      (\<lambda>b. books lossy (if b then [c] else []))" for r v
    by (rule triple_preserves [OF yields_selects], rule triple_preserves [OF se.held_io(2)], rule select_reselected_books)
  have "triple (\<lambda>h. selects lossy c h \<and> selecting h = x)
      (if x = None then State_Monad.return False else do { set_result c v; complete_cmd H c; select_out False })
      (\<lambda>b. books lossy (if b then [c] else []))" for x v
    by (rule triple_if) (auto intro: triple_return triple_pre [OF select_fail] simp: chosen_def selects_def tied_def)
  then have none: "triple (selects lossy c) (do { yields H; NCR5380_write H held r v; sel \<leftarrow> ask selecting;
      if sel = None then State_Monad.return False else do { set_result c w; complete_cmd H c; select_out False } })
      (\<lambda>b. books lossy (if b then [c] else []))" for r v w
    by (intro triple_preserves [OF yields_selects] triple_preserves [OF se.held_io(2)] triple_ask)
  show ?thesis
    unfolding select_won_def
    by (rule triple_preserves [OF se.ask], rule triple_preserves [OF se.cmd_get],
        (rule triple_preserves [OF select_io(1)] triple_preserves [OF select_io(2)] triple_preserves [OF select_io(3)]
          triple_preserves [OF se.held_io(2)] triple_preserves [OF se.dput])+,
        rule triple_if, rule resel, rule triple_if, rule none, rule select_answered_books)
qed

lemma arbitration_lost_selects: "preserves (selects lossy c) (arbitration_lost H)"
  unfolding arbitration_lost_def by (intro se.prims select_io)

lemma select_arbitrated_books:
  "triple (selects lossy c) (select_arbitrated H c can) (\<lambda>b. books lossy (if b then [c] else []))"
proof -
  have lost: "triple (selects lossy c) (do { NCR5380_write H (yields H) r v; yields H; select_out True }) (\<lambda>b. books lossy (if b then [c] else []))" for r v
    by (rule triple_preserves [OF select_io(2)], rule triple_preserves [OF yields_selects], rule select_out_True)
  have gone: "triple (selects lossy c) (do { NCR5380_write H held r v; NCR5380_write H held r2 v2; State_Monad.return False })
      (\<lambda>b. books lossy (if b then [c] else []))" for r v r2 v2
    by (rule triple_preserves [OF se.held_io(2)], rule triple_preserves [OF se.held_io(2)], rule triple_return) (simp add: selects_def)
  show ?thesis
    unfolding select_arbitrated_def
    by (rule triple_preserves [OF se.dput], rule triple_preserves [OF arbitration_lost_selects], rule triple_if, rule lost,
        rule triple_preserves [OF select_io(2)], rule triple_preserves [OF se.ask], rule triple_preserves [OF se.dput],
        rule triple_preserves [OF yields_selects], rule triple_preserves [OF se.held_io(1)], rule triple_if, rule select_out_True,
        rule triple_preserves [OF se.ask], rule triple_if, rule gone, rule select_won_books)
qed

text \<open>A command picked for selection.\<close>

definition picked :: "bool \<Rightarrow> nat \<Rightarrow> 'd host \<Rightarrow> bool" where
  "picked lossy c h \<longleftrightarrow> books lossy [c] h \<and> tied lossy c h \<and> selecting h = None"

interpretation pk: blind "picked lossy c" for lossy c
  by unfold_locales (simp_all add: picked_def books_def tied_def calm_def ledger_def ledger_of_def queues_def)

lemma select_books: "triple (picked lossy c) (NCR5380_select H c) (\<lambda>b. books lossy (if b then [c] else []))"
proof -
  have gone: "triple (selects lossy c) (do { NCR5380_write H held r v; State_Monad.return False })
      (\<lambda>b. books lossy (if b then [c] else []))" for r v
    by (rule triple_preserves [OF se.held_io(2)], rule triple_return) (simp add: selects_def)
  have late: "triple (selects lossy c) (do { NCR5380_write H held r v; select_out True }) (\<lambda>b. books lossy (if b then [c] else []))" for r v
    by (rule triple_preserves [OF se.held_io(2) select_out_True])
  show ?thesis
    unfolding NCR5380_select_def Let_def
    by (rule triple_preserves [OF pk.ask], rule triple_preserves [OF pk.opcode],
        rule triple_preserves [OF pk.cmd_get],
        rule triple_upd_bind [where R = "selects lossy c"], force simp: picked_def selects_def tied_def owned_def elim!: books_move,
        (rule triple_preserves [OF se.held_io(2)] triple_preserves [OF se.ask] triple_preserves [OF select_io(4)] triple_preserves [OF yields_selects])+,
        rule triple_preserves [OF se.held_io(1)], rule triple_if, rule select_out_True,
        rule triple_preserves [OF se.ask], rule triple_if, rule gone, rule triple_if, rule late, rule select_arbitrated_books)
qed

end
