(* ===== verification/Ncr_Main.thy ===== *)
theory Ncr_Main
  imports Ncr_Sched
begin

text \<open>
  The books of the Linux driver through the main loop: taking the next command and putting it
  back, information transfer, the loop itself.
\<close>

subsection \<open>Taking a command and putting it back\<close>

text \<open>The state in which the driver looks for a command: the bus is free.\<close>

definition at_rest :: "bool \<Rightarrow> nat list \<Rightarrow> 'd host \<Rightarrow> bool" where
  "at_rest lossy hand h \<longleftrightarrow> books lossy hand h \<and> connected h = None \<and> selecting h = None"

interpretation ar: blind "at_rest lossy hand" for lossy hand
  by unfold_locales (simp_all add: at_rest_def books_def calm_def ledger_def ledger_of_def queues_def)

lemma at_rest_move:
  "at_rest lossy hand h \<Longrightarrow> finished h' = finished h \<Longrightarrow> entered h' = entered h \<Longrightarrow> sched h' = sched h \<Longrightarrow>
     connected h' = None \<Longrightarrow> selecting h' = None \<Longrightarrow> mset (hand' @ owned h') = mset (hand @ owned h) \<Longrightarrow> at_rest lossy hand' h'"
  unfolding at_rest_def by (auto intro: books_move simp del: mset_append)

lemma dequeue_unissued:
  "triple (at_rest lossy [])
     (do { x \<leftarrow> ask (\<lambda>h. find (\<lambda>c. \<not> lun_busy h c) (unissued h));
       case x of None \<Rightarrow> State_Monad.return None
       | Some c \<Rightarrow> do { upd (\<lambda>h. h\<lparr>unissued := remove1 c (unissued h)\<rparr>); State_Monad.return (Some c) } })
     (\<lambda>x. at_rest lossy (opt_list x))"
  by (intro triple_ask triple_option triple_return triple_upd_bind [where R = "at_rest lossy [c]" for c])
    (auto simp: find_Some_iff owned_def at_rest_def elim!: books_move)

lemma dequeue_autosense:
  "as \<noteq> [] \<Longrightarrow> triple (\<lambda>h. at_rest lossy [] h \<and> autosense h = as)
     (do { upd (\<lambda>h. h\<lparr>autosense := tl (autosense h)\<rparr>); scsi_eh_prep_cmnd H (hd as);
       upd (\<lambda>h. h\<lparr>sensing := Some (hd as)\<rparr>); State_Monad.return (Some (hd as)) })
     (\<lambda>x. at_rest lossy (opt_list x))"
  by (rule triple_upd_bind [where R = "at_rest lossy [hd as]"], cases as,
      auto simp: owned_def at_rest_def elim!: books_move intro!: triple_preserves [OF ar.eh(1)])
    (auto intro!: triple_upd_bind [where R = "at_rest lossy [hd as]"] triple_return simp: at_rest_def owned_def elim!: books_move)

lemma dequeue_books: "triple (at_rest lossy []) (dequeue_next_cmd H) (\<lambda>x. at_rest lossy (opt_list x))"
  unfolding dequeue_next_cmd_def Let_def
  by (rule triple_preserves [OF ar.ask], rule triple_ask, rule triple_if)
    (auto intro: triple_pre [OF dequeue_unissued] dequeue_autosense)

lemma requeue_books: "triple (books lossy [c]) (requeue_cmd H c) (\<lambda>_. books lossy [])"
proof -
  have "triple (books lossy [c]) (upd (\<lambda>h. h\<lparr>autosense := c # autosense h\<rparr>)) (\<lambda>_. books lossy [])"
    "preserves (books lossy []) (upd (\<lambda>h. h\<lparr>sensing := None\<rparr>))"
    "triple (books lossy [c]) (upd (\<lambda>h. h\<lparr>unissued := c # unissued h\<rparr>)) (\<lambda>_. books lossy [])"
    by (rule triple_upd; force simp: owned_def elim!: books_move)+
  then show ?thesis
    unfolding requeue_cmd_def
    by (intro triple_preserves [OF bs.ask] triple_if triple_preserves [OF bs.eh(2)] triple_bind [where R = "\<lambda>_. books lossy []"])
qed

lemma main_select_books: "preserves (books lossy []) (main_select H)"
proof -
  have attempt: "triple (at_rest lossy [c]) (do { again \<leftarrow> NCR5380_select H c;
      (if again then requeue_cmd H c else State_Monad.return ()); State_Monad.return True }) (\<lambda>_. books lossy [])" for c
    by (rule triple_bind [OF triple_pre [OF select_books]])
      (auto simp: picked_def at_rest_def tied_def intro!: triple_bind [OF requeue_books] triple_return)
  have "triple (at_rest lossy []) (do { x \<leftarrow> dequeue_next_cmd H; case x of None \<Rightarrow> State_Monad.return False
      | Some c \<Rightarrow> do { again \<leftarrow> NCR5380_select H c;
          (if again then requeue_cmd H c else State_Monad.return ()); State_Monad.return True } }) (\<lambda>_. books lossy [])"
    by (rule triple_bind [OF dequeue_books], rule triple_option) (auto intro: attempt triple_return simp: at_rest_def)
  then show ?thesis
    unfolding main_select_def
    by (intro triple_ask triple_if) (auto intro!: triple_return elim!: triple_pre simp: at_rest_def)
qed

subsection \<open>Information transfer\<close>

definition linked :: "bool \<Rightarrow> nat \<Rightarrow> 'd host \<Rightarrow> bool" where
  "linked lossy c h \<longleftrightarrow> books lossy [] h \<and> connected h = Some c"

interpretation li: blind "linked lossy c" for lossy c
  by unfold_locales (simp_all add: linked_def books_def calm_def ledger_def ledger_of_def queues_def)

lemma linked_books: "linked lossy c h \<Longrightarrow> books lossy [] h"
  by (simp add: linked_def)

lemma unlink: "triple (linked lossy c) (upd (\<lambda>h. h\<lparr>connected := None\<rparr>)) (\<lambda>_. books lossy [c])"
  by (rule triple_upd) (auto simp: linked_def owned_def elim!: books_move)

lemma complete_books: "triple (books lossy (c # hand)) (complete_cmd H c) (\<lambda>_. books lossy hand)"
  by (intro triple_books complete_ledger cm.complete_cmd)

lemma bus_reset_books: "preserves (books lossy []) (do { do_reset H; bus_reset_cleanup H })"
  by (intro triple_books preserves_bind led.do_reset cm.do_reset bus_reset_ledger cm.bus_reset)

lemma linked_preserved: "preserves (linked lossy c) m \<Longrightarrow> triple (linked lossy c) m (\<lambda>_. books lossy [])"
  by (erule triple_cons) (auto simp: linked_books)

lemma info_data_books: "triple (linked lossy c) (info_data H c p) (\<lambda>_. books lossy [])"
proof -
  have "preserves (books lossy []) (info_data H c p)"
    unfolding info_data_def Let_def by (intro bs.moves bus_reset_books)
  then show ?thesis by (rule triple_pre) (simp add: linked_books)
qed

lemma info_complete_books: "triple (linked lossy c) (info_complete H c msg) (\<lambda>_. books lossy [])"
proof -
  have queue: "triple (books lossy [c]) (upd (\<lambda>h. h\<lparr>autosense := autosense h @ [c]\<rparr>)) (\<lambda>_. books lossy [])"
    by (rule triple_upd) (auto simp: owned_def elim!: books_move)
  have answer: "triple (books lossy [c]) (if p then complete_cmd H c else if q then upd (\<lambda>h. h\<lparr>autosense := autosense h @ [c]\<rparr>)
      else complete_cmd H c) (\<lambda>_. books lossy [])" for p q
    by (intro triple_if queue complete_books)
  have start: "preserves (linked lossy c) (if b then set_host_byte c v else State_Monad.return ())" for b v
    by (intro li.prims li.results)
  show ?thesis
    unfolding info_complete_def
    by (rule triple_preserves [OF start], rule triple_preserves [OF li.held_io(2)], rule triple_bind [OF unlink],
        rule triple_preserves [OF bs.busy_upds(2)], rule triple_preserves [OF bs.cmd_get], rule triple_preserves [OF bs.results(3)],
        rule triple_preserves [OF bs.sg(3)], rule triple_preserves [OF bs.opcode], rule triple_bind [OF answer], rule bs.held_io(2))
qed

lemma info_extended_books: "preserves (books lossy []) (info_extended H)"
  unfolding info_extended_def
  by (intro bs.moves bs.pio [OF yields_books] bs.reg_write [OF yields_books] yields_books)

lemma info_disconnect_books:
  "triple (linked lossy c) (do { NCR5380_write H held r v; upd (\<lambda>h. h\<lparr>connected := None\<rparr>);
     upd (\<lambda>h. h\<lparr>disconnected := c # disconnected h\<rparr>); NCR5380_write H held r2 v2; State_Monad.return None })
     (\<lambda>_. books lossy [])"
proof -
  have "triple (books lossy [c]) (upd (\<lambda>h. h\<lparr>disconnected := c # disconnected h\<rparr>)) (\<lambda>_. books lossy [])"
    by (rule triple_upd) (auto simp: owned_def elim!: books_move)
  then show ?thesis
    by (intro triple_preserves [OF li.held_io(2)] triple_bind [OF unlink])
      (auto elim!: triple_bind intro!: bs.moves)
qed

lemma info_msgin_books: "triple (linked lossy c) (info_msgin H c msgout sink) (\<lambda>_. books lossy [])"
proof -
  have fin: "triple (linked lossy c) (do { info_complete H c m; State_Monad.return None }) (\<lambda>_. books lossy [])" for m
    by (rule triple_bind [OF info_complete_books]) (rule preserves_return)
  have ext: "triple (linked lossy c) (do { info_extended H; con \<leftarrow> ask connected;
      if con = None then State_Monad.return None else info_reject H sink }) (\<lambda>_. books lossy [])"
    by (rule triple_pre [where P = "books lossy []"])
      (auto intro!: preserves_bind info_extended_books bs.moves simp: linked_books)
  show ?thesis
    unfolding info_msgin_def
    by (rule triple_preserves [OF li.dput], rule triple_preserves [OF li.held_io(4)], rule triple_preserves [OF li.dget])
      (intro triple_if fin ext info_disconnect_books linked_preserved li.moves)
qed

lemma info_msgout_books: "triple (linked lossy c) (info_msgout H c msgout sink) (\<lambda>_. books lossy [])"
proof -
  have "triple (linked lossy c) (do { upd (\<lambda>h. h\<lparr>connected := None\<rparr>); clear_busy c; set_result c v; complete_cmd H c;
      State_Monad.return None }) (\<lambda>_. books lossy [])" for v
    by (rule triple_bind [OF unlink], rule triple_preserves [OF bs.busy_upds(2)], rule triple_preserves [OF bs.results(1)],
        rule triple_bind [OF complete_books], rule preserves_return)
  then show ?thesis
    unfolding info_msgout_def
    by (intro triple_preserves [OF li.field_upds(6)] triple_preserves [OF li.dput] triple_preserves [OF li.held_io(4)] triple_if
        triple_return) (simp_all add: linked_books)
qed

lemma info_phase_books: "triple (linked lossy c) (info_phase H c tmp msgout sink) (\<lambda>_. books lossy [])"
proof -
  have data: "triple (linked lossy c) (do { info_data H c p; State_Monad.return None }) (\<lambda>_. books lossy [])" for p
    by (rule triple_bind [OF info_data_books]) (rule preserves_return)
  have rest: "triple (linked lossy c) (do { m; State_Monad.return x }) (\<lambda>_. books lossy [])" if "preserves (linked lossy c) m" for m x
    by (intro linked_preserved preserves_bind that preserves_return)
  have sinks: "triple (linked lossy c) (do { NCR5380_write H held r v; NCR5380_write H held r2 v2; State_Monad.return x }) (\<lambda>_. books lossy [])"
    "triple (linked lossy c) (State_Monad.return x) (\<lambda>_. books lossy [])" for r v r2 v2 x
    by (intro linked_preserved li.moves)+
  show ?thesis
    unfolding info_phase_def Let_def
    by (intro triple_if sinks data info_msgin_books info_msgout_books rest [OF li.info_moves(2)] rest [OF li.info_moves(3)])
qed

lemma info_idle_books: "preserves (books lossy []) (info_idle H)"
  unfolding info_idle_def
  by (intro bs.prims bs.poll [OF yields_books] yields_books bs.held_io(1) bus_reset_books)

lemma info_round_books: "preserves (books lossy []) (info_round H i)"
proof -
  obtain sinking msgout sink where i: "i = (sinking, msgout, sink)" by (cases i)
  have "triple (\<lambda>h. books lossy [] h \<and> connected h = con) (case con of None \<Rightarrow> State_Monad.return None
      | Some c \<Rightarrow> do { tmp \<leftarrow> NCR5380_read H held STATUS_REG;
          if tmp AND SR_REQ \<noteq> 0 then info_phase H c tmp msgout sink
          else do { info_idle H; State_Monad.return (Some (False, msgout, sink)) } }) (\<lambda>_. books lossy [])" for con
  proof (rule triple_option)
    fix c assume con: "con = Some c"
    have idle: "triple (linked lossy c) (do { info_idle H; State_Monad.return (Some (False, msgout, sink)) }) (\<lambda>_. books lossy [])"
      by (rule triple_pre [OF preserves_bind [OF info_idle_books preserves_return]]) (simp add: linked_books)
    show "triple (\<lambda>h. books lossy [] h \<and> connected h = con) (do { tmp \<leftarrow> NCR5380_read H held STATUS_REG;
          if tmp AND SR_REQ \<noteq> 0 then info_phase H c tmp msgout sink
          else do { info_idle H; State_Monad.return (Some (False, msgout, sink)) } }) (\<lambda>_. books lossy [])"
      unfolding con linked_def [symmetric]
      by (intro triple_preserves [OF li.held_io(1)] triple_if info_phase_books idle)
  qed (auto intro: triple_return)
  then show ?thesis
    unfolding info_round_def i prod.case by (intro triple_if triple_ask) (intro bs.moves)
qed

subsection \<open>The loops\<close>

lemma run_preserved: "preserves I m \<Longrightarrow> I h \<Longrightarrow> I (snd (run_state m h))"
  by (cases "run_state m h") (auto simp: triple_def)

lemma information_transfer_books:
  assumes "NCR5380_information_transfer H h = Some h'" "books lossy [] h"
  shows "books lossy [] h'"
proof (rule c_loop_partial [OF assms(1) [unfolded NCR5380_information_transfer_def], where I = "\<lambda>s. books lossy [] (snd s)"])
  show "books lossy [] (snd s')" if "books lossy [] (snd s)" "info_step H s = Some (Inl s')" for s s'
    using that run_preserved [OF info_round_books that(1), of H "fst s"]
    by (auto simp: info_step_def split: prod.splits option.splits)
  show "books lossy [] r" if "books lossy [] (snd s)" "info_step H s = Some (Inr r)" for s r
    using that run_preserved [OF info_round_books that(1), of H "fst s"]
    by (auto simp: info_step_def split: prod.splits option.splits)
qed (simp add: assms(2))

lemma main_selects_books:
  assumes "main_selects H h = Some h'" "books lossy [] h"
  shows "books lossy [] h'"
proof (rule c_loop_partial [OF assms(1) [unfolded main_selects_def], where I = "books lossy []"])
  show "books lossy [] s'" if "books lossy [] s"
    "(case run_state (main_select H) s of (True, h1) \<Rightarrow> Some (Inl h1) | (False, h1) \<Rightarrow> Some (Inr h1)) = Some (Inl s')" for s s'
    using that run_preserved [OF main_select_books that(1), of H] by (auto split: prod.splits bool.splits)
  show "books lossy [] r" if "books lossy [] s"
    "(case run_state (main_select H) s of (True, h1) \<Rightarrow> Some (Inl h1) | (False, h1) \<Rightarrow> Some (Inr h1)) = Some (Inr r)" for s r
    using that run_preserved [OF main_select_books that(1), of H] by (auto split: prod.splits bool.splits)
qed (simp add: assms(2))

lemma main_round_books:
  assumes "main_round H h = Some x" "books lossy [] h"
  shows "books lossy [] (case x of Inl h' \<Rightarrow> h' | Inr h' \<Rightarrow> h')"
proof -
  have idle: "preserves (books lossy []) (do { main_idle H; yields H })"
    by (intro preserves_bind bs.main_idle yields_books)
  from assms show ?thesis
    by (auto simp: main_round_def bind_eq_Some_conv split: if_splits
        dest!: main_selects_books information_transfer_books simp del: run_state_bind
        intro!: run_preserved [OF idle] run_preserved [OF bs.main_idle])
qed

lemma main_books:
  assumes "NCR5380_main H h = Some h'" "books lossy [] h"
  shows "books lossy [] h'"
  by (rule c_loop_partial [OF assms(1) [unfolded NCR5380_main_def], where I = "books lossy []"])
    (use assms(2) main_round_books in fastforce)+

end
