(* ===== verification/Ncr_Props.thy ===== *)
theory Ncr_Props
  imports Ncr_Main
begin

text \<open>
  What the Linux driver guarantees: its commands are neither lost nor returned twice, an abort
  or a reset makes it forget them, a programmed transfer counts its bytes, polling ends in time.
\<close>

subsection \<open>A board\<close>

text \<open>
  A board for the examples: the device state is the clock. Arbitration is won at once and no
  target ever answers: STATUS reads as 0.
\<close>

definition empty_bus :: "nat ncr_hw" where
  "empty_bus = \<lparr>reg_rd = (\<lambda>r d. (if r = MODE_REG then MR_ARBITRATE else if r = INITIATOR_COMMAND_REG then ICR_ARBITRATION_PROGRESS else 0, d)),
     reg_wr = (\<lambda>r v d. d), mem_rd = (\<lambda>a d. (0x12, d)), mem_wr = (\<lambda>a v d. d), jiffies = (\<lambda>d. d), cpu_relax = (\<lambda>d. d),
     schedule_timeout = Suc, udelay = (\<lambda>n d. d), msleep = (\<lambda>n d. d + n), acquire_dma_irq = (\<lambda>d. (True, d)), release_dma_irq = (\<lambda>d. d),
     dma_xfer_len = (\<lambda>f s d. (0, d)), dma_send_setup = (\<lambda>a n d. (0, d)), dma_recv_setup = (\<lambda>a n d. (0, d)), dma_residual = (\<lambda>d. (0, d)),
     eh_prep = (\<lambda>s d. ((s, []), d)), eh_restore = (\<lambda>z s d. (s, d)), alloc_workqueue = (\<lambda>d. (True, d)), msecs_to_jiffies = (\<lambda>n. 1), HZ = 1,
     disconnect_mask = 0, tmp_at = 0x100, ext_at = 0x200, REQUEST_SENSE = 3, DID_BAD_TARGET = 4, DID_ERROR = 7, DID_ABORT = 5, DID_RESET = 8,
     SAM_STAT_GOOD = 0, SAM_STAT_CHECK_CONDITION = 2, SAM_STAT_COMMAND_TERMINATED = 0x22\<rparr>"

definition plain_cmd :: scsi_cmnd where
  "plain_cmd = \<lparr>scmd_id = 3, lun = 0, cmnd = 0x300, cmd_len = 6, bufflen = 0, sglist = [], host_byte = 0, status_byte = 0,
     resid = 0, ptr = 0, this_residual = 0, buffer = [], status = 0, phase = 0\<rparr>"

definition new_host :: "'d \<Rightarrow> nat list \<Rightarrow> other list list \<Rightarrow> 'd host" where
  "new_host d cs s = \<lparr>connected = None, disconnected = [], unissued = cs, selecting = None, autosense = [], sensing = None, ses = [],
     busy = (\<lambda>_. 0), id_mask = 0x80, id_higher_mask = 0, last_message = 0, flags = 0, dma_len = 0, read_overruns = 0, poll_loops = 0,
     has_irq = True, cmds = (\<lambda>_. plain_cmd), borken = (\<lambda>_. False), simple_tags = (\<lambda>_. False), entered = cs, finished = [],
     work = False, sched = s, dev = d\<rparr>"

subsection \<open>The books\<close>

lemma books_iff:
  "books lossy [] h \<longleftrightarrow> held_back lossy (mset (owned h) + mset (map fst (finished h))) (mset (entered h)) \<and> distinct (owned h) \<and> calm lossy h"
  by (simp add: books_def ledger_def ledger_of_def all_of_queues)

text \<open>C1: For every board and every schedule of calls of the mid-layer, a run of the main loop keeps
  the books: each command accepted is held once or has been handed back, once for each time it
  was accepted.
\<close>

theorem main_conserves:
  assumes "NCR5380_main H h = Some h'" "no_intr (sched h)" "distinct (owned h)"
    and "mset (owned h) + mset (map fst (finished h)) = mset (entered h)"
  shows "mset (owned h') + mset (map fst (finished h')) = mset (entered h') \<and> distinct (owned h')"
  using main_books [OF assms(1), of False] assms(2-4) by (simp add: books_iff held_back_def calm_def)

text \<open>A run: command 1 is aborted while it is selected, commands 2 and 5 find no target.\<close>

lemma busy_run:
  "map_option finished (NCR5380_main empty_bus (new_host 0 [1, 2] [[], [Queue_command 5], [Abort 1]])) =
     Some [(1, 5, 0), (2, 4, 0), (5, 4, 0)]"
  by code_simp

lemma new_host_books: "owned (new_host d cs s) = cs" "finished (new_host d cs s) = []" "entered (new_host d cs s) = cs" "sched (new_host d cs s) = s"
  by (simp_all add: new_host_def owned_def)

theorem main_conserves_witness:
  "\<exists>h'. NCR5380_main empty_bus (new_host 0 [1, 2] [[], [Queue_command 5], [Abort 1]]) = Some h' \<and>
     finished h' = [(1, 5, 0), (2, 4, 0), (5, 4, 0)] \<and>
     mset (owned h') + mset (map fst (finished h')) = mset (entered h') \<and> distinct (owned h')"
proof -
  obtain h' where h': "NCR5380_main empty_bus (new_host 0 [1, 2] [[], [Queue_command 5], [Abort 1]]) = Some h'"
    and f: "finished h' = [(1, 5, 0), (2, 4, 0), (5, 4, 0)]" using busy_run by auto
  show ?thesis
    using h' f main_conserves [OF h'] by (simp add: new_host_books no_intr_def)
qed

text \<open>C12: For every board and every schedule, interrupts included, the main loop makes nothing up: a
  command is not held twice, and is held or handed back at most as often as it was accepted.
\<close>

theorem main_invents_nothing:
  assumes "NCR5380_main H h = Some h'" "distinct (owned h)"
    and "mset (owned h) + mset (map fst (finished h)) \<subseteq># mset (entered h)"
  shows "mset (owned h') + mset (map fst (finished h')) \<subseteq># mset (entered h') \<and> distinct (owned h')"
  using main_books [OF assms(1), of True] assms(2-3) by (simp add: books_iff held_back_def calm_def)

lemma intr_run:
  "map_option finished (NCR5380_main empty_bus (new_host 0 [1] [[Intr], [Queue_command 5, Intr]])) = Some [(1, 4, 0), (5, 4, 0)]"
  by code_simp

theorem main_invents_nothing_witness:
  "\<exists>h'. NCR5380_main empty_bus (new_host 0 [1] [[Intr], [Queue_command 5, Intr]]) = Some h' \<and>
     mset (owned h') + mset (map fst (finished h')) \<subseteq># mset (entered h') \<and> distinct (owned h')"
proof -
  obtain h' where h': "NCR5380_main empty_bus (new_host 0 [1] [[Intr], [Queue_command 5, Intr]]) = Some h'" using intr_run by auto
  show ?thesis
    using h' main_invents_nothing [OF h'] by (simp add: new_host_books)
qed

text \<open>C10: The routines that hold the lock (queueing, aborting, resetting the host and the interrupt
  handler), in any order and on any board, lose nothing and hand nothing back twice.
\<close>

theorem entry_points_conserve:
  assumes "run_state (run_others H xs) h = (u, h')" "distinct (owned h)"
    and "mset (owned h) + mset (map fst (finished h)) = mset (entered h)"
  shows "mset (owned h') + mset (map fst (finished h')) = mset (entered h') \<and> distinct (owned h')"
proof -
  have "ledger False [] h" using assms(2,3) by (simp add: ledger_def ledger_of_def all_of_queues held_back_def)
  then have "ledger False [] h'"
    using tripleD [OF run_others_preserves [OF run_other_ledger] _ assms(1)] by blast
  then show ?thesis by (simp add: ledger_def ledger_of_def all_of_queues held_back_def)
qed

theorem entry_points_conserve_witness:
  "\<exists>h'. run_state (run_others empty_bus [Queue_command 4, Intr, Abort 4, Host_reset]) (new_host 0 [1] []) = ((), h') \<and>
     mset (owned h') + mset (map fst (finished h')) = mset (entered h') \<and> distinct (owned h')"
  using entry_points_conserve [of empty_bus "[Queue_command 4, Intr, Abort 4, Host_reset]" "new_host 0 [1] []" "()"]
  by (metis new_host_books(1-3) run_unit add_0_right distinct_singleton list.map_disc_iff mset_zero_iff)

subsection \<open>Forgetting commands\<close>

interpretation ent: frame "\<lambda>h. entered h = e" for e
  by unfold_locales simp_all

lemma bus_reset_busy: "triple (\<lambda>_. True) (bus_reset_cleanup H) (\<lambda>_ h. busy h = (\<lambda>_. 0))"
  unfolding bus_reset_cleanup_def queue_work_def
  by (rule triple_skip, rule triple_skip, rule triple_skip, rule triple_skip, rule triple_skip, rule triple_skip, rule triple_skip,
      rule triple_upd_bind [where R = "\<lambda>h. busy h = (\<lambda>_. 0)"], simp,
      rule triple_upd_bind [where R = "\<lambda>h. busy h = (\<lambda>_. 0)"], simp, rule triple_upd, simp)

lemma host_reset_busy: "triple (\<lambda>_. True) (NCR5380_host_reset H) (\<lambda>_ h. busy h = (\<lambda>_. 0))"
  unfolding NCR5380_host_reset_def
  by (rule triple_skip, rule triple_skip, rule triple_bind [OF bus_reset_busy], rule triple_return)

lemma queues_exhaust: obtains un dis au sel con where "queues h = (un, dis, au, sel, con)"
  by (metis surj_pair)

text \<open>C27: A host reset hands back every command the driver holds, each of them once, and leaves every
  LUN free.
\<close>

theorem host_reset_returns_all:
  assumes "run_state (NCR5380_host_reset H) h = (ok, h')" "distinct (owned h)"
    and "mset (owned h) + mset (map fst (finished h)) = mset (entered h)"
  shows "owned h' = [] \<and> mset (map fst (finished h')) = mset (map fst (finished h)) + mset (owned h) \<and> busy h' = (\<lambda>_. 0)"
proof -
  obtain un dis au sel con where q: "queues h = (un, dis, au, sel, con)" by (rule queues_exhaust)
  have "booked False [] (un, dis, au, sel, con) (un, dis, au, sel, con) h"
    using assms(2,3) unfolding all_of_queues [symmetric] q by (simp add: booked_def ledger_of_def held_back_def q)
  then have "booked False [] ([], [], [], None, None) ([], [], [], None, None) h'"
    using tripleD [OF host_reset_books _ assms(1)] by blast
  then have "owned h' = []" "mset (map fst (finished h')) = mset (entered h')"
    unfolding all_of_queues [symmetric] by (auto simp: booked_def ledger_of_def held_back_def)
  moreover have "entered h' = entered h" using tripleD [OF ent.host_reset refl assms(1)] .
  moreover have "busy h' = (\<lambda>_. 0)" using tripleD [OF host_reset_busy TrueI assms(1)] .
  ultimately show ?thesis using assms(3) by (metis add.commute)
qed

lemma reset_run:
  "finished (snd (run_state (NCR5380_host_reset empty_bus) ((new_host 0 [1, 2] [])\<lparr>connected := Some 7, entered := [1, 2, 7]\<rparr>))) =
     [(1, 8, 0), (2, 8, 0), (7, 8, 0)]"
  by code_simp

theorem host_reset_returns_all_witness:
  "let h = (new_host 0 [1, 2] [])\<lparr>connected := Some 7, entered := [1, 2, 7]\<rparr>; h' = snd (run_state (NCR5380_host_reset empty_bus) h)
   in finished h' = [(1, 8, 0), (2, 8, 0), (7, 8, 0)] \<and> owned h' = [] \<and>
     mset (map fst (finished h')) = mset (map fst (finished h)) + mset (owned h) \<and> busy h' = (\<lambda>_. 0)"
proof -
  let ?h = "(new_host 0 [1, 2] [])\<lparr>connected := Some 7, entered := [1, 2, 7]\<rparr>"
  have own: "owned ?h = [1, 2, 7]" "finished ?h = []" "entered ?h = [1, 2, 7]" by (simp_all add: new_host_def owned_def)
  have "distinct (owned ?h)" "mset (owned ?h) + mset (map fst (finished ?h)) = mset (entered ?h)"
    unfolding own by simp_all
  from host_reset_returns_all [OF prod.collapse [symmetric] this, of empty_bus] reset_run show ?thesis
    unfolding Let_def by simp
qed

text \<open>An abort: where the command is found it is taken out, and only it.\<close>

definition own :: "nat list \<Rightarrow> 'd host \<Rightarrow> bool" where "own xs h \<longleftrightarrow> owned h = xs"

interpretation ow: blind "own xs" for xs
  by unfold_locales (simp_all add: own_def owned_def)

lemma own_done: "preserves (own xs) (scsi_done c)" "preserves (own xs) (complete_cmd H c)"
proof -
  show D: "preserves (own xs) (scsi_done c)" unfolding scsi_done_def by (rule triple_upd) (simp add: own_def owned_def)
  show "preserves (own xs) (complete_cmd H c)"
    unfolding complete_cmd_def end_sensing_def
    by (intro ow.moves D triple_upd) (simp add: own_def owned_def)
qed

lemma list_del_own:
  assumes "distinct L"
  shows "triple (\<lambda>h. own L h \<and> P h) (list_del_cmd unissued unissued_update c)
      (\<lambda>b h. if b then own (removeAll c L) h else own L h \<and> P h \<and> c \<notin> set (unissued h))"
    "triple (\<lambda>h. own L h \<and> P h) (list_del_cmd disconnected disconnected_update c)
      (\<lambda>b h. if b then own (removeAll c L) h else own L h \<and> P h \<and> c \<notin> set (disconnected h))"
    "triple (\<lambda>h. own L h \<and> P h) (list_del_cmd autosense autosense_update c)
      (\<lambda>b h. if b then own (removeAll c L) h else own L h \<and> P h \<and> c \<notin> set (autosense h))"
  unfolding list_del_cmd_def list_find_cmd_def
  by (intro triple_ask triple_if triple_upd_bind [where R = "own (removeAll c L)"] triple_return;
      use assms in \<open>force simp: own_def owned_def distinct_remove1_removeAll\<close>)+

text \<open>A search that either takes the command out or goes on.\<close>

lemma triple_search:
  assumes "triple P m (\<lambda>b h. if b then A h else B h)" "triple A n Q" "triple B k Q"
  shows "triple P (State_Monad.bind m (\<lambda>b. if b then n else k)) Q"
proof (rule triple_bind [OF assms(1)])
  fix b show "triple (\<lambda>h. if b then A h else B h) (if b then n else k) Q" using assms(2,3) by (cases b) auto
qed

lemma own_answer:
  "preserves (own xs) (do { set_result c v; scsi_done c; State_Monad.return b })"
  "preserves (own xs) (do { set_result c v; complete_cmd H c; State_Monad.return b })"
  "preserves (own xs) (do { set_host_byte c v; complete_cmd H c; State_Monad.return b })"
  by (intro ow.moves own_done)+

lemma abort_selecting_own:
  "distinct L \<Longrightarrow> triple (\<lambda>h. (own L h \<and> P h) \<and> selecting h = Some c)
     (do { upd (\<lambda>h. h\<lparr>selecting := None\<rparr>); set_result c v; complete_cmd H c; State_Monad.return True })
     (\<lambda>_. own (removeAll c L))"
  by (rule triple_upd_bind [where R = "own (removeAll c L)"], force simp: own_def owned_def, rule own_answer)

lemma abort_connected_own:
  "distinct L \<Longrightarrow> triple (\<lambda>h. (own L h \<and> P h) \<and> connected h = Some c) (abort_connected H c) (\<lambda>_. own (removeAll c L))"
  unfolding abort_connected_def
  by (rule triple_upd_bind [where R = "own (removeAll c L)"], force simp: own_def owned_def)
    (intro triple_preserves [OF ow.field_upds(1)] triple_preserves [OF ow.do_abort] triple_if own_answer)

lemma triple_differs:
  assumes "triple (\<lambda>h. P h \<and> f h = v) m Q" "triple (\<lambda>h. P h \<and> f h \<noteq> v) n Q"
  shows "triple P (State_Monad.bind (ask f) (\<lambda>x. if x = v then m else n)) Q"
  by (rule triple_ask, rule triple_if) (use assms in \<open>auto elim!: triple_pre\<close>)

lemma own_miss:
  "own L h \<Longrightarrow> c \<notin> set (unissued h) \<Longrightarrow> selecting h \<noteq> Some c \<Longrightarrow> c \<notin> set (disconnected h) \<Longrightarrow> connected h \<noteq> Some c \<Longrightarrow>
     c \<notin> set (autosense h) \<Longrightarrow> own (removeAll c L) h"
  by (auto simp: own_def owned_def)

lemma abort_sensed_own:
  assumes "distinct L"
  shows "triple (\<lambda>h. own L h \<and> c \<notin> set (unissued h) \<and> selecting h \<noteq> Some c \<and> c \<notin> set (disconnected h) \<and> connected h \<noteq> Some c)
      (do { as \<leftarrow> list_del_cmd autosense autosense_update c;
        (if as then complete_cmd H c else State_Monad.return ()); State_Monad.return True }) (\<lambda>_. own (removeAll c L))"
proof (rule triple_bind [OF list_del_own(3) [OF assms]])
  fix as
  show "triple (\<lambda>h. if as then own (removeAll c L) h else own L h \<and> (c \<notin> set (unissued h) \<and> selecting h \<noteq> Some c \<and>
      c \<notin> set (disconnected h) \<and> connected h \<noteq> Some c) \<and> c \<notin> set (autosense h))
      (do { (if as then complete_cmd H c else State_Monad.return ()); State_Monad.return True }) (\<lambda>_. own (removeAll c L))"
    by (cases as) (auto intro!: triple_bind [OF own_done(2)] triple_return intro: own_miss)
qed

lemma abort_search_own:
  assumes "distinct L"
  shows "triple (own L) (abort_search H c) (\<lambda>_. own (removeAll c L))"
proof -
  note del = list_del_own(1) [OF assms] list_del_own(2) [OF assms, where c = c and P = "\<lambda>h. c \<notin> set (unissued h) \<and> selecting h \<noteq> Some c"]
  have "triple (\<lambda>h. own L h \<and> True) (abort_search H c) (\<lambda>_. own (removeAll c L))"
    unfolding abort_search_def
    by (rule triple_search [OF del(1) own_answer(1)], rule triple_differs, rule abort_selecting_own [OF assms],
        rule triple_pre, rule triple_search [OF del(2) own_answer(3)], rule triple_differs, rule abort_connected_own [OF assms],
        rule triple_pre [OF abort_sensed_own [OF assms]]) (auto simp: conj_ac)
  then show ?thesis by simp
qed

text \<open>C28: After an abort, successful or not, the driver holds every command it held before but the aborted
  one.
\<close>

theorem abort_forgets:
  assumes "run_state (NCR5380_abort H c) h = (ok, h')" "distinct (owned h)"
  shows "owned h' = removeAll c (owned h)"
proof -
  have "triple (own (owned h)) (NCR5380_abort H c) (\<lambda>_. own (removeAll c (owned h)))"
    unfolding NCR5380_abort_def
    by (rule triple_bind [OF abort_search_own [OF assms(2)]]) (intro ow.moves)
  from tripleD [OF this _ assms(1)] show ?thesis by (simp add: own_def)
qed

theorem abort_forgets_witness:
  "owned (snd (run_state (NCR5380_abort empty_bus 2) (new_host 0 [1, 2, 3] []))) = [1, 3]"
proof -
  have "distinct (owned (new_host 0 [1, 2, 3] []))" by (simp add: new_host_books)
  from abort_forgets [OF prod.collapse [symmetric] this, of empty_bus 2] show ?thesis by (simp add: new_host_books)
qed

end
