(* ===== verification/Ncr_Pio.thy ===== *)
theory Ncr_Pio
  imports Ncr_Props
begin

text \<open>
  The programmed transfer of the Linux driver counts its bytes, and so does the data phase; a
  count of 0 is not an empty transfer. The masks of arbitration.
\<close>

subsection \<open>Counting bytes\<close>

lemma triple_fact: "(\<And>x. triple (\<lambda>_. A) (f x) Q) \<Longrightarrow> triple (\<lambda>_. A) (State_Monad.bind m f) Q"
  by (rule triple_bind [where R = "\<lambda>_ _. A"]) (auto simp: triple_def split: prod.splits)

lemma pio_round_step:
  "triple (\<lambda>_. True) (pio_round H y p can c d) (\<lambda>(more, d') _. if more then d' = d + 1 else d' = d \<or> d' = d + 1)"
  unfolding pio_round_def by (intro triple_skip triple_if triple_return) auto

text \<open>The count and the pointer after a transfer of \<open>n\<close> bytes from \<open>data\<close> on.\<close>

definition counted :: "int \<Rightarrow> u32 \<Rightarrow> int \<Rightarrow> u32 \<Rightarrow> bool" where
  "counted n data c d \<longleftrightarrow>
     0 \<le> c \<and> c \<le> n \<and> (d = data + word_of_int (n - c) \<or> 0 < c \<and> d = data + word_of_int (n - c + 1))"

lemma counted_step: "counted (n - 1) (data + 1) c d \<Longrightarrow> counted n data c d"
proof -
  have "word_of_int (n - c) = (1 :: u32) + word_of_int (n - 1 - c)" by (simp add: of_int_diff)
  then show "counted (n - 1) (data + 1) c d \<Longrightarrow> counted n data c d"
    by (auto simp: counted_def of_int_diff algebra_simps)
qed

lemma pio_loop_counts:
  "nat c = n \<Longrightarrow> 0 < c \<Longrightarrow> triple (\<lambda>_. True) (pio_loop H y p can n c d) (\<lambda>(c', d') _. counted c d c' d')"
proof (induction n arbitrary: c d)
  case 0
  then show ?case by simp
next
  case (Suc n)
  show ?case unfolding pio_loop.simps
  proof (rule triple_bind [OF pio_round_step], clarify)
    fix more d1
    consider (stop) "\<not> more" | (final) "more" "c = 1" | (again) "more" "c > 1" using Suc.prems by linarith
    then show "triple (\<lambda>_. if more then d1 = d + 1 else d1 = d \<or> d1 = d + 1)
        (if \<not> more then State_Monad.return (c, d1) else if dec32 c = 0 then State_Monad.return (0, d1)
         else pio_loop H y p can n (dec32 c) d1) (\<lambda>(c', d') _. counted c d c' d')"
    proof cases
      case again
      then have "nat (c - 1) = n" "0 < c - 1" "dec32 c = c - 1" using Suc.prems by (auto simp: dec32_def)
      with again Suc.IH [of "c - 1" "d + 1"] show ?thesis by (auto simp: triple_def dest: counted_step split: prod.splits)
    qed (use Suc.prems in \<open>auto intro!: triple_return simp: dec32_def counted_def\<close>)
  qed
qed

lemma transfer_pio_counted:
  "0 < n \<Longrightarrow> triple (\<lambda>_. True) (NCR5380_transfer_pio H y p n data can) (\<lambda>(_, c, d) _. counted n data c d)"
  unfolding NCR5380_transfer_pio_def
  by (rule triple_skip, rule triple_bind [OF pio_loop_counts])
    (auto simp: pio_rounds_def intro!: triple_prod triple_fact triple_return)

text \<open>C29: On any board a programmed transfer of \<open>n > 0\<close> bytes leaves a count between 0 and \<open>n\<close>, and the
  data pointer has moved by the bytes counted, or by one more when the target did not complete the
  handshake of a byte it was given.
\<close>

theorem transfer_pio_counts:
  assumes "run_state (NCR5380_transfer_pio H y p n data can) h = ((ph, c, d), h')" "0 < n"
  shows "0 \<le> c \<and> c \<le> n \<and> (d = data + word_of_int (n - c) \<or> 0 < c \<and> d = data + word_of_int (n - c + 1))"
  using tripleD [OF transfer_pio_counted [OF assms(2)] TrueI assms(1)] by (simp add: counted_def)

text \<open>A target on the bus for the examples: it always has another byte, and handshakes it.\<close>

definition endless :: "byte \<Rightarrow> bool ncr_hw" where
  "endless ph = \<lparr>reg_rd = (\<lambda>r d. (if r = STATUS_REG then (if d then SR_BSY OR ph else SR_REQ OR SR_BSY OR ph) else 0xa5, d)),
     reg_wr = (\<lambda>r v d. if r = INITIATOR_COMMAND_REG then v AND ICR_ASSERT_ACK \<noteq> 0 else d),
     mem_rd = (\<lambda>a d. (0, d)), mem_wr = (\<lambda>a v d. d), jiffies = (\<lambda>d. 0), cpu_relax = (\<lambda>d. d),
     schedule_timeout = (\<lambda>d. d), udelay = (\<lambda>n d. d), msleep = (\<lambda>n d. d), acquire_dma_irq = (\<lambda>d. (True, d)), release_dma_irq = (\<lambda>d. d),
     dma_xfer_len = (\<lambda>f s d. (0, d)), dma_send_setup = (\<lambda>a n d. (0, d)), dma_recv_setup = (\<lambda>a n d. (0, d)), dma_residual = (\<lambda>d. (0, d)),
     eh_prep = (\<lambda>s d. ((s, []), d)), eh_restore = (\<lambda>z s d. (s, d)), alloc_workqueue = (\<lambda>d. (True, d)), msecs_to_jiffies = (\<lambda>n. 1), HZ = 1,
     disconnect_mask = 0, tmp_at = 0x100, ext_at = 0x200, REQUEST_SENSE = 3, DID_BAD_TARGET = 4, DID_ERROR = 7, DID_ABORT = 5, DID_RESET = 8,
     SAM_STAT_GOOD = 0, SAM_STAT_CHECK_CONDITION = 2, SAM_STAT_COMMAND_TERMINATED = 0x22\<rparr>"

lemma endless_run:
  "fst (run_state (NCR5380_transfer_pio (endless PHASE_DATAIN) held PHASE_DATAIN 3 0x1000 0) (new_host False [] [])) = (PHASE_DATAIN, 0, 0x1003)"
  by code_simp

theorem transfer_pio_counts_witness:
  "\<exists>h'. run_state (NCR5380_transfer_pio (endless PHASE_DATAIN) held PHASE_DATAIN 3 0x1000 0) (new_host False [] [])
       = ((PHASE_DATAIN, 0, 0x1003), h') \<and> (0x1003 :: u32) = 0x1000 + word_of_int (3 - 0)"
proof -
  obtain h' where h': "run_state (NCR5380_transfer_pio (endless PHASE_DATAIN) held PHASE_DATAIN 3 0x1000 0) (new_host False [] [])
      = ((PHASE_DATAIN, 0, 0x1003), h')"
    using endless_run by (metis prod.collapse)
  have "(0x1003 :: u32) = 0x1000 + word_of_int (3 - 0)" using transfer_pio_counts [OF h'] by linarith
  with h' show ?thesis by blast
qed

subsection \<open>The data phase\<close>

interpretation cm_c: dev_blind "\<lambda>h. cmds h c = s" for c s
  by unfold_locales simp

lemma sg_advanced_same [simp]: "scmd_id (sg_advanced s) = scmd_id s" "lun (sg_advanced s) = lun s"
  by (auto simp: sg_advanced_def split: list.splits)

text \<open>Moving to the next entry of the list keeps the room that is left.\<close>

lemma sg_advanced_rest [simp]: "sg_rest (sg_advanced s) = sg_rest s"
  by (auto simp: sg_advanced_def sg_rest_def split: list.splits)

lemma data_pio:
  assumes "0 < this_residual s"
  shows "triple (\<lambda>h. cmds h c = s)
     (do { (_, len, d) \<leftarrow> NCR5380_transfer_pio H held p (min (this_residual s) 256) (ptr s) 0;
       cmd_upd c (\<lambda>s'. s'\<lparr>ptr := d, this_residual := this_residual s' - (min (this_residual s) 256 - len)\<rparr>) })
     (\<lambda>_ h. \<exists>n. 0 \<le> n \<and> n \<le> min (this_residual s) 256 \<and> this_residual (cmds h c) = this_residual s - n \<and>
        sg_rest (cmds h c) = sg_rest s - n \<and>
        (ptr (cmds h c) = ptr s + word_of_int n \<or> n < this_residual s \<and> ptr (cmds h c) = ptr s + word_of_int (n + 1)))"
proof -
  have "triple (\<lambda>h. cmds h c = s \<and> True) (NCR5380_transfer_pio H held p (min (this_residual s) 256) (ptr s) 0)
      (\<lambda>x h. cmds h c = s \<and> (\<lambda>(_, len, d) _. counted (min (this_residual s) 256) (ptr s) len d) x h)"
    by (rule triple_conj, rule cm_c.held_io(4), rule transfer_pio_counted) (use assms in simp)
  then have "triple (\<lambda>h. cmds h c = s) (NCR5380_transfer_pio H held p (min (this_residual s) 256) (ptr s) 0)
      (\<lambda>x h. cmds h c = s \<and> (case x of (_, len, d) \<Rightarrow> counted (min (this_residual s) 256) (ptr s) len d))"
    by (rule triple_cons) (auto split: prod.splits)
  then show ?thesis
  proof (rule triple_bind, clarify)
    fix ph len d
    show "triple (\<lambda>h. cmds h c = s \<and> counted (min (this_residual s) 256) (ptr s) len d)
       (cmd_upd c (\<lambda>s'. s'\<lparr>ptr := d, this_residual := this_residual s' - (min (this_residual s) 256 - len)\<rparr>))
       (\<lambda>_ h. \<exists>n. 0 \<le> n \<and> n \<le> min (this_residual s) 256 \<and> this_residual (cmds h c) = this_residual s - n \<and>
          sg_rest (cmds h c) = sg_rest s - n \<and>
          (ptr (cmds h c) = ptr s + word_of_int n \<or> n < this_residual s \<and> ptr (cmds h c) = ptr s + word_of_int (n + 1)))"
      unfolding cmd_upd_def
      by (rule triple_upd, rule exI [where x = "min (this_residual s) 256 - len"]) (auto simp: counted_def sg_rest_def)
  qed
qed

text \<open>C30: A programmed data phase (one without DMA, because the target does not cope with it or because the board
  offers none for this transfer), entered with room left in the current entry of the scatter-gather list once
  an empty entry has been stepped over, moves at most 256 bytes and never more than that entry has room
  for; what is left of the list, from which the mid-layer is told the residual, goes down by exactly the bytes
  counted, and the pointer has moved by them, or by one more after a broken handshake.
\<close>

theorem data_phase_counts:
  assumes "run_state (info_data H c p) h = (u, h')" and "s = sg_advanced (cmds h c)" "0 < this_residual s"
    and "borken h (scmd_id s, lun s) \<or> fst (dma_xfer_len H (flags h) s (dev h)) \<le> 0"
  shows "\<exists>n. 0 \<le> n \<and> n \<le> min (this_residual s) 256 \<and> this_residual (cmds h' c) = this_residual s - n \<and>
     sg_rest (cmds h' c) = sg_rest (cmds h c) - n \<and>
     (ptr (cmds h' c) = ptr s + word_of_int n \<or> n < this_residual s \<and> ptr (cmds h' c) = ptr s + word_of_int (n + 1))"
proof -
  let ?h = "h\<lparr>cmds := (cmds h)(c := s)\<rparr>"
  let ?d = "if borken h (scmd_id s, lun s) then dev h else snd (dma_xfer_len H (flags h) s (dev h))"
  have "run_state (info_data H c p) h = run_state (do {
      (_, len, d) \<leftarrow> NCR5380_transfer_pio H held p (min (this_residual s) 256) (ptr s) 0;
      cmd_upd c (\<lambda>s'. s'\<lparr>ptr := d, this_residual := this_residual s' - (min (this_residual s) 256 - len)\<rparr>) }) (?h\<lparr>dev := ?d\<rparr>)"
    using assms(2,4) unfolding info_data_def
    by (cases "borken h (scmd_id s, lun s)"; cases "dma_xfer_len H (flags h) s (dev h)";
        simp add: advance_sg_buffer_def cmd_upd_def upd_def cmd_get_def ask_def dget_def Let_def del: fun_upd_apply; simp add: Let_def cmd_upd_def upd_def)
  from tripleD [OF data_pio [OF assms(3), of c H p] _ this [symmetric, unfolded assms(1)]] assms(2) show ?thesis by simp
qed

definition reader :: "bool host" where
  "reader = (new_host False [] [])\<lparr>connected := Some 1,
     cmds := (\<lambda>_. plain_cmd\<lparr>bufflen := 12, sglist := [(0x1000, 5), (0x2000, 7)], buffer := [(0x1000, 5), (0x2000, 7)],
       ptr := 0x1005, this_residual := 0\<rparr>)\<rparr>"

theorem data_phase_counts_witness:
  "\<exists>n. 0 \<le> n \<and> n \<le> 7 \<and>
     sg_rest (cmds (snd (run_state (info_data (endless PHASE_DATAIN) 1 PHASE_DATAIN) reader)) 1) = 7 - n"
proof -
  have s: "this_residual (sg_advanced (cmds reader 1)) = 7" "sg_rest (cmds reader 1) = 7" "\<not> borken reader (scmd_id (cmds reader 1), lun (cmds reader 1))"
    "fst (dma_xfer_len (endless PHASE_DATAIN) (flags reader) (sg_advanced (cmds reader 1)) (dev reader)) \<le> 0"
    by (simp_all add: reader_def sg_advanced_def sg_rest_def endless_def new_host_def)
  from data_phase_counts [OF prod.collapse [symmetric] refl, of reader 1 "endless PHASE_DATAIN" PHASE_DATAIN] s show ?thesis by auto
qed

subsection \<open>A count of nothing\<close>

text \<open>The count after \<open>k\<close> rounds from 0, as an \<open>int\<close> of 32 bits.\<close>

definition below_zero :: "nat \<Rightarrow> int" where
  "below_zero k = (if k \<le> 2 ^ 31 then - int k else 2 ^ 32 - int k)"

lemma dec32_below_zero: "k < 2 ^ 32 \<Longrightarrow> dec32 (below_zero k) = (if Suc k = 2 ^ 32 then 0 else below_zero (Suc k))"
  by (auto simp: dec32_def below_zero_def)

lemma pio_loop_below_zero:
  assumes go: "\<And>k c d h. k < m \<Longrightarrow> J k h \<Longrightarrow>
      fst (run_state (pio_round H y p can c d) h) = (True, d + 1) \<and> J (Suc k) (snd (run_state (pio_round H y p can c d) h))"
    and stop: "\<And>c d h. J m h \<Longrightarrow> fst (run_state (pio_round H y p can c d) h) = (False, d) \<and> J m (snd (run_state (pio_round H y p can c d) h))"
    and m: "m < 2 ^ 32"
  shows "k \<le> m \<Longrightarrow> J k h \<Longrightarrow> \<exists>h'. run_state (pio_loop H y p can (2 ^ 32 - k) (below_zero k) d) h = ((below_zero m, d + word_of_nat (m - k)), h') \<and> J m h'"
proof (induction "m - k" arbitrary: k d h)
  case 0
  then have "k = m" by simp
  obtain n where n: "2 ^ 32 - k = Suc n" using 0 m by (metis Suc_diff_Suc le_less_trans)
  from stop [of h "below_zero m" d] 0 \<open>k = m\<close> obtain h' where "run_state (pio_round H y p can (below_zero m) d) h = ((False, d), h')" "J m h'"
    by (metis prod.collapse)
  then show ?case unfolding n by (simp add: \<open>k = m\<close>)
next
  case (Suc x)
  then have k: "k < m" by simp
  have n: "2 ^ 32 - k = Suc (2 ^ 32 - Suc k)" using k m by simp
  from go [OF k Suc.prems(2), of "below_zero k" d] obtain h1
    where r: "run_state (pio_round H y p can (below_zero k) d) h = ((True, d + 1), h1)" and J: "J (Suc k) h1" by (metis prod.collapse)
  have dec: "dec32 (below_zero k) = below_zero (Suc k)" "below_zero (Suc k) \<noteq> 0"
    using dec32_below_zero [of k] k m by (auto simp: below_zero_def)
  have "x = m - Suc k" using Suc.hyps(2) by simp
  from Suc.hyps(1) [OF this Suc_leI [OF k] J, of "d + 1"] obtain h'
    where "run_state (pio_loop H y p can (2 ^ 32 - Suc k) (below_zero (Suc k)) (d + 1)) h1 = ((below_zero m, d + 1 + word_of_nat (m - Suc k)), h')" "J m h'"
    by blast
  moreover have "d + 1 + word_of_nat (m - Suc k) = d + word_of_nat (m - k)"
    using k by (metis Suc_diff_Suc add.assoc of_nat_Suc)
  ultimately show ?case unfolding n by (simp add: r dec)
qed

text \<open>C31: A programmed transfer with a count of 0 is not empty: it moves as many bytes as the target offers in the phase, past the end
  of the buffer. For every target that hands over \<open>m\<close> bytes, \<open>m < 2 ^ 32\<close>, and then changes phase (\<open>J k\<close> describes the
  machine after \<open>k\<close> bytes), \<open>NCR5380_transfer_pio\<close> performs the \<open>m\<close> handshakes, leaves the pointer \<open>m\<close> bytes further, and
  the count has gone below 0.
\<close>

theorem zero_count_overruns:
  assumes "\<And>k c d h. k < m \<Longrightarrow> J k h \<Longrightarrow>
      fst (run_state (pio_round H y p can c d) h) = (True, d + 1) \<and> J (Suc k) (snd (run_state (pio_round H y p can c d) h))"
    and "\<And>c d h. J m h \<Longrightarrow> fst (run_state (pio_round H y p can c d) h) = (False, d) \<and> J m (snd (run_state (pio_round H y p can c d) h))"
    and "\<And>h. J m h \<Longrightarrow> J m (snd (run_state (NCR5380_read H y STATUS_REG) h))"
    and "J 0 (snd (run_state (NCR5380_write H y TARGET_COMMAND_REG (PHASE_SR_TO_TCR p)) h))" and "m < 2 ^ 32"
  shows "\<exists>ph h'. run_state (NCR5380_transfer_pio H y p 0 data can) h = ((ph, below_zero m, data + word_of_nat m), h') \<and> J m h'"
proof -
  obtain h1 where w: "run_state (NCR5380_write H y TARGET_COMMAND_REG (PHASE_SR_TO_TCR p)) h = ((), h1)" by (rule run_unit)
  from pio_loop_below_zero [OF assms(1,2,5), of 0 h1 data] assms(4) w obtain h2
    where l: "run_state (pio_loop H y p can (2 ^ 32) 0 data) h1 = ((below_zero m, data + word_of_nat m), h2)" and J: "J m h2"
    by (auto simp: below_zero_def)
  obtain st h3 where s: "run_state (NCR5380_read H y STATUS_REG) h2 = (st, h3)" by fastforce
  have "J m h3" using assms(3) [OF J] s by simp
  then show ?thesis
    unfolding NCR5380_transfer_pio_def by (simp add: w s pio_rounds_def l [simplified])
qed

text \<open>A target with a number of bytes to give in DATA IN, which then goes to STATUS: the bytes left, and ACK.\<close>

definition giver :: "(nat \<times> bool) ncr_hw" where
  "giver = \<lparr>reg_rd = (\<lambda>r d. (if r = STATUS_REG then (if snd d then SR_BSY OR PHASE_DATAIN
        else if fst d = 0 then SR_REQ OR SR_BSY OR PHASE_STATIN else SR_REQ OR SR_BSY OR PHASE_DATAIN) else 0xa5, d)),
     reg_wr = (\<lambda>r v d. if r \<noteq> INITIATOR_COMMAND_REG then d else if v AND ICR_ASSERT_ACK \<noteq> 0 then (fst d, True)
        else (if snd d then fst d - 1 else fst d, False)),
     mem_rd = (\<lambda>a d. (0, d)), mem_wr = (\<lambda>a v d. d), jiffies = (\<lambda>d. 0), cpu_relax = (\<lambda>d. d),
     schedule_timeout = (\<lambda>d. d), udelay = (\<lambda>n d. d), msleep = (\<lambda>n d. d), acquire_dma_irq = (\<lambda>d. (True, d)), release_dma_irq = (\<lambda>d. d),
     dma_xfer_len = (\<lambda>f s d. (0, d)), dma_send_setup = (\<lambda>a n d. (0, d)), dma_recv_setup = (\<lambda>a n d. (0, d)), dma_residual = (\<lambda>d. (0, d)),
     eh_prep = (\<lambda>s d. ((s, []), d)), eh_restore = (\<lambda>z s d. (s, d)), alloc_workqueue = (\<lambda>d. (True, d)), msecs_to_jiffies = (\<lambda>n. 1), HZ = 1,
     disconnect_mask = 0, tmp_at = 0x100, ext_at = 0x200, REQUEST_SENSE = 3, DID_BAD_TARGET = 4, DID_ERROR = 7, DID_ABORT = 5, DID_RESET = 8,
     SAM_STAT_GOOD = 0, SAM_STAT_CHECK_CONDITION = 2, SAM_STAT_COMMAND_TERMINATED = 0x22\<rparr>"

lemma giver_round:
  assumes "dev h = (n, False)"
  shows "fst (run_state (pio_round giver held PHASE_DATAIN 0 c d) h) = (if n = 0 then (False, d) else (True, d + 1)) \<and>
     dev (snd (run_state (pio_round giver held PHASE_DATAIN 0 c d) h)) = (n - 1, False)"
  using assms
  by (cases "n = 0") (simp_all add: pio_round_def NCR5380_poll_politely_def NCR5380_read_def NCR5380_write_def dget_def dput_def giver_def pio_put_icr_def)

theorem zero_count_overruns_witness:
  "\<exists>ph h'. run_state (NCR5380_transfer_pio giver held PHASE_DATAIN 0 0x1005 0) (new_host (100, False) [] []) =
     ((ph, -100, 0x1069), h') \<and> dev h' = (0, False)"
proof -
  have "\<exists>ph h'. run_state (NCR5380_transfer_pio giver held PHASE_DATAIN 0 0x1005 0) (new_host (100, False) [] []) =
     ((ph, below_zero 100, 0x1005 + word_of_nat 100), h') \<and> dev h' = (100 - 100, False)"
  proof (rule zero_count_overruns [where J = "\<lambda>k h. dev h = (100 - k, False)"])
    fix k c d and h :: "(nat \<times> bool) host" assume "k < 100" "dev h = (100 - k, False)"
    with giver_round [of h "100 - k" c d] show "fst (run_state (pio_round giver held PHASE_DATAIN 0 c d) h) = (True, d + 1) \<and>
        dev (snd (run_state (pio_round giver held PHASE_DATAIN 0 c d) h)) = (100 - Suc k, False)" by simp
  next
    fix c d and h :: "(nat \<times> bool) host" assume "dev h = (100 - 100, False)"
    with giver_round [of h 0 c d] show "fst (run_state (pio_round giver held PHASE_DATAIN 0 c d) h) = (False, d) \<and>
        dev (snd (run_state (pio_round giver held PHASE_DATAIN 0 c d) h)) = (100 - 100, False)" by simp
  qed (simp_all add: NCR5380_read_def NCR5380_write_def dget_def dput_def giver_def new_host_def)
  then show ?thesis by (simp add: below_zero_def)
qed

subsection \<open>Start-up\<close>

lemma bit_higher_ids: "n \<le> 8 \<Longrightarrow> bit (higher_ids i n) k \<longleftrightarrow> i < k \<and> k < n"
  by (induction n) (auto simp: bit_or_iff bit_exp_iff less_Suc_eq)

text \<open>What the two waits of start-up leave alone.\<close>

definition kept :: "'d host \<Rightarrow> 'd host \<Rightarrow> bool" where
  "kept h h' \<longleftrightarrow> owned h' = owned h \<and> busy h' = busy h \<and> id_mask h' = id_mask h \<and> id_higher_mask h' = id_higher_mask h"

interpretation kp: dev_blind "kept h" for h
  by unfold_locales (simp add: kept_def owned_def)

lemma tick_wait_kept: "st_loop (tick_wait H deadline) h = Some (u, h') \<Longrightarrow> kept h h'"
proof (erule st_loop_partial [where I = "kept h"])
  have "preserves (kept h) (tick_wait H deadline)" unfolding tick_wait_def by (intro kp.dprims)
  then show "kept h w \<Longrightarrow> run_state (tick_wait H deadline) w = (x, w') \<Longrightarrow> kept h w'"
    "kept h w \<Longrightarrow> run_state (tick_wait H deadline) w = (x, w') \<Longrightarrow> kept h w'" for w x w'
    by (auto dest: tripleD)
qed (simp add: kept_def)

lemma calibrate_kept:
  assumes "c_loop (calibrate_round H deadline) (i, h) = Some s"
  shows "kept h (snd s)"
proof (rule c_loop_partial [OF assms, where I = "\<lambda>s. kept h (snd s)"])
  have P: "preserves (kept h) (do { _ \<leftarrow> NCR5380_read H held STATUS_REG; dput (cpu_relax H) })" by (intro kp.dprims kp.held_io)
  show "kept h (snd s')" if "kept h (snd s)" "calibrate_round H deadline s = Some (Inl s')" for s s'
    using that run_preserved [OF P that(1)] by (auto simp: calibrate_round_def simp del: run_state_bind split: prod.splits if_splits)
  show "kept h (snd r)" if "kept h (snd s)" "calibrate_round H deadline s = Some (Inr r)" for s r
    using that run_preserved [OF P that(1)] by (auto simp: calibrate_round_def simp del: run_state_bind split: prod.splits if_splits)
qed (simp add: kept_def)

text \<open>Start-up leaves the driver holding nothing, every LUN free, and the masks of arbitration right: ours
  has our own id, the other exactly the ids that win against it.
\<close>

theorem init_ready:
  assumes "NCR5380_init H i fl h = Some (ok, h')" "i < 8" "selecting h = None"
  shows "owned h' = [] \<and> busy h' = (\<lambda>_. 0) \<and> (\<forall>k. bit (id_mask h') k = (k = i)) \<and> (\<forall>k. bit (id_higher_mask h') k = (i < k \<and> k < 8))"
proof -
  let ?h0 = "h\<lparr>id_mask := push_bit i 1, id_higher_mask := higher_ids i 8, busy := (\<lambda>_. 0), dma_len := 0,
      connected := None, sensing := None, autosense := [], unissued := [], disconnected := [], flags := fl\<rparr>"
  have "kept ?h0 h'"
    using assms(1)
    by (auto simp: NCR5380_init_def Let_def dget_def dput_def ask_def NCR5380_write_def bind_eq_Some_conv kept_def owned_def
        split: prod.splits if_splits dest!: tick_wait_kept calibrate_kept)
  with assms(2,3) show ?thesis
    by (auto simp: kept_def owned_def bit_higher_ids bit_exp_iff)
qed

lemma init_run: "map_option fst (NCR5380_init (empty_bus\<lparr>cpu_relax := Suc\<rparr>) 6 0 (new_host 0 [] [])) = Some True"
  by code_simp

theorem init_ready_witness:
  "\<exists>h'. NCR5380_init (empty_bus\<lparr>cpu_relax := Suc\<rparr>) 6 0 (new_host 0 [] []) = Some (True, h') \<and> owned h' = [] \<and> bit (id_higher_mask h') 7"
proof -
  obtain h' where h': "NCR5380_init (empty_bus\<lparr>cpu_relax := Suc\<rparr>) 6 0 (new_host 0 [] []) = Some (True, h')" using init_run by auto
  show ?thesis using init_ready [OF h'] h' by (simp add: new_host_def)
qed

end
