(* ===== verification/Sbc_Base.thy ===== *)
theory Sbc_Base
  imports Prelude
begin

text \<open>
  The ground of NetBSD's driver \<^verbatim>\<open>src/doc/drivers/NetBSD/ncr5380sbc.c\<close>: its data, the waits for REQ,
  the programmed transfer. The configuration is the plain one: neither \<open>DIAGNOSTIC\<close> nor
  \<open>NCR5380_DEBUG\<close>.

  The driver runs at \<open>splbio\<close>: an entry point is never interrupted by another. What the machine
  dependent front end hooks in (\<open>sc_dma_start\<close> and so on) is a parameter; it can change the DMA flag,
  set the abort flag, move the data pointer, give and take the DMA handle.
\<close>

subsection \<open>Registers\<close>

abbreviation (input) "sci_data \<equiv> (0::3 word)"
abbreviation (input) "sci_odata \<equiv> (0::3 word)"
abbreviation (input) "sci_icmd \<equiv> (1::3 word)"
abbreviation (input) "sci_mode \<equiv> (2::3 word)"
abbreviation (input) "sci_tcmd \<equiv> (3::3 word)"
abbreviation (input) "sci_bus_csr \<equiv> (4::3 word)"
abbreviation (input) "sci_sel_enb \<equiv> (4::3 word)"
abbreviation (input) "sci_csr \<equiv> (5::3 word)"
abbreviation (input) "sci_iack \<equiv> (7::3 word)"

abbreviation (input) "SCI_ICMD_DATA \<equiv> (0x01::byte)"
abbreviation (input) "SCI_ICMD_ATN \<equiv> (0x02::byte)"
abbreviation (input) "SCI_ICMD_SEL \<equiv> (0x04::byte)"
abbreviation (input) "SCI_ICMD_BSY \<equiv> (0x08::byte)"
abbreviation (input) "SCI_ICMD_ACK \<equiv> (0x10::byte)"
abbreviation (input) "SCI_ICMD_LST \<equiv> (0x20::byte)"
abbreviation (input) "SCI_ICMD_AIP \<equiv> (0x40::byte)"
abbreviation (input) "SCI_ICMD_RST \<equiv> (0x80::byte)"
abbreviation (input) "SCI_ICMD_RMASK \<equiv> (0x1F::byte)"
abbreviation (input) "SCI_MODE_ARB \<equiv> (0x01::byte)"
abbreviation (input) "SCI_MODE_MONBSY \<equiv> (0x04::byte)"
abbreviation (input) "SCI_MODE_PAR_CHK \<equiv> (0x20::byte)"
abbreviation (input) "SCI_BUS_SEL \<equiv> (0x02::byte)"
abbreviation (input) "SCI_BUS_IO \<equiv> (0x04::byte)"
abbreviation (input) "SCI_BUS_REQ \<equiv> (0x20::byte)"
abbreviation (input) "SCI_BUS_BSY \<equiv> (0x40::byte)"
abbreviation (input) "SCI_CSR_PERR \<equiv> (0x20::byte)"

abbreviation (input) "PHASE_DATA_OUT \<equiv> (0::byte)"
abbreviation (input) "PHASE_DATA_IN \<equiv> (1::byte)"
abbreviation (input) "PHASE_COMMAND \<equiv> (2::byte)"
abbreviation (input) "PHASE_STATUS \<equiv> (3::byte)"
abbreviation (input) "PHASE_INVALID \<equiv> (4::byte)"
abbreviation (input) "PHASE_MSG_OUT \<equiv> (6::byte)"
abbreviation (input) "PHASE_MSG_IN \<equiv> (7::byte)"

definition SCI_BUS_PHASE :: "byte \<Rightarrow> byte" where "SCI_BUS_PHASE x = drop_bit 2 x AND 7"

abbreviation (input) "NCR_IDLE \<equiv> (0::byte)"
abbreviation (input) "NCR_WORKING \<equiv> (0x01::byte)"
abbreviation (input) "NCR_ABORTING \<equiv> (0x02::byte)"
abbreviation (input) "NCR_DOINGDMA \<equiv> (0x04::byte)"
abbreviation (input) "NCR_DROP_MSGIN \<equiv> (0x10::byte)"

abbreviation (input) "SEND_DEV_RESET \<equiv> (0x01::byte)"
abbreviation (input) "SEND_PARITY_ERROR \<equiv> (0x02::byte)"
abbreviation (input) "SEND_ABORT \<equiv> (0x04::byte)"
abbreviation (input) "SEND_REJECT \<equiv> (0x08::byte)"
abbreviation (input) "SEND_INIT_DET_ERR \<equiv> (0x10::byte)"
abbreviation (input) "SEND_IDENTIFY \<equiv> (0x20::byte)"

abbreviation (input) "ACT_CONTINUE \<equiv> (0::byte)"
abbreviation (input) "ACT_DISCONNECT \<equiv> (0x01::byte)"
abbreviation (input) "ACT_CMD_DONE \<equiv> (0x02::byte)"
abbreviation (input) "ACT_RESET_BUS \<equiv> (0x04::byte)"
abbreviation (input) "ACT_WAIT_DMA \<equiv> (0x10::byte)"

abbreviation (input) "SCI_OPENINGS \<equiv> (16::nat)"
abbreviation (input) "NCR_MAX_MSG_LEN \<equiv> (8::nat)"

text \<open>Message codes of the SCSI-2 standard.\<close>

abbreviation (input) "MSG_CMDCOMPLETE \<equiv> (0x00::byte)"
abbreviation (input) "MSG_EXTENDED \<equiv> (0x01::byte)"
abbreviation (input) "MSG_SAVEDATAPOINTER \<equiv> (0x02::byte)"
abbreviation (input) "MSG_RESTOREPOINTERS \<equiv> (0x03::byte)"
abbreviation (input) "MSG_DISCONNECT \<equiv> (0x04::byte)"
abbreviation (input) "MSG_INITIATOR_DET_ERR \<equiv> (0x05::byte)"
abbreviation (input) "MSG_ABORT \<equiv> (0x06::byte)"
abbreviation (input) "MSG_MESSAGE_REJECT \<equiv> (0x07::byte)"
abbreviation (input) "MSG_NOOP \<equiv> (0x08::byte)"
abbreviation (input) "MSG_PARITY_ERROR \<equiv> (0x09::byte)"
abbreviation (input) "MSG_BUS_DEV_RESET \<equiv> (0x0c::byte)"

subsection \<open>Data\<close>

datatype xs_error = XS_NOERROR | XS_BUSY | XS_TIMEOUT | XS_SELTIMEOUT | XS_DRIVER_STUFFUP

text \<open>
  What the mid-layer hands over, a \<open>scsipi_xfer\<close>: the target and LUN, the control flags the driver
  looks at, the addresses and lengths of command and data, and the results. \<open>cmd\<close> and \<open>xdata\<close> are
  addresses; \<open>None\<close> is the null pointer.
\<close>

record xfer =
  periph_target :: nat
  periph_lun :: nat
  ctl_poll :: bool
  ctl_reqsense :: bool
  ctl_reset :: bool
  ctl_data_out :: bool
  autosave :: bool
  cmd :: u32
  cmdlen :: int
  xdata :: "u32 option"
  xdatalen :: int
  error :: xs_error
  xstatus :: int
  resid :: int
  xs_done :: bool

text \<open>\<open>struct sci_req\<close>: a slot of the ring. \<open>sr_xs\<close> is the number of the transfer, \<open>None\<close> for a free slot.\<close>

record sci_req =
  sr_xs :: "nat option"
  sr_target :: nat
  sr_lun :: nat
  sr_dma_hand :: bool
  sr_dataptr :: "u32 option"
  sr_datalen :: int
  sr_immed :: bool
  sr_overdue :: bool
  sr_status :: int

text \<open>
  \<open>struct ncr5380_softc\<close>. \<open>sc_omp\<close> and \<open>sc_imp\<close> are offsets into the message buffers. \<open>xfers\<close> are the
  transfers by number, \<open>taken\<close> those handed to the driver, \<open>returned\<close> those given to \<open>scsipi_done\<close>, \<open>arrivals\<close> what the
  mid-layer hands over from within \<open>scsipi_done\<close>, call by call.
\<close>

record 'd softc =
  sc_state :: byte
  sc_current :: "nat option"
  sc_dataptr :: "u32 option"
  sc_datalen :: int
  sc_ncmds :: int
  sc_ring :: "sci_req list"
  sc_rr :: nat
  sc_matrix :: "nat \<Rightarrow> nat \<Rightarrow> nat option"
  sc_prevphase :: byte
  sc_msgpriq :: byte
  sc_msgoutq :: byte
  sc_msgout :: byte
  sc_omess :: "byte list"
  sc_omp :: nat
  sc_imess :: "byte list"
  sc_imp :: nat
  xfers :: "nat \<Rightarrow> xfer"
  taken :: "nat list"
  returned :: "(nat \<times> xs_error) list"
  arrivals :: "nat list list"
  dev :: 'd

text \<open>What a hook of the front end sees and changes: DMA running, abort wanted, data pointer and length, handle.\<close>

type_synonym dma_view = "bool \<times> bool \<times> u32 option \<times> int \<times> bool"

record 'd sbc_hw =
  reg_rd :: "3 word \<Rightarrow> 'd \<Rightarrow> byte \<times> 'd"
  reg_wr :: "3 word \<Rightarrow> byte \<Rightarrow> 'd \<Rightarrow> 'd"
  mem_rd :: "u32 \<Rightarrow> 'd \<Rightarrow> byte \<times> 'd"
  mem_wr :: "u32 \<Rightarrow> byte \<Rightarrow> 'd \<Rightarrow> 'd"
  delay :: "nat \<Rightarrow> 'd \<Rightarrow> 'd"
  intr_on :: "'d \<Rightarrow> 'd"
  intr_off :: "'d \<Rightarrow> 'd"
  md_pio_out :: "byte \<Rightarrow> int \<Rightarrow> u32 option \<Rightarrow> 'd \<Rightarrow> int \<times> 'd"
  md_pio_in :: "byte \<Rightarrow> int \<Rightarrow> u32 option \<Rightarrow> 'd \<Rightarrow> int \<times> 'd"
  dma_alloc :: "(dma_view \<Rightarrow> 'd \<Rightarrow> dma_view \<times> 'd) option"
  dma_free :: "dma_view \<Rightarrow> 'd \<Rightarrow> dma_view \<times> 'd"
  dma_setup :: "(dma_view \<Rightarrow> 'd \<Rightarrow> dma_view \<times> 'd) option"
  dma_start :: "dma_view \<Rightarrow> 'd \<Rightarrow> dma_view \<times> 'd"
  dma_poll :: "dma_view \<Rightarrow> 'd \<Rightarrow> dma_view \<times> 'd"
  dma_stop :: "dma_view \<Rightarrow> 'd \<Rightarrow> dma_view \<times> 'd"
  sc_no_disconnect :: byte
  sc_parity_disable :: byte
  sc_min_dma_len :: int
  is_cxd1180 :: bool
  wait_phase_timo :: nat
  wait_req_timo :: nat
  wait_nrq_timo :: nat
  MSG_IS1BYTE :: "byte \<Rightarrow> bool"
  MSG_IS2BYTE :: "byte \<Rightarrow> bool"
  MSG_ISEXTENDED :: "byte \<Rightarrow> bool"
  SCSI_OK :: int
  SCSI_CHECK :: int
  SCSI_BUSY :: int

subsection \<open>The chip\<close>

definition rd :: "'d sbc_hw \<Rightarrow> 3 word \<Rightarrow> ('d, byte) state" where "rd H r = State (reg_rd H r)"
definition wr :: "'d sbc_hw \<Rightarrow> 3 word \<Rightarrow> byte \<Rightarrow> ('d, unit) state" where "wr H r v = State (\<lambda>d. ((), reg_wr H r v d))"
definition sbc_pause :: "'d sbc_hw \<Rightarrow> nat \<Rightarrow> ('d, unit) state" where "sbc_pause H n = State (\<lambda>d. ((), delay H n d))"

definition SCI_CLR_INTR :: "'d sbc_hw \<Rightarrow> ('d, unit) state" where
  "SCI_CLR_INTR H = do { _ \<leftarrow> rd H sci_iack; State_Monad.return () }"

definition SCI_BUSY :: "'d sbc_hw \<Rightarrow> ('d, bool) state" where
  "SCI_BUSY H = do { b \<leftarrow> rd H sci_bus_csr; State_Monad.return (b AND SCI_BUS_BSY \<noteq> 0) }"

definition get_icmd :: "'d sbc_hw \<Rightarrow> ('d, byte) state" where
  "get_icmd H = do { i \<leftarrow> rd H sci_icmd; State_Monad.return (i AND SCI_ICMD_RMASK) }"

definition sees :: "'d sbc_hw \<Rightarrow> 3 word \<Rightarrow> byte \<Rightarrow> bool \<Rightarrow> ('d, bool) state" where
  "sees H r m on = do { b \<leftarrow> rd H r; State_Monad.return ((b AND m \<noteq> 0) = on) }"

definition ncr5380_wait_req :: "'d sbc_hw \<Rightarrow> ('d, bool) state" where
  "ncr5380_wait_req H = wait_for (sees H sci_bus_csr SCI_BUS_REQ True) (sbc_pause H 2) (wait_req_timo H)"

definition ncr5380_wait_not_req :: "'d sbc_hw \<Rightarrow> ('d, bool) state" where
  "ncr5380_wait_not_req H = wait_for (sees H sci_bus_csr SCI_BUS_REQ False) (sbc_pause H 2) (wait_nrq_timo H)"

subsection \<open>Programmed transfer\<close>

text \<open>
  The checks before a byte: BSY, REQ, the phase. Then the byte, with ACK up and down around the
  wait for REQ to go. The result is whether the byte was taken.
\<close>

definition byte_ready :: "'d sbc_hw \<Rightarrow> byte \<Rightarrow> ('d, bool) state" where
  "byte_ready H phase = do {
     bsy \<leftarrow> SCI_BUSY H;
     if \<not> bsy then State_Monad.return False
     else do {
       rq \<leftarrow> ncr5380_wait_req H;
       if \<not> rq then State_Monad.return False
       else do {
         b \<leftarrow> rd H sci_bus_csr;
         State_Monad.return (SCI_BUS_PHASE b = phase) } } }"

definition ack_byte :: "'d sbc_hw \<Rightarrow> byte \<Rightarrow> ('d, bool) state" where
  "ack_byte H icmd = do {
     wr H sci_icmd (icmd OR SCI_ICMD_ACK);
     ok \<leftarrow> ncr5380_wait_not_req H;
     wr H sci_icmd (icmd AND NOT SCI_ICMD_ACK);
     State_Monad.return ok }"

definition fetch :: "'d sbc_hw \<Rightarrow> u32 option \<Rightarrow> ('d, byte) state" where
  "fetch H p = (case p of None \<Rightarrow> State_Monad.return 0 | Some a \<Rightarrow> State (mem_rd H a))"
definition store :: "'d sbc_hw \<Rightarrow> u32 option \<Rightarrow> byte \<Rightarrow> ('d, unit) state" where
  "store H p v = (case p of None \<Rightarrow> State_Monad.return () | Some a \<Rightarrow> State (\<lambda>d. ((), mem_wr H a v d)))"
definition bump :: "u32 option \<Rightarrow> u32 option" where "bump p = map_option (\<lambda>a. a + 1) p"

text \<open>The value of \<open>icmd\<close> and the bytes left when the loop ends.\<close>

fun pio_out_loop :: "'d sbc_hw \<Rightarrow> byte \<Rightarrow> byte \<Rightarrow> nat \<Rightarrow> u32 option \<Rightarrow> ('d, byte \<times> nat) state" where
  "pio_out_loop H phase icmd 0 data = State_Monad.return (icmd, 0)"
| "pio_out_loop H phase icmd (Suc n) data = do {
     ready \<leftarrow> byte_ready H phase;
     if \<not> ready then State_Monad.return (icmd, Suc n)
     else do {
       v \<leftarrow> fetch H data;
       wr H sci_odata v;
       ok \<leftarrow> ack_byte H icmd;
       if \<not> ok then State_Monad.return (icmd AND NOT SCI_ICMD_ACK, Suc n)
       else pio_out_loop H phase (icmd AND NOT SCI_ICMD_ACK) n (bump data) } }"

text \<open>The bytes sent.\<close>

definition ncr5380_pio_out :: "'d sbc_hw \<Rightarrow> byte \<Rightarrow> int \<Rightarrow> u32 option \<Rightarrow> ('d, int) state" where
  "ncr5380_pio_out H phase count data = do {
     i \<leftarrow> get_icmd H;
     wr H sci_icmd (i OR SCI_ICMD_DATA);
     (icmd, left) \<leftarrow> pio_out_loop H phase (i OR SCI_ICMD_DATA) (nat count) data;
     wr H sci_icmd (icmd AND NOT SCI_ICMD_DATA);
     State_Monad.return (int (nat count) - int left) }"

fun pio_in_loop :: "'d sbc_hw \<Rightarrow> byte \<Rightarrow> byte \<Rightarrow> nat \<Rightarrow> u32 option \<Rightarrow> ('d, nat) state" where
  "pio_in_loop H phase icmd 0 data = State_Monad.return 0"
| "pio_in_loop H phase icmd (Suc n) data = do {
     ready \<leftarrow> byte_ready H phase;
     if \<not> ready then State_Monad.return (Suc n)
     else do {
       v \<leftarrow> rd H sci_data;
       store H data v;
       ok \<leftarrow> ack_byte H icmd;
       if \<not> ok then State_Monad.return (Suc n)
       else pio_in_loop H phase (icmd AND NOT SCI_ICMD_ACK) n (bump data) } }"

text \<open>The bytes received.\<close>

definition ncr5380_pio_in :: "'d sbc_hw \<Rightarrow> byte \<Rightarrow> int \<Rightarrow> u32 option \<Rightarrow> ('d, int) state" where
  "ncr5380_pio_in H phase count data = do {
     icmd \<leftarrow> get_icmd H;
     left \<leftarrow> pio_in_loop H phase icmd (nat count) data;
     State_Monad.return (int (nat count) - int left) }"

text \<open>\<open>ncr5380_pio_in\<close> of one byte into a local variable: the byte, when it was counted.\<close>

definition pio_in_local :: "'d sbc_hw \<Rightarrow> byte \<Rightarrow> ('d, byte option) state" where
  "pio_in_local H phase = do {
     icmd \<leftarrow> get_icmd H;
     ready \<leftarrow> byte_ready H phase;
     if \<not> ready then State_Monad.return None
     else do {
       v \<leftarrow> rd H sci_data;
       ok \<leftarrow> ack_byte H icmd;
       State_Monad.return (if ok then Some v else None) } }"

subsection \<open>The driver's state\<close>

definition look :: "('d softc \<Rightarrow> 'a) \<Rightarrow> ('d softc, 'a) state" where "look f = State (\<lambda>w. (f w, w))"
definition alter :: "('d softc \<Rightarrow> 'd softc) \<Rightarrow> ('d softc, unit) state" where "alter f = State (\<lambda>w. ((), f w))"
definition chip :: "('d, 'a) state \<Rightarrow> ('d softc, 'a) state" where
  "chip m = State (\<lambda>w. case run_state m (dev w) of (x, d) \<Rightarrow> (x, w\<lparr>dev := d\<rparr>))"

text \<open>The slot and the transfer of the current request.\<close>

definition slot :: "nat \<Rightarrow> (sci_req \<Rightarrow> sci_req) \<Rightarrow> ('d softc, unit) state" where
  "slot i f = alter (\<lambda>w. w\<lparr>sc_ring := (sc_ring w)[i := f (sc_ring w ! i)]\<rparr>)"
definition xs_upd :: "nat \<Rightarrow> (xfer \<Rightarrow> xfer) \<Rightarrow> ('d softc, unit) state" where
  "xs_upd x f = alter (\<lambda>w. w\<lparr>xfers := (xfers w)(x := f (xfers w x))\<rparr>)"

definition set_state :: "byte \<Rightarrow> ('d softc, unit) state" where
  "set_state b = alter (\<lambda>w. w\<lparr>sc_state := sc_state w OR b\<rparr>)"

definition has_state :: "byte \<Rightarrow> ('d softc, bool) state" where
  "has_state b = look (\<lambda>w. sc_state w AND b \<noteq> 0)"

definition ncr_sched_msgout :: "'d sbc_hw \<Rightarrow> byte \<Rightarrow> ('d softc, unit) state" where
  "ncr_sched_msgout H msg_code = do {
     q \<leftarrow> look sc_msgpriq;
     (if q = 0 then chip (do { i \<leftarrow> get_icmd H; wr H sci_icmd (i OR SCI_ICMD_ATN); sbc_pause H 2 }) else State_Monad.return ());
     alter (\<lambda>w. w\<lparr>sc_msgpriq := sc_msgpriq w OR msg_code\<rparr>) }"

text \<open>A hook of the front end, called for slot \<open>i\<close>. It cannot take back an abort.\<close>

definition hook :: "nat \<Rightarrow> (dma_view \<Rightarrow> 'd \<Rightarrow> dma_view \<times> 'd) \<Rightarrow> ('d softc, unit) state" where
  "hook i f = alter (\<lambda>w. case f (sc_state w AND NCR_DOINGDMA \<noteq> 0, sc_state w AND NCR_ABORTING \<noteq> 0, sc_dataptr w, sc_datalen w, sr_dma_hand (sc_ring w ! i)) (dev w) of
     ((doing, aborting, p, n, hand), d) \<Rightarrow>
       w\<lparr>sc_state := (if doing then sc_state w OR NCR_DOINGDMA else sc_state w AND NOT NCR_DOINGDMA) OR (if aborting then NCR_ABORTING else 0),
         sc_dataptr := p, sc_datalen := n, sc_ring := (sc_ring w)[i := (sc_ring w ! i)\<lparr>sr_dma_hand := hand\<rparr>], dev := d\<rparr>)"

subsection \<open>Loops with local variables\<close>

text \<open>A loop of the driver: \<open>Inl\<close> goes round with new local variables, \<open>Inr\<close> leaves.\<close>

definition local_loop :: "('s \<Rightarrow> ('w, 's + 'r) state) \<Rightarrow> 's \<times> 'w \<Rightarrow> ('r \<times> 'w) option" where
  "local_loop body = c_loop (\<lambda>(s, w). Some (case run_state (body s) w of (Inl s', w') \<Rightarrow> Inl (s', w') | (Inr r, w') \<Rightarrow> Inr (r, w')))"

lemma local_loop_partial:
  assumes "local_loop body (s, w) = Some (r, w')" "J s w"
    and "\<And>s. triple (J s) (body s) (\<lambda>x. case x of Inl s' \<Rightarrow> J s' | Inr r \<Rightarrow> Q r)"
  shows "Q r w'"
proof -
  have "case (r, w') of (r, w') \<Rightarrow> Q r w'"
    by (rule c_loop_partial [OF assms(1) [unfolded local_loop_def], where I = "\<lambda>(s, w). J s w"])
      (use assms(2) in \<open>auto split: prod.splits sum.splits dest: tripleD [OF assms(3)]\<close>)
  then show ?thesis by simp
qed

lemma local_loop_total:
  fixes m :: "'s \<Rightarrow> 'w \<Rightarrow> nat"
  assumes "J s w"
    and "\<And>s n. triple (\<lambda>w. J s w \<and> m s w = n) (body s) (\<lambda>x w'. case x of Inl s' \<Rightarrow> J s' w' \<and> m s' w' < n | Inr r \<Rightarrow> Q r w')"
  shows "\<exists>r w'. local_loop body (s, w) = Some (r, w') \<and> Q r w'"
proof -
  have "\<exists>x. local_loop body (s, w) = Some x \<and> (case x of (r, w') \<Rightarrow> Q r w')"
    unfolding local_loop_def
  proof (rule c_loop_total [where I = "\<lambda>(s, w). J s w" and m = "\<lambda>(s, w). m s w"])
    fix p assume "case p of (s, w) \<Rightarrow> J s w"
    then obtain s w where p: "p = (s, w)" and J: "J s w" by (cases p) auto
    obtain x w' where run: "run_state (body s) w = (x, w')" by fastforce
    from tripleD [OF assms(2) [of s "m s w"], OF _ run] J have "case x of Inl s' \<Rightarrow> J s' w' \<and> m s' w' < m s w | Inr r \<Rightarrow> Q r w'" by simp
    with run p show "\<exists>x. (case p of (s, w) \<Rightarrow> Some (case run_state (body s) w of (Inl s', w') \<Rightarrow> Inl (s', w') | (Inr r, w') \<Rightarrow> Inr (r, w'))) = Some x \<and>
        (case x of Inl s' \<Rightarrow> (case s' of (s, w) \<Rightarrow> J s w) \<and> (case s' of (s, w) \<Rightarrow> m s w) < (case p of (s, w) \<Rightarrow> m s w) | Inr r \<Rightarrow> case r of (r, w') \<Rightarrow> Q r w')"
      by (auto split: sum.splits)
  qed (use assms(1) in simp)
  then show ?thesis by auto
qed

end
