(* ===== verification/Sbc_Phase.thy ===== *)
theory Sbc_Phase
  imports Sbc_Base
begin

text \<open>
  The handlers of the information transfer phases of NetBSD's driver. A handler gives the flags
  \<open>ACT_\<close> that say what happens next. \<open>i\<close> is the slot of the current request, \<open>x\<close> its transfer.
\<close>

subsection \<open>Message in\<close>

text \<open>Asking for a message out from within a message in: \<open>icmd\<close> is read again.\<close>

definition reply :: "'d sbc_hw \<Rightarrow> byte \<Rightarrow> ('d softc, byte) state" where
  "reply H msg = do { ncr_sched_msgout H msg; chip (get_icmd H) }"

definition save_pointers :: "nat \<Rightarrow> ('d softc, unit) state" where
  "save_pointers i = do {
     p \<leftarrow> look sc_dataptr;
     n \<leftarrow> look sc_datalen;
     slot i (\<lambda>sr. sr\<lparr>sr_dataptr := p, sr_datalen := n\<rparr>) }"

definition restore_pointers :: "nat \<Rightarrow> ('d softc, unit) state" where
  "restore_pointers i = alter (\<lambda>w. w\<lparr>sc_dataptr := sr_dataptr (sc_ring w ! i), sc_datalen := sr_datalen (sc_ring w ! i)\<rparr>)"

text \<open>A complete message: the flags, and \<open>icmd\<close>.\<close>

definition parse_msg :: "'d sbc_hw \<Rightarrow> nat \<Rightarrow> nat \<Rightarrow> byte \<Rightarrow> ('d softc, byte \<times> byte) state" where
  "parse_msg H i x icmd = do {
     m \<leftarrow> look (\<lambda>w. sc_imess w ! 0);
     out \<leftarrow> look sc_msgout;
     auto \<leftarrow> look (\<lambda>w. autosave (xfers w x));
     if m = MSG_CMDCOMPLETE then State_Monad.return (ACT_DISCONNECT OR ACT_CMD_DONE, icmd)
     else if m = MSG_PARITY_ERROR then do { icmd1 \<leftarrow> reply H out; State_Monad.return (ACT_CONTINUE, icmd1) }
     else if m = MSG_MESSAGE_REJECT then
       (if out = SEND_INIT_DET_ERR then do {
          set_state NCR_ABORTING;
          ncr_sched_msgout H SEND_ABORT;
          State_Monad.return (ACT_CONTINUE, icmd) }
        else State_Monad.return (ACT_CONTINUE, icmd))
     else if m = MSG_NOOP then State_Monad.return (ACT_CONTINUE, icmd)
     else if m = MSG_DISCONNECT then do {
       (if auto then save_pointers i else State_Monad.return ());
       State_Monad.return (ACT_DISCONNECT, icmd) }
     else if m = MSG_SAVEDATAPOINTER then do { save_pointers i; State_Monad.return (ACT_CONTINUE, icmd) }
     else if m = MSG_RESTOREPOINTERS then do { restore_pointers i; State_Monad.return (ACT_CONTINUE, icmd) }
     else do { icmd1 \<leftarrow> reply H SEND_REJECT; State_Monad.return (ACT_CONTINUE, icmd1) } }"

text \<open>The checks before a byte: \<open>Some\<close> is a return with these flags.\<close>

definition msg_in_check :: "'d sbc_hw \<Rightarrow> ('d softc, byte option) state" where
  "msg_in_check H = do {
     bsy \<leftarrow> chip (SCI_BUSY H);
     if \<not> bsy then State_Monad.return (Some (ACT_DISCONNECT OR ACT_CMD_DONE))
     else do {
       rq \<leftarrow> chip (ncr5380_wait_req H);
       if \<not> rq then State_Monad.return (Some ACT_CONTINUE)
       else do {
         b \<leftarrow> chip (rd H sci_bus_csr);
         State_Monad.return (if SCI_BUS_PHASE b = PHASE_MSG_IN then None else Some ACT_CONTINUE) } } }"

text \<open>Gathering a byte: the number of bytes, and whether the message is complete.\<close>

definition msg_in_gather :: "'d sbc_hw \<Rightarrow> nat \<Rightarrow> ('d softc, nat \<times> bool) state" where
  "msg_in_gather H n = do {
     drop \<leftarrow> has_state NCR_DROP_MSGIN;
     if drop then State_Monad.return (n, False)
     else if n \<ge> NCR_MAX_MSG_LEN then do {
       ncr_sched_msgout H SEND_REJECT;
       set_state NCR_DROP_MSGIN;
       State_Monad.return (n, False) }
     else do {
       v \<leftarrow> chip (rd H sci_data);
       alter (\<lambda>w. w\<lparr>sc_imess := (sc_imess w)[sc_imp w := v], sc_imp := sc_imp w + 1\<rparr>);
       m \<leftarrow> look sc_imess;
       State_Monad.return (n + 1,
         n + 1 = 1 \<and> MSG_IS1BYTE H (m ! 0) \<or> n + 1 = 2 \<and> MSG_IS2BYTE H (m ! 0) \<or>
         n + 1 \<ge> 3 \<and> MSG_ISEXTENDED H (m ! 0) \<and> n + 1 = unat (m ! 1) + 2) } }"

text \<open>A round of the loop: \<open>Inl\<close> goes on with \<open>icmd\<close> and the number of bytes, \<open>Inr\<close> returns.\<close>

definition msg_in_round :: "'d sbc_hw \<Rightarrow> nat \<Rightarrow> nat \<Rightarrow> byte \<Rightarrow> nat \<Rightarrow> ('d softc, (byte \<times> nat) + byte) state" where
  "msg_in_round H i x icmd n = do {
     stop \<leftarrow> msg_in_check H;
     case stop of Some act \<Rightarrow> State_Monad.return (Inr act)
     | None \<Rightarrow> do {
         c \<leftarrow> chip (rd H sci_csr);
         (if c AND SCI_CSR_PERR \<noteq> 0 then do { ncr_sched_msgout H SEND_PARITY_ERROR; set_state NCR_DROP_MSGIN }
          else State_Monad.return ());
         (n1, complete) \<leftarrow> msg_in_gather H n;
         if \<not> complete then do {
           ok \<leftarrow> chip (ack_byte H icmd);
           State_Monad.return (if ok then Inl (icmd AND NOT SCI_ICMD_ACK, n1) else Inr ACT_RESET_BUS) }
         else do {
           (act, icmd1) \<leftarrow> parse_msg H i x icmd;
           ok \<leftarrow> chip (ack_byte H icmd1);
           let act1 = (if ok then act else act OR ACT_RESET_BUS);
           if act1 = ACT_CONTINUE then do {
             alter (\<lambda>w. w\<lparr>sc_imp := 0\<rparr>);
             State_Monad.return (Inl (icmd1 AND NOT SCI_ICMD_ACK, 0)) }
           else State_Monad.return (Inr act1) } } }"

definition msg_in_start :: "'d sbc_hw \<Rightarrow> ('d softc, byte \<times> nat) state" where
  "msg_in_start H = do {
     chip (wr H sci_tcmd PHASE_MSG_IN);
     icmd \<leftarrow> chip (get_icmd H);
     prev \<leftarrow> look sc_prevphase;
     if prev = PHASE_MSG_IN then do { n \<leftarrow> look sc_imp; State_Monad.return (icmd, n) }
     else do {
       alter (\<lambda>w. w\<lparr>sc_state := sc_state w AND NOT NCR_DROP_MSGIN, sc_imp := 0\<rparr>);
       State_Monad.return (icmd, 0) } }"

definition ncr5380_msg_in :: "'d sbc_hw \<Rightarrow> nat \<Rightarrow> nat \<Rightarrow> 'd softc \<Rightarrow> (byte \<times> 'd softc) option" where
  "ncr5380_msg_in H i x w = do {
     s \<leftarrow> run (msg_in_start H) w;
     local_loop (\<lambda>(icmd, n). msg_in_round H i x icmd n) s }"

subsection \<open>Message out\<close>

text \<open>The message of the highest priority, the lowest bit of \<open>sc_msgpriq\<close>, built; the flags it adds.\<close>

definition lowest_bit :: "byte \<Rightarrow> byte" where "lowest_bit q = q AND (- q)"

definition out_byte :: "'d sbc_hw \<Rightarrow> 'd softc \<Rightarrow> byte \<Rightarrow> byte" where
  "out_byte H w m =
     (if m = SEND_IDENTIFY then (case sc_current w of None \<Rightarrow> MSG_NOOP
        | Some i \<Rightarrow> let sr = sc_ring w ! i in
            (if bit (sc_no_disconnect H) (sr_target sr) \<or> sr_immed sr then 0x80 else 0xc0) OR word_of_nat (sr_lun sr))
      else if m = SEND_DEV_RESET then MSG_BUS_DEV_RESET
      else if m = SEND_REJECT then MSG_MESSAGE_REJECT
      else if m = SEND_PARITY_ERROR then MSG_PARITY_ERROR
      else if m = SEND_INIT_DET_ERR then MSG_INITIATOR_DET_ERR
      else if m = SEND_ABORT then MSG_ABORT
      else MSG_NOOP)"

definition msg_out_pick :: "'d sbc_hw \<Rightarrow> ('d softc, byte) state" where
  "msg_out_pick H = do {
     alter (\<lambda>w. let m = lowest_bit (sc_msgpriq w) in
       w\<lparr>sc_msgout := m, sc_msgpriq := sc_msgpriq w AND NOT m, sc_msgoutq := sc_msgoutq w OR m\<rparr>);
     m \<leftarrow> look sc_msgout;
     alter (\<lambda>w. w\<lparr>sc_omess := (sc_omess w)[0 := out_byte H w m], sc_omp := 1\<rparr>);
     State_Monad.return (if m = SEND_DEV_RESET \<or> m = SEND_ABORT then ACT_DISCONNECT OR ACT_CMD_DONE else 0) }"

text \<open>The bytes of the message, \<open>n\<close> of them left: \<open>icmd\<close>, the flags, and whether all were sent.\<close>

fun msg_out_bytes :: "'d sbc_hw \<Rightarrow> byte \<Rightarrow> byte \<Rightarrow> nat \<Rightarrow> ('d softc, byte \<times> byte \<times> bool) state" where
  "msg_out_bytes H icmd act 0 = State_Monad.return (icmd, act, True)"
| "msg_out_bytes H icmd act (Suc n) = do {
     ready \<leftarrow> chip (byte_ready H PHASE_MSG_OUT);
     if \<not> ready then State_Monad.return (icmd, act, False)
     else do {
       q \<leftarrow> look sc_msgpriq;
       let icmd1 = (if n = 0 \<and> q = 0 then icmd AND NOT SCI_ICMD_ATN else icmd);
       (if n = 0 \<and> q = 0 then chip (do { wr H sci_icmd icmd1; sbc_pause H 2 }) else State_Monad.return ());
       alter (\<lambda>w. w\<lparr>sc_omp := sc_omp w - 1\<rparr>);
       v \<leftarrow> look (\<lambda>w. sc_omess w ! sc_omp w);
       chip (wr H sci_odata v);
       ok \<leftarrow> chip (ack_byte H icmd1);
       if \<not> ok then State_Monad.return (icmd1 AND NOT SCI_ICMD_ACK, act OR ACT_RESET_BUS, False)
       else msg_out_bytes H (icmd1 AND NOT SCI_ICMD_ACK) act n } }"

text \<open>
  A round: a message, after \<open>n\<close> bytes of an old one when \<open>n\<close> is not 0. \<open>Inl\<close> is another message, \<open>Inr\<close> the
  label \<open>out\<close>, with \<open>icmd\<close>, the flags and \<open>progress\<close>.
\<close>

definition msg_out_round :: "'d sbc_hw \<Rightarrow> byte \<times> byte \<times> bool \<times> nat \<Rightarrow> ('d softc, (byte \<times> byte \<times> bool \<times> nat) + (byte \<times> byte \<times> bool)) state" where
  "msg_out_round H s = (case s of (icmd, act, progress, n) \<Rightarrow> do {
     (act1, k) \<leftarrow> (if n > 0 then State_Monad.return (act, n) else do { a \<leftarrow> msg_out_pick H; State_Monad.return (act OR a, 1) });
     (icmd2, act2, sent) \<leftarrow> msg_out_bytes H icmd act1 k;
     if \<not> sent then State_Monad.return (Inr (icmd2, act2, progress))
     else do {
       q \<leftarrow> look sc_msgpriq;
       State_Monad.return (if q \<noteq> 0 then Inl (icmd2, act2, True, 0) else Inr (icmd2, act2, True)) } })"

definition msg_out_start :: "'d sbc_hw \<Rightarrow> ('d softc, byte \<times> byte \<times> bool \<times> nat) state" where
  "msg_out_start H = do {
     chip (wr H sci_tcmd PHASE_MSG_OUT);
     i \<leftarrow> chip (get_icmd H);
     let icmd = i OR SCI_ICMD_ATN OR SCI_ICMD_DATA;
     chip (wr H sci_icmd icmd);
     prev \<leftarrow> look sc_prevphase;
     omp \<leftarrow> look sc_omp;
     if prev = PHASE_MSG_OUT \<and> omp \<noteq> 0 then State_Monad.return (icmd, ACT_CONTINUE, False, omp)
     else do {
       (if prev = PHASE_MSG_OUT then alter (\<lambda>w. w\<lparr>sc_msgpriq := sc_msgpriq w OR sc_msgoutq w\<rparr>) else State_Monad.return ());
       alter (\<lambda>w. w\<lparr>sc_msgoutq := 0\<rparr>);
       State_Monad.return (icmd, ACT_CONTINUE, False, 0) } }"

definition ncr5380_msg_out :: "'d sbc_hw \<Rightarrow> 'd softc \<Rightarrow> (byte \<times> 'd softc) option" where
  "ncr5380_msg_out H w = do {
     s \<leftarrow> run (msg_out_start H) w;
     ((icmd, act, progress), w1) \<leftarrow> local_loop (msg_out_round H) s;
     run (do {
       chip (wr H sci_icmd (icmd AND NOT SCI_ICMD_DATA));
       State_Monad.return (if progress then act else act OR ACT_RESET_BUS) }) w1 }"

subsection \<open>Command, data and status\<close>

definition ncr5380_command :: "'d sbc_hw \<Rightarrow> nat \<Rightarrow> ('d softc, byte) state" where
  "ncr5380_command H x = do {
     xs \<leftarrow> look (\<lambda>w. xfers w x);
     chip (wr H sci_tcmd PHASE_COMMAND);
     len \<leftarrow> chip (ncr5380_pio_out H PHASE_COMMAND (cmdlen xs) (Some (cmd xs)));
     (if len \<noteq> cmdlen xs \<and> len < 6 then do {
        xs_upd x (\<lambda>xs. xs\<lparr>error := XS_DRIVER_STUFFUP\<rparr>);
        set_state NCR_ABORTING;
        ncr_sched_msgout H SEND_ABORT }
      else State_Monad.return ());
     State_Monad.return ACT_CONTINUE }"

definition data_abort :: "'d sbc_hw \<Rightarrow> ('d softc, byte) state" where
  "data_abort H = do { set_state NCR_ABORTING; ncr_sched_msgout H SEND_ABORT; State_Monad.return ACT_CONTINUE }"

text \<open>The target wants more data than there are: 4096 bytes of padding at most.\<close>

definition data_pad :: "'d sbc_hw \<Rightarrow> byte \<Rightarrow> ('d softc, byte) state" where
  "data_pad H phase = do {
     _ \<leftarrow> (if phase = PHASE_DATA_IN then chip (ncr5380_pio_in H phase 4096 None) else chip (ncr5380_pio_out H phase 4096 None));
     b \<leftarrow> chip (rd H sci_bus_csr);
     if SCI_BUS_PHASE b = phase then data_abort H else State_Monad.return ACT_CONTINUE }"

definition data_pio :: "'d sbc_hw \<Rightarrow> byte \<Rightarrow> ('d softc, byte) state" where
  "data_pio H phase = do {
     chip (wr H sci_tcmd phase);
     n \<leftarrow> look sc_datalen;
     p \<leftarrow> look sc_dataptr;
     len \<leftarrow> (if phase = PHASE_DATA_OUT then chip (State (md_pio_out H phase n p)) else chip (State (md_pio_in H phase n p)));
     alter (\<lambda>w. w\<lparr>sc_dataptr := map_option (\<lambda>a. a + word_of_int len) (sc_dataptr w), sc_datalen := sc_datalen w - len\<rparr>);
     State_Monad.return ACT_CONTINUE }"

definition ncr5380_data_xfer :: "'d sbc_hw \<Rightarrow> nat \<Rightarrow> nat \<Rightarrow> byte \<Rightarrow> ('d softc, byte) state" where
  "ncr5380_data_xfer H i x phase = do {
     aborting \<leftarrow> has_state NCR_ABORTING;
     out \<leftarrow> look (\<lambda>w. ctl_data_out (xfers w x));
     n \<leftarrow> look sc_datalen;
     hand \<leftarrow> look (\<lambda>w. sr_dma_hand (sc_ring w ! i));
     if aborting then State_Monad.return ACT_RESET_BUS
     else if phase \<noteq> (if out then PHASE_DATA_OUT else PHASE_DATA_IN) then data_abort H
     else if n \<le> 0 then data_pad H phase
     else if hand \<and> n \<ge> sc_min_dma_len H then do { hook i (dma_start H); State_Monad.return ACT_WAIT_DMA }
     else data_pio H phase }"

definition ncr5380_status :: "'d sbc_hw \<Rightarrow> nat \<Rightarrow> ('d softc, byte) state" where
  "ncr5380_status H i = do {
     chip (wr H sci_tcmd PHASE_STATUS);
     v \<leftarrow> chip (pio_in_local H PHASE_STATUS);
     (case v of None \<Rightarrow> State_Monad.return () | Some st \<Rightarrow> slot i (\<lambda>sr. sr\<lparr>sr_status := uint st\<rparr>));
     State_Monad.return ACT_CONTINUE }"

end
