(* ===== verification/Sbc_Machine.thy ===== *)
theory Sbc_Machine
  imports Sbc_Phase
begin

text \<open>
  NetBSD's driver: completion, the phase machine, reselection, selection, the scheduler and the entry
  points. \<open>None\<close> is a routine that does not return: it loops forever, or the kernel stops (a null
  pointer, a panic).
\<close>

subsection \<open>Completion\<close>

text \<open>A new request in the lowest free slot. The driver panics when there is none.\<close>

definition enqueue :: "nat \<Rightarrow> 'd softc \<Rightarrow> (nat \<times> 'd softc) option" where
  "enqueue x w = (case find (\<lambda>i. sr_xs (sc_ring w ! i) = None) [0..<SCI_OPENINGS] of
     None \<Rightarrow> None
   | Some i \<Rightarrow> let xs = xfers w x in
       Some (i, w\<lparr>sc_ring := (sc_ring w)[i := \<lparr>sr_xs = Some x, sr_target = periph_target xs, sr_lun = periph_lun xs,
         sr_dma_hand = False, sr_dataptr = xdata xs, sr_datalen = xdatalen xs, sr_immed = ctl_poll xs \<or> ctl_reqsense xs,
         sr_overdue = False, sr_status = -1\<rparr>], sc_ncmds := sc_ncmds w + 1, taken := taken w @ [x]\<rparr>))"

text \<open>
  The mid-layer hands over requests from within \<open>scsipi_done\<close>. The driver is not idle there, so it only queues
  them; a polled one makes it panic.
\<close>

fun arrive :: "nat list \<Rightarrow> 'd softc \<Rightarrow> 'd softc option" where
  "arrive [] w = Some w"
| "arrive (x # xs) w = (if ctl_poll (xfers w x) then None else do { (_, w1) \<leftarrow> enqueue x w; arrive xs w1 })"

definition scsipi_done :: "nat \<Rightarrow> 'd softc \<Rightarrow> 'd softc option" where
  "scsipi_done x w =
     (let w1 = w\<lparr>returned := returned w @ [(x, error (xfers w x))], xfers := (xfers w)(x := (xfers w x)\<lparr>xs_done := True\<rparr>)\<rparr> in
      case arrivals w1 of [] \<Rightarrow> Some w1 | xs # rest \<Rightarrow> arrive xs (w1\<lparr>arrivals := rest\<rparr>))"

text \<open>The result of the transfer from the target's status.\<close>

definition status_error :: "'d sbc_hw \<Rightarrow> int \<Rightarrow> xs_error" where
  "status_error H st = (if st = SCSI_OK H then XS_NOERROR else if st = SCSI_CHECK H \<or> st = SCSI_BUSY H then XS_BUSY else XS_DRIVER_STUFFUP)"

definition done_result :: "'d sbc_hw \<Rightarrow> nat \<Rightarrow> nat \<Rightarrow> ('d softc, unit) state" where
  "done_result H i x = do {
     hand \<leftarrow> look (\<lambda>w. sr_dma_hand (sc_ring w ! i));
     (if hand then hook i (dma_free H) else State_Monad.return ());
     aborting \<leftarrow> has_state NCR_ABORTING;
     xs_upd x (\<lambda>xs. if aborting \<and> error xs = XS_NOERROR then xs\<lparr>error := XS_TIMEOUT\<rparr> else xs);
     e \<leftarrow> look (\<lambda>w. error (xfers w x));
     st \<leftarrow> look (\<lambda>w. sr_status (sc_ring w ! i));
     (if e = XS_NOERROR then xs_upd x (\<lambda>xs. xs\<lparr>xstatus := st, error := status_error H st\<rparr>) else State_Monad.return ()) }"

definition done_free :: "nat \<Rightarrow> 'd softc \<Rightarrow> 'd softc" where
  "done_free i w = (let sr = sc_ring w ! i in
     w\<lparr>sc_current := None, sc_matrix := (sc_matrix w)(sr_target sr := (sc_matrix w (sr_target sr))(sr_lun sr := None)),
       sc_ring := (sc_ring w)[i := sr\<lparr>sr_xs := None\<rparr>], sc_ncmds := sc_ncmds w - 1\<rparr>)"

definition ncr5380_done :: "'d sbc_hw \<Rightarrow> 'd softc \<Rightarrow> 'd softc option" where
  "ncr5380_done H w = do {
     i \<leftarrow> sc_current w;
     x \<leftarrow> sr_xs (sc_ring w ! i);
     w1 \<leftarrow> scsipi_done x (done_free i (snd (run_state (done_result H i x) w)));
     Some (w1\<lparr>sc_state := NCR_IDLE\<rparr>) }"

subsection \<open>Reset and abort\<close>

text \<open>\<open>ab\<close> is \<open>ncr5380_abort\<close>, which runs the machine, which can reset the bus.\<close>

definition ncr5380_reset_scsibus :: "('d softc \<Rightarrow> 'd softc option) \<Rightarrow> 'd sbc_hw \<Rightarrow> 'd softc \<Rightarrow> 'd softc option" where
  "ncr5380_reset_scsibus ab H w = (case run_state (chip (do {
       wr H sci_icmd SCI_ICMD_RST;
       sbc_pause H 500;
       wr H sci_icmd 0;
       wr H sci_mode 0;
       wr H sci_tcmd PHASE_INVALID;
       SCI_CLR_INTR H;
       sbc_pause H 100000 })) w of
     (_, w1) \<Rightarrow> if sc_current w1 \<noteq> None \<and> sc_state w1 AND NCR_ABORTING = 0 then ab w1 else Some w1)"

definition abort_with :: "('d softc \<Rightarrow> 'd softc option) \<Rightarrow> 'd sbc_hw \<Rightarrow> 'd softc \<Rightarrow> 'd softc option" where
  "abort_with machine H w = (case run_state (do {
       chip (State (\<lambda>d. ((), intr_off H d)));
       set_state NCR_ABORTING;
       dma \<leftarrow> has_state NCR_DOINGDMA;
       (if \<not> dma then ncr_sched_msgout H SEND_ABORT else State_Monad.return ()) }) w of
     (_, w1) \<Rightarrow> do { w2 \<leftarrow> machine w1; Some (w2\<lparr>dev := intr_on H (dev w2)\<rparr>) })"

subsection \<open>The machine\<close>

text \<open>The handler of a phase; \<open>None\<close> in the result is \<open>goto next_phase\<close>, \<open>Some\<close> goes on to the actions.\<close>

definition machine_abort :: "'d sbc_hw \<Rightarrow> ('d softc, byte option) state" where
  "machine_abort H = do { set_state NCR_ABORTING; ncr_sched_msgout H SEND_ABORT; State_Monad.return None }"

definition machine_handle :: "'d sbc_hw \<Rightarrow> nat \<Rightarrow> nat \<Rightarrow> byte \<Rightarrow> 'd softc \<Rightarrow> (byte option \<times> 'd softc) option" where
  "machine_handle H i x phase w =
     (if phase = PHASE_DATA_OUT \<or> phase = PHASE_DATA_IN \<or> phase = PHASE_COMMAND \<or> phase = PHASE_STATUS \<or> phase = PHASE_MSG_OUT \<or> phase = PHASE_MSG_IN then do {
        (act, w1) \<leftarrow> (if phase = PHASE_DATA_OUT \<or> phase = PHASE_DATA_IN then run (ncr5380_data_xfer H i x phase) w
          else if phase = PHASE_COMMAND then run (ncr5380_command H x) w
          else if phase = PHASE_STATUS then run (ncr5380_status H i) w
          else if phase = PHASE_MSG_OUT then ncr5380_msg_out H w
          else ncr5380_msg_in H i x w);
        Some (Some act, w1\<lparr>sc_prevphase := phase\<rparr>) }
      else run (machine_abort H) w)"

definition machine_phase :: "'d sbc_hw \<Rightarrow> nat \<Rightarrow> nat \<Rightarrow> 'd softc \<Rightarrow> (byte option \<times> 'd softc) option" where
  "machine_phase H i x w = do {
     (bsy, w1) \<leftarrow> run (chip (SCI_BUSY H)) w;
     if \<not> bsy then run (do {
       xs_upd x (\<lambda>xs. xs\<lparr>error := XS_DRIVER_STUFFUP\<rparr>);
       State_Monad.return (Some (ACT_DISCONNECT OR ACT_CMD_DONE)) }) w1
     else do {
       (rq, w2) \<leftarrow> run (chip (wait_for (sees H sci_bus_csr SCI_BUS_REQ True) (sbc_pause H 100) (wait_phase_timo H - 1))) w1;
       if \<not> rq then run (do {
         aborting \<leftarrow> has_state NCR_ABORTING;
         if aborting then State_Monad.return (Some ACT_RESET_BUS) else machine_abort H }) w2
       else do {
         (b, w3) \<leftarrow> run (chip (rd H sci_bus_csr)) w2;
         machine_handle H i x (SCI_BUS_PHASE b) w3 } } }"

text \<open>What follows the end of a DMA transfer, and the check that follows every phase.\<close>

definition dma_done :: "'d sbc_hw \<Rightarrow> nat \<Rightarrow> ('d softc, unit) state" where
  "dma_done H i = do {
     overdue \<leftarrow> look (\<lambda>w. sr_overdue (sc_ring w ! i));
     (if overdue then set_state NCR_ABORTING else State_Monad.return ());
     hook i (dma_stop H);
     chip (SCI_CLR_INTR H);
     aborting \<leftarrow> has_state NCR_ABORTING;
     (if aborting then ncr_sched_msgout H SEND_ABORT else State_Monad.return ()) }"

definition parity_check :: "'d sbc_hw \<Rightarrow> ('d softc, unit) state" where
  "parity_check H = do {
     c \<leftarrow> chip (rd H sci_csr);
     (if c AND SCI_CSR_PERR \<noteq> 0 then ncr_sched_msgout H SEND_PARITY_ERROR else State_Monad.return ()) }"

text \<open>\<open>do_actions\<close>: \<open>None\<close> is the return that waits for the interrupt, \<open>Some\<close> the flags left.\<close>

definition machine_actions :: "'d sbc_hw \<Rightarrow> nat \<Rightarrow> byte \<Rightarrow> ('d softc, byte option) state" where
  "machine_actions H i act = do {
     immed \<leftarrow> look (\<lambda>w. sr_immed (sc_ring w ! i));
     if act AND ACT_WAIT_DMA \<noteq> 0 \<and> \<not> immed then State_Monad.return None
     else do {
       (if act AND ACT_WAIT_DMA \<noteq> 0 then do { hook i (dma_poll H); dma_done H i } else State_Monad.return ());
       parity_check H;
       State_Monad.return (Some (act AND NOT ACT_WAIT_DMA)) } }"

text \<open>
  A round of the machine: from \<open>dma_done\<close> when \<open>resume\<close>, else from \<open>next_phase\<close>. The result is the flags it
  leaves the loop with, \<open>None\<close> when it waits for the DMA interrupt.
\<close>

definition machine_round :: "'d sbc_hw \<Rightarrow> nat \<Rightarrow> nat \<Rightarrow> bool \<times> 'd softc \<Rightarrow> ((bool \<times> 'd softc) + (byte option \<times> 'd softc)) option" where
  "machine_round H i x s = (case s of (resume, w) \<Rightarrow>
     if resume then do { (_, w1) \<leftarrow> run (do { dma_done H i; parity_check H }) w; Some (Inl (False, w1)) }
     else do {
       (r, w1) \<leftarrow> machine_phase H i x w;
       case r of None \<Rightarrow> Some (Inl (False, w1))
       | Some act \<Rightarrow> do {
           (a, w2) \<leftarrow> run (machine_actions H i act) w1;
           Some (if a = Some ACT_CONTINUE then Inl (False, w2) else Inr (a, w2)) } })"

text \<open>Once the loop is left: reset the bus, complete the command, let go of the bus.\<close>

definition paranoia :: "'d softc \<Rightarrow> 'd softc" where
  "paranoia w = w\<lparr>sc_dataptr := None, sc_datalen := 0, sc_prevphase := PHASE_INVALID, sc_msgpriq := 0, sc_msgoutq := 0, sc_msgout := 0\<rparr>"

definition leave_reset :: "('d softc \<Rightarrow> 'd softc option) \<Rightarrow> 'd sbc_hw \<Rightarrow> byte \<Rightarrow> 'd softc \<Rightarrow> 'd softc option" where
  "leave_reset ab H act w =
     (if act AND ACT_RESET_BUS \<noteq> 0 then ncr5380_reset_scsibus ab H (w\<lparr>sc_state := sc_state w OR NCR_ABORTING\<rparr>) else Some w)"

definition leave_done :: "'d sbc_hw \<Rightarrow> nat \<Rightarrow> byte \<Rightarrow> 'd softc \<Rightarrow> 'd softc option" where
  "leave_done H x act w =
     (if act AND (ACT_RESET_BUS OR ACT_CMD_DONE) \<noteq> 0 then
        (let n = max 0 (sc_datalen w) in
         ncr5380_done H (w\<lparr>sc_datalen := n, xfers := (xfers w)(x := (xfers w x)\<lparr>resid := n\<rparr>)\<rparr>))
      else Some w)"

definition leave_free :: "('d softc \<Rightarrow> 'd softc option) \<Rightarrow> 'd sbc_hw \<Rightarrow> 'd softc \<Rightarrow> 'd softc option" where
  "leave_free ab H w = do {
     (free, w1) \<leftarrow> run (chip (wait_for (sees H sci_bus_csr SCI_BUS_BSY False) (sbc_pause H 2) (wait_req_timo H - 1))) w;
     w2 \<leftarrow> (if free then Some w1 else ncr5380_reset_scsibus ab H w1);
     (_, w3) \<leftarrow> run (chip (do {
       wr H sci_icmd 0;
       wr H sci_mode 0;
       wr H sci_tcmd PHASE_INVALID;
       wr H sci_sel_enb 0;
       SCI_CLR_INTR H;
       wr H sci_sel_enb 0x80 })) w2;
     Some (paranoia (w3\<lparr>sc_state := NCR_IDLE, sc_current := None\<rparr>)) }"

definition machine_leave :: "('d softc \<Rightarrow> 'd softc option) \<Rightarrow> 'd sbc_hw \<Rightarrow> nat \<Rightarrow> byte \<Rightarrow> 'd softc \<Rightarrow> 'd softc option" where
  "machine_leave ab H x act w = do {
     w1 \<leftarrow> leave_reset ab H act w;
     w2 \<leftarrow> leave_done H x act w1;
     if act AND (ACT_RESET_BUS OR ACT_CMD_DONE OR ACT_DISCONNECT) \<noteq> 0 then leave_free ab H w2 else Some w2 }"

definition machine_with :: "('d softc \<Rightarrow> 'd softc option) \<Rightarrow> 'd sbc_hw \<Rightarrow> 'd softc \<Rightarrow> 'd softc option" where
  "machine_with ab H w = do {
     i \<leftarrow> sc_current w;
     x \<leftarrow> sr_xs (sc_ring w ! i);
     (r, w1) \<leftarrow> c_loop (machine_round H i x) (sc_state w AND NCR_DOINGDMA \<noteq> 0, w);
     case r of None \<Rightarrow> Some w1 | Some act \<Rightarrow> machine_leave ab H x act w1 }"

text \<open>
  The machine resets the bus, which aborts, which runs the machine again. An aborting machine resets
  without aborting, so two levels are all there are; the number counts the levels.
\<close>

fun machine_at :: "nat \<Rightarrow> 'd sbc_hw \<Rightarrow> 'd softc \<Rightarrow> 'd softc option" where
  "machine_at 0 H = machine_with (\<lambda>_. None) H"
| "machine_at (Suc k) H = machine_with (abort_with (machine_at k H) H) H"

definition ncr5380_machine :: "'d sbc_hw \<Rightarrow> 'd softc \<Rightarrow> 'd softc option" where
  "ncr5380_machine H = machine_at 1 H"

definition ncr5380_abort :: "'d sbc_hw \<Rightarrow> 'd softc \<Rightarrow> 'd softc option" where
  "ncr5380_abort H = abort_with (ncr5380_machine H) H"

end
