(* ===== verification/Sbc_Sched.thy ===== *)
theory Sbc_Sched
  imports Sbc_Machine
begin

text \<open>
  NetBSD's driver: reselection, selection, the scheduler, and the entry points the kernel calls.
\<close>

subsection \<open>Reselection\<close>

datatype resel_wait = SelGone | BsyStuck | Settled byte

text \<open>Waiting for BSY to go while SEL stays.\<close>

fun resel_settle :: "'d sbc_hw \<Rightarrow> nat \<Rightarrow> byte \<Rightarrow> ('d, resel_wait) state" where
  "resel_settle H n bus =
     (if bus AND SCI_BUS_BSY = 0 then State_Monad.return (Settled bus)
      else (case n of 0 \<Rightarrow> State_Monad.return BsyStuck
        | Suc k \<Rightarrow> do {
            sbc_pause H 2;
            b \<leftarrow> rd H sci_bus_csr;
            if b AND SCI_BUS_SEL = 0 then State_Monad.return SelGone else resel_settle H k b }))"

declare resel_settle.simps [simp del]

text \<open>
  The target of a reselection: the lowest of the seven ID bits, when it is the only one. (With none set the scan
  ends with the mask of bit 6, which no such data equals.)
\<close>

definition resel_target :: "byte \<Rightarrow> nat option" where
  "resel_target data = (let target = find (bit data) [0..<7]; target_mask = (case target of None \<Rightarrow> 0x40 | Some t \<Rightarrow> push_bit t 1) in
     if data AND 0x7F \<noteq> target_mask then None else target)"

text \<open>The mode register once connected. The CXD1180 does not monitor BSY.\<close>

definition normal_mode :: "'d sbc_hw \<Rightarrow> nat \<Rightarrow> byte" where
  "normal_mode H t =
     (let mode = (if sc_parity_disable H AND push_bit t 1 \<noteq> 0 then SCI_MODE_MONBSY else SCI_MODE_MONBSY OR SCI_MODE_PAR_CHK) in
      if is_cxd1180 H then mode AND NOT SCI_MODE_MONBSY else mode)"

text \<open>Answering the target, up to the IDENTIFY message: its LUN, \<open>None\<close> goes to \<open>abort\<close>.\<close>

definition resel_answer :: "'d sbc_hw \<Rightarrow> ('d, nat option) state" where
  "resel_answer H = do {
     wr H sci_icmd SCI_ICMD_BSY;
     _ \<leftarrow> wait_for (sees H sci_bus_csr SCI_BUS_SEL False) (sbc_pause H 2) (wait_nrq_timo H - 1);
     wr H sci_icmd 0;
     wr H sci_sel_enb 0;
     SCI_CLR_INTR H;
     rq \<leftarrow> ncr5380_wait_req H;
     if \<not> rq then State_Monad.return None
     else do {
       b \<leftarrow> rd H sci_bus_csr;
       if SCI_BUS_PHASE b \<noteq> PHASE_MSG_IN then State_Monad.return None
       else do {
         wr H sci_tcmd PHASE_MSG_IN;
         msg \<leftarrow> rd H sci_data;
         State_Monad.return (if msg AND 0x80 = 0 then None else Some (unat (msg AND 7))) } } }"

text \<open>The request of this target and LUN goes on.\<close>

definition resel_resume :: "'d sbc_hw \<Rightarrow> nat \<Rightarrow> nat \<Rightarrow> ('d softc, unit) state" where
  "resel_resume H t i = do {
     alter (\<lambda>w. w\<lparr>sc_state := sc_state w OR NCR_WORKING, sc_current := Some i,
       sc_dataptr := sr_dataptr (sc_ring w ! i), sc_datalen := sr_datalen (sc_ring w ! i),
       sc_prevphase := PHASE_INVALID, sc_msgpriq := 0, sc_msgoutq := 0, sc_msgout := 0\<rparr>);
     chip (wr H sci_mode (normal_mode H t));
     hand \<leftarrow> look (\<lambda>w. sr_dma_hand (sc_ring w ! i));
     (case dma_setup H of None \<Rightarrow> State_Monad.return () | Some f \<Rightarrow> if hand then hook i f else State_Monad.return ());
     _ \<leftarrow> chip (pio_in_local H PHASE_MSG_IN);
     State_Monad.return () }"

text \<open>No request waits for this target: an ABORT message.\<close>

definition resel_abort :: "'d sbc_hw \<Rightarrow> 'd softc \<Rightarrow> 'd softc option" where
  "resel_abort H w = do {
     (_, w1) \<leftarrow> run (do {
       set_state NCR_ABORTING;
       chip (wr H sci_icmd SCI_ICMD_ATN);
       chip (sbc_pause H 2);
       _ \<leftarrow> chip (pio_in_local H PHASE_MSG_IN);
       alter (\<lambda>w. w\<lparr>sc_prevphase := PHASE_INVALID, sc_msgpriq := SEND_ABORT\<rparr>) }) w;
     (_, w2) \<leftarrow> ncr5380_msg_out H w1;
     (_, w3) \<leftarrow> run (chip (do {
       wr H sci_tcmd PHASE_INVALID;
       wr H sci_sel_enb 0;
       SCI_CLR_INTR H;
       wr H sci_sel_enb 0x80 })) w2;
     Some (w3\<lparr>sc_state := sc_state w3 AND NOT NCR_ABORTING\<rparr>) }"

definition resel_connect :: "'d sbc_hw \<Rightarrow> nat \<Rightarrow> 'd softc \<Rightarrow> 'd softc option" where
  "resel_connect H t w = do {
     (lun, w1) \<leftarrow> run (chip (resel_answer H)) w;
     case lun of None \<Rightarrow> resel_abort H w1
     | Some l \<Rightarrow> (case sc_matrix w1 t l of None \<Rightarrow> resel_abort H w1
         | Some i \<Rightarrow> Some (snd (run_state (resel_resume H t i) w1))) }"

definition ncr5380_reselect :: "'d sbc_hw \<Rightarrow> 'd softc \<Rightarrow> 'd softc option" where
  "ncr5380_reselect H w = do {
     (b, w1) \<leftarrow> run (chip (rd H sci_bus_csr)) w;
     if b AND SCI_BUS_SEL = 0 then Some w1
     else do {
       (s, w2) \<leftarrow> run (chip (resel_settle H (wait_nrq_timo H - 1) b)) w1;
       case s of SelGone \<Rightarrow> Some w2
       | BsyStuck \<Rightarrow> ncr5380_reset_scsibus (ncr5380_abort H) H w2
       | Settled bus \<Rightarrow> do {
           (data, w3) \<leftarrow> run (chip (do { sbc_pause H 2; rd H sci_data })) w2;
           if bus AND SCI_BUS_IO = 0 then ncr5380_reset_scsibus (ncr5380_abort H) H w3
           else (case resel_target data of None \<Rightarrow> Some w3 | Some t \<Rightarrow> resel_connect H t w3) } } }"

subsection \<open>Selection\<close>

text \<open>Arbitration; true when the bus is ours. AIP is looked at 11 times.\<close>

definition sbc_arbitrate :: "'d sbc_hw \<Rightarrow> ('d, bool) state" where
  "sbc_arbitrate H = do {
     wr H sci_tcmd PHASE_DATA_OUT;
     wr H sci_icmd 0;
     wr H sci_mode 0;
     wr H sci_odata 0x80;
     wr H sci_mode SCI_MODE_ARB;
     aip \<leftarrow> wait_for (sees H sci_icmd SCI_ICMD_AIP True) (sbc_pause H 2) 10;
     if \<not> aip then State_Monad.return False
     else do {
       sbc_pause H 3;
       ours \<leftarrow> sees H sci_icmd SCI_ICMD_LST False;
       if \<not> ours then State_Monad.return False
       else do {
         wr H sci_icmd (SCI_ICMD_BSY OR SCI_ICMD_SEL);
         sbc_pause H 2;
         if is_cxd1180 H then State_Monad.return True else sees H sci_icmd SCI_ICMD_LST False } } }"

text \<open>Selection of a target once the bus is ours.\<close>

definition sbc_select_target :: "'d sbc_hw \<Rightarrow> nat \<Rightarrow> ('d, xs_error) state" where
  "sbc_select_target H t = do {
     wr H sci_mode 0;
     wr H sci_sel_enb 0;
     wr H sci_odata (0x80 OR push_bit t 1);
     wr H sci_icmd (SCI_ICMD_BSY OR SCI_ICMD_SEL OR SCI_ICMD_DATA OR SCI_ICMD_ATN);
     sbc_pause H 2;
     wr H sci_icmd (SCI_ICMD_SEL OR SCI_ICMD_DATA OR SCI_ICMD_ATN);
     sbc_pause H 3;
     found \<leftarrow> wait_for (sees H sci_bus_csr SCI_BUS_BSY True) (sbc_pause H 10) 24999;
     here \<leftarrow> (if found then State_Monad.return True
       else do { wr H sci_icmd (SCI_ICMD_SEL OR SCI_ICMD_ATN); sbc_pause H 201; sees H sci_bus_csr SCI_BUS_BSY True });
     if \<not> here then do {
       wr H sci_tcmd PHASE_INVALID;
       wr H sci_icmd 0;
       wr H sci_mode 0;
       wr H sci_sel_enb 0;
       SCI_CLR_INTR H;
       wr H sci_sel_enb 0x80;
       State_Monad.return XS_SELTIMEOUT }
     else do {
       wr H sci_icmd SCI_ICMD_ATN;
       wr H sci_mode (normal_mode H t);
       State_Monad.return XS_NOERROR } }"

definition ncr5380_select :: "'d sbc_hw \<Rightarrow> nat \<Rightarrow> 'd softc \<Rightarrow> (xs_error \<times> 'd softc) option" where
  "ncr5380_select H i w = do {
     w1 \<leftarrow> ncr5380_reselect H w;
     if sc_current w1 \<noteq> None then Some (XS_BUSY, w1)
     else do {
       (ours, w2) \<leftarrow> run (chip (sbc_arbitrate H)) w1;
       if \<not> ours then do {
         (_, w3) \<leftarrow> run (chip (do { wr H sci_icmd 0; wr H sci_mode 0 })) w2;
         w4 \<leftarrow> ncr5380_reselect H w3;
         Some (XS_BUSY, w4) }
       else run (chip (sbc_select_target H (sr_target (sc_ring w2 ! i)))) w2 } }"

subsection \<open>The scheduler\<close>

text \<open>The next request: a slot in use whose target and LUN are free, searched from \<open>sc_rr\<close> round the ring.\<close>

definition ready_slot :: "'d softc \<Rightarrow> nat \<Rightarrow> bool" where
  "ready_slot w i \<longleftrightarrow> sr_xs (sc_ring w ! i) \<noteq> None \<and> sc_matrix w (sr_target (sc_ring w ! i)) (sr_lun (sc_ring w ! i)) = None"

definition next_job :: "'d softc \<Rightarrow> nat option" where
  "next_job w = find (ready_slot w) (rotate (sc_rr w) [0..<SCI_OPENINGS])"

definition sched_connect :: "nat \<Rightarrow> nat \<Rightarrow> nat \<Rightarrow> 'd softc \<Rightarrow> 'd softc" where
  "sched_connect i t l w =
     w\<lparr>sc_matrix := (sc_matrix w)(t := (sc_matrix w t)(l := Some i)), sc_current := Some i,
       sc_dataptr := sr_dataptr (sc_ring w ! i), sc_datalen := sr_datalen (sc_ring w ! i),
       sc_prevphase := PHASE_INVALID, sc_msgpriq := SEND_IDENTIFY, sc_msgoutq := 0, sc_msgout := 0\<rparr>"

text \<open>After a selection: an overdue request is aborted, a reset is a message, any other gets its DMA.\<close>

definition sched_start :: "'d sbc_hw \<Rightarrow> nat \<Rightarrow> nat \<Rightarrow> ('d softc, unit) state" where
  "sched_start H i x = do {
     overdue \<leftarrow> look (\<lambda>w. sr_overdue (sc_ring w ! i));
     reset \<leftarrow> look (\<lambda>w. ctl_reset (xfers w x));
     if overdue then alter (\<lambda>w. w\<lparr>sc_state := sc_state w OR NCR_ABORTING, sc_msgpriq := sc_msgpriq w OR SEND_ABORT\<rparr>)
     else if reset then alter (\<lambda>w. w\<lparr>sc_msgpriq := sc_msgpriq w OR SEND_DEV_RESET\<rparr>)
     else do {
       p \<leftarrow> look sc_dataptr;
       n \<leftarrow> look sc_datalen;
       (case dma_alloc H of None \<Rightarrow> State_Monad.return ()
        | Some f \<Rightarrow> if p \<noteq> None \<and> n \<ge> sc_min_dma_len H then hook i f else State_Monad.return ());
       hand \<leftarrow> look (\<lambda>w. sr_dma_hand (sc_ring w ! i));
       (case dma_setup H of None \<Rightarrow> State_Monad.return () | Some f \<Rightarrow> if hand then hook i f else State_Monad.return ()) } }"

definition have_nexus :: "'d sbc_hw \<Rightarrow> 'd softc \<Rightarrow> ('d softc + 'd softc) option" where
  "have_nexus H w = do { w1 \<leftarrow> ncr5380_machine H w; Some (if sc_state w1 = NCR_IDLE then Inl w1 else Inr w1) }"

text \<open>A selection that failed: after XS_BUSY the bus is reset, then the request is completed.\<close>

definition sched_failed :: "'d sbc_hw \<Rightarrow> nat \<Rightarrow> xs_error \<Rightarrow> 'd softc \<Rightarrow> 'd softc option" where
  "sched_failed H x e w = do {
     w1 \<leftarrow> (if e = XS_BUSY then ncr5380_reset_scsibus (ncr5380_abort H) H w else Some w);
     w2 \<leftarrow> ncr5380_done H (w1\<lparr>xfers := (xfers w1)(x := (xfers w1 x)\<lparr>error := e\<rparr>)\<rparr>);
     Some (paranoia w2) }"

text \<open>From \<open>next_job\<close>: \<open>Inl\<close> goes back there, \<open>Inr\<close> returns.\<close>

definition sched_round :: "'d sbc_hw \<Rightarrow> 'd softc \<Rightarrow> ('d softc + 'd softc) option" where
  "sched_round H w = (case next_job w of
     None \<Rightarrow> Some (Inr (w\<lparr>dev := intr_on H (dev w)\<rparr>))
   | Some i \<Rightarrow> do {
       let t = sr_target (sc_ring w ! i);
       let l = sr_lun (sc_ring w ! i);
       (e, w1) \<leftarrow> ncr5380_select H i (w\<lparr>sc_rr := i, sc_state := NCR_WORKING\<rparr>);
       if sc_current w1 \<noteq> None then
         have_nexus H (if sr_immed (sc_ring w1 ! i) then w1\<lparr>sc_state := sc_state w1 OR NCR_ABORTING, sc_msgpriq := sc_msgpriq w1 OR SEND_ABORT\<rparr> else w1)
       else do {
         x \<leftarrow> sr_xs (sc_ring w1 ! i);
         let w2 = sched_connect i t l w1;
         if e = XS_NOERROR then have_nexus H (snd (run_state (sched_start H i x) w2))
         else do { w3 \<leftarrow> sched_failed H x e w2; Some (Inl w3) } } })"

definition ncr5380_sched :: "'d sbc_hw \<Rightarrow> 'd softc \<Rightarrow> 'd softc option" where
  "ncr5380_sched H w = c_loop (sched_round H) (w\<lparr>dev := intr_off H (dev w)\<rparr>)"

definition sched_if_idle :: "'d sbc_hw \<Rightarrow> 'd softc \<Rightarrow> 'd softc option" where
  "sched_if_idle H w = (if sc_state w = NCR_IDLE then ncr5380_sched H w else Some w)"

subsection \<open>Entry points\<close>

text \<open>
  \<open>ADAPTER_REQ_RUN_XFER\<close>. A polled request aborts the current one, runs next, and is complete when the call
  returns; the driver panics otherwise.
\<close>

definition ncr5380_scsipi_request :: "'d sbc_hw \<Rightarrow> nat \<Rightarrow> 'd softc \<Rightarrow> 'd softc option" where
  "ncr5380_scsipi_request H x w = do {
     let poll = ctl_poll (xfers w x);
     w1 \<leftarrow> (if poll \<and> sc_current w \<noteq> None then ncr5380_abort H w else Some w);
     if poll \<and> sc_state w1 \<noteq> NCR_IDLE then None
     else do {
       (i, w2) \<leftarrow> enqueue x w1;
       w3 \<leftarrow> sched_if_idle H (if poll then w2\<lparr>sc_rr := i\<rparr> else w2);
       if poll \<and> \<not> xs_done (xfers w3 x) then None else Some w3 } }"

text \<open>The interrupt handler, and whether it claims the interrupt.\<close>

definition ncr5380_intr :: "'d sbc_hw \<Rightarrow> 'd softc \<Rightarrow> (bool \<times> 'd softc) option" where
  "ncr5380_intr H w = do {
     w1 \<leftarrow> (if sc_state w = NCR_IDLE then ncr5380_reselect H (w\<lparr>dev := intr_off H (dev w)\<rparr>) else Some w);
     let claimed = (sc_state w1 AND NCR_WORKING \<noteq> 0);
     w2 \<leftarrow> (if claimed then ncr5380_machine H w1 else Some w1);
     w3 \<leftarrow> sched_if_idle H w2;
     Some (claimed, w3) }"

text \<open>The timer of slot \<open>i\<close>.\<close>

definition ncr5380_cmd_timeout :: "'d sbc_hw \<Rightarrow> nat \<Rightarrow> 'd softc \<Rightarrow> 'd softc option" where
  "ncr5380_cmd_timeout H i w =
     (if sr_xs (sc_ring w ! i) = None then Some w
      else do {
        let sr = sc_ring w ! i;
        let w1 = w\<lparr>sc_ring := (sc_ring w)[i := sr\<lparr>sr_overdue := True\<rparr>]\<rparr>;
        w2 \<leftarrow> (if sc_current w1 = Some i then ncr5380_abort H w1
          else Some (w1\<lparr>sc_matrix := (sc_matrix w1)(sr_target sr := (sc_matrix w1 (sr_target sr))(sr_lun sr := None))\<rparr>));
        sched_if_idle H w2 })"

definition ncr5380_init :: "'d sbc_hw \<Rightarrow> ('d softc, unit) state" where
  "ncr5380_init H = do {
     alter (\<lambda>w. w\<lparr>sc_ring := map (\<lambda>sr. sr\<lparr>sr_xs := None\<rparr>) (sc_ring w), sc_matrix := (\<lambda>_ _. None),
       sc_prevphase := PHASE_INVALID, sc_state := NCR_IDLE\<rparr>);
     chip (do {
       wr H sci_tcmd PHASE_INVALID;
       wr H sci_icmd 0;
       wr H sci_mode 0;
       wr H sci_sel_enb 0;
       SCI_CLR_INTR H;
       wr H sci_sel_enb 0x80;
       State (\<lambda>d. ((), intr_on H d)) }) }"

end
