(* ===== verification/Sbc_Keep.thy ===== *)
theory Sbc_Keep
  imports Sbc_Sched
begin

text \<open>
  What the phase handlers of NetBSD's driver leave alone. \<open>chip_keep\<close>: an invariant that does not look at the
  device is kept by all access to the chip. \<open>out_keep\<close> does not look at the messages to send either, and is kept
  by the message out phase. \<open>keep\<close> allows the data pointers, the results and the flags to change, as
  the handlers change them, and is kept by every handler but message in; \<open>keep_in\<close>, which does not look
  at the message received, by the loop of the machine.
\<close>

lemma alter_triple: "(\<And>w. P w \<Longrightarrow> Q () (f w)) \<Longrightarrow> triple P (alter f) Q"
  by (auto simp: alter_def intro: triple_State)

lemma c_loop_keeps:
  assumes "c_loop body s = Some r" "I s"
    and "\<And>s x. I s \<Longrightarrow> body s = Some x \<Longrightarrow> (case x of Inl s' \<Rightarrow> I s' | Inr r \<Rightarrow> Q r)"
  shows "Q r"
proof (rule c_loop_partial [OF assms(1), where I = I])
  show "I s'" if "I s" "body s = Some (Inl s')" for s s' using assms(3) [OF that] by simp
  show "Q r'" if "I s" "body s = Some (Inr r')" for s r' using assms(3) [OF that] by simp
qed (rule assms(2))

text \<open>
  \<open>partly P f Q\<close>: from a state in \<open>P\<close>, if \<open>f\<close> returns, its result is in \<open>Q\<close>.
\<close>

definition partly :: "('w \<Rightarrow> bool) \<Rightarrow> ('w \<Rightarrow> 'r option) \<Rightarrow> ('r \<Rightarrow> bool) \<Rightarrow> bool" where
  "partly P f Q \<longleftrightarrow> (\<forall>w r. P w \<longrightarrow> f w = Some r \<longrightarrow> Q r)"

lemma partlyI: "(\<And>w r. P w \<Longrightarrow> f w = Some r \<Longrightarrow> Q r) \<Longrightarrow> partly P f Q"
  by (auto simp: partly_def)

lemma partlyD: "partly P f Q \<Longrightarrow> P w \<Longrightarrow> f w = Some r \<Longrightarrow> Q r"
  by (auto simp: partly_def)

lemma partly_cons: "partly P f Q \<Longrightarrow> (\<And>w. P' w \<Longrightarrow> P w) \<Longrightarrow> (\<And>r. Q r \<Longrightarrow> Q' r) \<Longrightarrow> partly P' f Q'"
  by (auto simp: partly_def)

lemma partly_run: "triple P m (\<lambda>x w. Q (x, w)) \<Longrightarrow> partly P (run m) Q"
  by (auto simp: partly_def triple_def run_def split: prod.splits)

lemma partly_Some: "(\<And>w. P w \<Longrightarrow> Q (f w)) \<Longrightarrow> partly P (\<lambda>w. Some (f w)) Q"
  by (auto simp: partly_def)

lemma partly_None: "partly P (\<lambda>w. None) Q"
  by (auto simp: partly_def)

lemma partly_bind: "partly P f R \<Longrightarrow> partly R g Q \<Longrightarrow> partly P (\<lambda>w. f w \<bind> g) Q"
  by (auto simp: partly_def split: bind_splits)

lemma partly_pair: "(\<And>r. partly (\<lambda>w. P (r, w)) (g r) Q) \<Longrightarrow> partly P (\<lambda>(r, w). g r w) Q"
  by (auto simp: partly_def)

lemma partly_if: "(b \<Longrightarrow> partly P f Q) \<Longrightarrow> (\<not> b \<Longrightarrow> partly P g Q) \<Longrightarrow> partly P (\<lambda>w. if b then f w else g w) Q"
  by (auto simp: partly_def)

lemma partly_if_state: "partly (\<lambda>w. P w \<and> b w) f Q \<Longrightarrow> partly (\<lambda>w. P w \<and> \<not> b w) g Q \<Longrightarrow> partly P (\<lambda>w. if b w then f w else g w) Q"
  by (auto simp: partly_def)

lemma partly_option:
  "(x = None \<Longrightarrow> partly P f Q) \<Longrightarrow> (\<And>a. x = Some a \<Longrightarrow> partly P (g a) Q) \<Longrightarrow> partly P (\<lambda>w. case x of None \<Rightarrow> f w | Some a \<Rightarrow> g a w) Q"
  by (cases x) auto

lemma partly_same:
  "partly P f (\<lambda>(r, w). P w) \<Longrightarrow> (\<And>r. partly P (g r) Q) \<Longrightarrow> partly P (\<lambda>w. f w \<bind> (\<lambda>(r, w). g r w)) Q"
  by (auto simp: partly_def split: bind_splits)

locale chip_keep =
  fixes I :: "'d softc \<Rightarrow> bool"
  assumes dev: "I (w\<lparr>dev := d\<rparr>) = I w"
begin

lemma look: "preserves I (look f)"
  by (auto simp: look_def intro: triple_State)

lemma has_state: "preserves I (has_state b)"
  unfolding has_state_def by (rule look)

lemma chip: "preserves I (chip m)"
  by (auto simp: chip_def dev split: prod.splits intro!: triple_State)

lemma alter: "(\<And>w. I w \<Longrightarrow> I (f w)) \<Longrightarrow> preserves I (alter f)"
  by (rule alter_triple)

lemmas cprims = look has_state chip preserves_rules

lemma ran: "preserves I m \<Longrightarrow> I w \<Longrightarrow> run_state m w = (x, w') \<Longrightarrow> I w'"
  by (rule tripleD)

lemma looped: "(\<And>s. preserves I (body s)) \<Longrightarrow> partly (\<lambda>(s, w). I w) (local_loop body) (\<lambda>(r, w). I w)"
  by (rule partlyI, clarify, erule local_loop_partial [where J = "\<lambda>_. I" and Q = "\<lambda>_. I"], assumption)
    (auto elim!: triple_cons split: sum.splits)

lemma runs: "preserves I m \<Longrightarrow> partly I (run m) (\<lambda>(r, w). I w)"
  by (auto intro!: partly_run elim!: triple_cons)

end

locale out_keep = chip_keep I for I :: "'d softc \<Rightarrow> bool" +
  assumes msgpriq: "I (w\<lparr>sc_msgpriq := a\<rparr>) = I w"
    and msgoutq: "I (w\<lparr>sc_msgoutq := a\<rparr>) = I w"
    and msgout: "I (w\<lparr>sc_msgout := a\<rparr>) = I w"
    and omess: "I w \<Longrightarrow> I (w\<lparr>sc_omess := (sc_omess w)[0 := v]\<rparr>)"
    and omp_one: "I w \<Longrightarrow> I (w\<lparr>sc_omp := 1\<rparr>)"
    and omp_less: "I w \<Longrightarrow> I (w\<lparr>sc_omp := sc_omp w - 1\<rparr>)"
begin

lemma sched_msgout: "preserves I (ncr_sched_msgout H m)"
  unfolding ncr_sched_msgout_def by (intro cprims alter) (simp add: msgpriq)

lemma msg_out_pick: "preserves I (msg_out_pick H)"
  unfolding msg_out_pick_def Let_def
  by (intro cprims alter) (use omess omp_one in \<open>auto simp: msgpriq msgoutq msgout\<close>)

lemma msg_out_bytes: "preserves I (msg_out_bytes H icmd act n)"
proof (induction n arbitrary: icmd)
  case 0
  show ?case by (simp add: preserves_return)
next
  case (Suc n)
  show ?case unfolding msg_out_bytes.simps Let_def by (intro cprims alter Suc omp_less)
qed

lemma msg_out_round: "preserves I (msg_out_round H s)"
  unfolding msg_out_round_def by (intro cprims msg_out_pick msg_out_bytes)

lemma msg_out_start: "preserves I (msg_out_start H)"
  unfolding msg_out_start_def Let_def by (intro cprims alter) (simp_all add: msgpriq msgoutq)

lemma msg_out: "partly I (ncr5380_msg_out H) (\<lambda>(act, w). I w)"
  unfolding ncr5380_msg_out_def [abs_def]
  by (rule partly_bind [OF runs [OF msg_out_start]], rule partly_bind [OF looped [OF msg_out_round]])
    (auto intro!: partly_pair runs cprims)

end

text \<open>What a change of a slot, of a transfer and of the flags leaves alone.\<close>

definition slot_view :: "sci_req \<Rightarrow> nat option \<times> nat \<times> nat" where
  "slot_view sr = (sr_xs sr, sr_target sr, sr_lun sr)"

definition addr_view :: "xfer \<Rightarrow> nat \<times> nat" where
  "addr_view xs = (periph_target xs, periph_lun xs)"

definition flags_up :: "byte \<Rightarrow> byte \<Rightarrow> bool" where
  "flags_up s s' \<longleftrightarrow> (bit s 0 \<longrightarrow> bit s' 0) \<and> (bit s 1 \<longrightarrow> bit s' 1)"

lemma flags_up_refl [simp]: "flags_up s s"
  by (simp add: flags_up_def)

lemma flags_up_trans: "flags_up r s \<Longrightarrow> flags_up s t \<Longrightarrow> flags_up r t"
  by (simp add: flags_up_def)

lemma flags_up_or [simp]: "flags_up s (s OR b)"
  by (simp add: flags_up_def bit_or_iff)

locale keep = out_keep I for I :: "'d softc \<Rightarrow> bool" +
  assumes dataptr: "I (w\<lparr>sc_dataptr := p\<rparr>) = I w"
    and datalen: "I (w\<lparr>sc_datalen := n\<rparr>) = I w"
    and prevphase: "I (w\<lparr>sc_prevphase := b\<rparr>) = I w"
    and ring: "I w \<Longrightarrow> slot_view sr = slot_view (sc_ring w ! i) \<Longrightarrow> I (w\<lparr>sc_ring := (sc_ring w)[i := sr]\<rparr>)"
    and xs: "I w \<Longrightarrow> addr_view z = addr_view (xfers w x) \<Longrightarrow> I (w\<lparr>xfers := (xfers w)(x := z)\<rparr>)"
    and flags: "I w \<Longrightarrow> flags_up (sc_state w) s \<Longrightarrow> I (w\<lparr>sc_state := s\<rparr>)"
begin

lemma set_state: "preserves I (set_state b)"
  unfolding set_state_def by (intro alter flags) simp_all

lemma hook: "preserves I (hook i f)"
proof (unfold hook_def, rule alter)
  fix w assume I: "I w"
  obtain doing aborting p n hand d where f: "f (sc_state w AND NCR_DOINGDMA \<noteq> 0, sc_state w AND NCR_ABORTING \<noteq> 0, sc_dataptr w, sc_datalen w,
      sr_dma_hand (sc_ring w ! i)) (dev w) = ((doing, aborting, p, n, hand), d)" by (metis surj_pair)
  let ?s = "(if doing then sc_state w OR NCR_DOINGDMA else sc_state w AND NOT NCR_DOINGDMA) OR (if aborting then NCR_ABORTING else 0)"
  have "flags_up (sc_state w) ?s" by (cases doing; cases aborting) (simp_all add: flags_up_def bit_or_iff bit_and_iff)
  from flags [OF I this] have "I (w\<lparr>sc_state := ?s, sc_dataptr := p, sc_datalen := n\<rparr>)"
    by (simp only: dataptr datalen)
  from ring [OF this, of "(sc_ring w ! i)\<lparr>sr_dma_hand := hand\<rparr>" i]
  have "I (w\<lparr>sc_state := ?s, sc_dataptr := p, sc_datalen := n, sc_ring := (sc_ring w)[i := (sc_ring w ! i)\<lparr>sr_dma_hand := hand\<rparr>], dev := d\<rparr>)"
    unfolding dev by (simp add: slot_view_def)
  with f show "I (case f (sc_state w AND NCR_DOINGDMA \<noteq> 0, sc_state w AND NCR_ABORTING \<noteq> 0, sc_dataptr w, sc_datalen w, sr_dma_hand (sc_ring w ! i)) (dev w) of
     ((doing, aborting, p, n, hand), d) \<Rightarrow>
       w\<lparr>sc_state := (if doing then sc_state w OR NCR_DOINGDMA else sc_state w AND NOT NCR_DOINGDMA) OR (if aborting then NCR_ABORTING else 0),
         sc_dataptr := p, sc_datalen := n, sc_ring := (sc_ring w)[i := (sc_ring w ! i)\<lparr>sr_dma_hand := hand\<rparr>], dev := d\<rparr>)"
    by (simp only: prod.case)
qed

lemma slot: "(\<And>sr. slot_view (f sr) = slot_view sr) \<Longrightarrow> preserves I (slot i f)"
  unfolding slot_def by (intro alter ring) auto

lemma xs_upd: "(\<And>z. addr_view (f z) = addr_view z) \<Longrightarrow> preserves I (xs_upd x f)"
  unfolding xs_upd_def by (intro alter xs) auto

lemmas kprims = set_state hook sched_msgout cprims

lemma save_pointers: "preserves I (save_pointers i)"
  unfolding save_pointers_def by (intro kprims slot) (simp add: slot_view_def)

lemma restore_pointers: "preserves I (restore_pointers i)"
  unfolding restore_pointers_def by (rule alter) (simp add: dataptr datalen)

lemma reply: "preserves I (reply H m)"
  unfolding reply_def by (intro kprims)

lemma parse_msg: "preserves I (parse_msg H i x icmd)"
  unfolding parse_msg_def by (intro kprims reply save_pointers restore_pointers)

lemma msg_in_check: "preserves I (msg_in_check H)"
  unfolding msg_in_check_def by (intro kprims)

lemma command: "preserves I (ncr5380_command H x)"
  unfolding ncr5380_command_def by (intro kprims xs_upd) (simp add: addr_view_def)

lemma data_abort: "preserves I (data_abort H)"
  unfolding data_abort_def by (intro kprims)

lemma data_xfer: "preserves I (ncr5380_data_xfer H i x phase)"
  unfolding ncr5380_data_xfer_def data_pad_def data_pio_def
  by (intro kprims data_abort alter) (simp add: dataptr datalen)

lemma status: "preserves I (ncr5380_status H i)"
  unfolding ncr5380_status_def by (intro kprims slot) (simp add: slot_view_def)

lemma machine_abort: "preserves I (machine_abort H)"
  unfolding machine_abort_def by (intro kprims)

lemma dma_done: "preserves I (dma_done H i)" "preserves I (parity_check H)"
  unfolding dma_done_def parity_check_def by (intro kprims)+

lemma machine_actions: "preserves I (machine_actions H i act)"
  unfolding machine_actions_def by (intro kprims dma_done)

lemma done_result: "preserves I (done_result H i x)"
  unfolding done_result_def by (intro kprims xs_upd) (simp_all add: addr_view_def)

lemma sched_start: "preserves I (sched_start H i x)"
  unfolding sched_start_def by (intro kprims alter) (simp_all add: msgpriq flags)

end

text \<open>With the message in phase, the whole loop of the machine.\<close>

locale machine_keep = keep I for I :: "'d softc \<Rightarrow> bool" +
  assumes msg_in: "partly I (ncr5380_msg_in H i x) (\<lambda>(act, w). I w)"
begin

lemma handle: "partly I (machine_handle H i x phase) (\<lambda>(r, w). I w)"
proof -
  have phases: "partly I (\<lambda>w. if phase = PHASE_DATA_OUT \<or> phase = PHASE_DATA_IN then run (ncr5380_data_xfer H i x phase) w
      else if phase = PHASE_COMMAND then run (ncr5380_command H x) w
      else if phase = PHASE_STATUS then run (ncr5380_status H i) w
      else if phase = PHASE_MSG_OUT then ncr5380_msg_out H w else ncr5380_msg_in H i x w) (\<lambda>(act, w). I w)"
    by (intro partly_if runs data_xfer command status msg_out msg_in)
  show ?thesis
    unfolding machine_handle_def [abs_def]
    by (intro partly_if partly_bind [OF phases] partly_pair partly_Some runs machine_abort) (simp add: prevphase)
qed

lemma machine_phase: "partly I (machine_phase H i x) (\<lambda>(r, w). I w)"
  unfolding machine_phase_def [abs_def]
  by (intro partly_same partly_if runs handle kprims machine_abort xs_upd) (simp add: addr_view_def)

lemma machine_round:
  "partly (\<lambda>(resume, w). I w) (machine_round H i x) (\<lambda>y. case y of Inl (resume, w) \<Rightarrow> I w | Inr (r, w) \<Rightarrow> I w)"
  unfolding machine_round_def [abs_def] prod.case
  by (intro partly_pair partly_if partly_option; unfold prod.case)
    (intro partly_same partly_option runs machine_phase machine_actions kprims dma_done partly_Some; simp)+

text \<open>The machine up to the point where it leaves its loop.\<close>

lemma machine_loop:
  assumes "c_loop (machine_round H i x) (resume, w) = Some (r, w')" "I w"
  shows "I w'"
  using c_loop_keeps [OF assms(1), where I = "\<lambda>(b, w). I w" and Q = "\<lambda>(b, w). I w"] assms(2) partlyD [OF machine_round] by auto

end

locale keep_in = keep I for I :: "'d softc \<Rightarrow> bool" +
  assumes imess: "I (w\<lparr>sc_imess := m\<rparr>) = I w"
    and imp: "I (w\<lparr>sc_imp := n\<rparr>) = I w"
begin

lemma msg_in_gather: "preserves I (msg_in_gather H n)"
  unfolding msg_in_gather_def by (intro kprims alter) (simp add: imess imp)

lemma msg_in_round: "preserves I (msg_in_round H i x icmd n)"
  unfolding msg_in_round_def Let_def by (intro kprims alter msg_in_check msg_in_gather parse_msg) (simp add: imp)

lemma msg_in_start: "preserves I (msg_in_start H)"
  unfolding msg_in_start_def by (intro kprims alter) (simp add: imp flags flags_up_def bit_and_iff)

lemma gathered: "partly I (ncr5380_msg_in H i x) (\<lambda>(act, w). I w)"
  unfolding ncr5380_msg_in_def [abs_def]
  by (rule partly_bind [OF runs [OF msg_in_start] looped]) (auto intro!: preserves_prod msg_in_round)

end

sublocale keep_in \<subseteq> machine_keep
  by unfold_locales (rule gathered)

end
