(* ===== verification/Sbc_Books.thy ===== *)
theory Sbc_Books
  imports Sbc_Keep "HOL-Library.Multiset"
begin

text \<open>
  The books of NetBSD's driver: the ring, the count of commands, the matrix of busy LUNs and the
  current request agree, and every request taken is in one slot of the ring or was returned.
\<close>

subsection \<open>Well-formed states\<close>

definition slot_used :: "'d softc \<Rightarrow> nat \<Rightarrow> bool" where
  "slot_used w i \<longleftrightarrow> i < SCI_OPENINGS \<and> sr_xs (sc_ring w ! i) \<noteq> None"

definition matrix_at :: "'d softc \<Rightarrow> nat \<Rightarrow> nat option" where
  "matrix_at w i = sc_matrix w (sr_target (sc_ring w ! i)) (sr_lun (sc_ring w ! i))"

definition ring_ok :: "'d softc \<Rightarrow> bool" where
  "ring_ok w \<longleftrightarrow> length (sc_ring w) = SCI_OPENINGS \<and> sc_rr w < SCI_OPENINGS \<and>
     (\<forall>sr\<in>set (sc_ring w). sr_xs sr \<noteq> None \<longrightarrow> sr_target sr < 8 \<and> sr_lun sr < 8)"

definition matrix_ok :: "'d softc \<Rightarrow> bool" where
  "matrix_ok w \<longleftrightarrow> (\<forall>t<8. \<forall>l<8. case sc_matrix w t l of None \<Rightarrow> True
     | Some i \<Rightarrow> slot_used w i \<and> sr_target (sc_ring w ! i) = t \<and> sr_lun (sc_ring w ! i) = l)"

definition current_ok :: "'d softc \<Rightarrow> bool" where
  "current_ok w \<longleftrightarrow> (case sc_current w of None \<Rightarrow> True | Some i \<Rightarrow> slot_used w i \<and> matrix_at w i \<in> {None, Some i})"

definition held :: "'d softc \<Rightarrow> nat list" where
  "held w = List.map_filter sr_xs (sc_ring w)"

text \<open>The pointers into the message buffers stay inside them.\<close>

definition msgs_ok :: "'d softc \<Rightarrow> bool" where
  "msgs_ok w \<longleftrightarrow> length (sc_imess w) = NCR_MAX_MSG_LEN \<and> sc_imp w \<le> NCR_MAX_MSG_LEN \<and>
     length (sc_omess w) = NCR_MAX_MSG_LEN \<and> sc_omp w \<le> NCR_MAX_MSG_LEN"

definition books :: "'d softc \<Rightarrow> bool" where
  "books w \<longleftrightarrow> sc_ncmds w = int (length (held w)) \<and> mset (taken w) = mset (held w) + mset (map fst (returned w))"

definition sbc_ok :: "'d softc \<Rightarrow> bool" where
  "sbc_ok w \<longleftrightarrow> ring_ok w \<and> matrix_ok w \<and> current_ok w \<and> msgs_ok w \<and> books w"

text \<open>The mid-layer's side: it hands over requests for the eight targets and LUNs of the channel.\<close>

definition addressed :: "'d softc \<Rightarrow> bool" where
  "addressed w \<longleftrightarrow> (\<forall>x. periph_target (xfers w x) < 8 \<and> periph_lun (xfers w x) < 8)"

definition sound :: "'d softc \<Rightarrow> bool" where
  "sound w \<longleftrightarrow> sbc_ok w \<and> addressed w"

text \<open>Between two calls: idle without a current request, or busy with one.\<close>

definition engaged :: "'d softc \<Rightarrow> bool" where
  "engaged w \<longleftrightarrow> bit (sc_state w) 0 \<or> bit (sc_state w) 1"

definition at_rest :: "'d softc \<Rightarrow> bool" where
  "at_rest w \<longleftrightarrow> (if sc_current w = None then sc_state w = NCR_IDLE else engaged w)"

subsection \<open>What most of the driver leaves alone\<close>

definition view :: "'d softc \<Rightarrow> _" where
  "view w = (map slot_view (sc_ring w), sc_ncmds w, sc_matrix w, sc_current w, sc_rr w, taken w, returned w, addr_view \<circ> xfers w)"

definition calm :: "'d softc \<Rightarrow> 'd softc \<Rightarrow> bool" where
  "calm v w \<longleftrightarrow> view w = view v \<and> flags_up (sc_state v) (sc_state w) \<and> (msgs_ok v \<longrightarrow> msgs_ok w)"

lemma calm_refl [simp]: "calm w w"
  by (simp add: calm_def)

lemma calm_trans: "calm u v \<Longrightarrow> calm v w \<Longrightarrow> calm u w"
  by (auto simp: calm_def elim: flags_up_trans)

lemma held_view: "held w = List.map_filter fst (map slot_view (sc_ring w))"
  by (simp add: held_def slot_view_def List.map_filter_def comp_def filter_map)

lemma same_slots: "slot_view sr = slot_view (rs ! i) \<Longrightarrow> map slot_view (rs[i := sr]) = map slot_view rs"
  by (cases "i < length rs") (auto simp: map_update list_update_same_conv list_update_beyond)

lemma view_parts:
  assumes "view w' = view w"
  shows "length (sc_ring w') = length (sc_ring w)" "sc_matrix w' = sc_matrix w" "sc_current w' = sc_current w" "sc_rr w' = sc_rr w"
    "sc_ncmds w' = sc_ncmds w" "taken w' = taken w" "returned w' = returned w" "held w' = held w"
    "\<And>i. i < length (sc_ring w) \<Longrightarrow> slot_view (sc_ring w' ! i) = slot_view (sc_ring w ! i)"
    "\<And>x. addr_view (xfers w' x) = addr_view (xfers w x)"
proof -
  have maps: "map slot_view (sc_ring w') = map slot_view (sc_ring w)" using assms by (simp add: view_def)
  then show len: "length (sc_ring w') = length (sc_ring w)" by (rule map_eq_imp_length_eq)
  show "slot_view (sc_ring w' ! i) = slot_view (sc_ring w ! i)" if "i < length (sc_ring w)" for i
    using arg_cong [OF maps, of "\<lambda>xs. xs ! i"] that len by simp
  show "held w' = held w" using maps by (simp add: held_view)
  show "addr_view (xfers w' x) = addr_view (xfers w x)" for x
    using assms by (auto simp: view_def fun_eq_iff)
qed (use assms in \<open>auto simp: view_def\<close>)

lemma sound_view:
  assumes "view w' = view w" "msgs_ok w \<longrightarrow> msgs_ok w'" "sound w"
  shows "sound w'"
proof -
  note p = view_parts [OF assms(1)]
  have len: "length (sc_ring w) = SCI_OPENINGS" using assms(3) by (simp add: sound_def sbc_ok_def ring_ok_def)
  have slots: "sr_xs (sc_ring w' ! i) = sr_xs (sc_ring w ! i)" "sr_target (sc_ring w' ! i) = sr_target (sc_ring w ! i)"
    "sr_lun (sc_ring w' ! i) = sr_lun (sc_ring w ! i)" if "i < SCI_OPENINGS" for i
    using p(9) [of i] that len by (auto simp: slot_view_def)
  have used: "slot_used w' i = slot_used w i" for i using slots by (auto simp: slot_used_def)
  have "ring_ok w'" using assms(3) slots p(1,4) by (auto simp: sound_def sbc_ok_def ring_ok_def all_set_conv_all_nth)
  moreover have "matrix_ok w'" using assms(3) slots used p(2)
    by (auto simp: sound_def sbc_ok_def matrix_ok_def slot_used_def split: option.splits)
  moreover have "current_ok w'" using assms(3) slots used p(2,3)
    by (auto simp: sound_def sbc_ok_def current_ok_def matrix_at_def slot_used_def split: option.splits)
  moreover have "books w'" using assms(3) p(5-8) by (simp add: sound_def sbc_ok_def books_def)
  moreover have "addressed w'" using assms(3) p(10) by (simp add: sound_def addressed_def addr_view_def)
  ultimately show ?thesis using assms(2,3) by (simp add: sound_def sbc_ok_def)
qed

lemma calm_sound: "calm v w \<Longrightarrow> sound v \<Longrightarrow> sound w"
  by (auto simp: calm_def intro: sound_view)

lemma calm_current: "calm v w \<Longrightarrow> sc_current w = sc_current v"
  by (auto simp: calm_def dest: view_parts)

lemma msgs_ok_simps [simp]:
  "msgs_ok (w\<lparr>dev := d\<rparr>) = msgs_ok w" "msgs_ok (w\<lparr>sc_msgpriq := a\<rparr>) = msgs_ok w" "msgs_ok (w\<lparr>sc_msgoutq := a\<rparr>) = msgs_ok w"
  "msgs_ok (w\<lparr>sc_msgout := a\<rparr>) = msgs_ok w" "msgs_ok (w\<lparr>sc_dataptr := p\<rparr>) = msgs_ok w" "msgs_ok (w\<lparr>sc_datalen := n\<rparr>) = msgs_ok w"
  "msgs_ok (w\<lparr>sc_prevphase := b\<rparr>) = msgs_ok w" "msgs_ok (w\<lparr>sc_ring := r\<rparr>) = msgs_ok w" "msgs_ok (w\<lparr>xfers := xf\<rparr>) = msgs_ok w"
  "msgs_ok (w\<lparr>sc_state := s\<rparr>) = msgs_ok w" "msgs_ok (w\<lparr>sc_current := c\<rparr>) = msgs_ok w" "msgs_ok (w\<lparr>sc_rr := k\<rparr>) = msgs_ok w"
  "msgs_ok (w\<lparr>sc_matrix := m\<rparr>) = msgs_ok w" "msgs_ok (w\<lparr>sc_ncmds := z\<rparr>) = msgs_ok w" "msgs_ok (w\<lparr>taken := ts\<rparr>) = msgs_ok w"
  "msgs_ok (w\<lparr>returned := rs\<rparr>) = msgs_ok w" "msgs_ok (w\<lparr>arrivals := as\<rparr>) = msgs_ok w"
  by (simp_all add: msgs_ok_def)

interpretation calm: keep "calm v" for v
  by unfold_locales
    (auto simp: calm_def view_def fun_eq_iff same_slots intro: flags_up_trans, auto simp: msgs_ok_def)

text \<open>Message in keeps \<open>n\<close> the offset of \<open>sc_imp\<close>, and gathers no more than fits.\<close>

definition gathering :: "'d softc \<Rightarrow> nat \<Rightarrow> 'd softc \<Rightarrow> bool" where
  "gathering v n w \<longleftrightarrow> calm v w \<and> sc_imp w = n"

interpretation gathering: keep "gathering v n" for v n
  by unfold_locales
    (auto simp: gathering_def calm.dev calm.msgpriq calm.msgoutq calm.msgout calm.dataptr calm.datalen calm.prevphase
      intro: calm.omess calm.omp_one [simplified] calm.omp_less [simplified] calm.ring calm.xs calm.flags)

lemma msg_in_gather_calm: "triple (gathering v n) (msg_in_gather H n) (\<lambda>(n', complete). gathering v n')"
proof -
  have keep: "triple (gathering v n) (do { ncr_sched_msgout H SEND_REJECT; set_state NCR_DROP_MSGIN; State_Monad.return (n, False) }) (\<lambda>(n', complete). gathering v n')"
    by (rule triple_preserves [OF gathering.sched_msgout], rule triple_preserves [OF gathering.set_state]) (simp add: triple_return)
  have store: "triple (gathering v n) (do { b \<leftarrow> chip (rd H sci_data);
       alter (\<lambda>w. w\<lparr>sc_imess := (sc_imess w)[sc_imp w := b], sc_imp := sc_imp w + 1\<rparr>); m \<leftarrow> look sc_imess; State_Monad.return (n + 1, c m) })
     (\<lambda>(n', complete). gathering v n')" if "\<not> n \<ge> NCR_MAX_MSG_LEN" for c
  proof (rule triple_preserves [OF gathering.chip], rule triple_bind [OF alter_triple [where Q = "\<lambda>_. gathering v (n + 1)"]])
    fix b w assume "gathering v n w"
    with that show "gathering v (n + 1) (w\<lparr>sc_imess := (sc_imess w)[sc_imp w := b], sc_imp := sc_imp w + 1\<rparr>)"
      by (auto simp: gathering_def calm_def view_def msgs_ok_def)
  qed (rule triple_preserves [OF gathering.look], simp add: triple_return)
  show ?thesis unfolding msg_in_gather_def
    by (rule triple_preserves [OF gathering.has_state], intro triple_if keep store) (simp_all add: triple_return)
qed

lemma msg_in_round_calm:
  "triple (gathering v n) (msg_in_round H i x icmd n) (\<lambda>r. case r of Inl (icmd', n') \<Rightarrow> gathering v n' | Inr act \<Rightarrow> calm v)"
proof -
  let ?Q = "\<lambda>r. case r of Inl (icmd', n') \<Rightarrow> gathering v n' | Inr act \<Rightarrow> calm v"
  have again: "triple (gathering v n1) (do { ok \<leftarrow> chip (ack_byte H icmd);
      State_Monad.return (if ok then Inl (icmd AND NOT SCI_ICMD_ACK, n1) else Inr ACT_RESET_BUS) }) ?Q" for n1
    by (rule triple_preserves [OF gathering.chip]) (auto intro!: triple_return simp: gathering_def)
  have zero: "triple (gathering v n1) (do { alter (\<lambda>w. w\<lparr>sc_imp := 0\<rparr>); State_Monad.return (Inl (c, 0)) }) ?Q" for n1 c
    by (rule triple_bind [OF alter_triple [where Q = "\<lambda>_. gathering v 0"]])
      (auto simp: gathering_def calm_def view_def msgs_ok_def intro!: triple_return)
  have parsed: "triple (gathering v n1) (do { (act, icmd1) \<leftarrow> parse_msg H i x icmd; ok \<leftarrow> chip (ack_byte H icmd1);
      let act1 = (if ok then act else act OR ACT_RESET_BUS);
      if act1 = ACT_CONTINUE then do { alter (\<lambda>w. w\<lparr>sc_imp := 0\<rparr>); State_Monad.return (Inl (icmd1 AND NOT SCI_ICMD_ACK, 0)) }
      else State_Monad.return (Inr act1) }) ?Q" for n1
    unfolding Let_def
    by (rule triple_preserves [OF gathering.parse_msg], rule triple_prod, rule triple_preserves [OF gathering.chip], intro triple_if zero)
      (auto intro!: triple_return simp: gathering_def)
  have parity: "preserves (gathering v n) (if p then do { ncr_sched_msgout H SEND_PARITY_ERROR; set_state NCR_DROP_MSGIN } else State_Monad.return ())" for p
    by (intro gathering.kprims)
  show ?thesis unfolding msg_in_round_def
    by (rule triple_preserves [OF gathering.msg_in_check], rule triple_option,
        rule triple_preserves [OF gathering.chip], rule triple_preserves [OF parity], rule triple_bind [OF msg_in_gather_calm])
      (auto intro!: triple_return triple_prod triple_if again parsed simp: gathering_def)
qed

lemma msg_in_start_calm: "triple (calm v) (msg_in_start H) (\<lambda>(icmd, n). gathering v n)"
proof -
  have old: "triple (calm v) (do { n \<leftarrow> look sc_imp; State_Monad.return (c, n) }) (\<lambda>(icmd, n). gathering v n)" for c
    by (auto simp: triple_def look_def gathering_def)
  have new: "triple (calm v) (do { alter (\<lambda>w. w\<lparr>sc_state := sc_state w AND NOT NCR_DROP_MSGIN, sc_imp := 0\<rparr>); State_Monad.return (c, 0) }) (\<lambda>(icmd, n). gathering v n)" for c
    by (auto simp: triple_def alter_def gathering_def calm_def view_def msgs_ok_def flags_up_def bit_and_iff)
  show ?thesis unfolding msg_in_start_def
    by (rule triple_preserves [OF calm.chip], rule triple_preserves [OF calm.chip], rule triple_preserves [OF calm.look], intro triple_if old new)
qed

lemma msg_in_calm: "partly (calm v) (ncr5380_msg_in H i x) (\<lambda>(act, w). calm v w)"
proof (rule partlyI, clarify)
  fix w act w' assume w: "calm v w" and run: "ncr5380_msg_in H i x w = Some (act, w')"
  obtain icmd n w0 where start: "run_state (msg_in_start H) w = ((icmd, n), w0)" by (metis surj_pair)
  with run have loop: "local_loop (\<lambda>(icmd, n). msg_in_round H i x icmd n) ((icmd, n), w0) = Some (act, w')"
    by (simp add: ncr5380_msg_in_def run_def)
  show "calm v w'"
    by (rule local_loop_partial [OF loop, where J = "\<lambda>(icmd, n). gathering v n" and Q = "\<lambda>_. calm v"])
      (use tripleD [OF msg_in_start_calm w start] in \<open>auto intro: triple_cons [OF msg_in_round_calm] split: sum.splits\<close>)
qed

interpretation calm: machine_keep "calm v" for v
  by unfold_locales (rule msg_in_calm)

subsection \<open>Taking and returning requests\<close>

lemma mset_map_filter_update:
  assumes "i < length xs"
  shows "mset (List.map_filter f (xs[i := y])) + mset_set (set_option (f (xs ! i))) =
    mset (List.map_filter f xs) + mset_set (set_option (f y))"
proof -
  have split: "List.map_filter f (xs[i := z]) = List.map_filter f (take i xs) @ List.map_filter f [z] @ List.map_filter f (drop (Suc i) xs)" for z
    using assms by (simp add: upd_conv_take_nth_drop List.map_filter_def)
  have "List.map_filter f xs = List.map_filter f (xs[i := xs ! i])" by simp
  then show ?thesis unfolding split by (auto simp: List.map_filter_def split: option.splits)
qed

lemma length_add_mset: "mset ys = add_mset x (mset zs) \<Longrightarrow> length ys = Suc (length zs)"
  by (metis size_add_mset size_mset)

lemma find_upt: "find P [0..<n] = Some i \<Longrightarrow> i < n \<and> P i"
  by (auto simp: find_Some_iff)

lemma soundD:
  assumes "sound w"
  shows "length (sc_ring w) = SCI_OPENINGS" "sc_rr w < SCI_OPENINGS"
    "i < SCI_OPENINGS \<Longrightarrow> sr_xs (sc_ring w ! i) \<noteq> None \<Longrightarrow> sr_target (sc_ring w ! i) < 8 \<and> sr_lun (sc_ring w ! i) < 8"
    "t < 8 \<Longrightarrow> l < 8 \<Longrightarrow> sc_matrix w t l = Some i \<Longrightarrow> slot_used w i \<and> sr_target (sc_ring w ! i) = t \<and> sr_lun (sc_ring w ! i) = l"
    "sc_current w = Some i \<Longrightarrow> slot_used w i \<and> matrix_at w i \<in> {None, Some i}"
  using assms
  by (auto simp: sound_def sbc_ok_def ring_ok_def matrix_ok_def current_ok_def all_set_conv_all_nth split: option.splits)

lemma enqueue_sound:
  assumes "sound w" "enqueue x w = Some (i, w')"
  shows "sound w' \<and> sc_current w' = sc_current w \<and> sc_state w' = sc_state w \<and> i < SCI_OPENINGS"
proof -
  note S = soundD [OF assms(1)]
  from assms(2) have i: "i < SCI_OPENINGS" "sr_xs (sc_ring w ! i) = None"
    by (auto simp: enqueue_def Let_def split: option.splits dest: find_upt)
  define sr where "sr = \<lparr>sr_xs = Some x, sr_target = periph_target (xfers w x), sr_lun = periph_lun (xfers w x),
         sr_dma_hand = False, sr_dataptr = xdata (xfers w x), sr_datalen = xdatalen (xfers w x), sr_immed = ctl_poll (xfers w x) \<or> ctl_reqsense (xfers w x),
         sr_overdue = False, sr_status = -1\<rparr>"
  from assms(2) have w': "w' = w\<lparr>sc_ring := (sc_ring w)[i := sr], sc_ncmds := sc_ncmds w + 1, taken := taken w @ [x]\<rparr>"
    by (auto simp: enqueue_def Let_def sr_def split: option.splits)
  have other: "j \<noteq> i" if "slot_used w j" for j using that i by (auto simp: slot_used_def)
  have used: "slot_used w' j" "sc_ring w' ! j = sc_ring w ! j" if "slot_used w j" for j
    using that other [OF that] by (auto simp: slot_used_def w')
  have "ring_ok w'"
    using assms(1) i by (auto simp: ring_ok_def sound_def sbc_ok_def w' sr_def addressed_def dest!: set_update_subset_insert [THEN subsetD])
  moreover have "matrix_ok w'" unfolding matrix_ok_def
    using S(4) used by (auto simp: w' split: option.splits)
  moreover have "current_ok w'" unfolding current_ok_def
    using S(5) used by (force simp: w' matrix_at_def split: option.splits)
  moreover have "mset (held w') = add_mset x (mset (held w))"
    using mset_map_filter_update [of i "sc_ring w" sr_xs sr] i S(1) by (simp add: held_def w' sr_def)
  from this length_add_mset [OF this] have "books w'"
    using assms(1) by (simp add: books_def sound_def sbc_ok_def) (simp add: w')
  ultimately show ?thesis using assms(1) i by (simp add: sound_def sbc_ok_def addressed_def w')
qed

lemma arrive_sound:
  "sound w \<Longrightarrow> arrive xs w = Some w' \<Longrightarrow> sound w' \<and> sc_current w' = sc_current w \<and> sc_state w' = sc_state w"
proof (induction xs arbitrary: w)
  case (Cons x xs)
  then obtain i w1 where "enqueue x w = Some (i, w1)" "arrive xs w1 = Some w'"
    by (auto split: if_splits bind_splits)
  with Cons.IH enqueue_sound [OF Cons.prems(1)] show ?case by metis
qed simp

text \<open>A request that is not in the ring and not returned either.\<close>

definition in_hand :: "nat \<Rightarrow> 'd softc \<Rightarrow> bool" where
  "in_hand x w \<longleftrightarrow> ring_ok w \<and> matrix_ok w \<and> current_ok w \<and> msgs_ok w \<and> addressed w \<and> sc_ncmds w = int (length (held w)) \<and>
     mset (taken w) = add_mset x (mset (held w) + mset (map fst (returned w)))"

lemma done_free_sound:
  assumes "sound w" "sc_current w = Some i" "sr_xs (sc_ring w ! i) = Some x"
  shows "in_hand x (done_free i w) \<and> sc_current (done_free i w) = None"
proof -
  note S = soundD [OF assms(1)]
  let ?w = "done_free i w" and ?sr = "sc_ring w ! i"
  have i: "i < SCI_OPENINGS" using S(5) [OF assms(2)] by (simp add: slot_used_def)
  have ring: "sc_ring ?w = (sc_ring w)[i := ?sr\<lparr>sr_xs := None\<rparr>]" by (simp add: done_free_def Let_def)
  have fields: "taken ?w = taken w" "returned ?w = returned w" "sc_ncmds ?w = sc_ncmds w - 1" by (simp_all add: done_free_def Let_def)
  have mat: "sc_matrix ?w t l = Some j \<Longrightarrow> sc_matrix w t l = Some j \<and> (t, l) \<noteq> (sr_target ?sr, sr_lun ?sr)" for t l j
    by (auto simp: done_free_def Let_def split: if_splits)
  have used: "slot_used ?w j" "sc_ring ?w ! j = sc_ring w ! j" if "slot_used w j" "j \<noteq> i" for j
    using that by (auto simp: slot_used_def ring)
  have "ring_ok ?w"
    using assms(1) by (auto simp: ring_ok_def sound_def sbc_ok_def done_free_def Let_def dest!: set_update_subset_insert [THEN subsetD])
  moreover have "matrix_ok ?w" unfolding matrix_ok_def
  proof (clarsimp split: option.split)
    fix t l j assume b: "t < 8" "l < 8" and m: "sc_matrix ?w t l = Some j"
    from mat [OF m] S(4) [OF b] have j: "slot_used w j \<and> sr_target (sc_ring w ! j) = t \<and> sr_lun (sc_ring w ! j) = l" "j \<noteq> i" by auto
    with used [of j] show "slot_used ?w j \<and> sr_target (sc_ring ?w ! j) = t \<and> sr_lun (sc_ring ?w ! j) = l" by simp
  qed
  moreover have "mset (held w) = add_mset x (mset (held ?w))"
    using mset_map_filter_update [of i "sc_ring w" sr_xs "?sr\<lparr>sr_xs := None\<rparr>"] i S(1) assms(3) by (simp add: held_def ring)
  from this length_add_mset [OF this]
  have "sc_ncmds ?w = int (length (held ?w)) \<and> mset (taken ?w) = add_mset x (mset (held ?w) + mset (map fst (returned ?w)))"
    using assms(1) fields by (simp add: books_def sound_def sbc_ok_def)
  ultimately show ?thesis
    using assms(1) by (simp add: in_hand_def sound_def sbc_ok_def) (simp add: current_ok_def done_free_def Let_def addressed_def)
qed

lemma same_tables:
  assumes "sc_ring v = sc_ring w" "sc_rr v = sc_rr w" "sc_matrix v = sc_matrix w" "sc_current v = sc_current w"
  shows "ring_ok v = ring_ok w" "matrix_ok v = matrix_ok w" "current_ok v = current_ok w"
  using assms by (simp_all add: ring_ok_def matrix_ok_def current_ok_def slot_used_def matrix_at_def cong: option.case_cong)

lemma scsipi_done_sound:
  assumes "in_hand x w" "scsipi_done x w = Some w'"
  shows "sound w' \<and> sc_current w' = sc_current w \<and> sc_state w' = sc_state w"
proof -
  define v where "v = w\<lparr>returned := returned w @ [(x, error (xfers w x))], xfers := (xfers w)(x := (xfers w x)\<lparr>xs_done := True\<rparr>)\<rparr>"
  have fields: "sc_ring v = sc_ring w" "sc_matrix v = sc_matrix w" "sc_current v = sc_current w" "sc_rr v = sc_rr w"
    "sc_ncmds v = sc_ncmds w" "taken v = taken w" "map fst (returned v) = map fst (returned w) @ [x]" "sc_state v = sc_state w"
    by (simp_all add: v_def)
  have "sound (v\<lparr>arrivals := a\<rparr>)" for a
    using assms(1) fields same_tables [of "v\<lparr>arrivals := a\<rparr>" w]
    by (auto simp: sound_def sbc_ok_def in_hand_def books_def held_def) (auto simp: addressed_def v_def)
  note sound = this
  from sound [of "arrivals v"] have "sound v" by simp
  then show ?thesis
    using assms(2) fields(3,8) sound [of "tl (arrivals v)"] arrive_sound [of "v\<lparr>arrivals := tl (arrivals v)\<rparr>" "hd (arrivals v)" w']
    unfolding scsipi_done_def Let_def v_def [symmetric] by (cases "arrivals v") auto
qed

lemma done_sound:
  assumes "sound w" "ncr5380_done H w = Some w'"
  shows "sound w' \<and> sc_current w' = None \<and> sc_state w' = NCR_IDLE"
proof -
  from assms(2) obtain i x v where cur: "sc_current w = Some i" "sr_xs (sc_ring w ! i) = Some x"
    and fin: "scsipi_done x (done_free i (snd (run_state (done_result H i x) w))) = Some v" and w': "w' = v\<lparr>sc_state := NCR_IDLE\<rparr>"
    by (auto simp: ncr5380_done_def split: bind_splits)
  let ?u = "snd (run_state (done_result H i x) w)"
  have calm: "calm w ?u" using calm.ran [OF calm.done_result calm_refl] by (metis surjective_pairing)
  have i: "i < length (sc_ring w)" using soundD(1,5) [OF assms(1)] cur(1) by (auto simp: slot_used_def)
  have "sr_xs (sc_ring ?u ! i) = Some x"
    using calm cur(2) view_parts(9) [OF _ i, of ?u] by (auto simp: calm_def slot_view_def)
  with calm cur calm_sound [OF calm assms(1)] have "in_hand x (done_free i ?u) \<and> sc_current (done_free i ?u) = None"
    by (intro done_free_sound) (auto simp: calm_current)
  with scsipi_done_sound [OF _ fin] have "sound v" "sc_current v = None" by auto
  then show ?thesis unfolding w' by (auto simp: view_def elim!: sound_view [rotated 2])
qed

end
