(* ===== verification/Sbc_Flow.thy ===== *)
theory Sbc_Flow
  imports Sbc_Books
begin

text \<open>
  NetBSD's driver keeps its books: the machine, reselection, selection, the scheduler and the entry points.
  The machine calls \<open>ncr5380_abort\<close>, which calls the machine; the locale \<open>aborter\<close> states what the machine relies on.
\<close>

lemma calm_engaged: "calm v w \<Longrightarrow> engaged v \<Longrightarrow> engaged w"
  by (auto simp: calm_def engaged_def flags_up_def)

lemma calm_at_rest: "calm v w \<Longrightarrow> at_rest v \<Longrightarrow> sc_current v \<noteq> None \<Longrightarrow> at_rest w"
  by (auto simp: at_rest_def calm_current calm_engaged)

lemma dev_sound [simp]: "sound (w\<lparr>dev := d\<rparr>) = sound w" "at_rest (w\<lparr>dev := d\<rparr>) = at_rest w"
  by (auto simp: view_def at_rest_def engaged_def elim!: sound_view [rotated 2])

lemma paranoia_sound [simp]: "sound (paranoia w) = sound w" "sc_current (paranoia w) = sc_current w" "sc_state (paranoia w) = sc_state w"
  by (auto simp: paranoia_def view_def elim!: sound_view [rotated 2])

lemma calm_state: "flags_up (sc_state w) s \<Longrightarrow> calm w (w\<lparr>sc_state := s\<rparr>)"
  by (simp add: calm_def view_def)

lemma calm_run: "preserves (calm w) m \<Longrightarrow> run_state m w = (x, w') \<Longrightarrow> calm w w'"
  by (rule calm.ran [OF _ calm_refl])

lemma aborting_flag: "bit (sc_state w OR NCR_ABORTING) 1" "s AND NCR_ABORTING = 0 \<longleftrightarrow> \<not> bit s 1" for s :: byte
  by (simp_all add: bit_or_iff bits)

subsection \<open>The machine\<close>

locale aborter =
  fixes ab :: "'d softc \<Rightarrow> 'd softc option"
  assumes aborted: "sound w \<Longrightarrow> sc_current w \<noteq> None \<Longrightarrow> ab w = Some w' \<Longrightarrow> sound w' \<and> at_rest w'"
begin

lemma reset_calm:
  assumes "ncr5380_reset_scsibus ab H w = Some w'" "sc_current w = None \<or> bit (sc_state w) 1"
  shows "calm w w'"
proof -
  obtain v where run: "run_state (chip (do { wr H sci_icmd SCI_ICMD_RST; sbc_pause H 500; wr H sci_icmd 0; wr H sci_mode 0;
      wr H sci_tcmd PHASE_INVALID; SCI_CLR_INTR H; sbc_pause H 100000 })) w = ((), v)" by (rule run_unit)
  then have "sc_state v = sc_state w \<and> sc_current v = sc_current w" by (auto simp: chip_def split: prod.splits)
  with assms run calm_run [OF calm.chip run] show ?thesis
    unfolding ncr5380_reset_scsibus_def by (auto simp: aborting_flag split: if_splits)
qed

lemma reset_sound:
  assumes "sound w" "ncr5380_reset_scsibus ab H w = Some w'"
  shows "sound w'"
proof -
  obtain v where run: "run_state (chip (do { wr H sci_icmd SCI_ICMD_RST; sbc_pause H 500; wr H sci_icmd 0; wr H sci_mode 0;
      wr H sci_tcmd PHASE_INVALID; SCI_CLR_INTR H; sbc_pause H 100000 })) w = ((), v)" by (rule run_unit)
  with assms calm_sound [OF calm_run [OF calm.chip run]] aborted [of v w'] show ?thesis
    unfolding ncr5380_reset_scsibus_def by (auto split: if_splits)
qed

lemma leave_reset_calm: "leave_reset ab H act w = Some w' \<Longrightarrow> calm w w'"
  by (auto simp: leave_reset_def split: if_splits
      intro!: calm_trans [OF calm_state reset_calm] dest: reset_calm simp: bit_or_iff)

lemma leave_done_sound:
  assumes "sound w" "leave_done H x act w = Some w'"
  shows "sound w' \<and> (if act AND (ACT_RESET_BUS OR ACT_CMD_DONE) \<noteq> 0 then sc_current w' = None \<and> sc_state w' = NCR_IDLE else w' = w)"
proof -
  let ?n = "max 0 (sc_datalen w)"
  have "sound (w\<lparr>sc_datalen := ?n, xfers := (xfers w)(x := (xfers w x)\<lparr>resid := ?n\<rparr>)\<rparr>)"
    using assms(1) by (rule sound_view [rotated 2]) (simp_all add: view_def fun_eq_iff addr_view_def)
  from done_sound [OF this] assms show ?thesis by (auto simp: leave_done_def Let_def split: if_splits)
qed

lemma leave_free_sound:
  assumes "sound w" "leave_free ab H w = Some w'"
  shows "sound w' \<and> sc_current w' = None \<and> sc_state w' = NCR_IDLE"
proof -
  from assms(2) obtain free w1 w2 w3 where
    look: "run_state (chip (wait_for (sees H sci_bus_csr SCI_BUS_BSY False) (sbc_pause H 2) (wait_req_timo H - 1))) w = (free, w1)"
    and reset: "(if free then Some w1 else ncr5380_reset_scsibus ab H w1) = Some w2"
    and off: "run_state (chip (do { wr H sci_icmd 0; wr H sci_mode 0; wr H sci_tcmd PHASE_INVALID; wr H sci_sel_enb 0; SCI_CLR_INTR H; wr H sci_sel_enb 0x80 })) w2 = ((), w3)"
    and w': "w' = paranoia (w3\<lparr>sc_state := NCR_IDLE, sc_current := None\<rparr>)"
    by (auto simp: leave_free_def run_def split: bind_splits prod.splits)
  from calm_sound [OF calm_run [OF calm.chip look] assms(1)] have "sound w1" .
  with reset reset_sound have "sound w2" by (auto split: if_splits)
  from calm_sound [OF calm_run [OF calm.chip off] this] have S: "sound w3" .
  let ?v = "w3\<lparr>sc_state := NCR_IDLE, sc_current := None\<rparr>"
  have "matrix_ok ?v = matrix_ok w3" by (simp add: matrix_ok_def slot_used_def cong: option.case_cong)
  with S have "sound ?v"
    by (auto simp: sound_def sbc_ok_def) (simp_all add: ring_ok_def current_ok_def books_def held_def addressed_def)
  then show ?thesis by (simp add: w')
qed

lemma machine_leave_sound:
  assumes "sound w" "at_rest w" "sc_current w \<noteq> None" "machine_leave ab H x act w = Some w'"
  shows "sound w' \<and> at_rest w'"
proof -
  from assms(4) obtain w1 w2 where reset: "leave_reset ab H act w = Some w1" and fin: "leave_done H x act w1 = Some w2"
    and free: "(if act AND (ACT_RESET_BUS OR ACT_CMD_DONE OR ACT_DISCONNECT) \<noteq> 0 then leave_free ab H w2 else Some w2) = Some w'"
    by (auto simp: machine_leave_def split: bind_splits)
  from leave_reset_calm [OF reset] assms have w1: "sound w1" "at_rest w1" by (auto intro: calm_sound calm_at_rest)
  from leave_done_sound [OF w1(1) fin] w1(2) have w2: "sound w2" "at_rest w2" by (auto simp: at_rest_def split: if_splits)
  show ?thesis
  proof (cases "act AND (ACT_RESET_BUS OR ACT_CMD_DONE OR ACT_DISCONNECT) \<noteq> 0")
    case True
    with free leave_free_sound [OF w2(1), of H w'] show ?thesis by (auto simp: at_rest_def)
  next
    case False
    with free w2 show ?thesis by auto
  qed
qed

lemma machine_sound:
  assumes "sound w" "engaged w" "machine_with ab H w = Some w'"
  shows "sound w' \<and> at_rest w'"
proof -
  from assms(3) obtain i x r w1 where cur: "sc_current w = Some i"
    and loop: "c_loop (machine_round H i x) (sc_state w AND NCR_DOINGDMA \<noteq> 0, w) = Some (r, w1)"
    and leave: "(case r of None \<Rightarrow> Some w1 | Some act \<Rightarrow> machine_leave ab H x act w1) = Some w'"
    by (auto simp: machine_with_def split: bind_splits)
  have calm: "calm w w1" by (rule calm.machine_loop [OF loop calm_refl])
  have w1: "sound w1" "at_rest w1" "sc_current w1 \<noteq> None"
    using calm_sound [OF calm assms(1)] calm_engaged [OF calm assms(2)] calm_current [OF calm] cur by (simp_all add: at_rest_def)
  show ?thesis
  proof (cases r)
    case None
    with leave w1 show ?thesis by simp
  next
    case (Some act)
    with leave show ?thesis by (intro machine_leave_sound [OF w1]) simp
  qed
qed

end

interpretation none: aborter "\<lambda>_. None"
  by unfold_locales simp

text \<open>Aborting, once set, stays set until the request is done.\<close>

interpretation aborting: keep_in "\<lambda>w. bit (sc_state w) 1"
  by unfold_locales (auto simp: flags_up_def)

definition good_machine :: "('d softc \<Rightarrow> 'd softc option) \<Rightarrow> bool" where
  "good_machine m \<longleftrightarrow> (\<forall>w w'. sound w \<longrightarrow> engaged w \<longrightarrow> m w = Some w' \<longrightarrow> sound w' \<and> at_rest w')"

lemma abort_prefix:
  "triple (\<lambda>w. True) (do { chip (State (\<lambda>d. ((), intr_off H d))); set_state NCR_ABORTING; dma \<leftarrow> has_state NCR_DOINGDMA;
       (if \<not> dma then ncr_sched_msgout H SEND_ABORT else State_Monad.return ()) }) (\<lambda>_ w. bit (sc_state w) 1)"
proof -
  have up: "triple (\<lambda>w. True) (set_state NCR_ABORTING) (\<lambda>_ w. bit (sc_state w) 1)"
    unfolding set_state_def by (rule alter_triple) (simp add: bit_or_iff)
  show ?thesis
    by (rule triple_bind [where R = "\<lambda>_ _. True"], rule tripleI, simp, rule triple_bind [OF up]) (intro aborting.kprims)
qed

lemma abort_with_good: "good_machine m \<Longrightarrow> aborter (abort_with m H)"
proof
  fix w w' assume m: "good_machine m" and S: "sound w" and ab: "abort_with m H w = Some w'"
  let ?p = "do { chip (State (\<lambda>d. ((), intr_off H d))); set_state NCR_ABORTING; dma \<leftarrow> has_state NCR_DOINGDMA;
       (if \<not> dma then ncr_sched_msgout H SEND_ABORT else State_Monad.return ()) }"
  obtain v where run: "run_state ?p w = ((), v)" by (rule run_unit)
  have "preserves (calm w) ?p" by (intro calm.kprims)
  from calm_sound [OF calm_run [OF this run] S] have "sound v" .
  moreover
  from tripleD [OF abort_prefix TrueI run] have "engaged v" by (simp add: engaged_def)
  ultimately show "sound w' \<and> at_rest w'"
    using ab m run unfolding abort_with_def good_machine_def by (auto split: bind_splits)
qed

lemma machine_at_good: "good_machine (machine_at k H)"
proof (induction k)
  case 0
  show ?case unfolding good_machine_def machine_at.simps using none.machine_sound by blast
next
  case (Suc k)
  show ?case unfolding good_machine_def machine_at.simps using aborter.machine_sound [OF abort_with_good [OF Suc]] by blast
qed

interpretation abort: aborter "ncr5380_abort H" for H
  unfolding ncr5380_abort_def ncr5380_machine_def by (rule abort_with_good [OF machine_at_good])

lemma ncr_machine_sound: "sound w \<Longrightarrow> engaged w \<Longrightarrow> ncr5380_machine H w = Some w' \<Longrightarrow> sound w' \<and> at_rest w'"
  using machine_at_good [of 1 H] unfolding ncr5380_machine_def good_machine_def by blast

end
