(* ===== verification/Sbc_Entry.thy ===== *)
theory Sbc_Entry
  imports Sbc_Flow
begin

text \<open>
  The books of NetBSD's driver through reselection, selection, the scheduler and the entry points.
\<close>

subsection \<open>Reselection\<close>

definition touched :: "'d softc \<Rightarrow> 'd softc \<Rightarrow> bool" where
  "touched v w \<longleftrightarrow> w\<lparr>dev := dev v\<rparr> = v"

lemma touched_refl [simp]: "touched w w"
  by (simp add: touched_def)

lemma touched_trans:
  assumes "touched u v" "touched v w"
  shows "touched u w"
proof -
  have "w\<lparr>dev := dev v, dev := dev u\<rparr> = u" using assms by (simp only: touched_def)
  then show ?thesis by (simp add: touched_def)
qed

lemma touched_fields:
  assumes "touched v w"
  shows "view w = view v" "sc_current w = sc_current v" "sc_state w = sc_state v" "msgs_ok w = msgs_ok v"
proof -
  have v: "w\<lparr>dev := dev v\<rparr> = v" using assms by (simp add: touched_def)
  show "view w = view v" "sc_current w = sc_current v" "sc_state w = sc_state v" "msgs_ok w = msgs_ok v"
    by (subst v [symmetric], simp add: view_def)+
qed

interpretation touched: chip_keep "touched v" for v
  by unfold_locales (auto simp: touched_def)

interpretation flags_are: out_keep "\<lambda>w. sc_state w = s" for s
  by unfold_locales auto

lemma reset_touched:
  assumes "ncr5380_reset_scsibus ab H w = Some w'" "sc_current w = None"
  shows "touched w w'"
proof -
  obtain v where run: "run_state (chip (do { wr H sci_icmd SCI_ICMD_RST; sbc_pause H 500; wr H sci_icmd 0; wr H sci_mode 0;
      wr H sci_tcmd PHASE_INVALID; SCI_CLR_INTR H; sbc_pause H 100000 })) w = ((), v)" by (rule run_unit)
  from touched.ran [OF touched.chip touched_refl run] assms run show ?thesis
    unfolding ncr5380_reset_scsibus_def by (auto simp: touched_fields(2))
qed

text \<open>
  After a look at the bus: nothing is reselected and the state is as before, or a request is current.
\<close>

definition reselected :: "'d softc \<Rightarrow> 'd softc \<Rightarrow> bool" where
  "reselected w w' \<longleftrightarrow> sound w' \<and> (if sc_current w' = None then view w' = view w \<and> sc_state w' = sc_state w
     else engaged w' \<and> length (sc_ring w') = length (sc_ring w) \<and> map slot_view (sc_ring w') = map slot_view (sc_ring w))"

lemma touched_reselected: "sound w \<Longrightarrow> sc_current w = None \<Longrightarrow> touched w w' \<Longrightarrow> reselected w w'"
  by (auto simp: reselected_def touched_fields intro: sound_view)

lemma abort_flag_off: "\<not> bit s 1 \<Longrightarrow> (s OR NCR_ABORTING) AND NOT NCR_ABORTING = s" for s :: byte
  by (simp add: byte_eq_iff_bits bit_or_iff bit_and_iff bit_not_iff)

lemma resel_abort_quiet:
  assumes "resel_abort H w = Some w'" "\<not> bit (sc_state w) 1"
  shows "view w' = view w" "sc_state w' = sc_state w" "msgs_ok w \<longrightarrow> msgs_ok w'"
proof -
  let ?p = "do { set_state NCR_ABORTING; chip (wr H sci_icmd SCI_ICMD_ATN); chip (sbc_pause H 2); _ \<leftarrow> chip (pio_in_local H PHASE_MSG_IN);
       alter (\<lambda>w. w\<lparr>sc_prevphase := PHASE_INVALID, sc_msgpriq := SEND_ABORT\<rparr>) }"
  let ?q = "do { wr H sci_tcmd PHASE_INVALID; wr H sci_sel_enb 0; SCI_CLR_INTR H; wr H sci_sel_enb 0x80 }"
  obtain w1 where pre: "run_state ?p w = ((), w1)" by (rule run_unit)
  from assms(1) pre obtain act w2 w3 where out: "ncr5380_msg_out H w1 = Some (act, w2)" and fin: "run_state (chip ?q) w2 = ((), w3)"
    and w': "w' = w3\<lparr>sc_state := sc_state w3 AND NOT NCR_ABORTING\<rparr>"
    by (auto simp: resel_abort_def run_def split: bind_splits prod.splits)
  have "preserves (calm w) ?p" by (intro calm.kprims calm.alter) (simp add: calm.prevphase calm.msgpriq)
  from calm_run [OF this pre] partlyD [OF calm.msg_out _ out] calm.ran [OF calm.chip _ fin] have "calm w w3" by fastforce
  then show "view w' = view w" "msgs_ok w \<longrightarrow> msgs_ok w'" by (simp_all add: w' calm_def view_def)
  let ?s = "sc_state w OR NCR_ABORTING"
  have up: "triple (\<lambda>v. v = w) (set_state NCR_ABORTING) (\<lambda>_ v. sc_state v = ?s)"
    unfolding set_state_def by (rule alter_triple) simp
  have "triple (\<lambda>v. v = w) ?p (\<lambda>_ v. sc_state v = ?s)"
    by (rule triple_bind [OF up], intro flags_are.cprims flags_are.alter) simp
  from tripleD [OF this refl pre] partlyD [OF flags_are.msg_out _ out, of ?s] flags_are.ran [OF flags_are.chip _ fin, of ?s]
  have "sc_state w3 = ?s" by auto
  then show "sc_state w' = sc_state w" using abort_flag_off [OF assms(2)] by (simp add: w')
qed

lemma resel_answer_lun: "triple (\<lambda>_. True) (chip (resel_answer H)) (\<lambda>r _. \<forall>l. r = Some l \<longrightarrow> l < 8)"
proof -
  have lun: "unat (m AND 7) < 8" for m :: byte
    using word_and_le1 [of m 7] by (simp add: word_le_nat_alt)
  have "triple (\<lambda>_. True) (resel_answer H) (\<lambda>r _. \<forall>l. r = Some l \<longrightarrow> l < 8)"
    unfolding resel_answer_def
    by (intro triple_bind [where R = "\<lambda>_ _. True"] triple_if triple_return) (auto simp: triple_def lun)
  then show ?thesis by (auto simp: triple_def chip_def split: prod.splits)
qed

lemma resel_resume_sound:
  assumes "sound w" "t < 8" "l < 8" "sc_matrix w t l = Some i" "run_state (resel_resume H t i) w = (u, w')"
  shows "sound w' \<and> sc_current w' \<noteq> None \<and> engaged w' \<and> map slot_view (sc_ring w') = map slot_view (sc_ring w)"
proof -
  define v where "v = w\<lparr>sc_state := sc_state w OR NCR_WORKING, sc_current := Some i,
       sc_dataptr := sr_dataptr (sc_ring w ! i), sc_datalen := sr_datalen (sc_ring w ! i),
       sc_prevphase := PHASE_INVALID, sc_msgpriq := 0, sc_msgoutq := 0, sc_msgout := 0\<rparr>"
  note M = soundD(4) [OF assms(1-4)]
  have fields: "sc_ring v = sc_ring w" "sc_rr v = sc_rr w" "sc_matrix v = sc_matrix w" "held v = held w" "taken v = taken w"
    "returned v = returned w" "sc_ncmds v = sc_ncmds w" "xfers v = xfers w" "sc_current v = Some i" "msgs_ok v = msgs_ok w"
    by (simp_all add: v_def held_def)
  have "sound v"
    using assms(1,4) M unfolding sound_def sbc_ok_def ring_ok_def matrix_ok_def current_ok_def books_def addressed_def
    by (simp add: fields slot_used_def matrix_at_def cong: option.case_cong)
  moreover have "engaged v" by (simp add: engaged_def v_def bit_or_iff)
  moreover have "calm v w'"
  proof -
    let ?rest = "do { chip (wr H sci_mode (normal_mode H t)); hand \<leftarrow> look (\<lambda>w. sr_dma_hand (sc_ring w ! i));
       (case dma_setup H of None \<Rightarrow> State_Monad.return () | Some f \<Rightarrow> if hand then hook i f else State_Monad.return ());
       _ \<leftarrow> chip (pio_in_local H PHASE_MSG_IN); State_Monad.return () }"
    have "preserves (calm v) ?rest" by (intro calm.kprims)
    moreover have "run_state ?rest v = (u, w')"
      using assms(5) unfolding resel_resume_def by (simp add: alter_def v_def)
    ultimately show ?thesis by (rule calm_run)
  qed
  ultimately show ?thesis
    using fields by (auto simp: calm_current dest: calm_sound calm_engaged) (auto simp: calm_def view_def fields)
qed

lemma resel_target_bound: "resel_target data = Some t \<Longrightarrow> t < 8"
  by (auto simp: resel_target_def Let_def split: if_splits dest!: find_upt)

lemma reselected_from: "reselected v w' \<Longrightarrow> touched w v \<Longrightarrow> reselected w w'"
  by (auto simp: reselected_def touched_fields dest: touched_fields(1) view_parts(1)) (auto simp: view_def dest: touched_fields(1))

lemma resel_connect_sound:
  assumes "sound w" "sc_current w = None" "\<not> bit (sc_state w) 1" "t < 8" "resel_connect H t w = Some w'"
  shows "reselected w w'"
proof -
  obtain lun v where run: "run_state (chip (resel_answer H)) w = (lun, v)" by fastforce
  have v: "touched w v" by (rule touched.ran [OF touched.chip touched_refl run])
  then have S: "sound v" "sc_current v = None" "\<not> bit (sc_state v) 1"
    using assms(1-3) touched_fields [OF v] by (auto intro: sound_view)
  have quiet: "reselected v w'" if "resel_abort H v = Some w'"
    using resel_abort_quiet [OF that S(3)] S by (auto simp: reselected_def intro: sound_view dest: view_parts)
  show ?thesis
  proof (cases "lun = None \<or> sc_matrix v t (the lun) = None")
    case True
    with assms(5) run quiet have "reselected v w'" by (auto simp: resel_connect_def run_def split: option.splits)
    then show ?thesis using v by (rule reselected_from)
  next
    case False
    then obtain l i where l: "lun = Some l" "sc_matrix v t l = Some i" by auto
    with assms(5) run have w': "w' = snd (run_state (resel_resume H t i) v)" by (simp add: resel_connect_def run_def)
    from l tripleD [OF resel_answer_lun TrueI run] have "l < 8" by simp
    from resel_resume_sound [OF S(1) assms(4) this l(2)] w' have "reselected v w'"
      by (metis (no_types, lifting) map_eq_imp_length_eq prod.collapse reselected_def)
    then show ?thesis using v by (rule reselected_from)
  qed
qed

lemma reselect_sound:
  assumes "sound w" "sc_current w = None" "\<not> bit (sc_state w) 1" "ncr5380_reselect H w = Some w'"
  shows "reselected w w'"
proof -
  have "partly (touched w) (ncr5380_reselect H) (reselected w)"
    unfolding ncr5380_reselect_def [abs_def]
  proof (intro partly_same partly_if touched.runs touched.cprims)
    show "partly (touched w) Some (reselected w)"
      using touched_reselected [OF assms(1,2)] by (auto simp: partly_def)
    fix s
    have reset: "partly (touched w) (ncr5380_reset_scsibus (ncr5380_abort H) H) (reselected w)"
    proof (rule partlyI)
      fix v v' assume v: "touched w v" and "ncr5380_reset_scsibus (ncr5380_abort H) H v = Some v'"
      then have "touched v v'" using reset_touched assms(2) touched_fields(2) [OF v] by auto
      with v show "reselected w v'" by (intro touched_reselected [OF assms(1,2)]) (rule touched_trans)
    qed
    show "partly (touched w) (\<lambda>w2. case s of SelGone \<Rightarrow> Some w2 | BsyStuck \<Rightarrow> ncr5380_reset_scsibus (ncr5380_abort H) H w2
       | Settled bus \<Rightarrow> do { (data, w3) \<leftarrow> run (chip (do { sbc_pause H 2; rd H sci_data })) w2;
           if bus AND SCI_BUS_IO = 0 then ncr5380_reset_scsibus (ncr5380_abort H) H w3
           else (case resel_target data of None \<Rightarrow> Some w3 | Some t \<Rightarrow> resel_connect H t w3) }) (reselected w)"
    proof (cases s)
      case (Settled bus)
      show ?thesis unfolding Settled resel_wait.case
      proof (intro partly_same partly_if partly_option touched.runs touched.cprims reset)
        show "partly (touched w) Some (reselected w)"
          using touched_reselected [OF assms(1,2)] by (auto simp: partly_def)
        show "partly (touched w) (resel_connect H t) (reselected w)" if "resel_target data = Some t" for data t
        proof (rule partlyI)
          fix v v' assume v: "touched w v" and c: "resel_connect H t v = Some v'"
          from touched_fields [OF v] assms have "sound v" "sc_current v = None" "\<not> bit (sc_state v) 1" by (auto intro: sound_view)
          from resel_connect_sound [OF this resel_target_bound [OF that] c] v show "reselected w v'" by (rule reselected_from)
        qed
      qed
    qed (use reset touched_reselected [OF assms(1,2)] in \<open>auto simp: partly_def\<close>)
  qed
  from partlyD [OF this touched_refl assms(4)] show ?thesis .
qed

subsection \<open>Selection and the scheduler\<close>

lemma reselected_trans:
  assumes "reselected w v" "sc_current v = None" "reselected v w'"
  shows "reselected w w'"
  using assms by (auto simp: reselected_def split: if_splits dest: view_parts(1)) (auto simp: view_def)

lemma select_sound:
  assumes "sound w" "sc_current w = None" "\<not> bit (sc_state w) 1" "ncr5380_select H i w = Some (e, w')"
  shows "reselected w w'"
proof -
  from assms(4) obtain w1 where r1: "ncr5380_reselect H w = Some w1" by (auto simp: ncr5380_select_def split: bind_splits)
  note R1 = reselect_sound [OF assms(1-3) r1]
  show ?thesis
  proof (cases "sc_current w1 = None")
    case False
    with assms(4) r1 R1 show ?thesis by (auto simp: ncr5380_select_def)
  next
    case None: True
    obtain ours w2 where arb: "run_state (chip (sbc_arbitrate H)) w1 = (ours, w2)" by fastforce
    have t2: "touched w1 w2" by (rule touched.ran [OF touched.chip touched_refl arb])
    have w1: "sound w1" "\<not> bit (sc_state w1) 1" using R1 None assms(3) by (auto simp: reselected_def)
    show ?thesis
    proof (cases ours)
      case True
      with assms(4) r1 None arb have "run_state (chip (sbc_select_target H (sr_target (sc_ring w2 ! i)))) w2 = (e, w')"
        by (simp add: ncr5380_select_def run_def)
      from touched.ran [OF touched.chip t2 this] have "reselected w1 w'" by (rule touched_reselected [OF w1(1) None])
      then show ?thesis by (rule reselected_trans [OF R1 None])
    next
      case False
      with assms(4) r1 None arb obtain w3 where off: "run_state (chip (do { wr H sci_icmd 0; wr H sci_mode 0 })) w2 = ((), w3)"
        and r3: "ncr5380_reselect H w3 = Some w'"
        by (auto simp: ncr5380_select_def run_def split: bind_splits prod.splits)
      have t3: "touched w1 w3" by (rule touched.ran [OF touched.chip t2 off])
      from touched_fields [OF t3] w1 None have "sound w3" "sc_current w3 = None" "\<not> bit (sc_state w3) 1" by (auto intro: sound_view)
      from reselected_from [OF reselect_sound [OF this r3] t3] show ?thesis by (rule reselected_trans [OF R1 None])
    qed
  qed
qed

lemma sound_state [simp]: "sound (w\<lparr>sc_state := s\<rparr>) = sound w"
  by (auto simp: view_def elim!: sound_view [rotated 2])

lemma sound_rr: "sound w \<Longrightarrow> i < SCI_OPENINGS \<Longrightarrow> sound (w\<lparr>sc_rr := i\<rparr>)"
  by (simp add: sound_def sbc_ok_def ring_ok_def matrix_ok_def current_ok_def slot_used_def matrix_at_def books_def held_def addressed_def
      cong: option.case_cong)

lemma next_job_ready: "sound w \<Longrightarrow> next_job w = Some i \<Longrightarrow> i < SCI_OPENINGS \<and> ready_slot w i"
  unfolding next_job_def find_Some_iff by (metis atLeastLessThan_iff nth_mem set_rotate set_upt)

text \<open>The selected request becomes the current one.\<close>

lemma connect_sound:
  assumes "sound w" "i < SCI_OPENINGS" "sr_xs (sc_ring w ! i) \<noteq> None" "sr_target (sc_ring w ! i) = t" "sr_lun (sc_ring w ! i) = l"
    "sc_matrix w t l = None"
  shows "sound (sched_connect i t l w)"
proof -
  let ?v = "sched_connect i t l w"
  have fields: "sc_ring ?v = sc_ring w" "sc_rr ?v = sc_rr w" "held ?v = held w" "taken ?v = taken w"
    "returned ?v = returned w" "sc_ncmds ?v = sc_ncmds w" "xfers ?v = xfers w" "sc_current ?v = Some i"
    "sc_matrix ?v = (sc_matrix w)(t := (sc_matrix w t)(l := Some i))" "msgs_ok ?v = msgs_ok w"
    by (simp_all add: sched_connect_def held_def)
  have "matrix_ok ?v"
    using assms unfolding sound_def sbc_ok_def matrix_ok_def by (auto simp: fields slot_used_def split: option.splits)
  moreover have "current_ok ?v" using assms by (simp add: current_ok_def fields slot_used_def matrix_at_def)
  ultimately show ?thesis
    using assms(1) unfolding sound_def sbc_ok_def ring_ok_def books_def addressed_def by (simp add: fields)
qed

lemma have_nexus_sound:
  assumes "sound w" "engaged w" "have_nexus H w = Some y"
  shows "case y of Inl w' \<Rightarrow> sound w' \<and> sc_current w' = None \<and> sc_state w' = NCR_IDLE | Inr w' \<Rightarrow> sound w' \<and> at_rest w'"
proof -
  from assms(3) obtain w1 where m: "ncr5380_machine H w = Some w1" and y: "y = (if sc_state w1 = NCR_IDLE then Inl w1 else Inr w1)"
    by (auto simp: have_nexus_def split: bind_splits)
  from ncr_machine_sound [OF assms(1,2) m] show ?thesis
    by (auto simp: y at_rest_def engaged_def split: if_splits)
qed

lemma sched_failed_sound:
  assumes "sound w" "sched_failed H x e w = Some w'"
  shows "sound w' \<and> sc_current w' = None \<and> sc_state w' = NCR_IDLE"
proof -
  from assms(2) obtain w1 w2 where reset: "(if e = XS_BUSY then ncr5380_reset_scsibus (ncr5380_abort H) H w else Some w) = Some w1"
    and fin: "ncr5380_done H (w1\<lparr>xfers := (xfers w1)(x := (xfers w1 x)\<lparr>error := e\<rparr>)\<rparr>) = Some w2" and w': "w' = paranoia w2"
    by (auto simp: sched_failed_def split: bind_splits)
  have "sound w1" using reset assms(1) abort.reset_sound by (auto split: if_splits)
  then have "sound (w1\<lparr>xfers := (xfers w1)(x := (xfers w1 x)\<lparr>error := e\<rparr>)\<rparr>)"
    by (rule sound_view [rotated 2]) (simp_all add: view_def fun_eq_iff addr_view_def)
  from done_sound [OF this fin] show ?thesis by (simp add: w')
qed

lemma sched_round_sound:
  assumes "sound w" "sc_current w = None" "sched_round H w = Some y"
  shows "case y of Inl w' \<Rightarrow> sound w' \<and> sc_current w' = None \<and> sc_state w' = NCR_IDLE | Inr w' \<Rightarrow> sound w' \<and> (at_rest w \<longrightarrow> at_rest w')"
proof (cases "next_job w")
  case None
  with assms show ?thesis by (auto simp: sched_round_def)
next
  case (Some i)
  from next_job_ready [OF assms(1) Some] have i: "i < SCI_OPENINGS" "sr_xs (sc_ring w ! i) \<noteq> None"
    "sc_matrix w (sr_target (sc_ring w ! i)) (sr_lun (sc_ring w ! i)) = None" by (auto simp: ready_slot_def)
  let ?t = "sr_target (sc_ring w ! i)" and ?l = "sr_lun (sc_ring w ! i)" and ?v = "w\<lparr>sc_rr := i, sc_state := NCR_WORKING\<rparr>"
  have v: "sound ?v" "sc_current ?v = None" "\<not> bit (sc_state ?v) 1" using sound_rr [OF assms(1) i(1)] assms(2) by auto
  from assms(3) Some obtain e w1 where sel: "ncr5380_select H i ?v = Some (e, w1)"
    and rest: "(if sc_current w1 \<noteq> None then have_nexus H (if sr_immed (sc_ring w1 ! i) then w1\<lparr>sc_state := sc_state w1 OR NCR_ABORTING, sc_msgpriq := sc_msgpriq w1 OR SEND_ABORT\<rparr> else w1)
       else do { x \<leftarrow> sr_xs (sc_ring w1 ! i); let w2 = sched_connect i ?t ?l w1;
         if e = XS_NOERROR then have_nexus H (snd (run_state (sched_start H i x) w2))
         else do { w3 \<leftarrow> sched_failed H x e w2; Some (Inl w3) } }) = Some y"
    by (auto simp: sched_round_def Let_def split: bind_splits)
  note R = select_sound [OF v sel]
  show ?thesis
  proof (cases "sc_current w1 = None")
    case False
    let ?u = "if sr_immed (sc_ring w1 ! i) then w1\<lparr>sc_state := sc_state w1 OR NCR_ABORTING, sc_msgpriq := sc_msgpriq w1 OR SEND_ABORT\<rparr> else w1"
    have "calm w1 ?u" by (simp add: calm_def view_def)
    from calm_sound [OF this] calm_engaged [OF this] R False have "sound ?u" "engaged ?u" by (auto simp: reselected_def)
    from have_nexus_sound [OF this, of H y] rest False show ?thesis by (auto split: sum.splits)
  next
    case True
    with R have w1: "sound w1" "view w1 = view ?v" "sc_state w1 = NCR_WORKING" by (auto simp: reselected_def)
    have "slot_view (sc_ring w1 ! i) = slot_view (sc_ring w ! i)" "sc_matrix w1 = sc_matrix w"
      using view_parts(2,9) [OF w1(2)] i(1) soundD(1) [OF assms(1)] by auto
    with i have "sound (sched_connect i ?t ?l w1)" by (intro connect_sound [OF w1(1)]) (auto simp: slot_view_def)
    moreover have "engaged (sched_connect i ?t ?l w1)" by (simp add: engaged_def sched_connect_def w1(3))
    moreover from rest True obtain x where x: "sr_xs (sc_ring w1 ! i) = Some x" by (auto split: bind_splits)
    moreover let ?c = "sched_connect i ?t ?l w1"
    have "calm ?c (snd (run_state (sched_start H i x) ?c))"
      using calm_run [OF calm.sched_start, of H i x ?c] by (metis surjective_pairing)
    ultimately have c: "sound (snd (run_state (sched_start H i x) ?c))" "engaged (snd (run_state (sched_start H i x) ?c))" "sound ?c"
      by (auto intro: calm_sound calm_engaged)
    show ?thesis
    proof (cases "e = XS_NOERROR")
      case True
      with rest x \<open>sc_current w1 = None\<close> have_nexus_sound [OF c(1,2), of H y] show ?thesis by (auto simp: Let_def split: sum.splits)
    next
      case False
      with rest x \<open>sc_current w1 = None\<close> obtain w3 where "sched_failed H x e ?c = Some w3" "y = Inl w3"
        by (auto simp: Let_def split: bind_splits)
      with sched_failed_sound [OF c(3)] show ?thesis by auto
    qed
  qed
qed

lemma sched_sound:
  assumes "sound w" "sc_current w = None" "sc_state w = NCR_IDLE" "ncr5380_sched H w = Some w'"
  shows "sound w' \<and> at_rest w'"
proof (rule c_loop_keeps [OF assms(4) [unfolded ncr5380_sched_def], where I = "\<lambda>w. sound w \<and> sc_current w = None \<and> sc_state w = NCR_IDLE"])
  fix s x assume "sound s \<and> sc_current s = None \<and> sc_state s = NCR_IDLE" "sched_round H s = Some x"
  with sched_round_sound [of s H x] show "case x of Inl s' \<Rightarrow> sound s' \<and> sc_current s' = None \<and> sc_state s' = NCR_IDLE | Inr r \<Rightarrow> sound r \<and> at_rest r"
    by (auto simp: at_rest_def split: sum.splits)
qed (use assms in simp)

end
