(* ===== verification/Sbc_Calls.thy ===== *)
theory Sbc_Calls
  imports Sbc_Entry
begin

text \<open>
  NetBSD's driver as a whole: the recursion of machine and abort, aborting ends, message out ends, and what every
  sequence of calls keeps.
\<close>

subsection \<open>An aborting machine does not abort\<close>

lemma chip_fields: "run_state (chip m) w = (x, w') \<Longrightarrow> sc_current w' = sc_current w \<and> sc_state w' = sc_state w"
  by (auto simp: chip_def split: prod.splits)

lemma reset_irrelevant:
  "sc_current w = None \<or> bit (sc_state w) 1 \<Longrightarrow> ncr5380_reset_scsibus ab H w = ncr5380_reset_scsibus ab' H w"
  unfolding ncr5380_reset_scsibus_def by (auto simp: aborting_flag dest: chip_fields split: prod.split)

lemma leave_reset_irrelevant: "leave_reset ab H act w = leave_reset ab' H act w"
  by (auto simp: leave_reset_def bit_or_iff intro: reset_irrelevant)

lemma leave_free_irrelevant:
  assumes "sc_current w = None \<or> bit (sc_state w) 1"
  shows "leave_free ab H w = leave_free ab' H w"
proof -
  obtain free w1 where look: "run_state (chip (wait_for (sees H sci_bus_csr SCI_BUS_BSY False) (sbc_pause H 2) (wait_req_timo H - 1))) w = (free, w1)"
    by fastforce
  from chip_fields [OF look] assms have "ncr5380_reset_scsibus ab H w1 = ncr5380_reset_scsibus ab' H w1" by (intro reset_irrelevant) simp
  with look show ?thesis by (simp add: leave_free_def run_def)
qed

lemma done_current: "ncr5380_done H w = Some w' \<Longrightarrow> sc_current w' = None"
proof -
  have arrive: "arrive xs w = Some w' \<Longrightarrow> sc_current w' = sc_current w" for xs and w w' :: "'a softc"
    by (induction xs arbitrary: w) (auto simp: enqueue_def Let_def split: if_splits bind_splits option.splits)
  show "ncr5380_done H w = Some w' \<Longrightarrow> sc_current w' = None"
    by (auto simp: ncr5380_done_def scsipi_done_def done_free_def Let_def split: bind_splits list.splits dest: arrive)
qed

lemma leave_done_irrelevant:
  "leave_done H x act w = Some w' \<Longrightarrow> bit (sc_state w) 1 \<Longrightarrow> sc_current w' = None \<or> bit (sc_state w') 1"
  by (auto simp: leave_done_def Let_def split: if_splits dest: done_current)

lemma machine_leave_irrelevant:
  assumes "bit (sc_state w) 1"
  shows "machine_leave ab H x act w = machine_leave ab' H x act w"
proof -
  have step: "(leave_done H x act w1 \<bind> (\<lambda>w2. if b then leave_free ab H w2 else Some w2)) = (leave_done H x act w1 \<bind> (\<lambda>w2. if b then leave_free ab' H w2 else Some w2))"
    if "bit (sc_state w1) 1" for w1 b
    using leave_free_irrelevant [of _ ab H ab'] leave_done_irrelevant [OF _ that] by (cases "leave_done H x act w1") auto
  have "bit (sc_state w1) 1" if "leave_reset (\<lambda>_. None) H act w = Some w1" for w1
    using none.leave_reset_calm [OF that] assms by (auto simp: calm_def flags_up_def)
  then show ?thesis
    unfolding machine_leave_def leave_reset_irrelevant [of ab H act w "\<lambda>_. None"] leave_reset_irrelevant [of ab' H act w "\<lambda>_. None"]
    using step by (cases "leave_reset (\<lambda>_. None) H act w") auto
qed

lemma machine_irrelevant:
  assumes "bit (sc_state w) 1"
  shows "machine_with ab H w = machine_with ab' H w"
proof -
  have "bit (sc_state w1) 1" if "c_loop (machine_round H i x) (b, w) = Some (r, w1)" for i x b r w1
    by (rule aborting.machine_loop [OF that assms])
  then show ?thesis
    unfolding machine_with_def using machine_leave_irrelevant [of _ ab H _ _ ab']
    by (auto split: option.splits intro!: arg_cong2 [where f = Option.bind] simp: fun_eq_iff split: bind_splits)
qed

lemma abort_irrelevant:
  assumes "\<And>w. bit (sc_state w) 1 \<Longrightarrow> m w = m' w"
  shows "abort_with m H w = abort_with m' H w"
  unfolding abort_with_def using assms tripleD [OF abort_prefix TrueI, of H w] by (auto split: prod.split)

lemma machine_at_level: "\<exists>ab. machine_at k H = machine_with ab H"
  by (cases k) auto

lemma abort_level: "abort_with (machine_at j H) H w = abort_with (machine_at k H) H w"
  by (rule abort_irrelevant) (metis machine_at_level machine_irrelevant)

text \<open>C19: The recursion of the source. \<open>ncr5380_machine\<close> resets the bus, which calls \<open>ncr5380_abort\<close>, which calls
  \<open>ncr5380_machine\<close>: the two-level model is the solution of that recursion.
\<close>

theorem machine_recursion: "ncr5380_machine H w = machine_with (ncr5380_abort H) H w"
proof -
  have "abort_with (machine_at 0 H) H = ncr5380_abort H"
    unfolding ncr5380_abort_def ncr5380_machine_def by (rule ext) (rule abort_level)
  then show ?thesis by (simp add: ncr5380_machine_def)
qed

subsection \<open>Aborting ends\<close>

text \<open>The flags that leave the loop of the machine for good.\<close>

definition final :: "byte \<Rightarrow> bool" where "final act \<longleftrightarrow> act AND 0xF8 = 0"

lemma final_simps [simp]: "final 0" "final 1" "final 2" "final 3" "final 4" "final (a OR b) \<longleftrightarrow> final a \<and> final b"
proof -
  have "(a OR b) AND 0xF8 = (a AND 0xF8) OR (b AND 0xF8)" by (rule bit.conj_disj_distrib2)
  then show "final (a OR b) \<longleftrightarrow> final a \<and> final b" by (simp add: final_def or_eq_0_iff)
qed (simp_all add: final_def)

lemma parse_final: "triple (\<lambda>_. True) (parse_msg H i x icmd) (\<lambda>(act, icmd) _. final act)"
  unfolding parse_msg_def by (intro triple_bind [where R = "\<lambda>_ _. True"] triple_if triple_return) (auto simp: triple_def)

lemma msg_in_final: "partly (\<lambda>_. True) (ncr5380_msg_in H i x) (\<lambda>(act, w). final act)"
proof -
  have stop: "triple (\<lambda>_. True) (msg_in_check H) (\<lambda>r _. \<forall>act. r = Some act \<longrightarrow> final act)"
    unfolding msg_in_check_def by (intro triple_bind [where R = "\<lambda>_ _. True"] triple_if triple_return) (auto simp: triple_def)
  have parsed: "triple (\<lambda>_. True) (do { (act, icmd1) \<leftarrow> parse_msg H i x icmd; ok \<leftarrow> chip (ack_byte H icmd1); 
      if (if ok then act else act OR ACT_RESET_BUS) = ACT_CONTINUE then do { alter (\<lambda>w. w\<lparr>sc_imp := 0\<rparr>); State_Monad.return (Inl (icmd1 AND NOT SCI_ICMD_ACK, 0)) }
      else State_Monad.return (Inr (if ok then act else act OR ACT_RESET_BUS)) }) (\<lambda>r _. \<forall>act. r = Inr act \<longrightarrow> final act)" for icmd
    by (rule triple_bind [OF parse_final], rule triple_prod, simp only: prod.case, rule triple_pure)
      (auto intro!: triple_skip triple_if triple_return)
  have round: "triple (\<lambda>_. True) (msg_in_round H i x icmd n) (\<lambda>r _. \<forall>act. r = Inr act \<longrightarrow> final act)" for icmd n
    unfolding msg_in_round_def Let_def
    by (rule triple_bind [OF stop], rule triple_option)
      (auto intro!: triple_skip triple_prod triple_if triple_return parsed split: if_splits)
  show ?thesis
  proof (rule partlyI, clarify)
    fix w act w' assume "ncr5380_msg_in H i x w = Some (act, w')"
    then have "local_loop (\<lambda>(icmd, n). msg_in_round H i x icmd n) (fst (run_state (msg_in_start H) w), snd (run_state (msg_in_start H) w)) = Some (act, w')"
      by (simp add: ncr5380_msg_in_def run_def)
    then show "final act"
      by (rule local_loop_partial [where J = "\<lambda>_ _. True" and Q = "\<lambda>act _. final act"])
        (auto intro!: triple_cons [OF round] split: sum.splits)
  qed
qed

lemma msg_out_bytes_final: "final act \<Longrightarrow> triple (\<lambda>_. True) (msg_out_bytes H icmd act n) (\<lambda>(icmd, act, sent) _. final act)"
proof (induction n arbitrary: icmd)
  case 0
  then show ?case by (auto intro: triple_return)
next
  case (Suc n)
  then show ?case unfolding msg_out_bytes.simps Let_def by (auto intro!: triple_skip triple_if triple_return)
qed

lemma msg_out_final: "partly (\<lambda>_. True) (ncr5380_msg_out H) (\<lambda>(act, w). final act)"
proof (rule partlyI, clarify)
  fix w act w' assume run: "ncr5380_msg_out H w = Some (act, w')"
  have pick: "triple (\<lambda>_. True) (msg_out_pick H) (\<lambda>act _. final act)"
    unfolding msg_out_pick_def Let_def by (intro triple_skip triple_return) simp
  have first: "triple (\<lambda>_. True) (if n > 0 then State_Monad.return (act, n) else do { a \<leftarrow> msg_out_pick H; State_Monad.return (act OR a, 1) })
      (\<lambda>(act, k) _. final act)" if "final act" for act and n :: nat
    by (intro triple_if triple_return triple_bind [OF pick]) (use that in auto)
  have round: "triple (\<lambda>_. final act) (msg_out_round H (icmd, act, progress, n))
      (\<lambda>r _. case r of Inl (icmd, act, progress, n) \<Rightarrow> final act | Inr (icmd, act, progress) \<Rightarrow> final act)" for icmd act progress n
    unfolding msg_out_round_def prod.case
    by (rule triple_pure, rule triple_bind [OF first], assumption, rule triple_prod, simp only: prod.case, rule triple_pure,
        rule triple_bind [OF msg_out_bytes_final], assumption, intro triple_prod, simp only: prod.case, rule triple_pure)
      (auto intro!: triple_if triple_return triple_skip)
  have start: "triple (\<lambda>_. True) (msg_out_start H) (\<lambda>(icmd, act, progress, n) _. final act)"
    unfolding msg_out_start_def Let_def by (auto intro!: triple_skip triple_if triple_return)
  obtain s0 w0 where s0: "run_state (msg_out_start H) w = (s0, w0)" by fastforce
  with run obtain icmd a progress w1 where loop: "local_loop (msg_out_round H) (s0, w0) = Some ((icmd, a, progress), w1)"
    and act: "act = (if progress then a else a OR ACT_RESET_BUS)"
    by (auto simp: ncr5380_msg_out_def run_def split: bind_splits prod.splits)
  have "(case (icmd, a, progress) of (icmd, act, progress) \<Rightarrow> \<lambda>_. final act) w1"
    by (rule local_loop_partial [OF loop, where J = "\<lambda>(icmd, act, progress, n) _. final act" and Q = "\<lambda>(icmd, act, progress) _. final act"])
      (use tripleD [OF start TrueI s0] in \<open>auto intro!: triple_cons [OF round] split: sum.splits prod.splits\<close>)
  then show "final act" by (simp add: act)
qed

text \<open>While aborting, no handler waits for DMA.\<close>

lemma data_xfer_final: "triple (\<lambda>w. bit (sc_state w) 1) (ncr5380_data_xfer H i x phase) (\<lambda>act _. final act)"
proof -
  have "run_state (has_state NCR_ABORTING) w = (True, w)" if "bit (sc_state w) 1" for w :: "'a softc"
    using that by (simp add: has_state_def look_def aborting_flag)
  then show ?thesis by (auto simp: triple_def ncr5380_data_xfer_def look_def)
qed

lemma handle_final: "partly (\<lambda>w. bit (sc_state w) 1) (machine_handle H i x phase) (\<lambda>(r, w). \<forall>act. r = Some act \<longrightarrow> final act)"
proof -
  have phases: "partly (\<lambda>w. bit (sc_state w) 1) (\<lambda>w. if phase = PHASE_DATA_OUT \<or> phase = PHASE_DATA_IN then run (ncr5380_data_xfer H i x phase) w
      else if phase = PHASE_COMMAND then run (ncr5380_command H x) w
      else if phase = PHASE_STATUS then run (ncr5380_status H i) w
      else if phase = PHASE_MSG_OUT then ncr5380_msg_out H w else ncr5380_msg_in H i x w) (\<lambda>(act, w). final act)"
    unfolding ncr5380_command_def ncr5380_status_def
    by (intro partly_if partly_run) (auto intro!: triple_cons [OF data_xfer_final] triple_skip triple_return
        partly_cons [OF msg_out_final] partly_cons [OF msg_in_final])
  show ?thesis
    unfolding machine_handle_def [abs_def] machine_abort_def
    by (intro partly_if partly_bind [OF phases] partly_pair partly_Some partly_run) (auto intro!: triple_skip triple_return)
qed

lemma machine_phase_final:
  "partly (\<lambda>w. bit (sc_state w) 1) (machine_phase H i x) (\<lambda>(r, w). \<forall>act. r = Some act \<longrightarrow> final act)"
  unfolding machine_phase_def [abs_def] machine_abort_def
  by (intro partly_same partly_if aborting.runs aborting.cprims handle_final partly_run) (auto intro!: triple_skip triple_if triple_return)

lemma machine_loop_final:
  assumes "c_loop (machine_round H i x) (resume, w) = Some (r, w')" "bit (sc_state w) 1"
  shows "\<exists>act. r = Some act \<and> act \<noteq> 0 \<and> final act"
proof -
  have "case y of Inl (b, w) \<Rightarrow> bit (sc_state w) 1 | Inr (r, w) \<Rightarrow> \<exists>act. r = Some act \<and> act \<noteq> 0 \<and> final act"
    if I: "bit (sc_state v) 1" and y: "machine_round H i x (b, v) = Some y" for b v y
  proof (cases y)
    case (Inl s)
    with partlyD [OF aborting.machine_round, of "(b, v)" H i x y] I y show ?thesis by simp
  next
    case (Inr q)
    with y obtain act w1 a w2 where ph: "machine_phase H i x v = Some (Some act, w1)" and run: "run_state (machine_actions H i act) w1 = (a, w2)"
      and q: "q = (a, w2)" "a \<noteq> Some ACT_CONTINUE"
      by (auto simp: machine_round_def run_def split: if_splits bind_splits option.splits prod.splits) metis
    from partlyD [OF machine_phase_final I ph] have act: "final act" by simp
    then have "act AND ACT_WAIT_DMA = 0" "act AND NOT ACT_WAIT_DMA = act"
      by (simp_all add: final_def byte_eq_iff_bits bit_and_iff bit_not_iff)
    with run have "a = Some act" by (auto simp: machine_actions_def parity_check_def look_def split: prod.splits)
    with q act Inr show ?thesis by auto
  qed
  with assms(2) show ?thesis
    using c_loop_keeps [OF assms(1), where I = "\<lambda>(b, w). bit (sc_state w) 1" and Q = "\<lambda>(r, w). \<exists>act. r = Some act \<and> act \<noteq> 0 \<and> final act"] by auto
qed

lemma final_leaves: "final act \<Longrightarrow> act \<noteq> 0 \<Longrightarrow> act AND (ACT_RESET_BUS OR ACT_CMD_DONE OR ACT_DISCONNECT) \<noteq> 0"
  by (auto simp: final_def byte_eq_iff_bits bit_and_iff)

lemma leave_free_idle: "leave_free ab H w = Some w' \<Longrightarrow> sc_current w' = None \<and> sc_state w' = NCR_IDLE"
  by (auto simp: leave_free_def paranoia_def run_def split: bind_splits prod.splits)

lemma aborting_machine_ends:
  assumes "machine_with ab H w = Some w'" "bit (sc_state w) 1"
  shows "sc_current w' = None \<and> sc_state w' = NCR_IDLE"
proof -
  from assms(1) obtain i x r w1 where
    loop: "c_loop (machine_round H i x) (sc_state w AND NCR_DOINGDMA \<noteq> 0, w) = Some (r, w1)"
    and leave: "(case r of None \<Rightarrow> Some w1 | Some act \<Rightarrow> machine_leave ab H x act w1) = Some w'"
    by (auto simp: machine_with_def split: bind_splits)
  from machine_loop_final [OF loop assms(2)] obtain act where act: "r = Some act" "act \<noteq> 0" "final act" by blast
  with leave final_leaves [OF act(3,2)] obtain w2 where "leave_free ab H w2 = Some w'"
    by (auto simp: machine_leave_def split: bind_splits if_splits)
  then show ?thesis by (rule leave_free_idle)
qed

lemma abort_ends: "ncr5380_abort H w = Some w' \<Longrightarrow> sc_current w' = None \<and> sc_state w' = NCR_IDLE"
  using tripleD [OF abort_prefix TrueI, of H w] aborting_machine_ends
  unfolding ncr5380_abort_def abort_with_def ncr5380_machine_def machine_at.simps One_nat_def
  by (fastforce split: bind_splits prod.splits)

text \<open>A selection that finds the bus busy: the bus is reset, which aborts the request, and then \<open>ncr5380_done\<close> finds none.\<close>

lemma busy_never_returns:
  assumes "sc_current w \<noteq> None" "\<not> bit (sc_state w) 1"
  shows "sched_failed H x XS_BUSY w = None"
proof -
  have "sc_current w1 = None" if "ncr5380_reset_scsibus (ncr5380_abort H) H w = Some w1" for w1
  proof -
    obtain v where run: "run_state (chip (do { wr H sci_icmd SCI_ICMD_RST; sbc_pause H 500; wr H sci_icmd 0; wr H sci_mode 0;
      wr H sci_tcmd PHASE_INVALID; SCI_CLR_INTR H; sbc_pause H 100000 })) w = ((), v)" by (rule run_unit)
    with that chip_fields [OF run] assms have "ncr5380_abort H v = Some w1"
      unfolding ncr5380_reset_scsibus_def by (auto simp: aborting_flag)
    then show ?thesis using abort_ends by blast
  qed
  then show ?thesis
    by (cases "ncr5380_reset_scsibus (ncr5380_abort H) H w") (auto simp: sched_failed_def ncr5380_done_def)
qed

subsection \<open>Message out ends\<close>

lemma and_not_zero: "q AND NOT r = 0 \<Longrightarrow> q \<le> r" for q r :: byte
proof -
  assume "q AND NOT r = 0"
  then have "q = q AND r" by (metis and.right_neutral bit.conj_disj_distrib bit.disj_cancel_right or.right_neutral)
  then show "q \<le> r" by (metis word_and_le1)
qed

lemma lowest_bit_nonzero: "q \<noteq> 0 \<Longrightarrow> lowest_bit q \<noteq> 0"
proof
  assume q: "q \<noteq> 0" and "lowest_bit q = 0"
  then have "q AND NOT (q - 1) = 0" by (simp add: lowest_bit_def minus_eq_not_minus_1 not_diff_distrib)
  from and_not_zero [OF this] have "unat q \<le> unat q - 1" using unat_minus_one [OF q] by (simp add: word_le_nat_alt)
  moreover have "0 < unat q" using q by (simp add: unat_gt_0)
  ultimately show False by simp
qed

lemma priq_shrinks: "q \<noteq> 0 \<Longrightarrow> unat (q AND NOT (lowest_bit q)) < unat q" for q :: byte
proof -
  assume q: "q \<noteq> 0"
  have "q AND NOT (lowest_bit q) \<noteq> q"
  proof
    assume "q AND NOT (lowest_bit q) = q"
    then have "q AND lowest_bit q = 0" by (metis and.assoc bit.conj_cancel_left bit.conj_zero_right)
    then show False using lowest_bit_nonzero [OF q] by (simp add: lowest_bit_def flip: and.assoc)
  qed
  then have "q AND NOT (lowest_bit q) < q" using word_and_le2 [of q "NOT (lowest_bit q)"] by (simp add: and.commute)
  then show ?thesis by (simp add: word_less_nat_alt)
qed

interpretation priq_is: chip_keep "\<lambda>w. sc_msgpriq w = q" for q
  by unfold_locales simp

lemma msg_out_bytes_priq: "preserves (\<lambda>w. sc_msgpriq w = q) (msg_out_bytes H icmd act n)"
proof (induction n arbitrary: icmd)
  case 0
  show ?case by (simp add: preserves_return)
next
  case (Suc n)
  show ?case unfolding msg_out_bytes.simps Let_def by (intro priq_is.cprims priq_is.alter Suc) simp
qed

lemma msg_out_round_measure:
  "triple (\<lambda>w. unat (sc_msgpriq w) + (if n > 0 then 1 else 0) = m) (msg_out_round H (icmd, act, progress, n))
     (\<lambda>r w. case r of Inl (icmd, act, progress, n) \<Rightarrow> unat (sc_msgpriq w) + (if n > 0 then 1 else 0) < m | Inr _ \<Rightarrow> True)"
proof -
  have first: "triple (\<lambda>w. unat (sc_msgpriq w) + (if n > 0 then 1 else 0) = m)
      (if n > 0 then State_Monad.return (act, n) else do { a \<leftarrow> msg_out_pick H; State_Monad.return (act OR a, 1) })
      (\<lambda>_ w. sc_msgpriq w = 0 \<or> unat (sc_msgpriq w) < m)"
  proof (cases "n > 0")
    case False
    have "q AND NOT (lowest_bit q) = 0 \<or> unat (q AND NOT (lowest_bit q)) < unat q" for q
      using priq_shrinks [of q] by (cases "q = 0") auto
    with False show ?thesis by (auto simp: triple_def msg_out_pick_def alter_def look_def Let_def)
  qed (auto simp: triple_def)
  have bytes: "preserves (\<lambda>w. sc_msgpriq w = 0 \<or> unat (sc_msgpriq w) < m) (msg_out_bytes H icmd act k)" for act k
  proof (rule tripleI)
    fix w x w' assume "sc_msgpriq w = 0 \<or> unat (sc_msgpriq w) < m" and run: "run_state (msg_out_bytes H icmd act k) w = (x, w')"
    with tripleD [OF msg_out_bytes_priq _ run, of "sc_msgpriq w"] show "sc_msgpriq w' = 0 \<or> unat (sc_msgpriq w') < m" by simp
  qed
  show ?thesis unfolding msg_out_round_def prod.case
    by (rule triple_bind [OF first], rule triple_prod, rule triple_bind [OF bytes], intro triple_prod triple_if)
      (auto simp: triple_def look_def)
qed

text \<open>C23: The message out phase always returns, on every hardware: each round sends the message of the
  lowest bit and takes it off the queue, so there are no more rounds than messages, and one for the rest of an old message.\<close>

theorem msg_out_returns: "\<exists>act w'. ncr5380_msg_out H w = Some (act, w')"
proof -
  obtain s0 w0 where s0: "run_state (msg_out_start H) w = (s0, w0)" by fastforce
  have "\<exists>r w'. local_loop (msg_out_round H) (s0, w0) = Some (r, w') \<and> True"
  proof (rule local_loop_total [where J = "\<lambda>_ _. True" and m = "\<lambda>(icmd, act, progress, n) w. unat (sc_msgpriq w) + (if n > 0 then 1 else 0)"])
    fix s :: "byte \<times> byte \<times> bool \<times> nat" and m :: nat
    show "triple (\<lambda>w. True \<and> (case s of (icmd, act, progress, n) \<Rightarrow> \<lambda>w. unat (sc_msgpriq w) + (if n > 0 then 1 else 0)) w = m) (msg_out_round H s)
      (\<lambda>x w'. case x of Inl s' \<Rightarrow> True \<and> (case s' of (icmd, act, progress, n) \<Rightarrow> \<lambda>w. unat (sc_msgpriq w) + (if n > 0 then 1 else 0)) w' < m | Inr r \<Rightarrow> True)"
      by (cases s) (auto intro!: triple_cons [OF msg_out_round_measure] split: sum.splits)
  qed simp
  with s0 show ?thesis by (fastforce simp: ncr5380_msg_out_def run_def split: prod.splits)
qed

subsection \<open>Calls\<close>

text \<open>What the kernel calls: a request, an interrupt, the timer of a slot.\<close>

datatype sbc_call = Request nat | Intr | Timeout nat

definition sbc_call :: "'d sbc_hw \<Rightarrow> sbc_call \<Rightarrow> 'd softc \<Rightarrow> 'd softc option" where
  "sbc_call H c w = (case c of Request x \<Rightarrow> ncr5380_scsipi_request H x w
     | Intr \<Rightarrow> map_option snd (ncr5380_intr H w) | Timeout i \<Rightarrow> ncr5380_cmd_timeout H i w)"

fun sbc_calls :: "'d sbc_hw \<Rightarrow> sbc_call list \<Rightarrow> 'd softc \<Rightarrow> 'd softc option" where
  "sbc_calls H [] w = Some w"
| "sbc_calls H (c # cs) w = do { w1 \<leftarrow> sbc_call H c w; sbc_calls H cs w1 }"

definition in_ring :: "sbc_call \<Rightarrow> bool" where
  "in_ring c = (case c of Timeout i \<Rightarrow> i < SCI_OPENINGS | _ \<Rightarrow> True)"

lemma if_idle_sound: "sound w \<Longrightarrow> at_rest w \<Longrightarrow> sched_if_idle H w = Some w' \<Longrightarrow> sound w' \<and> at_rest w'"
  using sched_sound [of w H w'] by (auto simp: sched_if_idle_def at_rest_def engaged_def split: if_splits)

lemma request_sound:
  assumes "sound w" "at_rest w" "ncr5380_scsipi_request H x w = Some w'"
  shows "sound w' \<and> at_rest w'"
proof -
  let ?poll = "ctl_poll (xfers w x)"
  from assms(3) obtain w1 i w2 where ab: "(if ?poll \<and> sc_current w \<noteq> None then ncr5380_abort H w else Some w) = Some w1"
    and enq: "enqueue x w1 = Some (i, w2)" and run: "sched_if_idle H (if ?poll then w2\<lparr>sc_rr := i\<rparr> else w2) = Some w'"
    by (auto simp: ncr5380_scsipi_request_def Let_def split: bind_splits if_splits)
  have w1: "sound w1" "at_rest w1" using ab assms(1,2) abort.aborted by (auto split: if_splits)
  from enqueue_sound [OF w1(1) enq] w1(2) have w2: "sound w2" "at_rest w2" "i < SCI_OPENINGS" by (auto simp: at_rest_def engaged_def)
  then have "sound (if ?poll then w2\<lparr>sc_rr := i\<rparr> else w2)" "at_rest (if ?poll then w2\<lparr>sc_rr := i\<rparr> else w2)"
    by (auto simp: sound_rr) (auto simp: at_rest_def engaged_def)
  with run show ?thesis by (intro if_idle_sound)
qed

lemma intr_sound:
  assumes "sound w" "at_rest w" "ncr5380_intr H w = Some (claimed, w')"
  shows "sound w' \<and> at_rest w'"
proof -
  from assms(3) obtain w1 w2 where
    resel: "(if sc_state w = NCR_IDLE then ncr5380_reselect H (w\<lparr>dev := intr_off H (dev w)\<rparr>) else Some w) = Some w1"
    and mach: "(if sc_state w1 AND NCR_WORKING \<noteq> 0 then ncr5380_machine H w1 else Some w1) = Some w2"
    and run: "sched_if_idle H w2 = Some w'"
    by (auto simp: ncr5380_intr_def Let_def split: bind_splits)
  have w1: "sound w1" "at_rest w1"
  proof -
    have "sc_current w = None" if "sc_state w = NCR_IDLE" using assms(2) that by (auto simp: at_rest_def engaged_def split: if_splits)
    with resel assms(1,2) reselect_sound [of "w\<lparr>dev := intr_off H (dev w)\<rparr>" H w1] show "sound w1" "at_rest w1"
      by (auto simp: reselected_def at_rest_def split: if_splits)
  qed
  have "sound w2 \<and> at_rest w2"
  proof (cases "sc_state w1 AND NCR_WORKING \<noteq> 0")
    case True
    then have "engaged w1" by (simp add: engaged_def bits)
    from ncr_machine_sound [OF w1(1) this] True mach show ?thesis by simp
  next
    case False
    with mach w1 show ?thesis by simp
  qed
  with run show ?thesis by (intro if_idle_sound) auto
qed

lemma timeout_sound:
  assumes "sound w" "at_rest w" "i < SCI_OPENINGS" "ncr5380_cmd_timeout H i w = Some w'"
  shows "sound w' \<and> at_rest w'"
proof (cases "sr_xs (sc_ring w ! i) = None")
  case True
  with assms show ?thesis by (simp add: ncr5380_cmd_timeout_def)
next
  case used: False
  let ?sr = "sc_ring w ! i"
  let ?w1 = "w\<lparr>sc_ring := (sc_ring w)[i := ?sr\<lparr>sr_overdue := True\<rparr>]\<rparr>"
  let ?m = "(sc_matrix w)(sr_target ?sr := (sc_matrix w (sr_target ?sr))(sr_lun ?sr := None))"
  have calm: "calm w ?w1" by (rule calm.ring [OF calm_refl]) (simp add: slot_view_def)
  have S: "sound ?w1" by (rule calm_sound [OF calm assms(1)])
  have "sound (?w1\<lparr>sc_matrix := ?m\<rparr>)"
  proof -
    have "matrix_ok (?w1\<lparr>sc_matrix := ?m\<rparr>)" "current_ok (?w1\<lparr>sc_matrix := ?m\<rparr>)"
      using S by (auto simp: sound_def sbc_ok_def matrix_ok_def current_ok_def slot_used_def matrix_at_def split: option.splits)
    with S show ?thesis by (auto simp: sound_def sbc_ok_def) (simp_all add: ring_ok_def books_def held_def addressed_def)
  qed
  moreover have "at_rest (?w1\<lparr>sc_matrix := ?m\<rparr>)" using assms(2) by (auto simp: at_rest_def engaged_def split: if_splits)
  moreover obtain w2 where ab: "(if sc_current w = Some i then ncr5380_abort H ?w1 else Some (?w1\<lparr>sc_matrix := ?m\<rparr>)) = Some w2"
    and run: "sched_if_idle H w2 = Some w'"
    using used assms(4) by (cases "sc_current w = Some i") (auto simp: ncr5380_cmd_timeout_def Let_def split: bind_splits)
  ultimately have "sound w2 \<and> at_rest w2" using S abort.aborted [OF S, of H w2] by (auto split: if_splits)
  with run show ?thesis by (intro if_idle_sound) auto
qed

lemma calls_sound:
  assumes "sound w" "at_rest w" "list_all in_ring cs" "sbc_calls H cs w = Some w'"
  shows "sound w' \<and> at_rest w'"
  using assms
proof (induction cs arbitrary: w)
  case (Cons c cs)
  then obtain w1 where c: "sbc_call H c w = Some w1" and cs: "sbc_calls H cs w1 = Some w'" by (auto split: bind_splits)
  have "sound w1 \<and> at_rest w1"
    using c Cons.prems(1-3) request_sound [of w H _ w1] intr_sound [of w H _ w1] timeout_sound [of w _ H w1]
    by (cases c) (auto simp: sbc_call_def in_ring_def)
  with Cons cs show ?case by auto
qed simp

end
