(* ===== verification/Sbc_Props.thy ===== *)
theory Sbc_Props
  imports Sbc_Calls
begin

text \<open>
  The properties of NetBSD's driver: every sequence of calls keeps the tables and the books, an abort
  ends idle, what a lost arbitration and a parity error in a message do.
\<close>

subsection \<open>A bus without targets\<close>

text \<open>A chip that wins every arbitration, on a bus where nobody answers; the device has no state. \<open>mute\<close> has no AIP either.\<close>

definition lone :: "byte \<Rightarrow> unit sbc_hw" where
  "lone icr = \<lparr>reg_rd = (\<lambda>r d. (if r = sci_icmd then icr else 0, d)), reg_wr = (\<lambda>r v d. d), mem_rd = (\<lambda>a d. (0, d)), mem_wr = (\<lambda>a v d. d),
     delay = (\<lambda>n d. d), intr_on = id, intr_off = id, md_pio_out = (\<lambda>ph n p d. (0, d)), md_pio_in = (\<lambda>ph n p d. (0, d)),
     dma_alloc = None, dma_free = Pair, dma_setup = None, dma_start = Pair, dma_poll = Pair, dma_stop = Pair,
     sc_no_disconnect = 0, sc_parity_disable = 0, sc_min_dma_len = 0, is_cxd1180 = False,
     wait_phase_timo = 2, wait_req_timo = 2, wait_nrq_timo = 2,
     MSG_IS1BYTE = (\<lambda>m. m \<noteq> 1), MSG_IS2BYTE = (\<lambda>m. False), MSG_ISEXTENDED = (\<lambda>m. m = 1), SCSI_OK = 0, SCSI_CHECK = 2, SCSI_BUSY = 8\<rparr>"

definition plain_xfer :: xfer where
  "plain_xfer = \<lparr>periph_target = 3, periph_lun = 0, ctl_poll = False, ctl_reqsense = False, ctl_reset = False, ctl_data_out = False,
     autosave = False, cmd = 0, cmdlen = 6, xdata = None, xdatalen = 0, error = XS_NOERROR, xstatus = 0, resid = 0, xs_done = False\<rparr>"

definition free_slot :: sci_req where
  "free_slot = \<lparr>sr_xs = None, sr_target = 0, sr_lun = 0, sr_dma_hand = False, sr_dataptr = None, sr_datalen = 0, sr_immed = False,
     sr_overdue = False, sr_status = 0\<rparr>"

definition zeroed :: "unit softc" where
  "zeroed = \<lparr>sc_state = 0, sc_current = None, sc_dataptr = None, sc_datalen = 0, sc_ncmds = 0, sc_ring = replicate 16 free_slot, sc_rr = 0,
     sc_matrix = (\<lambda>_ _. None), sc_prevphase = PHASE_INVALID, sc_msgpriq = 0, sc_msgoutq = 0, sc_msgout = 0, sc_omess = replicate 8 0, sc_omp = 0,
     sc_imess = replicate 8 0, sc_imp = 0, xfers = (\<lambda>_. plain_xfer), taken = [], returned = [], arrivals = [], dev = ()\<rparr>"

lemma lone_selects:
  "run_state (chip (sbc_arbitrate (lone 0x40))) w = (True, w)"
  "run_state (chip (sbc_select_target (lone 0x40) t)) w = (XS_SELTIMEOUT, w)" "run_state (chip (sbc_arbitrate (lone 0))) w = (False, w)"
  "ncr5380_reselect (lone icr) w = Some w"
  by (simp_all add: chip_def sbc_arbitrate_def sbc_select_target_def wait_for_unit sees_def rd_def wr_def sbc_pause_def SCI_CLR_INTR_def lone_def
      ncr5380_reselect_def run_def)

lemma lone_timeout: "sc_current w = None \<Longrightarrow> ncr5380_select (lone 0x40) i w = Some (XS_SELTIMEOUT, w)"
  by (simp add: ncr5380_select_def lone_selects run_def)

lemma lone_busy: "sc_current w = None \<Longrightarrow> ncr5380_select (lone 0) i w = Some (XS_BUSY, w)"
  by (simp add: ncr5380_select_def lone_selects run_def) (simp add: chip_def wr_def lone_def)

lemma zeroed_simps [simp]: "sc_current zeroed = None" "sc_state zeroed = 0" "xfers zeroed = (\<lambda>_. plain_xfer)" "sc_ring zeroed = replicate 16 free_slot"
  "arrivals zeroed = []" "sc_rr zeroed = 0" "sc_matrix zeroed = (\<lambda>_ _. None)" "returned zeroed = []" "taken zeroed = []" "sc_ncmds zeroed = 0"
  by (simp_all add: zeroed_def)

lemma zeroed_ok: "sbc_ok zeroed" "at_rest zeroed" "addressed zeroed"
  by (simp_all add: sbc_ok_def ring_ok_def matrix_ok_def current_ok_def msgs_ok_def books_def held_def at_rest_def addressed_def plain_xfer_def
      free_slot_def List.map_filter_def) (simp_all add: zeroed_def)

text \<open>A request for a target that is not there: queued, and as the current request.\<close>

definition queued_slot :: sci_req where
  "queued_slot = \<lparr>sr_xs = Some 0, sr_target = 3, sr_lun = 0, sr_dma_hand = False, sr_dataptr = None, sr_datalen = 0, sr_immed = False,
     sr_overdue = False, sr_status = -1\<rparr>"

definition queued :: "unit softc" where
  "queued = zeroed\<lparr>sc_ring := (replicate 16 free_slot)[0 := queued_slot], sc_ncmds := 1, taken := [0]\<rparr>"

definition connected :: "unit softc" where
  "connected = sched_connect 0 3 0 (queued\<lparr>sc_rr := 0, sc_state := NCR_WORKING\<rparr>)"

lemma queued_enqueue: "enqueue 0 zeroed = Some (0, queued)"
  by (simp add: enqueue_def queued_def queued_slot_def plain_xfer_def free_slot_def upt_conv_Cons)

lemma queued_sound: "sound queued"
  using enqueue_sound [OF _ queued_enqueue] zeroed_ok by (simp add: sound_def)

lemma queued_job: "next_job queued = Some 0" "sc_current queued = None" "sc_state queued = NCR_IDLE" "queued\<lparr>dev := u\<rparr> = queued"
  by (simp_all add: next_job_def upt_conv_Cons ready_slot_def queued_def queued_slot_def)

lemmas connected_simps = connected_def queued_def queued_slot_def sched_connect_def done_result_def look_def has_state_def xs_upd_def alter_def
  done_free_def scsipi_done_def paranoia_def next_job_def upt_conv_Cons ready_slot_def free_slot_def plain_xfer_def Let_def

lemma lone_failed:
  "\<exists>w. sched_failed (lone 0x40) 0 XS_SELTIMEOUT connected = Some w \<and> returned w = [(0, XS_SELTIMEOUT)] \<and> next_job w = None"
  by (simp add: sched_failed_def ncr5380_done_def connected_simps)

text \<open>The request ends with a selection timeout.\<close>

lemma lone_request: "\<exists>w'. sbc_calls (lone 0x40) [Request 0] zeroed = Some w' \<and> returned w' = [(0, XS_SELTIMEOUT)]"
proof -
  obtain w3 where w3: "sched_failed (lone 0x40) 0 XS_SELTIMEOUT connected = Some w3" "returned w3 = [(0, XS_SELTIMEOUT)]" "next_job w3 = None"
    using lone_failed by blast
  have slot: "sc_ring queued ! 0 = queued_slot" by (simp add: queued_def)
  have "sched_round (lone 0x40) queued = Some (Inl w3)"
    using w3(1) by (simp add: sched_round_def queued_job lone_timeout slot connected_def queued_slot_def)
  moreover have "sched_round (lone 0x40) w3 = Some (Inr w3)" by (simp add: sched_round_def w3(3) lone_def)
  ultimately have "ncr5380_sched (lone 0x40) queued = Some w3"
    unfolding ncr5380_sched_def queued_job(4) by (simp add: c_loop.simps [of _ queued] c_loop.simps [of _ w3])
  with w3 show ?thesis
    by (simp add: sbc_call_def ncr5380_scsipi_request_def queued_enqueue sched_if_idle_def queued_job plain_xfer_def Let_def)
qed

text \<open>Aborting the current request, on a bus that nobody holds.\<close>

lemma lone_abort: "\<exists>w. ncr5380_abort (lone 0x40) connected = Some w \<and> returned w = [(0, XS_DRIVER_STUFFUP)]"
  by (simp add: ncr5380_abort_def abort_with_def ncr5380_machine_def machine_with_def chip_def set_state_def ncr_sched_msgout_def get_icmd_def
      rd_def wr_def sbc_pause_def SCI_CLR_INTR_def SCI_BUSY_def sees_def wait_for_unit run_def c_loop.simps machine_round_def machine_phase_def
      machine_actions_def parity_check_def machine_leave_def leave_reset_def leave_done_def leave_free_def ncr5380_done_def connected_simps lone_def)

subsection \<open>Tables and books\<close>

text \<open>C2: Well-formed states. Whatever the hardware and the front end do, every sequence of requests, interrupts and timeouts
  keeps the tables: sixteen slots, used ones with targets and LUNs below 8; each entry of the matrix names a used slot of that target and LUN;
  the current request is a used slot; the pointers into the message buffers are inside; and between calls the driver is idle exactly when it has no
  current request. Every index the driver uses is in range.\<close>

theorem calls_keep_tables:
  assumes "sbc_ok w" "at_rest w" "addressed w" "list_all in_ring cs" "sbc_calls H cs w = Some w'"
  shows "ring_ok w' \<and> matrix_ok w' \<and> current_ok w' \<and> msgs_ok w' \<and> at_rest w'"
  using calls_sound [OF _ assms(2,4,5)] assms(1,3) by (simp add: sound_def sbc_ok_def)

theorem calls_keep_tables_witness:
  "\<exists>w'. sbc_calls (lone 0x40) [Request 0] zeroed = Some w' \<and> ring_ok w' \<and> matrix_ok w' \<and> current_ok w' \<and> msgs_ok w' \<and> at_rest w'"
proof -
  obtain w' where w': "sbc_calls (lone 0x40) [Request 0] zeroed = Some w'" using lone_request by blast
  from calls_keep_tables [OF zeroed_ok _ w'] show ?thesis using w' by (auto simp: in_ring_def)
qed

text \<open>C3: No request is lost and none is returned twice. From the initialisation of the driver on, on every hardware and for every
  sequence of calls, each request taken is in a slot of the ring or was returned, as often as it was taken; \<open>sc_ncmds\<close> counts
  the slots in use. This includes the requests that arrive from within \<open>scsipi_done\<close>.\<close>

theorem calls_keep_books:
  assumes "run_state (ncr5380_init H) w0 = ((), w)" "sbc_calls H cs w = Some w'" "list_all in_ring cs" "addressed w0" "msgs_ok w0"
    and "length (sc_ring w0) = SCI_OPENINGS" "sc_rr w0 = 0" "sc_current w0 = None" "sc_ncmds w0 = 0" "taken w0 = []" "returned w0 = []"
  shows "mset (taken w') = mset (held w') + mset (map fst (returned w')) \<and> sc_ncmds w' = int (length (held w')) \<and> length (held w') \<le> SCI_OPENINGS"
proof -
  define v where "v = w0\<lparr>sc_ring := map (\<lambda>sr. sr\<lparr>sr_xs := None\<rparr>) (sc_ring w0), sc_matrix := (\<lambda>_ _. None), sc_prevphase := PHASE_INVALID, sc_state := NCR_IDLE\<rparr>"
  have held: "held v = []" by (simp add: held_def v_def List.map_filter_def)
  have "sound v" using assms(4-11) held
    by (auto simp: sound_def sbc_ok_def ring_ok_def matrix_ok_def current_ok_def books_def) (auto simp: v_def addressed_def)
  moreover have "at_rest v" using assms(8) by (simp add: at_rest_def v_def)
  moreover have "touched v w" using assms(1) touched.ran [OF touched.chip touched_refl, of _ v "()" w]
    by (simp add: ncr5380_init_def alter_def v_def)
  ultimately have "sound w" "at_rest w" by (auto simp: touched_fields at_rest_def engaged_def intro: sound_view)
  from calls_sound [OF this assms(3,2)] have S: "sound w'" by simp
  have "length (held w') \<le> length (sc_ring w')" by (simp add: held_def List.map_filter_def)
  with S soundD(1) [OF S] show ?thesis by (simp add: sound_def sbc_ok_def books_def)
qed

theorem calls_keep_books_witness:
  "\<exists>w w'. run_state (ncr5380_init (lone 0x40)) zeroed = ((), w) \<and> sbc_calls (lone 0x40) [Request 0] w = Some w' \<and>
     map fst (returned w') = [0] \<and> mset (taken w') = mset (held w') + mset (map fst (returned w'))"
proof -
  have init: "run_state (ncr5380_init (lone 0x40)) zeroed = ((), zeroed)"
    by (simp add: ncr5380_init_def alter_def chip_def wr_def rd_def SCI_CLR_INTR_def lone_def) (simp add: zeroed_def free_slot_def)
  obtain w' where w': "sbc_calls (lone 0x40) [Request 0] zeroed = Some w'" "returned w' = [(0, XS_SELTIMEOUT)]" using lone_request by blast
  from calls_keep_books [OF init w'(1)] zeroed_ok show ?thesis using init w' by (auto simp: in_ring_def sbc_ok_def)
qed

text \<open>C11: An abort ends the connection: when \<open>ncr5380_abort\<close> returns there is no current request and the driver is idle, whatever
  the target does and even in the middle of a DMA transfer. So a polled request never panics with "abort failed".\<close>

theorem abort_leaves_idle:
  assumes "at_rest w" "(if sc_current w \<noteq> None then ncr5380_abort H w else Some w) = Some w'"
  shows "sc_current w' = None \<and> sc_state w' = NCR_IDLE"
  using assms abort_ends [of H w w'] by (auto simp: at_rest_def split: if_splits)

theorem abort_leaves_idle_witness:
  "at_rest connected \<and> sc_current connected = Some 0 \<and> (\<exists>w'. ncr5380_abort (lone 0x40) connected = Some w' \<and> sc_current w' = None \<and> sc_state w' = NCR_IDLE)"
proof -
  have c: "at_rest connected" "sc_current connected = Some 0" by (simp_all add: at_rest_def engaged_def connected_def sched_connect_def)
  obtain w' where w': "ncr5380_abort (lone 0x40) connected = Some w'" using lone_abort by blast
  from abort_leaves_idle [of connected "lone 0x40" w'] c w' show ?thesis by simp
qed

subsection \<open>A lost arbitration\<close>

text \<open>C20: A selection that loses the arbitration stops the kernel. The scheduler makes the request the current one and resets the bus;
  the reset aborts the current request, which completes it; the scheduler then completes it again, through the null pointer that
  \<open>sc_current\<close> is by now. The call never returns, on any hardware.\<close>

theorem lost_arbitration_stops:
  assumes "sound w" "sc_current w = None" "next_job w = Some i"
    and "ncr5380_select H i (w\<lparr>sc_rr := i, sc_state := NCR_WORKING\<rparr>) = Some (XS_BUSY, w1)" "sc_current w1 = None"
  shows "sched_round H w = None"
proof -
  let ?v = "w\<lparr>sc_rr := i, sc_state := NCR_WORKING\<rparr>"
  have "sound ?v" using sound_rr [OF assms(1)] next_job_ready [OF assms(1,3)] by simp
  from select_sound [OF this _ _ assms(4)] assms(2,5) have "sc_state w1 = NCR_WORKING" by (auto simp: reselected_def)
  then have "sched_failed H x XS_BUSY (sched_connect i t l w1) = None" for x t l
    by (intro busy_never_returns) (simp_all add: sched_connect_def)
  then show ?thesis using assms(3-5) by (cases "sr_xs (sc_ring w1 ! i)") (auto simp: sched_round_def Let_def)
qed

theorem lost_arbitration_stops_witness: "sched_round (lone 0) queued = None"
  by (rule lost_arbitration_stops [OF queued_sound queued_job(2,1) lone_busy]) (simp_all add: queued_def)

subsection \<open>A parity error in a message\<close>

text \<open>The initiator command register as the chip drives the bus from it: it holds what was written last.\<close>

definition icmd_port :: "'d sbc_hw \<Rightarrow> ('d \<Rightarrow> byte) \<Rightarrow> bool" where
  "icmd_port H f \<longleftrightarrow> (\<forall>r v d. f (reg_wr H r v d) = (if r = sci_icmd then v else f d)) \<and> (\<forall>r d. f (snd (reg_rd H r d)) = f d) \<and> (\<forall>n d. f (delay H n d) = f d)"

lemma ack_writes_icmd: "icmd_port H f \<Longrightarrow> run_state (chip (ack_byte H icmd)) w = (ok, w') \<Longrightarrow> f (dev w') = icmd AND NOT SCI_ICMD_ACK"
  by (auto simp: chip_def ack_byte_def wr_def icmd_port_def split: prod.splits)


lemma parity_round:
  assumes "run_state (msg_in_check H) w = (None, w1)" "run_state (chip (rd H sci_csr)) w1 = (c, w2)" "bit c 5"
    and "run_state (msg_in_round H i x icmd n) w = (r, w')"
  obtains v ok where "bit (sc_msgpriq v) 1" "run_state (chip (ack_byte H icmd)) v = (ok, w')"
proof -
  obtain v where v: "run_state (do { ncr_sched_msgout H SEND_PARITY_ERROR; set_state NCR_DROP_MSGIN }) w2 = ((), v)" by (rule run_unit)
  then have flags: "bit (sc_msgpriq v) 1" "bit (sc_state v) 4"
    by (auto simp: ncr_sched_msgout_def set_state_def alter_def look_def bit_or_iff split: prod.splits)
  have "run_state (msg_in_gather H n) v = ((n, False), v)"
    using flags(2) by (simp add: msg_in_gather_def has_state_def look_def bits)
  moreover obtain ok u where ack: "run_state (chip (ack_byte H icmd)) v = (ok, u)" by fastforce
  ultimately have "w' = u" using assms v by (auto simp: msg_in_round_def bits split: prod.splits)
  with flags ack show ?thesis by (intro that) auto
qed

text \<open>C24: A parity error in a message byte raises ATN for a moment only. The driver asks for a message out, which raises ATN, and then acknowledges
  the byte with the value of \<open>icmd\<close> it read before: that write drops ATN again. The message stays queued, and because one is queued no later
  request for a message out raises ATN.\<close>

theorem parity_reply_drops_atn:
  assumes "icmd_port H f" "\<not> bit icmd 1" "run_state (msg_in_check H) w = (None, w1)" "run_state (chip (rd H sci_csr)) w1 = (c, w2)" "bit c 5"
    and "run_state (msg_in_round H i x icmd n) w = (r, w')"
  shows "\<not> bit (f (dev w')) 1 \<and> bit (sc_msgpriq w') 1 \<and>
    run_state (ncr_sched_msgout H m) w' = ((), w'\<lparr>sc_msgpriq := sc_msgpriq w' OR m\<rparr>)"
proof -
  obtain v ok where v: "bit (sc_msgpriq v) 1" and ack: "run_state (chip (ack_byte H icmd)) v = (ok, w')"
    by (rule parity_round [OF assms(3-6)])
  have "sc_msgpriq w' = sc_msgpriq v" using ack by (auto simp: chip_def split: prod.splits)
  with v have q: "bit (sc_msgpriq w') 1" by simp
  then have "sc_msgpriq w' \<noteq> 0" by auto
  then have "run_state (ncr_sched_msgout H m) w' = ((), w'\<lparr>sc_msgpriq := sc_msgpriq w' OR m\<rparr>)"
    by (simp add: ncr_sched_msgout_def look_def alter_def)
  with q ack_writes_icmd [OF assms(1) ack] assms(2) show ?thesis by (simp add: bit_and_iff)
qed

text \<open>A target in MESSAGE IN with REQ up and bad parity; the device is the initiator command register.\<close>

definition noisy :: "byte sbc_hw" where
  "noisy = \<lparr>reg_rd = (\<lambda>r d. (if r = sci_icmd then d else if r = sci_bus_csr then 0x7C else if r = sci_csr then 0x20 else 0, d)),
     reg_wr = (\<lambda>r v d. if r = sci_icmd then v else d), mem_rd = (\<lambda>a d. (0, d)), mem_wr = (\<lambda>a v d. d),
     delay = (\<lambda>n d. d), intr_on = id, intr_off = id, md_pio_out = (\<lambda>ph n p d. (0, d)), md_pio_in = (\<lambda>ph n p d. (0, d)),
     dma_alloc = None, dma_free = Pair, dma_setup = None, dma_start = Pair, dma_poll = Pair, dma_stop = Pair,
     sc_no_disconnect = 0, sc_parity_disable = 0, sc_min_dma_len = 0, is_cxd1180 = False,
     wait_phase_timo = 2, wait_req_timo = 2, wait_nrq_timo = 2,
     MSG_IS1BYTE = (\<lambda>m. m \<noteq> 1), MSG_IS2BYTE = (\<lambda>m. False), MSG_ISEXTENDED = (\<lambda>m. m = 1), SCSI_OK = 0, SCSI_CHECK = 2, SCSI_BUSY = 8\<rparr>"

definition listening :: "byte softc" where
  "listening = \<lparr>sc_state = NCR_WORKING, sc_current = Some 0, sc_dataptr = None, sc_datalen = 0, sc_ncmds = 1, sc_ring = replicate 16 queued_slot, sc_rr = 0,
     sc_matrix = (\<lambda>_ _. None), sc_prevphase = PHASE_INVALID, sc_msgpriq = 0, sc_msgoutq = 0, sc_msgout = 0, sc_omess = replicate 8 0, sc_omp = 0,
     sc_imess = replicate 8 0, sc_imp = 0, xfers = (\<lambda>_. plain_xfer), taken = [], returned = [], arrivals = [], dev = 0\<rparr>"

theorem parity_reply_drops_atn_witness:
  "\<not> bit (dev (snd (run_state (msg_in_round noisy 0 0 0 0) listening))) 1 \<and> bit (sc_msgpriq (snd (run_state (msg_in_round noisy 0 0 0 0) listening))) 1"
proof -
  have port: "icmd_port noisy id" by (simp add: icmd_port_def noisy_def)
  have check: "run_state (msg_in_check noisy) listening = (None, listening)"
    by (simp add: msg_in_check_def chip_def SCI_BUSY_def rd_def ncr5380_wait_req_def wait_for.simps sees_def SCI_BUS_PHASE_def noisy_def)
  have csr: "run_state (chip (rd noisy sci_csr)) listening = (0x20, listening)"
    by (simp add: chip_def rd_def noisy_def)
  obtain r w' where "run_state (msg_in_round noisy 0 0 0 0) listening = (r, w')" by fastforce
  from parity_reply_drops_atn [OF port _ check csr _ this] this show ?thesis by simp
qed

end
