(* ===== verification/Nca_Base.thy ===== *)
theory Nca_Base
  imports Prelude
begin

text \<open>
  The ground of NetBSD's driver for the Atari, \<^verbatim>\<open>src/doc/drivers/NetBSD-atari/ncr5380.c\<close>: data, waits, programmed
  transfer, DMA chains. The configuration is that of \<^verbatim>\<open>atari5380.c\<close>: \<open>REAL_DMA\<close>, \<open>AUTO_SENSE\<close>, no debugging output.

  A request block is a number; the queues that the source links through \<open>next\<close> are lists of
  blocks, which is the same as long as no block is on two queues at once.
\<close>

subsection \<open>Registers and constants\<close>

abbreviation (input) "NCR5380_DATA \<equiv> (0::3 word)"
abbreviation (input) "NCR5380_ICOM \<equiv> (1::3 word)"
abbreviation (input) "NCR5380_MODE \<equiv> (2::3 word)"
abbreviation (input) "NCR5380_TCOM \<equiv> (3::3 word)"
abbreviation (input) "NCR5380_IDSTAT \<equiv> (4::3 word)"
abbreviation (input) "NCR5380_DMSTAT \<equiv> (5::3 word)"
abbreviation (input) "NCR5380_IRCV \<equiv> (7::3 word)"

abbreviation (input) "SC_A_RST \<equiv> (0x80::byte)"
abbreviation (input) "SC_AIP \<equiv> (0x40::byte)"
abbreviation (input) "SC_LA \<equiv> (0x20::byte)"
abbreviation (input) "SC_A_ACK \<equiv> (0x10::byte)"
abbreviation (input) "SC_A_BSY \<equiv> (0x08::byte)"
abbreviation (input) "SC_A_SEL \<equiv> (0x04::byte)"
abbreviation (input) "SC_A_ATN \<equiv> (0x02::byte)"
abbreviation (input) "SC_ADTB \<equiv> (0x01::byte)"
abbreviation (input) "SC_E_EOPI \<equiv> (0x08::byte)"
abbreviation (input) "SC_MON_BSY \<equiv> (0x04::byte)"
abbreviation (input) "SC_M_DMA \<equiv> (0x02::byte)"
abbreviation (input) "SC_ARBIT \<equiv> (0x01::byte)"
abbreviation (input) "IMODE_BASE \<equiv> (0x20::byte)"
abbreviation (input) "SC_S_BSY \<equiv> (0x40::byte)"
abbreviation (input) "SC_S_REQ \<equiv> (0x20::byte)"
abbreviation (input) "SC_S_IO \<equiv> (0x04::byte)"
abbreviation (input) "SC_S_SEL \<equiv> (0x02::byte)"
abbreviation (input) "SC_END_DMA \<equiv> (0x80::byte)"
abbreviation (input) "SC_PAR_ERR \<equiv> (0x20::byte)"
abbreviation (input) "SC_IRQ_SET \<equiv> (0x10::byte)"
abbreviation (input) "SC_PHS_MTCH \<equiv> (0x08::byte)"
abbreviation (input) "SC_BSY_ERR \<equiv> (0x04::byte)"
abbreviation (input) "SC_HOST_ID \<equiv> (0x80::byte)"

abbreviation (input) "PH_DATAOUT \<equiv> (0::byte)"
abbreviation (input) "PH_DATAIN \<equiv> (1::byte)"
abbreviation (input) "PH_CMD \<equiv> (2::byte)"
abbreviation (input) "PH_STATUS \<equiv> (3::byte)"
abbreviation (input) "PH_MSGOUT \<equiv> (6::byte)"
abbreviation (input) "PH_MSGIN \<equiv> (7::byte)"
abbreviation (input) "NR_PHASE \<equiv> (8::byte)"

definition PH_IN :: "byte \<Rightarrow> bool" where "PH_IN ph \<longleftrightarrow> ph AND 1 \<noteq> 0"
definition bus_phase :: "byte \<Rightarrow> byte" where "bus_phase st = drop_bit 2 st AND 7"

abbreviation (input) "MSG_CMDCOMPLETE \<equiv> (0x00::byte)"
abbreviation (input) "MSG_EXTENDED \<equiv> (0x01::byte)"
abbreviation (input) "MSG_SAVEDATAPOINTER \<equiv> (0x02::byte)"
abbreviation (input) "MSG_RESTOREPOINTERS \<equiv> (0x03::byte)"
abbreviation (input) "MSG_DISCONNECT \<equiv> (0x04::byte)"
abbreviation (input) "MSG_ABORT \<equiv> (0x06::byte)"
abbreviation (input) "MSG_MESSAGE_REJECT \<equiv> (0x07::byte)"
abbreviation (input) "MSG_NOOP \<equiv> (0x08::byte)"
abbreviation (input) "MSG_LINK_CMD_COMPLETE \<equiv> (0x0a::byte)"
abbreviation (input) "MSG_LINK_CMD_COMPLETEF \<equiv> (0x0b::byte)"

abbreviation (input) "SCSMASK \<equiv> (0x1e::byte)"
abbreviation (input) "SCSGOOD \<equiv> (0x00::byte)"
abbreviation (input) "SCSCHKC \<equiv> (0x02::byte)"
abbreviation (input) "SCSBUSY \<equiv> (0x08::byte)"
abbreviation (input) "SCSI_REQUEST_SENSE \<equiv> (0x03::byte)"

abbreviation (input) "DRIVER_IN_DMA \<equiv> (0x01::byte)"
abbreviation (input) "DRIVER_AUTOSEN \<equiv> (0x02::byte)"
abbreviation (input) "DRIVER_NOINT \<equiv> (0x04::byte)"
abbreviation (input) "DRIVER_DMAOK \<equiv> (0x08::byte)"
abbreviation (input) "DRIVER_BOUNCING \<equiv> (0x10::byte)"
abbreviation (input) "DRIVER_LINKCHK \<equiv> (0x20::byte)"

subsection \<open>Data\<close>

datatype nca_error = XS_NOERROR | XS_TIMEOUT | XS_SELTIMEOUT | XS_DRIVER_STUFFUP | XS_BUSY | XS_SENSE | XS_RESOURCE_SHORTAGE

text \<open>What the mid-layer hands over; \<open>sense\<close> is the address of its sense buffer.\<close>

record nca_xfer =
  x_target :: nat
  x_lun :: nat
  x_poll :: bool
  x_reset :: bool
  x_data :: u32
  x_datalen :: int
  x_cmd :: "byte list"
  sense :: u32
  x_error :: nca_error
  x_resid :: int

text \<open>A request block, \<open>SC_REQ\<close>. The array \<open>dm_chain\<close> has pairs of \<open>dm_count\<close> and \<open>dm_addr\<close>; \<open>dm_cur\<close> and \<open>dm_last\<close> are indices into it.\<close>

record sc_req_blk =
  link :: "nat option"
  xs :: nat
  dr_flag :: byte
  phase :: byte
  msgout :: byte
  targ_id :: nat
  targ_lun :: nat
  status :: byte
  message :: byte
  bounceb :: u32
  bouncerp :: u32
  dm_chain :: "nat \<Rightarrow> u32 \<times> u32"
  dm_cur :: nat
  dm_last :: nat
  xdata_len :: int
  xdata_ptr :: u32
  xcmd :: "byte list"
  xcmd_len :: nat

text \<open>The lock of the ST DMA controller, \<open>falcon_lock\<close>.\<close>

datatype dma_lock = Unlocked | DMA_LOCK_REQ | DMA_LOCK_GRANT

text \<open>
  The variables of the driver and \<open>struct ncr_softc\<close>, and as in a ledger what was taken over and what returned.
  \<open>arrivals\<close> is what the mid-layer hands over from within \<open>scsipi_done\<close>, one list for each time it is called, and \<open>strayed\<close>
  notes that it handed over something that the model does not follow.
\<close>

record 'd nca =
  free_q :: "nat list"
  issue_q :: "nat list"
  discon_q :: "nat list"
  connected :: "nat option"
  busy :: byte
  main_running :: bool
  sc_noselatn :: byte
  sc_selected :: byte
  ncr_test_link :: byte
  ncr_will_link :: byte
  ncr5380_no_parchk :: byte
  falcon_lock :: dma_lock
  reqs :: "nat \<Rightarrow> sc_req_blk"
  xfers :: "nat \<Rightarrow> nca_xfer"
  taken :: "nat list"
  returned :: "(nat \<times> nca_error) list"
  arrivals :: "nat list list"
  strayed :: bool
  dev :: 'd

subsection \<open>The machine\<close>

text \<open>
  Two of the three machines: the TT and the Falcon. (The Hades, whose DMA is emulated by a bus-error handler with \<open>setjmp\<close>,
  is not modelled.) The device registers are ports: the 5380 of the TT, the ST DMA controller of the Falcon, the two MFPs,
  the DMA controller of the TT, of which the pointer and the count are read and written as long words.
\<close>

datatype machine = ATARI_TT | ATARI_FALCON

datatype port = Scsi_5380 "3 word" | Dma_mode | Dma_data | Dma_stat
  | Mfp_gpip | Mfp_ierb | Mfp_iprb | Mfp_imrb
  | Mfp2_aer | Mfp2_iera | Mfp2_ierb | Mfp2_ipra | Mfp2_iprb | Mfp2_imra | Mfp2_imrb
  | S_dma_ptr | S_dma_cnt | S_dma_res nat | S_dma_ctrl

datatype si_farg = Ctrl_intr | Dma_intr

text \<open>
  The hardware, and what the driver calls in the kernel: the lock of the ST DMA controller, its address register, software
  interrupts, physical addresses, memory that DMA can reach. The constants are those of the kernel's headers, and \<open>FALCON_SCSI\<close> says whether
  the kernel is configured for the Falcon (too).
\<close>

record 'd nca_hw =
  machineid :: machine
  FALCON_SCSI :: bool
  rd_port :: "port \<Rightarrow> 'd \<Rightarrow> u32 \<times> 'd"
  wr_port :: "port \<Rightarrow> u32 \<Rightarrow> 'd \<Rightarrow> 'd"
  mem_rd :: "u32 \<Rightarrow> 'd \<Rightarrow> byte \<times> 'd"
  mem_wr :: "u32 \<Rightarrow> byte \<Rightarrow> 'd \<Rightarrow> 'd"
  delay :: "nat \<Rightarrow> 'd \<Rightarrow> 'd"
  st_dmagrab :: "bool \<Rightarrow> 'd \<Rightarrow> (bool \<times> dma_lock) \<times> 'd"
  st_dmafree :: "'d \<Rightarrow> dma_lock \<times> 'd"
  st_dmawanted :: "'d \<Rightarrow> bool \<times> 'd"
  st_dmaaddr_set :: "u32 \<Rightarrow> 'd \<Rightarrow> 'd"
  st_dmaaddr_get :: "'d \<Rightarrow> u32 \<times> 'd"
  add_sicallback :: "si_farg \<Rightarrow> 'd \<Rightarrow> 'd"
  rem_sicallback :: "si_farg \<Rightarrow> 'd \<Rightarrow> 'd"
  kvtop :: "u32 \<Rightarrow> u32"
  alloc_stmem :: "int \<Rightarrow> 'd \<Rightarrow> u32 option \<times> 'd"
  free_stmem :: "u32 \<Rightarrow> 'd \<Rightarrow> 'd"
  PAGE_SIZE :: nat
  MAXPHYS :: nat
  sense_size :: nat
  DMA_SCSI :: u32
  DMA_WRBIT :: u32
  IB_DINT :: u32
  IO_DINT :: u32
  IA_SCSI :: u32
  IB_SCDM :: u32

subsection \<open>Access to the hardware\<close>

definition put :: "('d \<Rightarrow> 'd) \<Rightarrow> ('d, unit) state" where "put f = State (\<lambda>d. ((), f d))"
definition rdp :: "'d nca_hw \<Rightarrow> port \<Rightarrow> ('d, u32) state" where "rdp H p = State (rd_port H p)"
definition wrp :: "'d nca_hw \<Rightarrow> port \<Rightarrow> u32 \<Rightarrow> ('d, unit) state" where "wrp H p v = put (wr_port H p v)"
definition orp :: "'d nca_hw \<Rightarrow> port \<Rightarrow> u32 \<Rightarrow> ('d, unit) state" where "orp H p v = do { x \<leftarrow> rdp H p; wrp H p (x OR v) }"
definition clrp :: "'d nca_hw \<Rightarrow> port \<Rightarrow> u32 \<Rightarrow> ('d, unit) state" where "clrp H p v = do { x \<leftarrow> rdp H p; wrp H p (x AND NOT v) }"
definition nca_delay :: "'d nca_hw \<Rightarrow> nat \<Rightarrow> ('d, unit) state" where "nca_delay H n = put (delay H n)"

text \<open>The \<open>uint8_t\<close> complement of a mask, which clears the pending bits that are 0 in it.\<close>

definition not8 :: "u32 \<Rightarrow> u32" where "not8 v = NOT v AND 0xff"

definition get_tt_5380_reg :: "'d nca_hw \<Rightarrow> 3 word \<Rightarrow> ('d, byte) state" where
  "get_tt_5380_reg H r = do { v \<leftarrow> rdp H (Scsi_5380 r); State_Monad.return (ucast v) }"

definition set_tt_5380_reg :: "'d nca_hw \<Rightarrow> 3 word \<Rightarrow> byte \<Rightarrow> ('d, unit) state" where
  "set_tt_5380_reg H r v = wrp H (Scsi_5380 r) (ucast v)"

definition get_falcon_5380_reg :: "'d nca_hw \<Rightarrow> 3 word \<Rightarrow> ('d, byte) state" where
  "get_falcon_5380_reg H r = do { wrp H Dma_mode (DMA_SCSI H + ucast r); v \<leftarrow> rdp H Dma_data; State_Monad.return (ucast v) }"

definition set_falcon_5380_reg :: "'d nca_hw \<Rightarrow> 3 word \<Rightarrow> byte \<Rightarrow> ('d, unit) state" where
  "set_falcon_5380_reg H r v = do { wrp H Dma_mode (DMA_SCSI H + ucast r); wrp H Dma_data (ucast v) }"

definition GET_5380_REG :: "'d nca_hw \<Rightarrow> 3 word \<Rightarrow> ('d, byte) state" where
  "GET_5380_REG H r = (case machineid H of ATARI_FALCON \<Rightarrow> get_falcon_5380_reg H r | ATARI_TT \<Rightarrow> get_tt_5380_reg H r)"

definition SET_5380_REG :: "'d nca_hw \<Rightarrow> 3 word \<Rightarrow> byte \<Rightarrow> ('d, unit) state" where
  "SET_5380_REG H r v = (case machineid H of ATARI_FALCON \<Rightarrow> set_falcon_5380_reg H r v | ATARI_TT \<Rightarrow> set_tt_5380_reg H r v)"

definition test_reg :: "'d nca_hw \<Rightarrow> 3 word \<Rightarrow> byte \<Rightarrow> bool \<Rightarrow> ('d, bool) state" where
  "test_reg H r m on = do { b \<leftarrow> GET_5380_REG H r; State_Monad.return ((b AND m \<noteq> 0) = on) }"

definition wait_req_true :: "'d nca_hw \<Rightarrow> ('d, bool) state" where
  "wait_req_true H = do {
     _ \<leftarrow> wait_for (test_reg H NCR5380_IDSTAT SC_S_REQ True) (nca_delay H 1) 249999;
     test_reg H NCR5380_IDSTAT SC_S_REQ True }"

definition wait_req_false :: "'d nca_hw \<Rightarrow> ('d, bool) state" where
  "wait_req_false H = do {
     _ \<leftarrow> wait_for (test_reg H NCR5380_IDSTAT SC_S_REQ False) (nca_delay H 1) 249999;
     test_reg H NCR5380_IDSTAT SC_S_REQ False }"

definition ack_message :: "'d nca_hw \<Rightarrow> ('d, unit) state" where "ack_message H = SET_5380_REG H NCR5380_ICOM 0"

subsection \<open>Programmed transfer\<close>

text \<open>Where the bytes come from and go to: memory, or a local variable of the caller.\<close>

datatype nca_buf = Mem u32 | Local "byte list"

fun take_byte :: "'d nca_hw \<Rightarrow> nca_buf \<Rightarrow> ('d, byte \<times> nca_buf) state" where
  "take_byte H (Mem a) = do { v \<leftarrow> State (mem_rd H a); State_Monad.return (v, Mem (a + 1)) }"
| "take_byte H (Local bs) = State_Monad.return (case bs of [] \<Rightarrow> (0, Local []) | b # r \<Rightarrow> (b, Local r))"

fun give_byte :: "'d nca_hw \<Rightarrow> nca_buf \<Rightarrow> byte \<Rightarrow> ('d, nca_buf) state" where
  "give_byte H (Mem a) v = do { put (mem_wr H a v); State_Monad.return (Mem (a + 1)) }"
| "give_byte H (Local bs) v = State_Monad.return (Local bs)"

text \<open>One byte up to the wait for REQ to go: what \<open>ICOM\<close> becomes then, the buffer, the byte read. \<open>final_byte\<close> when \<open>cnt\<close> is 1.\<close>

definition pio_byte :: "'d nca_hw \<Rightarrow> byte \<Rightarrow> bool \<Rightarrow> bool \<Rightarrow> nca_buf \<Rightarrow> ('d, byte \<times> nca_buf \<times> byte list) state" where
  "pio_byte H ph dont_drop_ack final_byte b =
     (if PH_IN ph then do {
        v \<leftarrow> GET_5380_REG H NCR5380_DATA;
        b1 \<leftarrow> give_byte H b v;
        SET_5380_REG H NCR5380_ICOM SC_A_ACK;
        State_Monad.return (if final_byte \<and> dont_drop_ack then SC_A_ACK else 0, b1, [v]) }
      else do {
        (v, b1) \<leftarrow> take_byte H b;
        SET_5380_REG H NCR5380_DATA v;
        let atn = (if ph = PH_MSGOUT \<and> \<not> final_byte then SC_A_ATN else 0);
        SET_5380_REG H NCR5380_ICOM (SC_ADTB OR atn);
        SET_5380_REG H NCR5380_ICOM (SC_ADTB OR atn OR SC_A_ACK);
        State_Monad.return (atn, b1, []) })"

text \<open>The loop, \<open>n\<close> rounds at most: the count left, and the bytes read.\<close>

fun nca_pio_loop :: "'d nca_hw \<Rightarrow> byte \<Rightarrow> bool \<Rightarrow> nat \<Rightarrow> nca_buf \<Rightarrow> byte list \<Rightarrow> ('d, nat \<times> byte list) state" where
  "nca_pio_loop H ph keep 0 b got = State_Monad.return (0, got)"
| "nca_pio_loop H ph keep (Suc n) b got = do {
     rq \<leftarrow> wait_req_true H;
     if \<not> rq then State_Monad.return (Suc n, got)
     else do {
       st \<leftarrow> GET_5380_REG H NCR5380_IDSTAT;
       if bus_phase st \<noteq> ph then State_Monad.return (Suc n, got)
       else do {
         (icom, b1, v) \<leftarrow> pio_byte H ph keep (n = 0) b;
         ok \<leftarrow> wait_req_false H;
         if \<not> ok then State_Monad.return (Suc n, got @ v)
         else do { SET_5380_REG H NCR5380_ICOM icom; nca_pio_loop H ph keep n b1 (got @ v) } } } }"

text \<open>
  Whether it failed, the phase now, the count left (an \<open>u_int\<close>) and the bytes read. A count of 0 is \<open>2 ^ 32\<close> rounds.
\<close>

definition transfer_pio :: "'d nca_hw \<Rightarrow> byte \<Rightarrow> nca_buf \<Rightarrow> nat \<Rightarrow> bool \<Rightarrow> ('d, bool \<times> byte \<times> nat \<times> byte list) state" where
  "transfer_pio H ph b len keep = do {
     SET_5380_REG H NCR5380_TCOM ph;
     (rounds, got) \<leftarrow> nca_pio_loop H ph keep (if len = 0 then 2 ^ 32 else len) b [];
     let cnt = rounds mod 2 ^ 32;
     st \<leftarrow> GET_5380_REG H NCR5380_IDSTAT;
     let ph1 = (if st AND SC_S_REQ \<noteq> 0 then bus_phase st else NR_PHASE);
     State_Monad.return (\<not> (cnt = 0 \<or> ph1 = ph), ph1, cnt, got) }"

text \<open>Feeding or taking bytes until the target goes to MESSAGE OUT; true when it did.\<close>

fun reach_loop :: "'d nca_hw \<Rightarrow> byte \<Rightarrow> nat \<Rightarrow> ('d, unit) state" where
  "reach_loop H ph 0 = State_Monad.return ()"
| "reach_loop H ph (Suc n) = do {
     rq \<leftarrow> wait_req_true H;
     if \<not> rq then State_Monad.return ()
     else do {
       st \<leftarrow> GET_5380_REG H NCR5380_IDSTAT;
       if bus_phase st \<noteq> ph then State_Monad.return ()
       else do {
         (if PH_IN ph then do { _ \<leftarrow> GET_5380_REG H NCR5380_DATA; SET_5380_REG H NCR5380_ICOM (SC_A_ACK OR SC_A_ATN) }
          else do {
            SET_5380_REG H NCR5380_DATA 0;
            SET_5380_REG H NCR5380_ICOM (SC_ADTB OR SC_A_ATN);
            SET_5380_REG H NCR5380_ICOM (SC_ADTB OR SC_A_ACK OR SC_A_ATN) });
         ok \<leftarrow> wait_req_false H;
         if \<not> ok then State_Monad.return ()
         else do { SET_5380_REG H NCR5380_ICOM SC_A_ATN; reach_loop H ph n } } } }"

definition reach_msg_out :: "'d nca_hw \<Rightarrow> nat \<Rightarrow> ('d, bool) state" where
  "reach_msg_out H len = do {
     st \<leftarrow> GET_5380_REG H NCR5380_IDSTAT;
     if st AND SC_S_REQ = 0 then State_Monad.return False
     else if bus_phase st = PH_MSGOUT then State_Monad.return True
     else do {
       SET_5380_REG H NCR5380_TCOM (bus_phase st);
       reach_loop H (bus_phase st) len;
       st1 \<leftarrow> GET_5380_REG H NCR5380_IDSTAT;
       State_Monad.return (st1 AND SC_S_REQ \<noteq> 0 \<and> bus_phase st1 = PH_MSGOUT) } }"

subsection \<open>The driver's state\<close>

definition peek :: "('d nca \<Rightarrow> 'a) \<Rightarrow> ('d nca, 'a) state" where "peek f = State (\<lambda>w. (f w, w))"
definition poke :: "('d nca \<Rightarrow> 'd nca) \<Rightarrow> ('d nca, unit) state" where "poke f = State (\<lambda>w. ((), f w))"
definition io :: "('d, 'a) state \<Rightarrow> ('d nca, 'a) state" where
  "io m = State (\<lambda>w. case run_state m (dev w) of (x, d) \<Rightarrow> (x, w\<lparr>dev := d\<rparr>))"

definition blk :: "nat \<Rightarrow> (sc_req_blk \<Rightarrow> sc_req_blk) \<Rightarrow> ('d nca, unit) state" where
  "blk r f = poke (\<lambda>w. w\<lparr>reqs := (reqs w)(r := f (reqs w r))\<rparr>)"
definition xfer :: "nat \<Rightarrow> (nca_xfer \<Rightarrow> nca_xfer) \<Rightarrow> ('d nca, unit) state" where
  "xfer x f = poke (\<lambda>w. w\<lparr>xfers := (xfers w)(x := f (xfers w x))\<rparr>)"
definition set_error :: "nat \<Rightarrow> nca_error \<Rightarrow> ('d nca, unit) state" where
  "set_error r e = do { x \<leftarrow> peek (\<lambda>w. xs (reqs w r)); xfer x (\<lambda>z. z\<lparr>x_error := e\<rparr>) }"
definition has_flag :: "nat \<Rightarrow> byte \<Rightarrow> ('d nca, bool) state" where
  "has_flag r b = peek (\<lambda>w. dr_flag (reqs w r) AND b \<noteq> 0)"
definition targ_bit :: "'d nca \<Rightarrow> nat \<Rightarrow> byte" where "targ_bit w r = push_bit (targ_id (reqs w r)) 1"

definition nack_message :: "'d nca_hw \<Rightarrow> nat \<Rightarrow> byte \<Rightarrow> ('d nca, unit) state" where
  "nack_message H r msg = do { io (SET_5380_REG H NCR5380_ICOM SC_A_ATN); blk r (\<lambda>q. q\<lparr>msgout := msg\<rparr>) }"

end
