(* ===== verification/Nca_Mach.thy ===== *)
theory Nca_Mach
  imports Nca_Base
begin

text \<open>
  The machine-dependent half of the Atari driver, \<^verbatim>\<open>src/doc/drivers/NetBSD-atari/atari5380.c\<close>, for the TT and the
  Falcon, and the DMA chains of \<open>scsi_dmaok\<close>. The kernel is built for both machines, so that each operation asks \<open>machineid\<close>;
  \<open>NO_TTRAM_DMA\<close> is not set.
\<close>

subsection \<open>Interrupt masks\<close>

definition scsi_tt_ienable :: "'d nca_hw \<Rightarrow> ('d, unit) state" where
  "scsi_tt_ienable H = do { orp H Mfp2_imrb (IB_SCDM H); orp H Mfp2_imra (IA_SCSI H) }"
definition scsi_tt_idisable :: "'d nca_hw \<Rightarrow> ('d, unit) state" where
  "scsi_tt_idisable H = do { clrp H Mfp2_imrb (IB_SCDM H); clrp H Mfp2_imra (IA_SCSI H) }"
definition scsi_falcon_ienable :: "'d nca_hw \<Rightarrow> ('d, unit) state" where
  "scsi_falcon_ienable H = orp H Mfp_imrb (IB_DINT H)"
definition scsi_falcon_idisable :: "'d nca_hw \<Rightarrow> ('d, unit) state" where
  "scsi_falcon_idisable H = clrp H Mfp_imrb (IB_DINT H)"

definition scsi_ienable :: "'d nca_hw \<Rightarrow> ('d, unit) state" where
  "scsi_ienable H = (case machineid H of ATARI_FALCON \<Rightarrow> scsi_falcon_ienable H | ATARI_TT \<Rightarrow> scsi_tt_ienable H)"
definition scsi_idisable :: "'d nca_hw \<Rightarrow> ('d, unit) state" where
  "scsi_idisable H = (case machineid H of ATARI_FALCON \<Rightarrow> scsi_falcon_idisable H | ATARI_TT \<Rightarrow> scsi_tt_idisable H)"

definition scsi_tt_init :: "'d nca_hw \<Rightarrow> ('d, unit) state" where
  "scsi_tt_init H = do {
     orp H Mfp2_aer 0x80;
     orp H Mfp2_ierb (IB_SCDM H);
     wrp H Mfp2_iprb (not8 (IB_SCDM H));
     orp H Mfp2_imrb (IB_SCDM H);
     orp H Mfp2_iera (IA_SCSI H);
     wrp H Mfp2_ipra (not8 (IA_SCSI H));
     orp H Mfp2_imra (IA_SCSI H) }"

definition scsi_falcon_init :: "'d nca_hw \<Rightarrow> ('d, unit) state" where
  "scsi_falcon_init H = do {
     orp H Mfp_ierb (IB_DINT H);
     wrp H Mfp_iprb (not8 (IB_DINT H));
     orp H Mfp_imrb (IB_DINT H) }"

definition scsi_mach_init :: "'d nca_hw \<Rightarrow> ('d, unit) state" where
  "scsi_mach_init H = (case machineid H of ATARI_FALCON \<Rightarrow> scsi_falcon_init H | ATARI_TT \<Rightarrow> scsi_tt_init H)"

definition scsi_tt_clr_ipend :: "'d nca_hw \<Rightarrow> ('d, unit) state" where
  "scsi_tt_clr_ipend H = do {
     wrp H S_dma_ctrl 0;
     _ \<leftarrow> get_tt_5380_reg H NCR5380_IRCV;
     wrp H Mfp2_iprb (not8 (IB_SCDM H));
     wrp H Mfp2_ipra (not8 (IA_SCSI H));
     put (rem_sicallback H Ctrl_intr);
     put (rem_sicallback H Dma_intr) }"

definition scsi_falcon_clr_ipend :: "'d nca_hw \<Rightarrow> ('d, unit) state" where
  "scsi_falcon_clr_ipend H = do { _ \<leftarrow> get_falcon_5380_reg H NCR5380_IRCV; put (rem_sicallback H Ctrl_intr) }"

definition scsi_clr_ipend :: "'d nca_hw \<Rightarrow> ('d, unit) state" where
  "scsi_clr_ipend H = (case machineid H of ATARI_FALCON \<Rightarrow> scsi_falcon_clr_ipend H | ATARI_TT \<Rightarrow> scsi_tt_clr_ipend H)"

text \<open>Whether a request is connected that has DMA going.\<close>

definition in_dma :: "'d nca \<Rightarrow> bool" where
  "in_dma w = (case connected w of None \<Rightarrow> False | Some r \<Rightarrow> dr_flag (reqs w r) AND DRIVER_IN_DMA \<noteq> 0)"

definition scsi_falcon_ipending :: "'d nca_hw \<Rightarrow> ('d nca, bool) state" where
  "scsi_falcon_ipending H = do {
     dma \<leftarrow> peek in_dma;
     g \<leftarrow> (if dma then io (rdp H Mfp_gpip) else State_Monad.return 0);
     if dma \<and> g AND IO_DINT H \<noteq> 0 then State_Monad.return False
     else do {
       (if dma then io (wrp H Dma_mode 0x90) else State_Monad.return ());
       v \<leftarrow> io (get_falcon_5380_reg H NCR5380_DMSTAT);
       State_Monad.return (v AND SC_IRQ_SET \<noteq> 0) } }"

definition scsi_ipending :: "'d nca_hw \<Rightarrow> ('d nca, bool) state" where
  "scsi_ipending H = (case machineid H of ATARI_FALCON \<Rightarrow> scsi_falcon_ipending H
     | ATARI_TT \<Rightarrow> do { v \<leftarrow> io (get_tt_5380_reg H NCR5380_DMSTAT); State_Monad.return (v AND SC_IRQ_SET \<noteq> 0) })"

subsection \<open>The lock of the ST DMA controller\<close>

definition falcon_claimed_dma :: "'d nca_hw \<Rightarrow> ('d nca, bool) state" where
  "falcon_claimed_dma H = do {
     l \<leftarrow> peek falcon_lock;
     if l = DMA_LOCK_GRANT then State_Monad.return True
     else if l = DMA_LOCK_REQ then State_Monad.return False
     else do { (ok, l1) \<leftarrow> io (State (st_dmagrab H True)); poke (falcon_lock_update (\<lambda>_. l1)); State_Monad.return ok } }"

definition falcon_reconsider_dma :: "'d nca_hw \<Rightarrow> ('d nca, unit) state" where
  "falcon_reconsider_dma H = do {
     idle \<leftarrow> peek (\<lambda>w. falcon_lock w \<noteq> Unlocked \<and> connected w = None \<and> discon_q w = []);
     (if idle then do {
        io (put (rem_sicallback H Ctrl_intr));
        l \<leftarrow> io (State (st_dmafree H));
        poke (falcon_lock_update (\<lambda>_. l)) }
      else State_Monad.return ());
     jobs \<leftarrow> peek (\<lambda>w. falcon_lock w = Unlocked \<and> issue_q w \<noteq> []);
     if jobs then do { (_, l1) \<leftarrow> io (State (st_dmagrab H False)); poke (falcon_lock_update (\<lambda>_. l1)) }
     else State_Monad.return () }"

definition fair_to_keep_dma :: "'d nca_hw \<Rightarrow> ('d, bool) state" where
  "fair_to_keep_dma H = (case machineid H of
     ATARI_FALCON \<Rightarrow> do { wanted \<leftarrow> State (st_dmawanted H); State_Monad.return (\<not> wanted) } | ATARI_TT \<Rightarrow> State_Monad.return True)"
definition claimed_dma :: "'d nca_hw \<Rightarrow> ('d nca, bool) state" where
  "claimed_dma H = (case machineid H of ATARI_FALCON \<Rightarrow> falcon_claimed_dma H | ATARI_TT \<Rightarrow> State_Monad.return True)"
definition reconsider_dma :: "'d nca_hw \<Rightarrow> ('d nca, unit) state" where
  "reconsider_dma H = (case machineid H of ATARI_FALCON \<Rightarrow> falcon_reconsider_dma H | ATARI_TT \<Rightarrow> State_Monad.return ())"

definition falcon_can_access_5380 :: "'d nca_hw \<Rightarrow> ('d nca, bool) state" where
  "falcon_can_access_5380 H = do {
     dma \<leftarrow> peek in_dma;
     if dma then do { g \<leftarrow> io (rdp H Mfp_gpip); State_Monad.return (g AND IO_DINT H = 0) } else State_Monad.return True }"

subsection \<open>Setting a transfer up\<close>

text \<open>\<open>(c, a)\<close> is the current element of the chain.\<close>

definition scsi_tt_dmasetup :: "'d nca_hw \<Rightarrow> u32 \<times> u32 \<Rightarrow> byte \<Rightarrow> byte \<Rightarrow> ('d, unit) state" where
  "scsi_tt_dmasetup H ca ph mode = (case ca of (c, a) \<Rightarrow>
     if PH_IN ph then do {
       wrp H S_dma_ctrl 0;
       wrp H S_dma_ptr a;
       wrp H S_dma_cnt c;
       set_tt_5380_reg H NCR5380_ICOM 0;
       set_tt_5380_reg H NCR5380_MODE mode;
       wrp H S_dma_ctrl 0x02;
       set_tt_5380_reg H NCR5380_IRCV 0 }
     else do {
       wrp H S_dma_ctrl 0x01;
       wrp H S_dma_ptr a;
       wrp H S_dma_cnt c;
       set_tt_5380_reg H NCR5380_MODE mode;
       set_tt_5380_reg H NCR5380_ICOM SC_ADTB;
       set_tt_5380_reg H NCR5380_DMSTAT 0;
       wrp H S_dma_ctrl 0x03 })"

definition fal1_dma :: "'d nca_hw \<Rightarrow> u32 \<Rightarrow> u32 \<Rightarrow> u32 \<Rightarrow> ('d, unit) state" where
  "fal1_dma H dir nsects a = (let d = push_bit 8 dir in do {
     put (st_dmaaddr_set H a);
     wrp H Dma_mode (0x90 OR d);
     wrp H Dma_mode (0x90 OR (d XOR DMA_WRBIT H));
     wrp H Dma_mode (0x90 OR d);
     wrp H Dma_data nsects;
     nca_delay H 2;
     wrp H Dma_mode (0x10 OR d) })"

definition scsi_falcon_dmasetup :: "'d nca_hw \<Rightarrow> u32 \<times> u32 \<Rightarrow> byte \<Rightarrow> byte \<Rightarrow> ('d, unit) state" where
  "scsi_falcon_dmasetup H ca ph mode = (case ca of (c, a) \<Rightarrow>
     if PH_IN ph then do {
       set_falcon_5380_reg H NCR5380_ICOM 0;
       set_falcon_5380_reg H NCR5380_MODE mode;
       set_falcon_5380_reg H NCR5380_IRCV 0;
       fal1_dma H 0 (c div 512) a }
     else do {
       set_falcon_5380_reg H NCR5380_MODE mode;
       set_falcon_5380_reg H NCR5380_ICOM SC_ADTB;
       set_falcon_5380_reg H NCR5380_DMSTAT 0;
       fal1_dma H 1 (c div 512) a })"

definition cur_chain :: "sc_req_blk \<Rightarrow> u32 \<times> u32" where "cur_chain q = dm_chain q (dm_cur q)"

definition scsi_dma_setup :: "'d nca_hw \<Rightarrow> nat \<Rightarrow> byte \<Rightarrow> byte \<Rightarrow> ('d nca, unit) state" where
  "scsi_dma_setup H r ph mode = do {
     ca \<leftarrow> peek (\<lambda>w. cur_chain (reqs w r));
     io (case machineid H of ATARI_FALCON \<Rightarrow> scsi_falcon_dmasetup H ca ph mode | ATARI_TT \<Rightarrow> scsi_tt_dmasetup H ca ph mode) }"

subsection \<open>The end of a transfer\<close>

text \<open>\<open>for (;;) { delay(20); if (--timeout <= 0) ...; if (over) break; }\<close>: \<open>n\<close> looks.\<close>

fun poll_loop :: "'d nca_hw \<Rightarrow> ('d, bool) state \<Rightarrow> nat \<Rightarrow> ('d, bool) state" where
  "poll_loop H over 0 = do { nca_delay H 20; State_Monad.return False }"
| "poll_loop H over (Suc n) = do { nca_delay H 20; b \<leftarrow> over; if b then State_Monad.return True else poll_loop H over n }"

definition tt_edma :: "'d nca_hw \<Rightarrow> ('d, bool) state" where
  "tt_edma H = do {
     dmstat \<leftarrow> get_tt_5380_reg H NCR5380_DMSTAT;
     dmastat \<leftarrow> rdp H S_dma_ctrl;
     State_Monad.return (dmstat AND (SC_END_DMA OR SC_BSY_ERR OR SC_IRQ_SET) \<noteq> 0 \<or> dmstat AND SC_PHS_MTCH = 0 \<or> dmastat AND 0xc0 \<noteq> 0) }"

definition tt_poll_edma :: "'d nca_hw \<Rightarrow> nat \<Rightarrow> ('d nca, unit) state" where
  "tt_poll_edma H r = do {
     io (scsi_tt_idisable H);
     ok \<leftarrow> io (poll_loop H (tt_edma H) 8999);
     (if ok then State_Monad.return () else set_error r XS_TIMEOUT);
     io (scsi_tt_ienable H) }"

definition falcon_poll_edma :: "'d nca_hw \<Rightarrow> nat \<Rightarrow> ('d nca, unit) state" where
  "falcon_poll_edma H r = do {
     ok \<leftarrow> io (poll_loop H (do { g \<leftarrow> rdp H Mfp_gpip; State_Monad.return (g AND IO_DINT H = 0) }) 8999);
     if ok then State_Monad.return () else set_error r XS_TIMEOUT }"

definition poll_edma :: "'d nca_hw \<Rightarrow> nat \<Rightarrow> ('d nca, unit) state" where
  "poll_edma H r = (case machineid H of ATARI_FALCON \<Rightarrow> falcon_poll_edma H r | ATARI_TT \<Rightarrow> tt_poll_edma H r)"

text \<open>The address in the request's buffer that belongs to a physical address in the current range.\<close>

definition ptov :: "sc_req_blk \<Rightarrow> u32 \<Rightarrow> u32" where
  "ptov q phaddr = xdata_ptr q + (\<Sum>i\<leftarrow>[0..<dm_cur q]. fst (dm_chain q i)) + (phaddr - snd (cur_chain q))"

text \<open>The bytes that the DMA controller of the TT still holds at the end of a read.\<close>

definition rest_bytes :: "'d nca_hw \<Rightarrow> u32 \<Rightarrow> nat \<Rightarrow> ('d, unit) state" where
  "rest_bytes H p n = fold (\<lambda>i m. do { m; v \<leftarrow> rdp H (S_dma_res i); put (mem_wr H (p + word_of_nat i) (ucast v)) })
     [0..<n] (State_Monad.return ())"

definition tt_get_dma_result :: "'d nca_hw \<Rightarrow> nat \<Rightarrow> ('d nca, bool \<times> u32) state" where
  "tt_get_dma_result H r = do {
     dmastat \<leftarrow> io (rdp H S_dma_ctrl);
     dmstat \<leftarrow> io (get_tt_5380_reg H NCR5380_DMSTAT);
     leftover \<leftarrow> io (rdp H S_dma_cnt);
     byte_p \<leftarrow> io (rdp H S_dma_ptr);
     (if dmastat AND 0x80 \<noteq> 0 \<and> leftover \<noteq> 0 then set_error r XS_DRIVER_STUFFUP else State_Monad.return ());
     q \<leftarrow> peek (\<lambda>w. reqs w r);
     let left = (if leftover AND 1 \<noteq> 0 \<and> dmstat AND SC_PHS_MTCH = 0 \<and> \<not> PH_IN (phase q) then leftover + 1 else leftover);
     (if byte_p AND 3 \<noteq> 0 \<and> PH_IN (phase q) then io (rest_bytes H (ptov q (byte_p AND NOT 3)) (unat (byte_p AND 3)))
      else State_Monad.return ());
     State_Monad.return (dmastat AND 0xc0 \<noteq> 0, left) }"

text \<open>
  As written, \<open>!(st_dmastat = DMA->dma_stat) & 0x01\<close> asks whether the status is 0, not whether its lowest bit is.
\<close>

definition falcon_get_dma_result :: "'d nca_hw \<Rightarrow> nat \<Rightarrow> ('d nca, bool \<times> u32) state" where
  "falcon_get_dma_result H r = do {
     io (wrp H Dma_mode 0x90);
     st \<leftarrow> io (rdp H Dma_stat);
     (if st = 0 then do { _ \<leftarrow> io (State (st_dmaaddr_get H)); set_error r XS_DRIVER_STUFFUP } else State_Monad.return ());
     a \<leftarrow> io (State (st_dmaaddr_get H));
     (c, a0) \<leftarrow> peek (\<lambda>w. cur_chain (reqs w r));
     let left = c - ((a - a0) AND NOT 511);
     State_Monad.return (st = 0 \<or> left = 0, left) }"

definition get_dma_result :: "'d nca_hw \<Rightarrow> nat \<Rightarrow> ('d nca, bool \<times> u32) state" where
  "get_dma_result H r = (case machineid H of ATARI_FALCON \<Rightarrow> falcon_get_dma_result H r | ATARI_TT \<Rightarrow> tt_get_dma_result H r)"

subsection \<open>Hardware interrupts\<close>

definition scsi_ctrl :: "'d nca_hw \<Rightarrow> ('d nca, unit) state" where
  "scsi_ctrl H = io (do {
     v \<leftarrow> GET_5380_REG H NCR5380_DMSTAT;
     if v AND SC_IRQ_SET \<noteq> 0 then do { scsi_idisable H; put (add_sicallback H Ctrl_intr) } else State_Monad.return () })"

definition scsi_dma :: "'d nca_hw \<Rightarrow> ('d nca, unit) state" where
  "scsi_dma H = do {
     dma \<leftarrow> peek in_dma;
     if dma then io (do { scsi_idisable H; put (add_sicallback H Dma_intr) }) else State_Monad.return () }"

subsection \<open>DMA chains\<close>

definition MAXDMAIO :: "'d nca_hw \<Rightarrow> nat" where "MAXDMAIO H = MAXPHYS H div PAGE_SIZE H + 1"

text \<open>Whether a range is out of reach of the DMA, and whether a bounce buffer helps. \<open>i\<close> is its index in the chain.\<close>

definition falcon_wrong_dma_range :: "nat \<Rightarrow> u32 \<times> u32 \<Rightarrow> bool \<times> bool" where
  "falcon_wrong_dma_range i ca = (if i > 0 \<or> snd ca AND 0xff000000 \<noteq> 0 then (True, True) else (fst ca AND 511 \<noteq> 0, False))"

definition wrong_dma_range :: "'d nca_hw \<Rightarrow> nat \<Rightarrow> u32 \<times> u32 \<Rightarrow> bool \<times> bool" where
  "wrong_dma_range H i ca = (case machineid H of ATARI_FALCON \<Rightarrow> falcon_wrong_dma_range i ca | ATARI_TT \<Rightarrow> (False, False))"

datatype dma_plan = NoDma | Bounce | Chained nat

definition range_plan :: "'d nca_hw \<Rightarrow> nat \<Rightarrow> u32 \<times> u32 \<Rightarrow> dma_plan option" where
  "range_plan H i ca = (case wrong_dma_range H i ca of (wrong, bounce) \<Rightarrow>
     if \<not> wrong then None else Some (if bounce then Bounce else NoDma))"

text \<open>
  Splitting a buffer into ranges that are contiguous in physical memory. \<open>dm\<close> is the index of the range being built.
  Every round takes a byte at least, so that the length of the buffer bounds the rounds.
\<close>

fun chain_loop :: "'d nca_hw \<Rightarrow> nat \<Rightarrow> u32 \<Rightarrow> nat \<Rightarrow> u32 \<Rightarrow> nat \<Rightarrow> (nat \<Rightarrow> u32 \<times> u32) \<Rightarrow> dma_plan \<times> (nat \<Rightarrow> u32 \<times> u32)" where
  "chain_loop H k req_addr req_len phy_buf dm ch =
     (if req_len = 0 then (case range_plan H dm (ch dm) of Some p \<Rightarrow> (p, ch) | None \<Rightarrow> (Chained dm, ch))
      else (case k of 0 \<Rightarrow> (NoDma, ch)
      | Suc k1 \<Rightarrow>
        (let phy_len = min req_len (PAGE_SIZE H - unat req_addr mod PAGE_SIZE H);
             addr1 = req_addr + word_of_nat phy_len;
             len1 = req_len - phy_len;
             ch1 = ch(dm := (fst (ch dm) + word_of_nat phy_len, snd (ch dm)));
             tmp = kvtop H addr1 in
         if len1 = 0 then chain_loop H k1 addr1 len1 phy_buf dm ch1
         else if phy_buf + word_of_nat phy_len = tmp then chain_loop H k1 addr1 len1 tmp dm ch1
         else (case range_plan H dm (ch1 dm) of Some p \<Rightarrow> (p, ch1)
           | None \<Rightarrow> if Suc dm \<ge> MAXDMAIO H then (NoDma, ch1)
               else chain_loop H k1 addr1 len1 tmp (Suc dm) (ch1(Suc dm := (0, tmp)))))))"

declare chain_loop.simps [simp del]

definition build_chain :: "'d nca_hw \<Rightarrow> u32 \<Rightarrow> u32 \<Rightarrow> (nat \<Rightarrow> u32 \<times> u32) \<Rightarrow> dma_plan \<times> (nat \<Rightarrow> u32 \<times> u32)" where
  "build_chain H addr len ch =
     (if len = 0 \<or> len AND 1 \<noteq> 0 \<or> addr AND 3 \<noteq> 0 then (NoDma, ch(0 := (0, 0)))
      else chain_loop H (unat len) addr (unat len) (kvtop H addr) 0 (ch(0 := (0, kvtop H addr))))"

text \<open>Whether DMA can be used; the chain goes into the block.\<close>

definition scsi_dmaok :: "'d nca_hw \<Rightarrow> nat \<Rightarrow> ('d nca, bool) state" where
  "scsi_dmaok H r =
     (case machineid H of ATARI_FALCON \<Rightarrow> State_Monad.return False
      | ATARI_TT \<Rightarrow> do {
          q \<leftarrow> peek (\<lambda>w. reqs w r);
          let (plan, ch) = build_chain H (xdata_ptr q) (word_of_int (xdata_len q)) (dm_chain q);
          blk r (\<lambda>q. q\<lparr>dm_chain := ch, dm_cur := 0, dm_last := 0, dr_flag := dr_flag q AND NOT DRIVER_BOUNCING\<rparr>);
          case plan of NoDma \<Rightarrow> State_Monad.return False
          | Chained n \<Rightarrow> do { blk r (dm_last_update (\<lambda>_. n)); State_Monad.return True }
          | Bounce \<Rightarrow> do {
              a \<leftarrow> io (State (alloc_stmem H (xdata_len q)));
              (case a of None \<Rightarrow> State_Monad.return False
               | Some b \<Rightarrow> do {
                   blk r (\<lambda>q. q\<lparr>dr_flag := dr_flag q OR DRIVER_BOUNCING, bounceb := b, bouncerp := b, dm_cur := 0, dm_last := 0,
                     dm_chain := (dm_chain q)(0 := (word_of_int (xdata_len q), kvtop H b))\<rparr>);
                   State_Monad.return True }) } })"

end
