(* ===== verification/Nca_Req.thy ===== *)
theory Nca_Req
  imports Nca_Mach
begin

text \<open>
  The Atari driver: taking requests over and giving them back, the end of a DMA transfer, the bus reset.
\<close>

subsection \<open>Taking a request over\<close>

text \<open>
  The command bytes are \<open>opcode\<close> and then \<open>bytes\<close>, so that \<open>bytes[0]\<close> is the second, and \<open>bytes[len - 2]\<close> the last
  of \<open>len\<close>. An access past the end of \<open>x_cmd\<close> would be one past \<open>struct scsipi_generic\<close>: it is left out.
\<close>

definition or_cmd :: "nat \<Rightarrow> byte \<Rightarrow> byte list \<Rightarrow> byte list" where "or_cmd i b cmd = cmd[i := cmd ! i OR b]"

definition sense_cmd :: "'d nca_hw \<Rightarrow> byte list" where "sense_cmd H = [SCSI_REQUEST_SENSE, 0, 0, 0, word_of_nat (sense_size H), 0]"

definition init_req :: "nca_xfer \<Rightarrow> nat \<Rightarrow> sc_req_blk \<Rightarrow> sc_req_blk" where
  "init_req z x q = q\<lparr>dr_flag := if x_poll z then DRIVER_NOINT else 0, phase := NR_PHASE, msgout := MSG_NOOP, status := SCSGOOD,
     message := 0xff, link := None, xs := x, targ_id := x_target z, targ_lun := x_lun z, xdata_ptr := x_data z,
     xdata_len := x_datalen z, xcmd := or_cmd 1 (push_bit 5 (word_of_nat (x_lun z))) (x_cmd z), xcmd_len := length (x_cmd z)\<rparr>"

text \<open>The first request of the issue queue for the same target that has no link yet.\<close>

definition find_link :: "'d nca \<Rightarrow> nat \<Rightarrow> nat option" where
  "find_link w r = List.find (\<lambda>t. targ_id (reqs w t) = targ_id (reqs w r) \<and> link (reqs w t) = None) (issue_q w)"

definition link_to :: "nat \<Rightarrow> nat \<Rightarrow> ('d nca, unit) state" where
  "link_to t r = do {
     will \<leftarrow> peek (\<lambda>w. bit (ncr_will_link w) (targ_id (reqs w r)));
     n \<leftarrow> peek (\<lambda>w. length (x_cmd (xfers w (xs (reqs w t)))));
     if will then blk t (\<lambda>q. q\<lparr>link := Some r, xcmd := or_cmd (n - 1) 1 (xcmd q)\<rparr>) else State_Monad.return () }"

text \<open>Into the issue queue; the result is the request it could be linked to.\<close>

definition nca_enqueue :: "nat \<Rightarrow> ('d nca, nat option) state" where
  "nca_enqueue r = do {
     front \<leftarrow> peek (\<lambda>w. issue_q w = [] \<or> xcmd (reqs w r) ! 0 = SCSI_REQUEST_SENSE);
     if front then do { poke (\<lambda>w. w\<lparr>issue_q := r # issue_q w\<rparr>); State_Monad.return None }
     else do {
       l \<leftarrow> peek (\<lambda>w. find_link w r);
       poke (\<lambda>w. w\<lparr>issue_q := issue_q w @ [r]\<rparr>);
       (case l of Some t \<Rightarrow> link_to t r | None \<Rightarrow> State_Monad.return ());
       State_Monad.return l } }"

text \<open>The dummy REQUEST SENSE that asks a target whether it takes linked commands.\<close>

definition dummy_req :: "'d nca_hw \<Rightarrow> u32 \<Rightarrow> nat \<Rightarrow> sc_req_blk \<Rightarrow> sc_req_blk \<Rightarrow> sc_req_blk" where
  "dummy_req H sns r q t = t\<lparr>dr_flag := dr_flag q AND NOT DRIVER_DMAOK OR DRIVER_LINKCHK, phase := NR_PHASE, msgout := MSG_NOOP,
     status := SCSGOOD, xs := xs q, targ_id := targ_id q, targ_lun := targ_lun q, xcmd := or_cmd 5 1 (sense_cmd H), xcmd_len := 6,
     xdata_ptr := sns, xdata_len := int (sense_size H), link := Some r\<rparr>"

definition link_check :: "'d nca_hw \<Rightarrow> nat \<Rightarrow> ('d nca, unit) state" where
  "link_check H r = do {
     q \<leftarrow> peek (\<lambda>w. reqs w r);
     tested \<leftarrow> peek (\<lambda>w. bit (ncr_test_link w) (targ_id q));
     fr \<leftarrow> peek free_q;
     case fr of [] \<Rightarrow> State_Monad.return ()
     | t # rest \<Rightarrow>
         if tested \<or> dr_flag q AND DRIVER_NOINT \<noteq> 0 then State_Monad.return ()
         else do {
           sns \<leftarrow> peek (\<lambda>w. sense (xfers w (xs q)));
           poke (\<lambda>w. w\<lparr>free_q := rest\<rparr>);
           blk t (dummy_req H sns r q);
           poke (\<lambda>w. w\<lparr>ncr_test_link := ncr_test_link w OR push_bit (targ_id q) 1\<rparr>);
           poke (\<lambda>w. w\<lparr>issue_q := t # issue_q w\<rparr>) } }"

definition log_done :: "nat \<Rightarrow> ('d nca, unit) state" where
  "log_done x = poke (\<lambda>w. w\<lparr>returned := returned w @ [(x, x_error (xfers w x))]\<rparr>)"

text \<open>
  A transfer of the mid-layer, up to \<open>run_main\<close>; true when it was queued. A transfer that comes back for want of a block
  brings no other one: the mid-layer waits for resources then.
\<close>

definition submit :: "'d nca_hw \<Rightarrow> nat \<Rightarrow> ('d nca, bool) state" where
  "submit H x = do {
     poke (\<lambda>w. w\<lparr>taken := taken w @ [x]\<rparr>);
     fr \<leftarrow> peek free_q;
     case fr of [] \<Rightarrow> do { xfer x (x_error_update (\<lambda>_. XS_RESOURCE_SHORTAGE)); log_done x; State_Monad.return False }
     | r # rest \<Rightarrow> do {
         poke (\<lambda>w. w\<lparr>free_q := rest\<rparr>);
         z \<leftarrow> peek (\<lambda>w. xfers w x);
         blk r (init_req z x);
         dma \<leftarrow> scsi_dmaok H r;
         (if dma then blk r (dr_flag_update (\<lambda>f. f OR DRIVER_DMAOK)) else State_Monad.return ());
         l \<leftarrow> nca_enqueue r;
         (if l = None then link_check H r else State_Monad.return ());
         State_Monad.return True } }"

subsection \<open>Giving a request back\<close>

text \<open>
  \<open>scsipi_done\<close>: the mid-layer hands the next transfers over before it returns. While the main routine runs they are only
  queued, since \<open>run_main\<close> finds \<open>main_running\<close> set. Two things the model does not follow, and notes in \<open>strayed\<close>: transfers
  that come while the main routine does not run, which would enter it from within a bus reset, and transfers that
  ask for a bus reset of their own.
\<close>

fun submit_all :: "'d nca_hw \<Rightarrow> nat list \<Rightarrow> ('d nca, unit) state" where
  "submit_all H [] = State_Monad.return ()"
| "submit_all H (x # l) = do { _ \<leftarrow> submit H x; submit_all H l }"

definition hand_over :: "'d nca_hw \<Rightarrow> ('d nca, unit) state" where
  "hand_over H = do {
     running \<leftarrow> peek main_running;
     a \<leftarrow> peek arrivals;
     case a of [] \<Rightarrow> State_Monad.return ()
     | l # rest \<Rightarrow> do {
         poke (\<lambda>w. w\<lparr>arrivals := rest, strayed := strayed w \<or> l \<noteq> [] \<and> \<not> running \<or> (\<exists>x\<in>set l. x_reset (xfers w x))\<rparr>);
         if running then submit_all H l else State_Monad.return () } }"

definition scsipi_done :: "'d nca_hw \<Rightarrow> nat \<Rightarrow> ('d nca, unit) state" where
  "scsipi_done H x = do { log_done x; hand_over H }"

definition finish_req :: "'d nca_hw \<Rightarrow> nat \<Rightarrow> ('d nca, unit) state" where
  "finish_req H r = do {
     q \<leftarrow> peek (\<lambda>w. reqs w r);
     (if dr_flag q AND DRIVER_BOUNCING \<noteq> 0 then io (put (free_stmem H (bounceb q))) else State_Monad.return ());
     poke (\<lambda>w. w\<lparr>free_q := r # free_q w\<rparr>);
     if dr_flag q AND DRIVER_LINKCHK = 0 then scsipi_done H (xs q) else State_Monad.return () }"

definition nca_clear_busy :: "nat \<Rightarrow> ('d nca, unit) state" where
  "nca_clear_busy r = poke (\<lambda>w. w\<lparr>busy := busy w AND NOT (targ_bit w r)\<rparr>)"

definition drop_connected :: "nat \<Rightarrow> ('d nca, unit) state" where
  "drop_connected r = do { nca_clear_busy r; poke (\<lambda>w. w\<lparr>connected := None\<rparr>) }"

subsection \<open>The end of a DMA transfer\<close>

fun copy_mem :: "'d nca_hw \<Rightarrow> u32 \<Rightarrow> u32 \<Rightarrow> nat \<Rightarrow> ('d, unit) state" where
  "copy_mem H dst src 0 = State_Monad.return ()"
| "copy_mem H dst src (Suc n) = do { v \<leftarrow> State (mem_rd H src); put (mem_wr H dst v); copy_mem H (dst + 1) (src + 1) n }"

text \<open>The bookkeeping of \<open>done\<close> bytes.\<close>

definition advance_chain :: "u32 \<Rightarrow> sc_req_blk \<Rightarrow> sc_req_blk" where
  "advance_chain n q = (case cur_chain q of (c, a) \<Rightarrow>
     q\<lparr>xdata_ptr := xdata_ptr q + n, xdata_len := xdata_len q - sint n,
       dm_chain := (dm_chain q)(dm_cur q := (c - n, if c - n = 0 then a else a + n)),
       dm_cur := if c - n = 0 then Suc (dm_cur q) else dm_cur q\<rparr>)"

definition unbounce :: "'d nca_hw \<Rightarrow> nat \<Rightarrow> u32 \<Rightarrow> ('d nca, unit) state" where
  "unbounce H r n = do {
     q \<leftarrow> peek (\<lambda>w. reqs w r);
     if dr_flag q AND DRIVER_BOUNCING \<noteq> 0 \<and> PH_IN (phase q) then do {
       io (copy_mem H (xdata_ptr q) (bouncerp q) (unat n));
       blk r (\<lambda>q. q\<lparr>bouncerp := bouncerp q + n\<rparr>) }
     else State_Monad.return () }"

definition has_error :: "nat \<Rightarrow> ('d nca, bool) state" where
  "has_error r = peek (\<lambda>w. x_error (xfers w (xs (reqs w r))) \<noteq> XS_NOERROR)"

text \<open>The transfer is over: true.\<close>

definition dma_over :: "'d nca_hw \<Rightarrow> nat \<Rightarrow> byte \<Rightarrow> ('d nca, bool) state" where
  "dma_over H r dmstat = do {
     blk r (dr_flag_update (\<lambda>f. f AND NOT DRIVER_IN_DMA));
     io (do { SET_5380_REG H NCR5380_MODE IMODE_BASE; SET_5380_REG H NCR5380_ICOM 0 });
     err \<leftarrow> has_error r;
     if dmstat AND SC_BSY_ERR \<noteq> 0 then do {
       (if err then State_Monad.return () else set_error r XS_TIMEOUT);
       finish_req H r;
       State_Monad.return True }
     else do {
       (if err then do { blk r (msgout_update (\<lambda>_. MSG_ABORT)); io (SET_5380_REG H NCR5380_ICOM SC_A_ATN) }
        else State_Monad.return ());
       State_Monad.return True } }"

text \<open>The calls all have a connected request. False: there is more to transfer, or nothing happened.\<close>

definition dma_ready :: "'d nca_hw \<Rightarrow> ('d nca, bool) state" where
  "dma_ready H = do {
     c \<leftarrow> peek connected;
     case c of None \<Rightarrow> State_Monad.return True
     | Some r \<Rightarrow> do {
         (is_edma, bytes_left) \<leftarrow> get_dma_result H r;
         dmstat \<leftarrow> io (GET_5380_REG H NCR5380_DMSTAT);
         if \<not> is_edma \<and> dmstat AND (SC_END_DMA OR SC_BSY_ERR) = 0 \<and> dmstat AND SC_PHS_MTCH \<noteq> 0 then State_Monad.return False
         else do {
           io (scsi_clr_ipend H);
           n \<leftarrow> peek (\<lambda>w. fst (cur_chain (reqs w r)) - bytes_left);
           unbounce H r n;
           blk r (advance_chain n);
           q \<leftarrow> peek (\<lambda>w. reqs w r);
           chk \<leftarrow> peek (\<lambda>w. \<not> bit (ncr5380_no_parchk w) (targ_id q));
           (if PH_IN (phase q) \<and> dmstat AND SC_PAR_ERR \<noteq> 0 \<and> chk then set_error r XS_TIMEOUT else State_Monad.return ());
           io (SET_5380_REG H NCR5380_MODE IMODE_BASE);
           err \<leftarrow> has_error r;
           if dmstat AND SC_BSY_ERR \<noteq> 0 \<or> dmstat AND SC_PHS_MTCH = 0 \<or> dm_cur q > dm_last q \<or> err then dma_over H r dmstat
           else State_Monad.return False } } }"

subsection \<open>The bus reset\<close>

text \<open>Each request that waits for reselection comes back; the queue is emptied at the end.\<close>

fun give_up :: "'d nca_hw \<Rightarrow> nat list \<Rightarrow> ('d nca, unit) state" where
  "give_up H [] = State_Monad.return ()"
| "give_up H (r # l) = do { set_error r XS_TIMEOUT; nca_clear_busy r; finish_req H r; give_up H l }"

text \<open>A connected request in DMA ends there, for want of BSY.\<close>

definition reset_current :: "'d nca_hw \<Rightarrow> ('d nca, unit) state" where
  "reset_current H = do {
     dma \<leftarrow> peek in_dma;
     r \<leftarrow> peek (\<lambda>w. the (connected w));
     if dma then do { set_error r XS_DRIVER_STUFFUP; _ \<leftarrow> dma_ready H; State_Monad.return () } else State_Monad.return () }"

definition scsi_reset :: "'d nca_hw \<Rightarrow> ('d nca, unit) state" where
  "scsi_reset H = do {
     io (do { SET_5380_REG H NCR5380_ICOM SC_A_RST; nca_delay H 100; SET_5380_REG H NCR5380_ICOM 0; scsi_clr_ipend H });
     l \<leftarrow> peek discon_q;
     give_up H l;
     poke (\<lambda>w. w\<lparr>discon_q := []\<rparr>);
     reset_current H;
     io (nca_delay H 100000) }"

end
