(* ===== verification/Nca_Phase.thy ===== *)
theory Nca_Phase
  imports Nca_Req
begin

text \<open>
  The Atari driver: DMA transfers, automatic sense, messages, and the information transfer phases.
\<close>

subsection \<open>DMA transfer\<close>

definition start_dma :: "'d nca_hw \<Rightarrow> nat \<Rightarrow> byte \<Rightarrow> bool \<Rightarrow> ('d nca, unit) state" where
  "start_dma H r ph poll = do {
     io (SET_5380_REG H NCR5380_TCOM ph);
     io (scsi_clr_ipend H);
     (if poll then io (scsi_idisable H)
      else do { io (scsi_ienable H); blk r (dr_flag_update (\<lambda>f. f OR DRIVER_IN_DMA)) });
     scsi_dma_setup H r ph ((if poll then 0 else SC_E_EOPI OR SC_MON_BSY) OR IMODE_BASE OR SC_M_DMA) }"

text \<open>
  The loop of a polled transfer goes round until \<open>dma_ready\<close> says that all is over, \<open>mbase\<close> being kept.
  \<open>None\<close> is a transfer that never is.
\<close>

definition transfer_dma :: "'d nca_hw \<Rightarrow> nat \<Rightarrow> byte \<Rightarrow> bool \<Rightarrow> 'd nca \<Rightarrow> (unit \<times> 'd nca) option" where
  "transfer_dma H r ph poll = st_loop (do {
     start_dma H r ph poll;
     if poll then do { poll_edma H r; over \<leftarrow> dma_ready H; State_Monad.return (if over then Some () else None) }
     else State_Monad.return (Some ()) })"

subsection \<open>Automatic sense\<close>

text \<open>True when the request goes on as a REQUEST SENSE.\<close>

definition check_autosense :: "'d nca_hw \<Rightarrow> nat \<Rightarrow> bool \<Rightarrow> ('d nca, bool) state" where
  "check_autosense H r linked = do {
     q \<leftarrow> peek (\<lambda>w. reqs w r);
     if dr_flag q AND DRIVER_LINKCHK \<noteq> 0 then do {
       (if linked then poke (\<lambda>w. w\<lparr>ncr_will_link := ncr_will_link w OR push_bit (targ_id q) 1\<rparr>) else State_Monad.return ());
       State_Monad.return False }
     else if dr_flag q AND DRIVER_AUTOSEN = 0 then
       (if status q AND SCSMASK = SCSCHKC then do {
          sns \<leftarrow> peek (\<lambda>w. sense (xfers w (xs q)));
          blk r (\<lambda>q. q\<lparr>xcmd := if linked then or_cmd 5 1 (sense_cmd H) else sense_cmd H, xcmd_len := 6, xdata_ptr := sns,
            xdata_len := int (sense_size H), dr_flag := (dr_flag q OR DRIVER_AUTOSEN) AND NOT DRIVER_DMAOK\<rparr>);
          (if linked then State_Monad.return () else poke (\<lambda>w. w\<lparr>issue_q := r # issue_q w\<rparr>));
          State_Monad.return True }
        else do {
          (if status q AND SCSMASK = SCSBUSY then set_error r XS_BUSY else State_Monad.return ());
          State_Monad.return False })
     else do {
       set_error r (if status q AND SCSMASK \<noteq> SCSGOOD then XS_DRIVER_STUFFUP else XS_SENSE);
       blk r (status_update (\<lambda>_. SCSCHKC));
       State_Monad.return False } }"

subsection \<open>Messages\<close>

text \<open>What \<open>information_transfer\<close> tells the main loop: go on calling it, look for other work, or \<open>panic\<close>.\<close>

datatype nca_next = Again | Over | Panic

definition note_result :: "nat \<Rightarrow> ('d nca, unit) state" where
  "note_result r = do {
     q \<leftarrow> peek (\<lambda>w. reqs w r);
     if dr_flag q AND DRIVER_AUTOSEN = 0 then xfer (xs q) (\<lambda>z. z\<lparr>x_resid := xdata_len q, x_error := XS_NOERROR\<rparr>)
     else State_Monad.return () }"

text \<open>The linked request takes over; it has to be on the issue queue.\<close>

definition link_complete :: "'d nca_hw \<Rightarrow> nat \<Rightarrow> ('d nca, nca_next) state" where
  "link_complete H r = do {
     l \<leftarrow> peek (\<lambda>w. link (reqs w r));
     case l of None \<Rightarrow> do { nack_message H r MSG_ABORT; State_Monad.return Again }
     | Some t \<Rightarrow> do {
         io (ack_message H);
         note_result r;
         sense_now \<leftarrow> check_autosense H r True;
         if sense_now then State_Monad.return Again
         else do {
           poke (\<lambda>w. w\<lparr>connected := Some t\<rparr>);
           found \<leftarrow> peek (\<lambda>w. t \<in> set (issue_q w));
           if \<not> found then State_Monad.return Panic
           else do {
             poke (\<lambda>w. w\<lparr>issue_q := remove1 t (issue_q w)\<rparr>);
             finish_req H r;
             State_Monad.return Again } } } }"

definition cmd_complete :: "'d nca_hw \<Rightarrow> nat \<Rightarrow> ('d nca, nca_next) state" where
  "cmd_complete H r = do {
     io (ack_message H);
     drop_connected r;
     note_result r;
     sense_now \<leftarrow> check_autosense H r False;
     (if sense_now then State_Monad.return () else finish_req H r);
     State_Monad.return Over }"

definition handle_message :: "'d nca_hw \<Rightarrow> nat \<Rightarrow> byte \<Rightarrow> ('d nca, nca_next) state" where
  "handle_message H r msg =
     (if msg = MSG_LINK_CMD_COMPLETE \<or> msg = MSG_LINK_CMD_COMPLETEF then link_complete H r
      else if msg = MSG_ABORT \<or> msg = MSG_CMDCOMPLETE then cmd_complete H r
      else if msg = MSG_DISCONNECT then do {
        io (ack_message H);
        poke (\<lambda>w. w\<lparr>connected := None, discon_q := r # discon_q w\<rparr>);
        State_Monad.return Over }
      else if msg = MSG_MESSAGE_REJECT \<or> msg = MSG_SAVEDATAPOINTER \<or> msg = MSG_RESTOREPOINTERS then do {
        io (ack_message H); State_Monad.return Again }
      else if msg AND 0x80 \<noteq> 0 \<and> msg AND 0x18 = 0 then do { io (ack_message H); State_Monad.return Over }
      else do { nack_message H r MSG_MESSAGE_REJECT; State_Monad.return Again })"

subsection \<open>Information transfer\<close>

text \<open>The request is given up with an error.\<close>

definition end_req :: "'d nca_hw \<Rightarrow> nat \<Rightarrow> nca_error \<Rightarrow> ('d nca, unit) state" where
  "end_req H r e = do { drop_connected r; set_error r e; finish_req H r }"

text \<open>DMA is polled (\<open>REAL_DMA_POLL\<close>) in every kernel that is configured for the Falcon.\<close>

definition nca_data_phase :: "'d nca_hw \<Rightarrow> nat \<Rightarrow> byte \<Rightarrow> 'd nca \<Rightarrow> (nca_next \<times> 'd nca) option" where
  "nca_data_phase H r ph w =
     (let q = reqs w r in
      if xdata_len q \<le> 0 then run (do {
        blk r (msgout_update (\<lambda>_. MSG_ABORT));
        io (SET_5380_REG H NCR5380_ICOM SC_A_ATN);
        _ \<leftarrow> io (reach_msg_out H 100);
        State_Monad.return Again }) w
      else if dr_flag q AND DRIVER_DMAOK \<noteq> 0 then
        (let poll = (FALCON_SCSI H \<or> dr_flag q AND DRIVER_NOINT \<noteq> 0) in do {
         (_, w1) \<leftarrow> transfer_dma H r ph poll w;
         Some (if poll then Again else Over, w1) })
      else run (do {
        (_, _, cnt, _) \<leftarrow> io (transfer_pio H ph (Mem (xdata_ptr q)) (unat (word_of_int (xdata_len q) :: u32)) False);
        blk r (\<lambda>q. q\<lparr>xdata_ptr := xdata_ptr q + word_of_int (xdata_len q - int cnt), xdata_len := int cnt\<rparr>);
        State_Monad.return Again }) w)"

text \<open>The bounce buffer is filled before the first byte of a write.\<close>

definition fill_bounce :: "'d nca_hw \<Rightarrow> nat \<Rightarrow> ('d nca, unit) state" where
  "fill_bounce H r = do {
     q \<leftarrow> peek (\<lambda>w. reqs w r);
     d \<leftarrow> peek (\<lambda>w. x_data (xfers w (xs q)));
     if xdata_ptr q = d \<and> dr_flag q AND DRIVER_BOUNCING \<noteq> 0 then
       io (copy_mem H (bounceb q) (xdata_ptr q) (unat (word_of_int (xdata_len q) :: u32)))
     else State_Monad.return () }"

definition msg_out_phase :: "'d nca_hw \<Rightarrow> nat \<Rightarrow> ('d nca, nca_next) state" where
  "msg_out_phase H r = do {
     m \<leftarrow> peek (\<lambda>w. msgout (reqs w r));
     _ \<leftarrow> io (transfer_pio H PH_MSGOUT (Local [m]) 1 False);
     if m = MSG_ABORT then do {
       drop_connected r;
       err \<leftarrow> has_error r;
       (if err then State_Monad.return () else set_error r XS_DRIVER_STUFFUP);
       finish_req H r;
       State_Monad.return Over }
     else do { blk r (msgout_update (\<lambda>_. MSG_NOOP)); State_Monad.return Again } }"

text \<open>
  One phase. \<open>tmp\<close> is the bus status that was read; it stands for a message or a status byte that the target does not send.
\<close>

definition read_byte :: "'d nca_hw \<Rightarrow> byte \<Rightarrow> byte \<Rightarrow> bool \<Rightarrow> ('d nca, byte) state" where
  "read_byte H ph tmp keep = do {
     (_, _, _, got) \<leftarrow> io (transfer_pio H ph (Local []) 1 keep);
     State_Monad.return (case got of [] \<Rightarrow> tmp | b # _ \<Rightarrow> b) }"

definition phase_step :: "'d nca_hw \<Rightarrow> nat \<Rightarrow> byte \<Rightarrow> byte \<Rightarrow> 'd nca \<Rightarrow> (nca_next \<times> 'd nca) option" where
  "phase_step H r ph tmp w =
     (if ph = PH_DATAOUT then do { (_, w1) \<leftarrow> run (fill_bounce H r) w; nca_data_phase H r ph w1 }
      else if ph = PH_DATAIN then nca_data_phase H r ph w
      else if ph = PH_MSGIN then run (do {
        msg \<leftarrow> read_byte H ph tmp True;
        blk r (message_update (\<lambda>_. msg));
        handle_message H r msg }) w
      else if ph = PH_MSGOUT then run (msg_out_phase H r) w
      else if ph = PH_CMD then run (do {
        q \<leftarrow> peek (\<lambda>w. reqs w r);
        _ \<leftarrow> io (transfer_pio H ph (Local (xcmd q)) (xcmd_len q) False);
        State_Monad.return Again }) w
      else if ph = PH_STATUS then run (do {
        s \<leftarrow> read_byte H ph tmp False;
        blk r (status_update (\<lambda>_. s));
        State_Monad.return Again }) w
      else Some (Again, w))"

text \<open>Waiting for a phase: the status register.\<close>

definition phase_status :: "'d nca_hw \<Rightarrow> ('d, byte) state" where
  "phase_status H = do {
     scsi_clr_ipend H;
     b \<leftarrow> GET_5380_REG H NCR5380_IDSTAT;
     (if b AND SC_S_BSY \<noteq> 0 then do { _ \<leftarrow> wait_req_true H; State_Monad.return () } else State_Monad.return ());
     GET_5380_REG H NCR5380_IDSTAT }"

text \<open>Only called with a connected request.\<close>

definition information_transfer :: "'d nca_hw \<Rightarrow> 'd nca \<Rightarrow> (nca_next \<times> 'd nca) option" where
  "information_transfer H w = (case connected w of None \<Rightarrow> Some (Over, w) | Some r \<Rightarrow> do {
     (tmp, w1) \<leftarrow> run (io (phase_status H)) w;
     let ph = bus_phase tmp in
     if tmp AND (SC_S_BSY OR SC_S_REQ) \<noteq> SC_S_BSY OR SC_S_REQ then run (do {
       end_req H r XS_TIMEOUT;
       (if tmp AND SC_S_REQ = 0 then scsi_reset H else State_Monad.return ());
       State_Monad.return Over }) w1
     else if ph = phase (reqs w1 r) \<and> msgout (reqs w1 r) = MSG_ABORT \<and> (ph = PH_DATAOUT \<or> ph = PH_DATAIN) then run (do {
       end_req H r XS_TIMEOUT;
       scsi_reset H;
       State_Monad.return Over }) w1
     else do { (_, w2) \<leftarrow> run (blk r (phase_update (\<lambda>_. ph))) w1; phase_step H r ph tmp w2 } })"

end
