(* ===== verification/Nca_Main.thy ===== *)
theory Nca_Main
  imports Nca_Phase
begin

text \<open>
  The Atari driver: selection, reselection, the main loop, interrupts, and what the kernel calls.
\<close>

subsection \<open>Selection\<close>

definition quit_arbitration :: "'d nca_hw \<Rightarrow> ('d, bool) state" where
  "quit_arbitration H = do { SET_5380_REG H NCR5380_MODE IMODE_BASE; SET_5380_REG H NCR5380_ICOM 0; State_Monad.return False }"

text \<open>
  Arbitration; true when the bus is ours. The test for a higher ID, \<open>tmp[0] & ~((SC_HOST_ID << 1) - 1)\<close>, is 0 for every
  byte: no ID is higher than 7.
\<close>

definition nca_arbitrate :: "'d nca_hw \<Rightarrow> ('d, bool) state" where
  "nca_arbitrate H = do {
     SET_5380_REG H NCR5380_TCOM 0;
     SET_5380_REG H NCR5380_ICOM 0;
     SET_5380_REG H NCR5380_DATA SC_HOST_ID;
     SET_5380_REG H NCR5380_MODE SC_ARBIT;
     _ \<leftarrow> wait_for (test_reg H NCR5380_ICOM SC_AIP True) (nca_delay H 1) 9;
     aip \<leftarrow> test_reg H NCR5380_ICOM SC_AIP True;
     if \<not> aip then quit_arbitration H
     else do {
       nca_delay H 3;
       lost \<leftarrow> test_reg H NCR5380_ICOM SC_LA True;
       if lost then quit_arbitration H
       else do {
         _ \<leftarrow> GET_5380_REG H NCR5380_DATA;
         lost1 \<leftarrow> test_reg H NCR5380_ICOM SC_LA True;
         if lost1 then quit_arbitration H
         else do {
           SET_5380_REG H NCR5380_ICOM (SC_A_SEL OR SC_A_BSY);
           lost2 \<leftarrow> test_reg H NCR5380_ICOM SC_LA True;
           if lost2 then quit_arbitration H else do { nca_delay H 2; State_Monad.return True } } } } }"

text \<open>Selection once the bus is ours; true when the target answers.\<close>

definition nca_select_target :: "'d nca_hw \<Rightarrow> byte \<Rightarrow> byte \<Rightarrow> ('d, bool) state" where
  "nca_select_target H tb atn = do {
     SET_5380_REG H NCR5380_DATA (SC_HOST_ID OR tb);
     SET_5380_REG H NCR5380_ICOM (SC_A_BSY OR SC_A_SEL OR atn OR SC_ADTB);
     SET_5380_REG H NCR5380_MODE IMODE_BASE;
     SET_5380_REG H NCR5380_IDSTAT 0;
     SET_5380_REG H NCR5380_ICOM (SC_A_SEL OR atn OR SC_ADTB);
     nca_delay H 1;
     _ \<leftarrow> wait_for (test_reg H NCR5380_IDSTAT SC_S_BSY True) (nca_delay H 10) 24999;
     found \<leftarrow> test_reg H NCR5380_IDSTAT SC_S_BSY True;
     here \<leftarrow> (if found then State_Monad.return True
       else do { SET_5380_REG H NCR5380_ICOM (SC_A_SEL OR atn); nca_delay H 201; test_reg H NCR5380_IDSTAT SC_S_BSY True });
     SET_5380_REG H NCR5380_ICOM (if here then atn else 0);
     (if here then scsi_idisable H else State_Monad.return ());
     State_Monad.return here }"

definition MSG_IDENTIFY :: "nat \<Rightarrow> bool \<Rightarrow> byte" where
  "MSG_IDENTIFY lun discon = (if discon then 0xc0 else 0x80) OR word_of_nat lun"

text \<open>The request is connected.\<close>

definition connect_req :: "nat \<Rightarrow> byte \<Rightarrow> ('d nca, unit) state" where
  "connect_req r ph = do {
     blk r (phase_update (\<lambda>_. ph));
     poke (\<lambda>w. w\<lparr>sc_selected := sc_selected w OR targ_bit w r, connected := Some r, busy := busy w OR targ_bit w r\<rparr>) }"

text \<open>The target took no IDENTIFY, and is not one that does not know of ATN.\<close>

definition unidentified :: "'d nca_hw \<Rightarrow> nat \<Rightarrow> ('d nca, unit) state" where
  "unidentified H r = do {
     out \<leftarrow> io (reach_msg_out H 16);
     (if out then do { _ \<leftarrow> io (transfer_pio H PH_MSGOUT (Local [MSG_ABORT]) 1 False); State_Monad.return () } else scsi_reset H);
     io (SET_5380_REG H NCR5380_ICOM 0);
     set_error r XS_DRIVER_STUFFUP;
     finish_req H r }"

definition identify :: "'d nca_hw \<Rightarrow> nat \<Rightarrow> ('d nca, unit) state" where
  "identify H r = do {
     q \<leftarrow> peek (\<lambda>w. reqs w r);
     (bad, ph, cnt, _) \<leftarrow> io (transfer_pio H PH_MSGOUT (Local [MSG_IDENTIFY (targ_lun q) (dr_flag q AND DRIVER_NOINT = 0)]) 1 False);
     if bad \<or> cnt \<noteq> 0 then do {
       old \<leftarrow> peek (\<lambda>w. ph = PH_CMD \<and> sc_selected w AND targ_bit w r = 0);
       if old then do { poke (\<lambda>w. w\<lparr>sc_noselatn := sc_noselatn w OR targ_bit w r\<rparr>); connect_req r PH_CMD }
       else unidentified H r }
     else connect_req r PH_MSGOUT }"

definition select_timeout :: "'d nca_hw \<Rightarrow> nat \<Rightarrow> ('d nca, unit) state" where
  "select_timeout H r = do {
     set_error r XS_SELTIMEOUT;
     lc \<leftarrow> has_flag r DRIVER_LINKCHK;
     (if lc then poke (\<lambda>w. w\<lparr>ncr_test_link := ncr_test_link w AND NOT (targ_bit w r)\<rparr>) else State_Monad.return ());
     finish_req H r }"

text \<open>\<open>scsi_select(reqp, 0)\<close>, the only call: false when the arbitration failed.\<close>

definition nca_scsi_select :: "'d nca_hw \<Rightarrow> nat \<Rightarrow> ('d nca, bool) state" where
  "nca_scsi_select H r = do {
     c \<leftarrow> peek connected;
     if c \<noteq> None then State_Monad.return False
     else do {
       won \<leftarrow> io (nca_arbitrate H);
       if \<not> won then State_Monad.return False
       else do {
         tb \<leftarrow> peek (\<lambda>w. targ_bit w r);
         atn \<leftarrow> peek (\<lambda>w. if sc_noselatn w AND tb \<noteq> 0 then 0 else SC_A_ATN);
         here \<leftarrow> io (nca_select_target H tb atn);
         (if \<not> here then select_timeout H r
          else if atn = 0 then connect_req r PH_CMD
          else identify H r);
         State_Monad.return True } } }"

subsection \<open>Reselection\<close>

definition nca_reselect_abort :: "'d nca_hw \<Rightarrow> ('d nca, unit) state" where
  "nca_reselect_abort H = do {
     io (SET_5380_REG H NCR5380_ICOM SC_A_ATN);
     (bad, _, cnt, _) \<leftarrow> io (transfer_pio H PH_MSGOUT (Local [MSG_ABORT]) 1 False);
     if bad \<or> cnt \<noteq> 0 then scsi_reset H else State_Monad.return () }"

text \<open>
  Answering the target: \<open>Inl\<close> whether the bus is to be reset, \<open>Inr\<close> the target's bit and whether an IDENTIFY message came.
\<close>

definition nca_resel_answer :: "'d nca_hw \<Rightarrow> ('d, bool + byte \<times> bool) state" where
  "nca_resel_answer H = do {
     d \<leftarrow> GET_5380_REG H NCR5380_DATA;
     SET_5380_REG H NCR5380_ICOM SC_A_BSY;
     _ \<leftarrow> wait_for (test_reg H NCR5380_IDSTAT SC_S_SEL False) (nca_delay H 1) 250000;
     stuck \<leftarrow> test_reg H NCR5380_IDSTAT SC_S_SEL True;
     if stuck then State_Monad.return (Inl True)
     else do {
       SET_5380_REG H NCR5380_ICOM 0;
       b1 \<leftarrow> test_reg H NCR5380_IDSTAT SC_S_BSY True;
       b2 \<leftarrow> (if b1 then State_Monad.return True else test_reg H NCR5380_IDSTAT SC_S_BSY True);
       if \<not> b2 then State_Monad.return (Inl False)
       else do {
         (_, _, cnt, got) \<leftarrow> transfer_pio H PH_MSGIN (Local []) 1 False;
         State_Monad.return (Inr (d AND NOT SC_HOST_ID, cnt = 0 \<and> (case got of [] \<Rightarrow> False | m # _ \<Rightarrow> m AND 0x80 \<noteq> 0))) } } }"

definition reselect :: "'d nca_hw \<Rightarrow> ('d nca, unit) state" where
  "reselect H = do {
     a \<leftarrow> io (nca_resel_answer H);
     case a of Inl rst \<Rightarrow> if rst then scsi_reset H else State_Monad.return ()
     | Inr (tm, ident) \<Rightarrow>
         if \<not> ident then nca_reselect_abort H
         else do {
           t \<leftarrow> peek (\<lambda>w. List.find (\<lambda>r. tm = targ_bit w r) (discon_q w));
           case t of None \<Rightarrow> nca_reselect_abort H
           | Some r \<Rightarrow> poke (\<lambda>w. w\<lparr>discon_q := remove1 r (discon_q w), connected := Some r\<rparr>) } }"

subsection \<open>The main loop\<close>

datatype itype = INTR_SPURIOUS | INTR_RESEL | INTR_DMA

definition resel_pending :: "'d nca_hw \<Rightarrow> ('d, bool) state" where
  "resel_pending H = do { b \<leftarrow> GET_5380_REG H NCR5380_IDSTAT; State_Monad.return (b AND (SC_S_SEL OR SC_S_IO) = SC_S_SEL OR SC_S_IO) }"

text \<open>The notice on the console of a spurious interrupt is left out.\<close>

definition check_intr :: "'d nca_hw \<Rightarrow> ('d nca, itype) state" where
  "check_intr H = do {
     sel \<leftarrow> io (resel_pending H);
     dma \<leftarrow> peek in_dma;
     c \<leftarrow> peek connected;
     if sel then State_Monad.return INTR_RESEL
     else if dma then do { blk (the c) (dr_flag_update (\<lambda>f. f AND NOT DRIVER_IN_DMA)); State_Monad.return INTR_DMA }
     else do { io (scsi_clr_ipend H); State_Monad.return INTR_SPURIOUS } }"

text \<open>
  Where the loop is: at its top, at the label \<open>connected\<close>, in the \<open>while\<close> of the phases, or at \<open>main_exit\<close>.
\<close>

datatype main_pc = Top | Connected | Phases | Main_exit

text \<open>The first request for a target that is not busy leaves the issue queue.\<close>

definition pick :: "('d nca, nat option) state" where
  "pick = do {
     t \<leftarrow> peek (\<lambda>w. List.find (\<lambda>r. busy w AND targ_bit w r = 0) (issue_q w));
     (case t of None \<Rightarrow> State_Monad.return () | Some r \<Rightarrow> poke (\<lambda>w. w\<lparr>issue_q := remove1 r (issue_q w)\<rparr>));
     State_Monad.return t }"

definition to_issue :: "nat \<Rightarrow> ('d nca, unit) state" where "to_issue r = poke (\<lambda>w. w\<lparr>issue_q := r # issue_q w\<rparr>)"

text \<open>A target that reselects comes first; otherwise the request is issued, and goes back when the arbitration is lost.\<close>

definition issue_req :: "'d nca_hw \<Rightarrow> nat \<Rightarrow> ('d nca, main_pc) state" where
  "issue_req H r = do {
     ok \<leftarrow> nca_scsi_select H r;
     (if ok then State_Monad.return () else to_issue r);
     State_Monad.return Connected }"

definition serve :: "'d nca_hw \<Rightarrow> nat option \<Rightarrow> ('d nca, main_pc) state" where
  "serve H t = do {
     sel \<leftarrow> io (resel_pending H);
     if sel then do {
       (case t of None \<Rightarrow> State_Monad.return () | Some r \<Rightarrow> to_issue r);
       reselect H;
       io (scsi_clr_ipend H);
       State_Monad.return Connected }
     else (case t of None \<Rightarrow> State_Monad.return Main_exit | Some r \<Rightarrow> issue_req H r) }"

definition main_top :: "'d nca_hw \<Rightarrow> ('d nca, main_pc) state" where
  "main_top H = do {
     c \<leftarrow> peek connected;
     if c \<noteq> None then State_Monad.return Connected
     else do {
       fair \<leftarrow> io (fair_to_keep_dma H);
       if fair then do { t \<leftarrow> pick; serve H t } else State_Monad.return Main_exit } }"

definition main_connected :: "('d nca, main_pc) state" where
  "main_connected = do {
     c \<leftarrow> peek connected;
     dma \<leftarrow> peek in_dma;
     State_Monad.return (if c = None then Top else if dma then Main_exit else Phases) }"

text \<open>True: the routine returns. Otherwise it goes on at \<open>connected\<close>.\<close>

definition main_exit :: "'d nca_hw \<Rightarrow> ('d nca, bool) state" where
  "main_exit H = do {
     io (scsi_ienable H);
     c \<leftarrow> peek connected;
     (if c = None then io (SET_5380_REG H NCR5380_IDSTAT SC_HOST_ID) else State_Monad.return ());
     pending \<leftarrow> scsi_ipending H;
     it \<leftarrow> (if pending then check_intr H else State_Monad.return INTR_SPURIOUS);
     if it \<noteq> INTR_SPURIOUS then do {
       io (do { scsi_idisable H; scsi_clr_ipend H });
       (if it = INTR_RESEL then reselect H else do { _ \<leftarrow> dma_ready H; State_Monad.return () });
       State_Monad.return False }
     else do {
       reconsider_dma H;
       poke (\<lambda>w. w\<lparr>main_running := False\<rparr>);
       State_Monad.return True } }"

text \<open>How the routine ends: it returns, or the kernel panics.\<close>

datatype main_end = Returned | Panicked

fun main_step :: "'d nca_hw \<Rightarrow> main_pc \<times> 'd nca \<Rightarrow> ((main_pc \<times> 'd nca) + (main_end \<times> 'd nca)) option" where
  "main_step H (Top, w) = Some (Inl (run_state (main_top H) w))"
| "main_step H (Connected, w) = Some (Inl (run_state main_connected w))"
| "main_step H (Phases, w) = do {
     (x, w1) \<leftarrow> information_transfer H w;
     Some (case x of Again \<Rightarrow> Inl (Phases, w1) | Over \<Rightarrow> Inl (Top, w1) | Panic \<Rightarrow> Inr (Panicked, w1)) }"
| "main_step H (Main_exit, w) =
     (case run_state (main_exit H) w of (back, w1) \<Rightarrow> Some (if back then Inr (Returned, w1) else Inl (Connected, w1)))"

definition scsi_main :: "'d nca_hw \<Rightarrow> 'd nca \<Rightarrow> (main_end \<times> 'd nca) option" where
  "scsi_main H w = c_loop (main_step H) (Top, snd (run_state (io (scsi_idisable H)) w))"

definition run_main :: "'d nca_hw \<Rightarrow> 'd nca \<Rightarrow> (main_end \<times> 'd nca) option" where
  "run_main H w =
     (if main_running w then Some (Returned, w)
      else (case run_state (claimed_dma H) w of (ok, w1) \<Rightarrow>
        if \<not> ok then Some (Returned, w1) else scsi_main H (w1\<lparr>main_running := True\<rparr>)))"

subsection \<open>Interrupts and requests\<close>

definition ncr_dma_intr :: "'d nca_hw \<Rightarrow> 'd nca \<Rightarrow> (main_end \<times> 'd nca) option" where
  "ncr_dma_intr H w =
     (if \<not> in_dma w then Some (Returned, w)
      else (let r = the (connected w) in
        case run_state (do { io (scsi_idisable H); dma_ready H }) w of (over, w1) \<Rightarrow>
          if over then run_main H w1
          else do { (_, w2) \<leftarrow> transfer_dma H r (phase (reqs w1 r)) False w1; Some (Returned, w2) }))"

text \<open>The loop of the source is left in its first round.\<close>

definition ncr_ctrl_intr :: "'d nca_hw \<Rightarrow> 'd nca \<Rightarrow> (main_end \<times> 'd nca) option" where
  "ncr_ctrl_intr H w =
     (if main_running w then Some (Returned, w)
      else (case run_state (scsi_ipending H) w of (pending, w1) \<Rightarrow>
        if \<not> pending then Some (Returned, w1)
        else (case run_state (do { io (scsi_idisable H); check_intr H }) w1 of (it, w2) \<Rightarrow>
          (case it of INTR_SPURIOUS \<Rightarrow> run_main H w2
           | INTR_RESEL \<Rightarrow> run_main H (snd (run_state (do { reselect H; io (scsi_clr_ipend H) }) w2))
           | INTR_DMA \<Rightarrow> (case run_state (dma_ready H) w2 of (over, w3) \<Rightarrow>
               if over then run_main H (snd (run_state (io (scsi_clr_ipend H)) w3))
               else do {
                 (_, w4) \<leftarrow> transfer_dma H (the (connected w3)) (phase (reqs w3 (the (connected w3)))) False w3;
                 Some (Returned, w4) })))))"

text \<open>\<open>ADAPTER_REQ_RUN_XFER\<close>; the other two requests do nothing. A reset is not queued.\<close>

definition ncr5380_scsi_request :: "'d nca_hw \<Rightarrow> nat \<Rightarrow> 'd nca \<Rightarrow> (main_end \<times> 'd nca) option" where
  "ncr5380_scsi_request H x w =
     (if x_reset (xfers w x) then
        Some (Returned, snd (run_state (do { scsi_reset H; poke (\<lambda>w. w\<lparr>taken := taken w @ [x]\<rparr>); scsipi_done H x }) w))
      else (case run_state (submit H x) w of (queued, w1) \<Rightarrow> if queued then run_main H w1 else Some (Returned, w1)))"

text \<open>
  The kernel calls: a transfer \<open>x\<close> with its fields, the software interrupts, the hardware interrupts, and \<open>run_main\<close> once
  the lock of the ST DMA controller that the driver has asked for is granted (the callback given to \<open>st_dmagrab\<close>). With
  each call comes what the mid-layer hands over while it runs.
\<close>

datatype nca_call = Run_xfer nat nca_xfer | Grow_resources | Set_xfer_mode | Ctrl | Dma | Hard_ctrl | Hard_dma | Lock_granted

fun do_call :: "'d nca_hw \<Rightarrow> nca_call \<Rightarrow> 'd nca \<Rightarrow> (main_end \<times> 'd nca) option" where
  "do_call H (Run_xfer x z) w = ncr5380_scsi_request H x (w\<lparr>xfers := (xfers w)(x := z)\<rparr>)"
| "do_call H Grow_resources w = Some (Returned, w)"
| "do_call H Set_xfer_mode w = Some (Returned, w)"
| "do_call H Ctrl w = ncr_ctrl_intr H w"
| "do_call H Dma w = ncr_dma_intr H w"
| "do_call H Hard_ctrl w = Some (Returned, snd (run_state (scsi_ctrl H) w))"
| "do_call H Hard_dma w = Some (Returned, snd (run_state (scsi_dma H) w))"
| "do_call H Lock_granted w =
     (if falcon_lock w = DMA_LOCK_REQ then run_main H (w\<lparr>falcon_lock := DMA_LOCK_GRANT\<rparr>) else Some (Returned, w))"

text \<open>A sequence of calls, up to a panic.\<close>

fun do_calls :: "'d nca_hw \<Rightarrow> (nat list list \<times> nca_call) list \<Rightarrow> 'd nca \<Rightarrow> (main_end \<times> 'd nca) option" where
  "do_calls H [] w = Some (Returned, w)"
| "do_calls H ((a, c) # cs) w = do {
     (e, w1) \<leftarrow> do_call H c (w\<lparr>arrivals := a\<rparr>);
     if e = Panicked then Some (Panicked, w1) else do_calls H cs w1 }"

definition NREQ :: nat where "NREQ = 18"

text \<open>Attachment: the last block is the first to be taken.\<close>

definition ncr_attach :: "'d nca_hw \<Rightarrow> ('d nca, unit) state" where
  "ncr_attach H = do {
     poke (\<lambda>w. w\<lparr>sc_noselatn := 0, sc_selected := 0\<rparr>);
     io (scsi_mach_init H);
     poke (\<lambda>w. w\<lparr>free_q := rev [0..<NREQ] @ free_q w\<rparr>);
     io (do {
       scsi_idisable H;
       SET_5380_REG H NCR5380_ICOM 0;
       SET_5380_REG H NCR5380_MODE IMODE_BASE;
       SET_5380_REG H NCR5380_TCOM 0;
       SET_5380_REG H NCR5380_IDSTAT 0;
       scsi_ienable H }) }"

end
