(* ===== verification/Nca_Keep.thy ===== *)
theory Nca_Keep
  imports Nca_Main "HOL-Library.Multiset"
begin

text \<open>
  The books of the Atari driver: where the request blocks are, which transfers they stand for, and how they are linked,
  with the lemma that most steps of the driver do not touch any of it.
\<close>

subsection \<open>What the books say\<close>

definition conn :: "'d nca \<Rightarrow> nat list" where "conn w = (case connected w of None \<Rightarrow> [] | Some r \<Rightarrow> [r])"
definition real_req :: "'d nca \<Rightarrow> nat \<Rightarrow> bool" where "real_req w r \<longleftrightarrow> dr_flag (reqs w r) AND DRIVER_LINKCHK = 0"

text \<open>No block uses DMA, is in DMA or bounces.\<close>

definition no_dma :: "'d nca \<Rightarrow> bool" where "no_dma w \<longleftrightarrow> (\<forall>r. dr_flag (reqs w r) AND 0x19 = 0)"

text \<open>
  \<open>D\<close> stands for the disconnected requests, \<open>h\<close> for those in the hands of the routine that runs. Every block is in one place,
  and a transfer that was taken over is held by one block or has come back. (The blocks of link checks hold none.)
\<close>

definition owned :: "nat list \<Rightarrow> nat list \<Rightarrow> 'd nca \<Rightarrow> nat list" where "owned D h w = issue_q w @ D @ conn w @ h"

definition held :: "nat list \<Rightarrow> nat list \<Rightarrow> 'd nca \<Rightarrow> nat multiset" where
  "held D h w = mset (map (\<lambda>r. xs (reqs w r)) (filter (real_req w) (owned D h w)))"

definition books :: "nat list \<Rightarrow> nat list \<Rightarrow> 'd nca \<Rightarrow> bool" where
  "books D h w \<longleftrightarrow> mset (free_q w @ owned D h w) = mset [0..<NREQ] \<and>
     mset (taken w) = held D h w + mset (map fst (returned w)) \<and> no_dma w \<and>
     (\<forall>x. x_target (xfers w x) < 8) \<and> (\<forall>r\<in>set (owned D h w). targ_id (reqs w r) < 8)"

text \<open>One block comes before another in a queue.\<close>

definition precedes :: "nat list \<Rightarrow> nat \<Rightarrow> nat \<Rightarrow> bool" where "precedes q r t \<longleftrightarrow> (\<exists>us vs. q = us @ r # vs \<and> t \<in> set vs)"

text \<open>
  A link leads to a request for the same target that waits on the issue queue, behind the request it is linked to when that
  one waits, too; no two links lead to the same request. \<open>g\<close> is a request in hand whose link counts.
  A target with a connected or disconnected request is busy, and has only one.
\<close>

definition links :: "nat list \<Rightarrow> nat list \<Rightarrow> 'd nca \<Rightarrow> bool" where
  "links D g w \<longleftrightarrow>
     (\<forall>r\<in>set (owned D g w). \<forall>t. link (reqs w r) = Some t \<longrightarrow> t \<in> set (issue_q w) \<and> targ_id (reqs w t) = targ_id (reqs w r)) \<and>
     (\<forall>r\<in>set (owned D g w). \<forall>s\<in>set (owned D g w). \<forall>t. link (reqs w r) = Some t \<longrightarrow> link (reqs w s) = Some t \<longrightarrow> r = s) \<and>
     (\<forall>r\<in>set (issue_q w). \<forall>t. link (reqs w r) = Some t \<longrightarrow> precedes (issue_q w) r t)"

definition nexus :: "nat list \<Rightarrow> 'd nca \<Rightarrow> bool" where
  "nexus D w \<longleftrightarrow> (\<forall>r\<in>set (D @ conn w). bit (busy w) (targ_id (reqs w r))) \<and> distinct (map (\<lambda>r. targ_id (reqs w r)) (D @ conn w))"

definition nca_inv :: "nat list \<Rightarrow> nat list \<Rightarrow> nat list \<Rightarrow> 'd nca \<Rightarrow> bool" where
  "nca_inv D h g w \<longleftrightarrow> books D h w \<and> links D g w \<and> nexus D w"

subsection \<open>Steps that do not touch the books\<close>

definition same_books :: "'d nca \<Rightarrow> 'd nca \<Rightarrow> bool" where
  "same_books w v \<longleftrightarrow> free_q v = free_q w \<and> issue_q v = issue_q w \<and> connected v = connected w \<and> busy v = busy w \<and>
     taken v = taken w \<and> map fst (returned v) = map fst (returned w) \<and>
     (\<forall>x. x_target (xfers v x) = x_target (xfers w x)) \<and>
     (\<forall>r. link (reqs v r) = link (reqs w r) \<and> xs (reqs v r) = xs (reqs w r) \<and> targ_id (reqs v r) = targ_id (reqs w r) \<and>
       dr_flag (reqs v r) AND 0x39 = dr_flag (reqs w r) AND 0x39)"

lemma and_sub:
  fixes x y m k :: byte
  assumes "x AND k = y AND k" "k AND m = m"
  shows "x AND m = y AND m"
proof -
  have "z AND m = (z AND k) AND m" for z using assms(2) by (simp add: and.assoc)
  with assms(1) show ?thesis by metis
qed

lemma same_flag_bits:
  fixes x y :: byte
  assumes "x AND 0x39 = y AND 0x39"
  shows "x AND 0x20 = y AND 0x20" "x AND 0x19 = y AND 0x19" "x AND 0x01 = y AND 0x01"
  by (rule and_sub [OF assms]; simp)+

lemma same_books_inv:
  assumes s: "same_books w v" and i: "nca_inv D h g w"
  shows "nca_inv D h g v"
proof -
  note e = s [unfolded same_books_def]
  have real: "real_req v = real_req w" using e same_flag_bits(1) unfolding real_req_def by metis
  have dma: "no_dma v = no_dma w" using e same_flag_bits(2) unfolding no_dma_def by metis
  have c: "conn v = conn w" using e by (simp add: conn_def)
  have o: "owned D h v = owned D h w" "owned D g v = owned D g w" for h using e c by (simp_all add: owned_def)
  show ?thesis
    using i e unfolding nca_inv_def books_def links_def nexus_def held_def by (simp add: real dma c o)
qed

lemma same_books_refl [simp]: "same_books w w"
  by (simp add: same_books_def)

lemma same_books_trans: "same_books u v \<Longrightarrow> same_books v w \<Longrightarrow> same_books u w"
  by (simp add: same_books_def)

text \<open>A program that keeps the books, and the disconnected requests as well.\<close>

definition keeps :: "('d nca, 'a) state \<Rightarrow> bool" where
  "keeps m \<longleftrightarrow> (\<forall>w. same_books w (snd (run_state m w)) \<and> discon_q (snd (run_state m w)) = discon_q w)"

named_theorems keeps_rules

lemma keepsI: "(\<And>w. same_books w (snd (run_state m w))) \<Longrightarrow> (\<And>w. discon_q (snd (run_state m w)) = discon_q w) \<Longrightarrow> keeps m"
  by (simp add: keeps_def)

lemma keeps_nca_return [keeps_rules]: "keeps (State_Monad.return x)"
  by (simp add: keeps_def)

lemma keeps_nca_bind [keeps_rules]: "keeps m \<Longrightarrow> (\<And>x. keeps (f x)) \<Longrightarrow> keeps (State_Monad.bind m f)"
  unfolding keeps_def by (auto split: prod.splits) (metis same_books_trans snd_conv, metis snd_conv)

lemma keeps_if [keeps_rules]: "keeps m \<Longrightarrow> keeps n \<Longrightarrow> keeps (if b then m else n)"
  by simp

lemma keeps_prod [keeps_rules]: "(\<And>a b. keeps (f a b)) \<Longrightarrow> keeps (case p of (a, b) \<Rightarrow> f a b)"
  by (cases p) simp

lemma keeps_option [keeps_rules]: "keeps m \<Longrightarrow> (\<And>a. keeps (f a)) \<Longrightarrow> keeps (case x of None \<Rightarrow> m | Some a \<Rightarrow> f a)"
  by (cases x) simp_all

lemma keeps_peek [keeps_rules]: "keeps (peek f)"
  by (simp add: keeps_def peek_def)

lemma keeps_io [keeps_rules]: "keeps (io m)"
  by (auto simp: keeps_def io_def same_books_def split: prod.splits)

lemma keeps_xfer: "(\<And>z. x_target (f z) = x_target z) \<Longrightarrow> keeps (xfer x f)"
  by (auto simp: keeps_def xfer_def poke_def same_books_def)

lemma keeps_blk:
  "(\<And>q. link (f q) = link q \<and> xs (f q) = xs q \<and> targ_id (f q) = targ_id q \<and> dr_flag (f q) AND 0x39 = dr_flag q AND 0x39)
    \<Longrightarrow> keeps (blk r f)"
  by (auto simp: keeps_def blk_def poke_def same_books_def)

lemma keeps_poke: "(\<And>w. same_books w (f w) \<and> discon_q (f w) = discon_q w) \<Longrightarrow> keeps (poke f)"
  by (simp add: keeps_def poke_def)

lemma keeps_set_error [keeps_rules]: "keeps (set_error r e)"
  unfolding set_error_def by (intro keeps_rules keeps_xfer) simp

lemma keeps_has_error [keeps_rules]: "keeps (has_error r)"
  unfolding has_error_def by (rule keeps_peek)

lemma keeps_has_flag [keeps_rules]: "keeps (has_flag r b)"
  unfolding has_flag_def by (rule keeps_peek)

lemma keeps_nack [keeps_rules]: "keeps (nack_message H r m)"
  unfolding nack_message_def by (intro keeps_rules keeps_blk) simp

lemma keeps_note_result [keeps_rules]: "keeps (note_result r)"
  unfolding note_result_def by (intro keeps_rules keeps_xfer) simp

lemma keeps_read_byte [keeps_rules]: "keeps (read_byte H ph tmp k)"
  unfolding read_byte_def by (intro keeps_rules)

text \<open>
  Carrying the books past such a program: \<open>nca_at D E c h g\<close> is the invariant with the disconnected requests \<open>D\<close>, the queue
  \<open>E\<close> in the variable, and \<open>c\<close> connected.
\<close>

definition nca_at :: "nat list \<Rightarrow> nat list \<Rightarrow> nat option \<Rightarrow> nat list \<Rightarrow> nat list \<Rightarrow> 'd nca \<Rightarrow> bool" where
  "nca_at D E c h g w \<longleftrightarrow> nca_inv D h g w \<and> discon_q w = E \<and> connected w = c"

text \<open>A predicate that only speaks of the books.\<close>

definition closed :: "('d nca \<Rightarrow> bool) \<Rightarrow> bool" where
  "closed P \<longleftrightarrow> (\<forall>w v. P w \<longrightarrow> same_books w v \<longrightarrow> discon_q v = discon_q w \<longrightarrow> P v)"

lemma closedD: "closed P \<Longrightarrow> P w \<Longrightarrow> same_books w v \<Longrightarrow> discon_q v = discon_q w \<Longrightarrow> P v"
  unfolding closed_def by blast

lemma same_books_connected: "same_books w v \<Longrightarrow> connected v = connected w"
  by (simp add: same_books_def)

lemma closed_at: "closed (nca_at D E c h g)"
  unfolding closed_def nca_at_def using same_books_inv same_books_connected by auto

lemma closed_at_link: "closed (\<lambda>w. nca_at D E c h g w \<and> link (reqs w r) = l)"
  using closed_at unfolding closed_def by (metis same_books_def)

lemma keeps_closed: "closed P \<Longrightarrow> keeps m \<Longrightarrow> preserves P m"
  by (rule tripleI) (metis closedD keeps_def snd_conv)

lemma keeps_at: "keeps m \<Longrightarrow> preserves (nca_at D E c h g) m"
  by (rule keeps_closed [OF closed_at])

lemma keeps_then_closed: "closed P \<Longrightarrow> keeps m \<Longrightarrow> (\<And>x. triple P (f x) Q) \<Longrightarrow> triple P (State_Monad.bind m f) Q"
  by (rule triple_bind [OF keeps_closed])

lemma keeps_then:
  "keeps m \<Longrightarrow> (\<And>x. triple (nca_at D E c h g) (f x) Q) \<Longrightarrow> triple (nca_at D E c h g) (State_Monad.bind m f) Q"
  by (rule keeps_then_closed [OF closed_at])

end
