(* ===== verification/Nca_Books.thy ===== *)
theory Nca_Books
  imports Nca_Keep
begin

text \<open>
  What the steps that move request blocks do to the books, as lemmas on states.
\<close>

subsection \<open>Blocks in one place\<close>

lemma books_distinct: "books D h w \<Longrightarrow> distinct (free_q w @ owned D h w)"
  unfolding books_def using mset_eq_imp_distinct_iff distinct_upt by blast

lemma inv_distinct:
  assumes "nca_inv D h g w"
  shows "distinct (issue_q w)" "distinct D" "distinct h" "distinct (free_q w)"
    "set (free_q w) \<inter> set (owned D h w) = {}" "set (issue_q w) \<inter> set D = {}" "set (issue_q w) \<inter> set (conn w) = {}"
    "set (issue_q w) \<inter> set h = {}" "set D \<inter> set (conn w) = {}" "set D \<inter> set h = {}" "set (conn w) \<inter> set h = {}"
  using books_distinct [of D h w] assms unfolding nca_inv_def owned_def by auto

lemma owned_mono: "set g \<subseteq> set h \<Longrightarrow> set (owned D g w) \<subseteq> set (owned D h w)"
  by (auto simp: owned_def)

lemma owned_cong:
  "issue_q v = issue_q w \<Longrightarrow> connected v = connected w \<Longrightarrow> owned D h v = owned D h w"
  by (simp add: owned_def conn_def)

subsection \<open>Links\<close>

lemma linksI:
  assumes "\<And>r t. r \<in> set (owned D g w) \<Longrightarrow> link (reqs w r) = Some t \<Longrightarrow> t \<in> set (issue_q w)"
    and "\<And>r t. r \<in> set (owned D g w) \<Longrightarrow> link (reqs w r) = Some t \<Longrightarrow> targ_id (reqs w t) = targ_id (reqs w r)"
    and "\<And>r s t. r \<in> set (owned D g w) \<Longrightarrow> s \<in> set (owned D g w) \<Longrightarrow> link (reqs w r) = Some t \<Longrightarrow> link (reqs w s) = Some t \<Longrightarrow> r = s"
    and "\<And>r t. r \<in> set (issue_q w) \<Longrightarrow> link (reqs w r) = Some t \<Longrightarrow> precedes (issue_q w) r t"
  shows "links D g w"
  using assms unfolding links_def by blast

lemma linksD:
  assumes "links D g w" "link (reqs w r) = Some t"
  shows "r \<in> set (owned D g w) \<Longrightarrow> t \<in> set (issue_q w)" "r \<in> set (owned D g w) \<Longrightarrow> targ_id (reqs w t) = targ_id (reqs w r)"
    "r \<in> set (issue_q w) \<Longrightarrow> precedes (issue_q w) r t"
  using assms unfolding links_def by blast+

lemma links_inj:
  "links D g w \<Longrightarrow> link (reqs w r) = Some t \<Longrightarrow> link (reqs w s) = Some t \<Longrightarrow> r \<in> set (owned D g w) \<Longrightarrow> s \<in> set (owned D g w) \<Longrightarrow> r = s"
  unfolding links_def by blast

lemma links_fewer:
  assumes "links D g w" "set (owned D' g' v) \<subseteq> set (owned D g w)" "issue_q v = issue_q w" "reqs v = reqs w"
  shows "links D' g' v"
  using assms linksD [OF assms(1)] links_inj [OF assms(1)] by (intro linksI) (auto simp: subset_iff)

text \<open>Letting a request in hand go its way without its link.\<close>

lemma inv_forget: "nca_inv D h g w \<Longrightarrow> nca_inv D h [] w"
  unfolding nca_inv_def using links_fewer [of D g w D "[]" w] by (auto simp: owned_def)

lemma inv_books: "nca_inv D h g w \<Longrightarrow> books D h w" and inv_links: "nca_inv D h g w \<Longrightarrow> links D g w" and inv_nexus: "nca_inv D h g w \<Longrightarrow> nexus D w"
  by (simp_all add: nca_inv_def)

subsection \<open>A block is taken, and given back\<close>

lemma inv_take:
  assumes i: "nca_inv D h [] w" and f: "free_q w = r # rest"
    and q: "targ_id q < 8" "dr_flag q AND 0x19 = 0"
    and t: "tk = taken w @ (if dr_flag q AND DRIVER_LINKCHK = 0 then [xs q] else [])"
  shows "nca_inv D (r # h) [] (w\<lparr>taken := tk, free_q := rest, reqs := (reqs w)(r := q)\<rparr>)" (is "nca_inv _ _ _ ?v")
proof -
  note b = i [unfolded nca_inv_def books_def]
  have r: "r \<notin> set (owned D h w)" using inv_distinct(5) [OF i] f by auto
  have r0: "r \<notin> set (issue_q w)" "r \<notin> set D" "r \<notin> set (conn w)" "r \<notin> set h" using r by (auto simp: owned_def)
  have o: "owned D (r # h) ?v = issue_q w @ D @ conn w @ r # h" "owned D h ?v = owned D h w" "owned D [] ?v = owned D [] w"
    "conn ?v = conn w" by (simp_all add: owned_def conn_def)
  have same: "filter (real_req ?v) l = filter (real_req w) l" "map (\<lambda>s. xs (reqs ?v s)) l = map (\<lambda>s. xs (reqs w s)) l"
    if "r \<notin> set l" for l using that by (auto intro!: filter_cong simp: real_req_def split: if_splits)
  have same2: "map (\<lambda>s. xs (if s = r then q else reqs w s)) (filter (real_req w) l) = map (\<lambda>s. xs (reqs w s)) (filter (real_req w) l)"
    if "r \<notin> set l" for l using that by auto
  have rr: "real_req ?v r \<longleftrightarrow> dr_flag q AND DRIVER_LINKCHK = 0" by (simp add: real_req_def)
  have hd: "held D (r # h) ?v = held D h w + mset (if dr_flag q AND DRIVER_LINKCHK = 0 then [xs q] else [])"
    unfolding held_def o using r0 by (simp add: owned_def same same2 rr mset_map [symmetric] mset_filter [symmetric] del: mset_map mset_filter)
  have bk: "books D (r # h) ?v"
  proof -
    have "mset tk = mset (taken w) + mset (if dr_flag q AND DRIVER_LINKCHK = 0 then [xs q] else [])" by (simp add: t)
    moreover have "mset (free_q ?v @ owned D (r # h) ?v) = mset (free_q w @ owned D h w)" by (simp only: o) (simp add: f owned_def)
    moreover have "set (owned D (r # h) ?v) = insert r (set (owned D h w))" by (simp only: o) (auto simp: owned_def)
    ultimately show ?thesis using b q unfolding books_def hd by (simp add: no_dma_def ac_simps)
  qed
  have lk: "links D [] ?v"
  proof (rule linksI; (unfold o)?)
    fix s t assume s: "s \<in> set (owned D [] w)" and l: "link (reqs ?v s) = Some t"
    have ne: "s \<noteq> r" using s r0 by (auto simp: owned_def)
    with l linksD(1,2) [OF inv_links [OF i], of s t] s r0 show "t \<in> set (issue_q ?v)" "targ_id (reqs ?v t) = targ_id (reqs ?v s)" by auto
    fix u assume "u \<in> set (owned D [] w)" "link (reqs ?v u) = Some t"
    with l ne s r0 show "s = u" using links_inj [OF inv_links [OF i], of s t u] by (auto simp: owned_def split: if_splits)
  next
    fix s t assume "s \<in> set (issue_q ?v)" "link (reqs ?v s) = Some t"
    with r0 linksD(3) [OF inv_links [OF i], of s t] show "precedes (issue_q ?v) s t" by (auto split: if_splits)
  qed
  have tg: "map (\<lambda>s. targ_id (reqs ?v s)) (D @ conn w) = map (\<lambda>s. targ_id (reqs w s)) (D @ conn w)" using r0 by auto
  have "nexus D ?v" using inv_nexus [OF i] r0 unfolding nexus_def o tg by auto
  with bk lk show ?thesis by (simp add: nca_inv_def)
qed

lemma inv_give:
  assumes i: "nca_inv D (r # h) [] w"
    and t: "map fst rt = map fst (returned w) @ (if real_req w r then [xs (reqs w r)] else [])"
  shows "nca_inv D h [] (w\<lparr>free_q := r # free_q w, returned := rt\<rparr>)" (is "nca_inv _ _ _ ?v")
proof -
  have o: "owned D h ?v = owned D h w" "owned D [] ?v = owned D [] w" "conn ?v = conn w" "real_req ?v = real_req w"
    by (simp_all add: conn_def owned_def real_req_def fun_eq_iff)
  have p: "mset (owned D (r # h) w) = add_mset r (mset (owned D h w))" by (simp add: owned_def)
  have "held D (r # h) w = held D h ?v + mset (if real_req w r then [xs (reqs w r)] else [])"
    by (simp add: held_def o owned_def)
  then have "books D h ?v"
    using i t unfolding nca_inv_def books_def by (auto simp: o p no_dma_def) (auto simp: owned_def)
  then show ?thesis using i by (simp add: nca_inv_def links_def nexus_def o)
qed

subsection \<open>Into the issue queue\<close>

lemma precedes_Cons: "precedes q r t \<Longrightarrow> precedes (s # q) r t"
  unfolding precedes_def by (metis append_Cons)

lemma precedes_head: "t \<in> set q \<Longrightarrow> precedes (r # q) r t"
  unfolding precedes_def by (metis append_Nil)

lemma precedes_append: "precedes q r t \<Longrightarrow> precedes (q @ l) r t"
  unfolding precedes_def by (metis Un_iff append.assoc append_Cons set_append)

lemma precedes_last: "r \<in> set q \<Longrightarrow> precedes (q @ [t]) r t"
  unfolding precedes_def by (metis append.assoc append_Cons in_set_conv_decomp list.set_intros(1) split_list)

lemma precedes_remove1:
  assumes "precedes q r t" "r \<noteq> s" "t \<noteq> s"
  shows "precedes (remove1 s q) r t"
proof -
  obtain us vs where q: "q = us @ r # vs" "t \<in> set vs" using assms(1) unfolding precedes_def by blast
  show ?thesis
  proof (cases "s \<in> set us")
    case True
    then have "remove1 s q = remove1 s us @ r # vs" using q by (simp add: remove1_append)
    then show ?thesis using q(2) unfolding precedes_def by blast
  next
    case False
    then have "remove1 s q = us @ r # remove1 s vs" using q assms(2) by (simp add: remove1_append)
    then show ?thesis using q(2) assms(3) unfolding precedes_def by (metis in_set_remove1)
  qed
qed

lemma books_same_blocks:
  assumes "books D h w" "mset (owned D' h' v) = mset (owned D h w)" "free_q v = free_q w" "taken v = taken w"
    "map fst (returned v) = map fst (returned w)" "xfers v = xfers w" "reqs v = reqs w"
  shows "books D' h' v"
proof -
  have real: "real_req v = real_req w" by (simp add: real_req_def fun_eq_iff assms)
  have "held D' h' v = held D h w"
    unfolding held_def real assms(7) mset_map mset_filter assms(2) ..
  then show ?thesis using assms mset_eq_setD [OF assms(2)] by (simp add: books_def no_dma_def)
qed

lemma inv_to_issue:
  assumes i: "nca_inv D (r # h) [r] w"
  shows "nca_inv D h [] (w\<lparr>issue_q := r # issue_q w\<rparr>)" (is "nca_inv _ _ _ ?v")
proof -
  have c: "conn ?v = conn w" by (simp add: conn_def)
  have b: "books D h ?v"
    by (rule books_same_blocks [of D "r # h" w]) (use i in \<open>auto simp: nca_inv_def owned_def c\<close>)
  have o: "set (owned D [] ?v) = set (owned D [r] w)" by (auto simp: owned_def c)
  note l = inv_links [OF i]
  have "links D [] ?v"
    by (rule linksI; (unfold o)?) (use linksD [OF l] links_inj [OF l] in \<open>auto simp: owned_def intro: precedes_Cons precedes_head\<close>)
  with b i show ?thesis by (simp add: nca_inv_def nexus_def c)
qed

lemma links_add:
  "links D [] w \<Longrightarrow> link (reqs w r) = None \<Longrightarrow> links D [r] w"
  by (rule linksI) (use linksD [of D "[]" w] links_inj [of D "[]" w] in \<open>auto simp: owned_def\<close>)

lemma inv_append:
  assumes i: "nca_inv D (r # h) [] w" and n: "link (reqs w r) = None"
  shows "nca_inv D h [] (w\<lparr>issue_q := issue_q w @ [r]\<rparr>)" (is "nca_inv _ _ _ ?v")
proof -
  have c: "conn ?v = conn w" by (simp add: conn_def)
  have b: "books D h ?v"
    by (rule books_same_blocks [of D "r # h" w]) (use i in \<open>auto simp: nca_inv_def owned_def c\<close>)
  have o: "set (owned D [] ?v) = set (owned D [r] w)" by (auto simp: owned_def c)
  note l = links_add [OF inv_links [OF i] n]
  have "links D [] ?v"
    by (rule linksI; (unfold o)?) (use n linksD [OF l] links_inj [OF l] in \<open>auto simp: owned_def intro: precedes_append\<close>)
  with b i show ?thesis by (simp add: nca_inv_def nexus_def c)
qed

lemma inv_link:
  assumes i: "nca_inv D h [] w" and q: "issue_q w = l @ [r]" and t: "t \<in> set l" "link (reqs w t) = None" "targ_id (reqs w t) = targ_id (reqs w r)"
    and n: "\<forall>s\<in>set (owned D [] w). link (reqs w s) \<noteq> Some r"
  shows "nca_inv D h [] (w\<lparr>reqs := (reqs w)(t := (reqs w t)\<lparr>link := Some r, xcmd := c\<rparr>)\<rparr>)" (is "nca_inv _ _ _ ?v")
proof -
  have cn: "conn ?v = conn w" and o: "owned D h ?v = owned D h w" for h by (simp_all add: conn_def owned_def)
  have rr: "real_req ?v = real_req w" and xs: "xs (reqs ?v s) = xs (reqs w s)" and tg: "targ_id (reqs ?v s) = targ_id (reqs w s)"
    and df: "dr_flag (reqs ?v s) = dr_flag (reqs w s)" for s by (auto simp: real_req_def fun_eq_iff)
  have b: "books D h ?v" using i unfolding nca_inv_def books_def held_def no_dma_def o rr xs tg df by simp
  note l = inv_links [OF i]
  have "links D [] ?v"
    by (rule linksI; (unfold o tg)?) (use n t linksD [OF l] links_inj [OF l] in \<open>auto simp: q precedes_last split: if_splits\<close>)
  then show ?thesis using b i unfolding nca_inv_def nexus_def cn tg by simp
qed

lemma links_dummy:
  assumes "links D [] w" "link (reqs w t) = Some r" "r \<in> set (issue_q w)" "targ_id (reqs w r) = targ_id (reqs w t)"
    and "\<forall>s\<in>set (owned D [] w). link (reqs w s) \<noteq> Some r"
  shows "links D [t] w"
  by (rule linksI) (use assms linksD [OF assms(1)] links_inj [OF assms(1)] in \<open>auto simp: owned_def\<close>)

subsection \<open>Connections\<close>

lemma bit_clear_busy: "bit (b AND NOT (2 ^ t)) n \<longleftrightarrow> bit b n \<and> n \<noteq> t" for b :: byte
  using bit_imp_le_length [of b n] by (auto simp: bit_simps)

lemma bit_set_busy: "t < 8 \<Longrightarrow> bit (b OR 2 ^ t) n \<longleftrightarrow> bit b n \<or> n = t" for b :: byte
  by (auto simp: bit_simps)

lemma targ_bit_pow: "targ_bit w r = 2 ^ targ_id (reqs w r)"
  by (simp add: targ_bit_def)

lemma inv_drop:
  assumes i: "nca_inv D h [] w" and c: "connected w = Some r"
  shows "nca_inv D (r # h) [r] (w\<lparr>busy := busy w AND NOT (targ_bit w r), connected := None\<rparr>)" (is "nca_inv _ _ _ ?v")
proof -
  have cw: "conn w = [r]" and cv: "conn ?v = []" using c by (simp_all add: conn_def)
  have b: "books D (r # h) ?v"
    by (rule books_same_blocks [of D h w]) (use i in \<open>auto simp: nca_inv_def owned_def cw cv\<close>)
  have "links D [r] ?v" by (rule links_fewer [OF inv_links [OF i]]) (auto simp: owned_def cw cv)
  moreover have "nexus D ?v"
    using i unfolding nca_inv_def nexus_def cw cv by (auto simp: bit_clear_busy targ_bit_pow) (metis image_eqI)
  ultimately show ?thesis using b by (simp add: nca_inv_def)
qed

lemma inv_disconnect:
  assumes i: "nca_inv D h [] w" and c: "connected w = Some r"
  shows "nca_inv (r # D) h [] (w\<lparr>connected := None, discon_q := q\<rparr>)" (is "nca_inv _ _ _ ?v")
proof -
  have cw: "conn w = [r]" and cv: "conn ?v = []" using c by (simp_all add: conn_def)
  have b: "books (r # D) h ?v"
    by (rule books_same_blocks [of D h w]) (use i in \<open>auto simp: nca_inv_def owned_def cw cv\<close>)
  have "links (r # D) [] ?v" by (rule links_fewer [OF inv_links [OF i]]) (auto simp: owned_def cw cv)
  moreover have "nexus (r # D) ?v" using i unfolding nca_inv_def nexus_def cw cv by auto
  ultimately show ?thesis using b by (simp add: nca_inv_def)
qed

lemma inv_reselect:
  assumes i: "nca_inv D h [] w" and c: "connected w = None" and r: "r \<in> set D"
  shows "nca_inv (remove1 r D) h [] (w\<lparr>discon_q := q, connected := Some r\<rparr>)" (is "nca_inv _ _ _ ?v")
proof -
  have cw: "conn w = []" and cv: "conn ?v = [r]" using c by (simp_all add: conn_def)
  have m: "mset D = add_mset r (mset (remove1 r D))" using r by simp
  have sd: "set (remove1 r D) = set D - {r}" using inv_distinct(2) [OF i] by (simp add: set_remove1_eq)
  have b: "books (remove1 r D) h ?v"
    by (rule books_same_blocks [of D h w]) (use i m r in \<open>auto simp: nca_inv_def owned_def cw cv\<close>)
  have "links (remove1 r D) [] ?v"
    by (rule links_fewer [OF inv_links [OF i]]) (use r in \<open>auto simp: owned_def cw cv sd\<close>)
  moreover have "nexus (remove1 r D) ?v"
  proof -
    let ?f = "\<lambda>r. targ_id (reqs w r)"
    have "distinct (map ?f D)" and bits: "\<forall>r\<in>set D. bit (busy w) (?f r)" using i unfolding nca_inv_def nexus_def cw by simp_all
    moreover have "mset (map ?f D) = mset (map ?f (remove1 r D @ [r]))" by (subst mset_map, subst m) simp
    ultimately have "distinct (map ?f (remove1 r D @ [r]))" using mset_eq_imp_distinct_iff by blast
    with bits show ?thesis using r sd unfolding nexus_def cv by simp
  qed
  ultimately show ?thesis using b by (simp add: nca_inv_def)
qed

lemma inv_connect:
  assumes i: "nca_inv D [r] [r] w" and c: "connected w = None" and n: "busy w AND targ_bit w r = 0"
  shows "nca_inv D [] [] (w\<lparr>sc_selected := m, connected := Some r, busy := busy w OR targ_bit w r\<rparr>)" (is "nca_inv _ _ _ ?v")
proof -
  have cw: "conn w = []" and cv: "conn ?v = [r]" using c by (simp_all add: conn_def)
  have b: "books D [] ?v"
    by (rule books_same_blocks [of D "[r]" w]) (use i in \<open>auto simp: nca_inv_def owned_def cw cv\<close>)
  have t: "targ_id (reqs w r) < 8" using i by (auto simp: nca_inv_def books_def owned_def)
  have "links D [] ?v" by (rule links_fewer [OF inv_links [OF i]]) (auto simp: owned_def cw cv)
  moreover have "nexus D ?v"
    using i n t unfolding nca_inv_def nexus_def cw cv by (auto simp: bit_set_busy and_mask_bit targ_bit_pow)
  ultimately show ?thesis using b by (simp add: nca_inv_def)
qed

lemma inv_link_complete:
  assumes i: "nca_inv D [] [] w" and c: "connected w = Some r" and l: "link (reqs w r) = Some t"
  shows "t \<in> set (issue_q w)" "nca_inv D [r] [] (w\<lparr>connected := Some t, issue_q := remove1 t (issue_q w)\<rparr>)" (is "nca_inv _ _ _ ?v")
proof -
  have cw: "conn w = [r]" and cv: "conn ?v = [t]" using c by (simp_all add: conn_def)
  note lw = inv_links [OF i]
  have ro: "r \<in> set (owned D [] w)" by (simp add: owned_def cw)
  show t: "t \<in> set (issue_q w)" using linksD(1) [OF lw l ro] .
  have tt: "targ_id (reqs w t) = targ_id (reqs w r)" using linksD(2) [OF lw l ro] .
  note d = inv_distinct [OF i]
  have b: "books D [r] ?v"
    by (rule books_same_blocks [of D "[]" w]) (use i t in \<open>auto simp: nca_inv_def owned_def cw cv\<close>)
  have si: "set (remove1 t (issue_q w)) = set (issue_q w) - {t}" using d(1) by (simp add: set_remove1_eq)
  have so: "set (owned D [] ?v) \<subseteq> set (owned D [] w) - {r}" using t d(7,9) by (auto simp: owned_def cw cv si)
  have uniq: "link (reqs w s) \<noteq> Some t" if "s \<in> set (owned D [] w) - {r}" for s
    using that links_inj [OF lw l _ ro] by blast
  have "links D [] ?v"
  proof (rule linksI)
    fix s u assume s: "s \<in> set (owned D [] ?v)" and u: "link (reqs ?v s) = Some u"
    then have "u \<in> set (issue_q w)" "u \<noteq> t" "targ_id (reqs w u) = targ_id (reqs w s)"
      using so uniq [of s] linksD(1,2) [OF lw, of s u] by auto
    then show "u \<in> set (issue_q ?v)" "targ_id (reqs ?v u) = targ_id (reqs ?v s)" by (auto simp: si)
  next
    fix s s' u assume "s \<in> set (owned D [] ?v)" "s' \<in> set (owned D [] ?v)" "link (reqs ?v s) = Some u" "link (reqs ?v s') = Some u"
    then show "s = s'" using so links_inj [OF lw, of s u s'] by auto
  next
    fix s u assume s: "s \<in> set (issue_q ?v)" and u: "link (reqs ?v s) = Some u"
    have "precedes (issue_q w) s u" using linksD(3) [OF lw, of s u] s u by (auto simp: si)
    moreover have "u \<noteq> t" "s \<noteq> t" using uniq [of s] s u so by (auto simp: si owned_def)
    ultimately show "precedes (issue_q ?v) s u" by (simp add: precedes_remove1)
  qed
  moreover have "nexus D ?v" using i tt unfolding nca_inv_def nexus_def cw cv by simp
  ultimately show "nca_inv D [r] [] ?v" using b by (simp add: nca_inv_def)
qed

text \<open>The first request for a target that is not busy is not the link of another.\<close>

lemma inv_pick:
  assumes i: "nca_inv D [] [] w" and f: "List.find (\<lambda>r. busy w AND targ_bit w r = 0) (issue_q w) = Some r"
  shows "nca_inv D [r] [r] (w\<lparr>issue_q := remove1 r (issue_q w)\<rparr>)" (is "nca_inv _ _ _ ?v")
proof -
  have c: "conn ?v = conn w" by (simp add: conn_def)
  have r: "r \<in> set (issue_q w)" and free: "busy w AND targ_bit w r = 0" using f by (auto simp: find_Some_iff)
  obtain k where k: "k < length (issue_q w)" "issue_q w ! k = r" "\<forall>j<k. busy w AND targ_bit w (issue_q w ! j) \<noteq> 0"
    using f by (auto simp: find_Some_iff)
  note d = inv_distinct [OF i]
  note lw = inv_links [OF i]
  have t: "targ_id (reqs w r) < 8" using i r by (auto simp: nca_inv_def books_def owned_def)
  have si: "set (remove1 r (issue_q w)) = set (issue_q w) - {r}" using d(1) by (simp add: set_remove1_eq)
  have b: "books D [r] ?v"
    by (rule books_same_blocks [of D "[]" w]) (use i r in \<open>auto simp: nca_inv_def owned_def c\<close>)
  have none: "link (reqs w s) \<noteq> Some r" if s: "s \<in> set (owned D [] w)" for s
  proof
    assume l: "link (reqs w s) = Some r"
    have same: "targ_id (reqs w r) = targ_id (reqs w s)" using linksD(2) [OF lw l s] .
    consider "s \<in> set (issue_q w)" | "s \<in> set (D @ conn w)" using s by (auto simp: owned_def)
    then show False
    proof cases
      case 1
      then obtain us vs where q: "issue_q w = us @ s # vs" "r \<in> set vs" using linksD(3) [OF lw l] unfolding precedes_def by blast
      then obtain j where j: "j < length vs" "vs ! j = r" by (auto simp: in_set_conv_nth)
      have "k = length us + Suc j" using d(1) k j q by (metis (no_types, lifting) add_Suc_right length_append length_Cons nat_add_left_cancel_less nth_Cons_Suc nth_append_length_plus nth_eq_iff_index_eq Suc_less_eq)
      then have "length us < k" by simp
      with k(3) have "busy w AND targ_bit w s \<noteq> 0" using q(1) by force
      with free same show False by (simp add: targ_bit_pow)
    next
      case 2
      then have "bit (busy w) (targ_id (reqs w s))" using i by (auto simp: nca_inv_def nexus_def)
      moreover have "\<not> bit (busy w) (targ_id (reqs w r))" using free by (simp add: targ_bit_pow and_mask_bit)
      ultimately show False using same by simp
    qed
  qed
  have so: "set (owned D [r] ?v) = set (owned D [] w)" using r by (auto simp: owned_def si c)
  have "links D [r] ?v"
  proof (rule linksI; (unfold so)?)
    fix s u assume s: "s \<in> set (owned D [] w)" and u: "link (reqs ?v s) = Some u"
    with none [OF s] linksD(1,2) [OF lw, of s u] show "u \<in> set (issue_q ?v)" "targ_id (reqs ?v u) = targ_id (reqs ?v s)" by (auto simp: si)
  next
    fix s s' u assume "s \<in> set (owned D [] w)" "s' \<in> set (owned D [] w)" "link (reqs ?v s) = Some u" "link (reqs ?v s') = Some u"
    then show "s = s'" using links_inj [OF lw, of s u s'] by auto
  next
    fix s u assume s: "s \<in> set (issue_q ?v)" and u: "link (reqs ?v s) = Some u"
    then have "precedes (issue_q w) s u" "u \<noteq> r" "s \<noteq> r" using linksD(3) [OF lw, of s u] none [of s] by (auto simp: si owned_def)
    then show "precedes (issue_q ?v) s u" by (simp add: precedes_remove1)
  qed
  with b i show ?thesis by (simp add: nca_inv_def nexus_def c)
qed

end
