(* ===== verification/Nca_Flow.thy ===== *)
theory Nca_Flow
  imports Nca_Books
begin

text \<open>
  The routines of the Atari driver keep the books on a Falcon, where no request uses DMA, whatever the hardware does.
\<close>

lemma run_peek [run_simps]: "run_state (peek f) w = (f w, w)" and run_poke [run_simps]: "run_state (poke g) w = ((), g w)"
  by (simp_all add: peek_def poke_def)

lemma run_blk [run_simps]: "run_state (blk r f) w = ((), w\<lparr>reqs := (reqs w)(r := f (reqs w r))\<rparr>)"
  and run_xfer [run_simps]: "run_state (xfer x f') w = ((), w\<lparr>xfers := (xfers w)(x := f' (xfers w x))\<rparr>)"
  by (simp_all add: blk_def xfer_def run_simps)

subsection \<open>Taking a request over\<close>

lemma not_linked:
  assumes "nca_inv D (r # h) [] w" "s \<in> set (owned D [] w)"
  shows "link (reqs w s) \<noteq> Some r"
  using linksD(1) [OF inv_links [OF assms(1)] _ assms(2)] inv_distinct(8) [OF assms(1)] by auto

definition queued :: "nat list \<Rightarrow> nat \<Rightarrow> nat option \<Rightarrow> 'd nca \<Rightarrow> bool" where
  "queued D r l w \<longleftrightarrow> r \<in> set (issue_q w) \<and> (l = None \<longrightarrow> (\<forall>s\<in>set (owned D [] w). link (reqs w s) \<noteq> Some r))"

lemma enqueue_at:
  "triple (\<lambda>w. nca_at D E c (r # h) [] w \<and> link (reqs w r) = None) (nca_enqueue r) (\<lambda>l w. nca_at D E c h [] w \<and> queued D r l w)"
proof (rule tripleI)
  fix w l w'
  assume "nca_at D E c (r # h) [] w \<and> link (reqs w r) = None" and run: "run_state (nca_enqueue r) w = (l, w')"
  then have i: "nca_inv D (r # h) [] w" and ec: "discon_q w = E" "connected w = c" and n: "link (reqs w r) = None"
    by (auto simp: nca_at_def)
  have f: "\<forall>s\<in>set (owned D [] w). link (reqs w s) \<noteq> Some r" using not_linked [OF i] by blast
  show "nca_at D E c h [] w' \<and> queued D r l w'"
  proof (cases "issue_q w = [] \<or> xcmd (reqs w r) ! 0 = SCSI_REQUEST_SENSE")
    case True
    then have w': "w' = w\<lparr>issue_q := r # issue_q w\<rparr>" and l: "l = None" using run by (auto simp: nca_enqueue_def run_simps)
    have "nca_inv D (r # h) [r] w" using i links_add [OF inv_links [OF i] n] by (simp add: nca_inv_def)
    from inv_to_issue [OF this] show ?thesis using ec f n by (auto simp: w' l nca_at_def queued_def owned_def conn_def)
  next
    case False
    let ?v = "w\<lparr>issue_q := issue_q w @ [r]\<rparr>"
    have iv: "nca_inv D h [] ?v" by (rule inv_append [OF i n])
    have fv: "\<forall>s\<in>set (owned D [] ?v). link (reqs ?v s) \<noteq> Some r" using f n by (auto simp: owned_def conn_def)
    consider (plain) "w' = ?v" "l = find_link w r"
      | (linked) t k where "find_link w r = Some t" "l = Some t" "w' = ?v\<lparr>reqs := (reqs ?v)(t := (reqs ?v t)\<lparr>link := Some r, xcmd := or_cmd k 1 (xcmd (reqs ?v t))\<rparr>)\<rparr>"
    proof -
      have eq: "run_state (nca_enqueue r) w = (find_link w r, case find_link w r of None \<Rightarrow> ?v | Some t \<Rightarrow> snd (run_state (link_to t r) ?v))"
        using False by (cases "find_link w r") (simp_all add: nca_enqueue_def run_simps split: prod.split)
      show thesis
      proof (cases "find_link w r = None \<or> \<not> bit (ncr_will_link w) (targ_id (reqs w r))")
        case True
        with eq run show thesis by (intro plain) (auto simp: link_to_def run_simps split: option.splits)
      next
        case False
        then obtain t where t: "find_link w r = Some t" by auto
        with False eq run have "(l, w') = (Some t, snd (run_state (link_to t r) ?v))" by simp
        with False show thesis by (intro linked [OF t, of "length (x_cmd (xfers w (xs (reqs w t)))) - 1"]) (simp_all add: link_to_def run_simps)
      qed
    qed
    then show ?thesis
    proof cases
      case plain
      with iv fv ec show ?thesis by (auto simp: nca_at_def queued_def)
    next
      case linked
      have t: "t \<in> set (issue_q w)" "link (reqs ?v t) = None" "targ_id (reqs ?v t) = targ_id (reqs ?v r)"
        using linked(1) by (auto simp: find_link_def find_Some_iff)
      have "nca_inv D h [] w'" unfolding linked(3) by (rule inv_link [OF iv _ t fv]) simp
      then show ?thesis using ec by (simp add: linked(2,3) nca_at_def queued_def)
    qed
  qed
qed

lemma link_check_at: "triple (\<lambda>w. nca_at D E c h [] w \<and> queued D r None w) (link_check H r) (\<lambda>_. nca_at D E c h [])"
proof (rule tripleI)
  fix w u w'
  assume "nca_at D E c h [] w \<and> queued D r None w" and run: "run_state (link_check H r) w = (u, w')"
  then have i: "nca_inv D h [] w" and ec: "discon_q w = E" "connected w = c" and q: "queued D r None w"
    by (auto simp: nca_at_def)
  show "nca_at D E c h [] w'"
  proof (cases "w' = w")
    case True
    then show ?thesis using i ec by (simp add: nca_at_def)
  next
    case False
    define q0 where "q0 = reqs w r"
    from run False obtain t rest where f: "free_q w = t # rest" and
      w': "w' = w\<lparr>free_q := rest, reqs := (reqs w)(t := dummy_req H (sense (xfers w (xs q0))) r q0 (reqs w t)),
        ncr_test_link := ncr_test_link w OR push_bit (targ_id q0) 1, issue_q := t # issue_q w\<rparr>"
      by (auto simp: link_check_def run_simps q0_def split: list.splits if_splits)
    define d where "d = dummy_req H (sense (xfers w (xs q0))) r q0 (reqs w t)"
    let ?v = "w\<lparr>taken := taken w, free_q := rest, reqs := (reqs w)(t := d)\<rparr>"
    have r: "r \<in> set (issue_q w)" using q by (simp add: queued_def)
    have "r \<in> set (owned D h w)" using r by (simp add: owned_def)
    then have ne: "r \<noteq> t" and tr: "targ_id q0 < 8" using inv_distinct(5) [OF i] f i by (auto simp: nca_inv_def books_def q0_def)
    have fl: "dr_flag q0 AND 0x19 = 0" using i by (simp add: nca_inv_def books_def no_dma_def q0_def)
    have d: "targ_id d = targ_id q0" "link d = Some r" "dr_flag d = dr_flag q0 AND NOT DRIVER_DMAOK OR DRIVER_LINKCHK"
      by (simp_all add: d_def dummy_req_def)
    have lc: "dr_flag d AND DRIVER_LINKCHK \<noteq> 0" unfolding d(3) by (simp add: byte_masks bit_simps)
    have dz: "dr_flag d AND 0x19 = 0"
      using fl unfolding d(3) byte_eq_iff_bits by (auto simp: bit_simps)
    have iv: "nca_inv D (t # h) [] ?v" by (rule inv_take [OF i f]) (use d tr lc dz in simp_all)
    have "links D [t] ?v"
      by (rule links_dummy [OF inv_links [OF iv], of _ r])
        (use r ne d not_linked [OF iv] q inv_distinct(5) [OF i] f in \<open>auto simp: q0_def queued_def owned_def conn_def\<close>)
    with iv have "nca_inv D (t # h) [t] ?v" by (simp add: nca_inv_def)
    from inv_to_issue [OF this] have "nca_inv D h [] (?v\<lparr>issue_q := t # issue_q w\<rparr>)" by simp
    then have "nca_inv D h [] w'"
      by (rule same_books_inv [rotated]) (simp add: same_books_def w' d_def)
    then show ?thesis using ec by (simp add: nca_at_def w')
  qed
qed

lemma inv_shortage:
  assumes i: "nca_inv D h [] w" and t: "map fst rt = map fst (returned w) @ [x]" and z: "\<And>y. x_target (xf y) = x_target (xfers w y)"
  shows "nca_inv D h [] (w\<lparr>taken := taken w @ [x], xfers := xf, returned := rt\<rparr>)" (is "nca_inv _ _ _ ?v")
proof -
  have o: "owned D h ?v = owned D h w" "owned D [] ?v = owned D [] w" "conn ?v = conn w" "real_req ?v = real_req w"
    by (simp_all add: conn_def owned_def real_req_def fun_eq_iff)
  have "books D h ?v" using i t z unfolding nca_inv_def books_def held_def o by (simp add: no_dma_def flip: mset_map)
  then show ?thesis using i by (simp add: nca_inv_def links_def nexus_def o)
qed

lemma submit_at:
  assumes F: "machineid H = ATARI_FALCON"
  shows "triple (nca_at D E c h []) (submit H x) (\<lambda>_. nca_at D E c h [])"
proof (rule tripleI)
  fix w b w' assume a: "nca_at D E c h [] w" and run: "run_state (submit H x) w = (b, w')"
  then have i: "nca_inv D h [] w" and ec: "discon_q w = E" "connected w = c" by (auto simp: nca_at_def)
  show "nca_at D E c h [] w'"
  proof (cases "free_q w")
    case Nil
    then have w': "w' = w\<lparr>taken := taken w @ [x], xfers := (xfers w)(x := (xfers w x)\<lparr>x_error := XS_RESOURCE_SHORTAGE\<rparr>),
        returned := returned w @ [(x, XS_RESOURCE_SHORTAGE)]\<rparr>"
      using run by (simp add: submit_def log_done_def run_simps)
    show ?thesis using inv_shortage [OF i] ec by (simp add: w' nca_at_def)
  next
    case (Cons r rest)
    let ?v = "w\<lparr>taken := taken w @ [x], free_q := rest, reqs := (reqs w)(r := init_req (xfers w x) x (reqs w r))\<rparr>"
    let ?tail = "do { l \<leftarrow> nca_enqueue r; (if l = None then link_check H r else State_Monad.return ()); State_Monad.return True }"
    have run1: "run_state (submit H x) w = run_state ?tail ?v"
      using F by (simp add: submit_def Cons run_simps scsi_dmaok_def)
    have "x_target (xfers w x) < 8" using i by (simp add: nca_inv_def books_def)
    then have "nca_inv D (r # h) [] ?v" by (intro inv_take [OF i Cons]) (auto simp: init_req_def)
    then have pre: "nca_at D E c (r # h) [] ?v \<and> link (reqs ?v r) = None" using ec by (simp add: nca_at_def init_req_def)
    have tail: "triple (\<lambda>w. nca_at D E c (r # h) [] w \<and> link (reqs w r) = None) ?tail (\<lambda>_. nca_at D E c h [])"
      by (rule triple_bind [OF enqueue_at], rule triple_bind [where R = "\<lambda>_. nca_at D E c h []"], rule triple_if)
        (auto intro: triple_pre [OF link_check_at] triple_return)
    show ?thesis by (rule tripleD [OF tail _ run [unfolded run1]]) (use pre in simp)
  qed
qed

lemma submit_all_at: "machineid H = ATARI_FALCON \<Longrightarrow> preserves (nca_at D E c h []) (submit_all H l)"
  by (induction l) (auto intro: triple_return triple_bind [OF submit_at])

subsection \<open>Giving a request back\<close>

lemma keeps_arrivals: "keeps (poke (\<lambda>w. w\<lparr>arrivals := a\<rparr>))"
  by (rule keeps_poke) (simp add: same_books_def)

lemma keeps_strayed: "keeps (poke (\<lambda>w. w\<lparr>arrivals := a, strayed := f w\<rparr>))"
  by (rule keeps_poke) (simp add: same_books_def)

text \<open>What the mid-layer hands over once the transfer is noted as returned.\<close>

lemma hand_over_at:
  assumes "machineid H = ATARI_FALCON"
  shows "preserves (nca_at D E c h []) (hand_over H)"
  unfolding hand_over_def
  by (intro keeps_then keeps_peek)
    (auto intro!: triple_return keeps_then keeps_strayed keeps_at [OF keeps_strayed] submit_all_at [OF assms] split: list.split)

lemma finish_at:
  assumes F: "machineid H = ATARI_FALCON"
  shows "triple (nca_at D E c (r # h) []) (finish_req H r) (\<lambda>_. nca_at D E c h [])"
proof (rule tripleI)
  fix w u w' assume a: "nca_at D E c (r # h) [] w" and run: "run_state (finish_req H r) w = (u, w')"
  then have i: "nca_inv D (r # h) [] w" and ec: "discon_q w = E" "connected w = c" by (auto simp: nca_at_def)
  have "dr_flag (reqs w r) AND 0x19 = 0" using i by (simp add: nca_inv_def books_def no_dma_def)
  then have nb: "dr_flag (reqs w r) AND DRIVER_BOUNCING = 0" using and_sub [of "dr_flag (reqs w r)" "0x19" 0 "0x10"] by simp
  show "nca_at D E c h [] w'"
  proof (cases "real_req w r")
    case True
    let ?v = "w\<lparr>free_q := r # free_q w, returned := returned w @ [(xs (reqs w r), x_error (xfers w (xs (reqs w r))))]\<rparr>"
    have "nca_at D E c h [] ?v" using inv_give [OF i] True ec by (simp add: nca_at_def)
    moreover have "run_state (hand_over H) ?v = (u, w')"
      using run nb True by (simp add: finish_req_def scsipi_done_def log_done_def run_simps real_req_def)
    ultimately show ?thesis using tripleD [OF hand_over_at [OF F]] by blast
  next
    case False
    then have "w' = w\<lparr>free_q := r # free_q w\<rparr>"
      using run nb by (simp add: finish_req_def run_simps real_req_def)
    then have "w' = w\<lparr>free_q := r # free_q w, returned := returned w\<rparr>" by (cases w) simp
    then show ?thesis using inv_give [OF i, of "returned w"] False ec by (simp add: nca_at_def)
  qed
qed

subsection \<open>The bus reset\<close>

lemma peek_then: "(\<And>x. triple (\<lambda>w. P w \<and> f w = x) (g x) Q) \<Longrightarrow> triple P (State_Monad.bind (peek f) g) Q"
  by (auto simp: triple_def run_simps split: prod.splits)

lemma at_not_in_dma: "nca_at D E c h g w \<Longrightarrow> \<not> in_dma w"
proof -
  assume "nca_at D E c h g w"
  then have "\<forall>r. dr_flag (reqs w r) AND 0x19 = 0" by (simp add: nca_at_def nca_inv_def books_def no_dma_def)
  then have "\<forall>r. dr_flag (reqs w r) AND DRIVER_IN_DMA = 0" using and_sub [of _ "0x19" 0 "0x01"] by simp
  then show ?thesis by (simp add: in_dma_def split: option.splits)
qed

lemma inv_give_up:
  assumes i: "nca_inv (r # D) h [] w"
  shows "nca_inv D (r # h) [] (w\<lparr>busy := busy w AND NOT (targ_bit w r)\<rparr>)" (is "nca_inv _ _ _ ?v")
proof -
  have c: "conn ?v = conn w" by (simp add: conn_def)
  have b: "books D (r # h) ?v"
    by (rule books_same_blocks [OF inv_books [OF i]]) (auto simp: owned_def c)
  have l: "links D [] ?v" by (rule links_fewer [OF inv_links [OF i]]) (auto simp: owned_def c)
  have "nexus D ?v"
    using inv_nexus [OF i] unfolding nexus_def c by (simp add: bit_clear_busy targ_bit_pow) (metis UnE image_eqI)
  with b l show ?thesis by (simp add: nca_inv_def)
qed

lemma give_up_at:
  assumes "machineid H = ATARI_FALCON"
  shows "triple (nca_at l E c h []) (give_up H l) (\<lambda>_. nca_at [] E c h [])"
proof (induction l)
  case Nil
  show ?case by (auto intro: triple_return)
next
  case (Cons r l)
  have "triple (nca_at (r # l) E c h []) (nca_clear_busy r) (\<lambda>_. nca_at l E c (r # h) [])"
    by (rule tripleI) (auto simp: nca_clear_busy_def run_simps nca_at_def intro: inv_give_up)
  from triple_bind [OF this triple_bind [OF finish_at [OF assms] Cons]] show ?case
    by (simp add: keeps_then keeps_set_error)
qed

lemma reset_current_at: "preserves (nca_at D E c h g) (reset_current H)"
proof (rule tripleI)
  fix w u w' assume a: "nca_at D E c h g w" and run: "run_state (reset_current H) w = (u, w')"
  from at_not_in_dma [OF a] run have "w' = w" by (simp add: reset_current_def run_simps)
  with a show "nca_at D E c h g w'" by simp
qed

lemma clear_discon_at: "triple (nca_at [] E c h []) (poke (\<lambda>w. w\<lparr>discon_q := []\<rparr>)) (\<lambda>_. nca_at [] [] c h [])"
proof (rule tripleI)
  fix w :: "'a nca" and u w' assume a: "nca_at [] E c h [] w" and "run_state (poke (\<lambda>w. w\<lparr>discon_q := []\<rparr>)) w = (u, w')"
  then have w': "w' = w\<lparr>discon_q := []\<rparr>" by (simp add: run_simps)
  have "same_books w w'" by (simp add: same_books_def w')
  then show "nca_at [] [] c h [] w'" using a same_books_inv by (auto simp: nca_at_def w')
qed

lemma scsi_reset_at:
  assumes F: "machineid H = ATARI_FALCON"
  shows "triple (nca_at D D c h []) (scsi_reset H) (\<lambda>_. nca_at [] [] c h [])"
proof -
  have rest: "triple (nca_at l E c h []) (do { give_up H l; poke (\<lambda>w. w\<lparr>discon_q := []\<rparr>); reset_current H; io (nca_delay H 100000) })
      (\<lambda>_. nca_at [] [] c h [])" for l E
    by (intro triple_bind [OF give_up_at [OF F]] triple_bind [OF clear_discon_at] triple_bind [OF reset_current_at] keeps_at keeps_io)
  show ?thesis
    unfolding scsi_reset_def
    by (intro keeps_then keeps_io peek_then, rule triple_pre [OF rest]) (auto simp: nca_at_def)
qed

end
