(* ===== verification/Nca_Steps.thy ===== *)
theory Nca_Steps
  imports Nca_Flow
begin

text \<open>
  The phases, selection and reselection of the Atari driver keep the books on a Falcon, and the kernel does not panic.
\<close>

definition nca_ok :: "'d nca \<Rightarrow> bool" where "nca_ok w \<longleftrightarrow> nca_inv (discon_q w) [] [] w"

lemma at_ok: "nca_at D D c [] [] w \<Longrightarrow> nca_ok w"
  by (simp add: nca_at_def nca_ok_def)

lemma ok_at: "nca_ok w \<Longrightarrow> nca_at (discon_q w) (discon_q w) (connected w) [] [] w"
  by (simp add: nca_at_def nca_ok_def)

text \<open>A phase goes on or is over, with the books in order.\<close>

definition settled :: "nca_next \<Rightarrow> 'd nca \<Rightarrow> bool" where "settled x w \<longleftrightarrow> x \<noteq> Panic \<and> nca_ok w"

lemma return_settled: "x \<noteq> Panic \<Longrightarrow> triple (nca_at D D c [] []) (State_Monad.return x) settled"
  by (auto intro!: triple_return simp: settled_def at_ok)

subsection \<open>Automatic sense\<close>

lemma flags_or_sense:
  fixes f :: byte
  assumes "f AND 0x19 = 0"
  shows "((f OR DRIVER_AUTOSEN) AND NOT DRIVER_DMAOK) AND 0x39 = f AND 0x39"
  using assms unfolding byte_eq_iff_bits by (auto simp: bit_simps)

text \<open>Setting a block up for the sense command, when it does not use DMA.\<close>

lemma sense_blk:
  assumes "\<And>q. link (f q) = link q \<and> xs (f q) = xs q \<and> targ_id (f q) = targ_id q"
    and "\<And>q. dr_flag (f q) = (dr_flag q OR DRIVER_AUTOSEN) AND NOT DRIVER_DMAOK"
    and "closed P" "\<And>w. P w \<Longrightarrow> no_dma w"
  shows "preserves P (blk r f)"
proof (rule tripleI)
  fix w u w' assume a: "P w" and "run_state (blk r f) w = (u, w')"
  then have w': "w' = w\<lparr>reqs := (reqs w)(r := f (reqs w r))\<rparr>" by (simp add: run_simps)
  have "dr_flag (reqs w r) AND 0x19 = 0" using assms(4) [OF a] by (simp add: no_dma_def)
  then have "dr_flag (f (reqs w r)) AND 0x39 = dr_flag (reqs w r) AND 0x39" unfolding assms(2) by (rule flags_or_sense)
  then have "same_books w w'" using assms(1) by (simp add: same_books_def w')
  then show "P w'" using closedD [OF assms(3) a] by (simp add: w')
qed

lemma at_no_dma: "nca_at D E c h g w \<Longrightarrow> no_dma w"
  by (simp add: nca_at_def nca_inv_def books_def)

lemma sense_blk_at:
  assumes "\<And>q. link (f q) = link q \<and> xs (f q) = xs q \<and> targ_id (f q) = targ_id q"
    and "\<And>q. dr_flag (f q) = (dr_flag q OR DRIVER_AUTOSEN) AND NOT DRIVER_DMAOK"
  shows "preserves (nca_at D E c h g) (blk r f)"
  by (rule sense_blk [OF assms closed_at]) (rule at_no_dma)

lemma will_link_keeps: "keeps (poke (\<lambda>w. w\<lparr>ncr_will_link := f w\<rparr>))"
  by (rule keeps_poke) (simp add: same_books_def)

lemma to_issue_at: "triple (nca_at D E c (r # h) [r]) (poke (\<lambda>w. w\<lparr>issue_q := r # issue_q w\<rparr>)) (\<lambda>_. nca_at D E c h [])"
  by (rule tripleI) (auto simp: run_simps nca_at_def intro: inv_to_issue)

lemma forget_at: "nca_at D E c h g w \<Longrightarrow> nca_at D E c h [] w"
  by (auto simp: nca_at_def intro: inv_forget)

text \<open>The part that changes the block.\<close>

lemma keeps_plain_sense:
  "keeps (if status q AND SCSMASK = SCSBUSY then set_error r XS_BUSY else State_Monad.return ())"
  "keeps (blk r (status_update (\<lambda>_. SCSCHKC)))"
  "keeps (if b then poke (\<lambda>w. w\<lparr>ncr_will_link := f w\<rparr>) else State_Monad.return ())"
  by (auto intro!: keeps_rules keeps_blk will_link_keeps)

lemma autosense_linked:
  assumes "closed P" "\<And>w. P w \<Longrightarrow> no_dma w"
  shows "preserves P (check_autosense H r True)"
  unfolding check_autosense_def
  by (intro keeps_then_closed [OF assms(1)] keeps_peek triple_if keeps_plain_sense keeps_set_error triple_return
      triple_bind [OF sense_blk [OF _ _ assms]])
    (auto intro!: triple_return keeps_then_closed [OF assms(1)] keeps_rules)

lemma autosense_at:
  "triple (nca_at D E c (r # h) [r]) (check_autosense H r False) (\<lambda>b. if b then nca_at D E c h [] else nca_at D E c (r # h) [])"
proof -
  have t: "triple (nca_at D E c (r # h) [r]) (do { blk r f; (if False then State_Monad.return () else poke (\<lambda>w. w\<lparr>issue_q := r # issue_q w\<rparr>));
      State_Monad.return True }) (\<lambda>b. if b then nca_at D E c h [] else nca_at D E c (r # h) [])"
    if "\<And>q. link (f q) = link q \<and> xs (f q) = xs q \<and> targ_id (f q) = targ_id q"
      "\<And>q. dr_flag (f q) = (dr_flag q OR DRIVER_AUTOSEN) AND NOT DRIVER_DMAOK" for f
    unfolding if_False
    by (rule triple_bind [OF sense_blk_at [OF that] triple_bind [OF to_issue_at]]) (auto intro: triple_return)
  show ?thesis
    unfolding check_autosense_def
    by (intro keeps_then keeps_peek triple_if keeps_plain_sense keeps_set_error t) (auto intro!: triple_return forget_at)
qed

subsection \<open>Messages\<close>

lemma drop_at: "triple (nca_at D E (Some r) h []) (drop_connected r) (\<lambda>_. nca_at D E None (r # h) [r])"
  by (rule tripleI) (auto simp: drop_connected_def nca_clear_busy_def run_simps nca_at_def intro: inv_drop)

lemma finish_forget_at:
  "machineid H = ATARI_FALCON \<Longrightarrow> triple (nca_at D E c (r # h) g) (finish_req H r) (\<lambda>_. nca_at D E c h [])"
  by (rule triple_pre [OF finish_at]) (auto intro: forget_at)

lemma cmd_complete_at:
  assumes F: "machineid H = ATARI_FALCON"
  shows "triple (nca_at D D (Some r) [] []) (cmd_complete H r) settled"
  unfolding cmd_complete_def
proof (rule keeps_then [OF keeps_io], rule triple_bind [OF drop_at], rule keeps_then [OF keeps_note_result], rule triple_bind [OF autosense_at])
  fix b
  show "triple (if b then nca_at D D None [] [] else nca_at D D None [r] []) (do {
      (if b then State_Monad.return () else finish_req H r); State_Monad.return Over }) settled"
    by (cases b) (auto intro!: return_settled triple_bind [OF finish_at [OF F]])
qed

lemma connect_link_at:
  assumes F: "machineid H = ATARI_FALCON"
  shows "triple (\<lambda>w. nca_at D D (Some r) [] [] w \<and> link (reqs w r) = Some t) (do {
      poke (\<lambda>w. w\<lparr>connected := Some t\<rparr>);
      found \<leftarrow> peek (\<lambda>w. t \<in> set (issue_q w));
      if \<not> found then State_Monad.return Panic
      else do {
        poke (\<lambda>w. w\<lparr>issue_q := remove1 t (issue_q w)\<rparr>);
        finish_req H r;
        State_Monad.return Again } }) settled" (is "triple ?P ?m _")
proof (rule tripleI)
  fix w x w' assume p: "?P w" and run: "run_state ?m w = (x, w')"
  then have i: "nca_inv D [] [] w" and e: "discon_q w = D" and c: "connected w = Some r" and l: "link (reqs w r) = Some t"
    by (auto simp: nca_at_def)
  let ?v = "w\<lparr>connected := Some t, issue_q := remove1 t (issue_q w)\<rparr>"
  have v: "nca_at D D (Some t) [r] [] ?v" using inv_link_complete(2) [OF i c l] e by (simp add: nca_at_def)
  have "run_state (do { finish_req H r; State_Monad.return Again }) ?v = (x, w')"
    using run inv_link_complete(1) [OF i c l] by (simp add: run_simps)
  moreover have "triple (nca_at D D (Some t) [r] []) (do { finish_req H r; State_Monad.return Again }) settled"
    by (rule triple_bind [OF finish_at [OF F]]) (simp add: return_settled)
  ultimately show "settled x w'" using tripleD v by metis
qed

lemma link_complete_at:
  assumes F: "machineid H = ATARI_FALCON"
  shows "triple (nca_at D D (Some r) [] []) (link_complete H r) settled"
  unfolding link_complete_def
proof (rule peek_then)
  fix l
  show "triple (\<lambda>w. nca_at D D (Some r) [] [] w \<and> link (reqs w r) = l) (case l of
      None \<Rightarrow> do { nack_message H r MSG_ABORT; State_Monad.return Again }
    | Some t \<Rightarrow> do {
        io (ack_message H);
        note_result r;
        sense_now \<leftarrow> check_autosense H r True;
        if sense_now then State_Monad.return Again
        else do {
          poke (\<lambda>w. w\<lparr>connected := Some t\<rparr>);
          found \<leftarrow> peek (\<lambda>w. t \<in> set (issue_q w));
          if \<not> found then State_Monad.return Panic
          else do { poke (\<lambda>w. w\<lparr>issue_q := remove1 t (issue_q w)\<rparr>); finish_req H r; State_Monad.return Again } } }) settled"
    (is "triple ?P _ _")
  proof (cases l)
    case None
    then show ?thesis
      by (auto intro!: triple_pre [OF keeps_then [OF keeps_nack return_settled]])
  next
    case (Some t)
    have "triple ?P (State_Monad.return Again) settled" by (rule triple_pre [OF return_settled]) auto
    then show ?thesis
      unfolding Some option.case
      by (intro keeps_then_closed [OF closed_at_link] keeps_io keeps_note_result triple_bind [OF autosense_linked [OF closed_at_link]] triple_if
          connect_link_at [OF F]) (auto simp: Some dest: at_no_dma)
  qed
qed

lemma disconnect_at:
  "triple (nca_at D D (Some r) [] []) (poke (\<lambda>w. w\<lparr>connected := None, discon_q := r # discon_q w\<rparr>)) (\<lambda>_. nca_at (r # D) (r # D) None [] [])"
  by (rule tripleI) (auto simp: run_simps nca_at_def intro: inv_disconnect)

lemma handle_message_at:
  assumes F: "machineid H = ATARI_FALCON"
  shows "triple (nca_at D D (Some r) [] []) (handle_message H r msg) settled"
  unfolding handle_message_def
  by (intro triple_if link_complete_at [OF F] cmd_complete_at [OF F] keeps_then keeps_io keeps_nack triple_bind [OF disconnect_at] return_settled)
    simp_all

subsection \<open>Information transfer\<close>

lemma end_req_at:
  assumes F: "machineid H = ATARI_FALCON"
  shows "triple (nca_at D D (Some r) h []) (end_req H r e) (\<lambda>_. nca_at D D None h [])"
  unfolding end_req_def
  by (rule triple_bind [OF drop_at], rule keeps_then [OF keeps_set_error], rule finish_forget_at [OF F])

lemma reset_over_at:
  assumes F: "machineid H = ATARI_FALCON"
  shows "triple (nca_at D D (Some r) [] []) (do { end_req H r e; (if b then scsi_reset H else State_Monad.return ()); State_Monad.return Over }) settled"
proof (cases b)
  case True
  show ?thesis unfolding if_P [OF True]
    by (rule triple_bind [OF end_req_at [OF F]], rule triple_bind [OF scsi_reset_at [OF F]]) (simp add: return_settled)
next
  case False
  show ?thesis unfolding if_not_P [OF False]
    by (rule triple_bind [OF end_req_at [OF F]], rule keeps_then [OF keeps_nca_return]) (simp add: return_settled)
qed

lemma msg_out_at:
  assumes F: "machineid H = ATARI_FALCON"
  shows "triple (nca_at D D (Some r) [] []) (msg_out_phase H r) settled"
  unfolding msg_out_phase_def
proof (rule keeps_then [OF keeps_peek], rule keeps_then [OF keeps_io], rule triple_if)
  show "triple (nca_at D D (Some r) [] []) (do {
       drop_connected r;
       err \<leftarrow> has_error r;
       (if err then State_Monad.return () else set_error r XS_DRIVER_STUFFUP);
       finish_req H r;
       State_Monad.return Over }) settled"
    by (rule triple_bind [OF drop_at], rule keeps_then [OF keeps_has_error], rule keeps_then,
        (rule keeps_if [OF keeps_nca_return keeps_set_error]), rule triple_bind [OF finish_forget_at [OF F]]) (simp add: return_settled)
qed (auto intro!: keeps_then keeps_blk return_settled)

lemma keeps_fill_bounce: "keeps (fill_bounce H r)"
  unfolding fill_bounce_def by (intro keeps_rules)

lemma at_no_dmaok: "nca_at D E c h g w \<Longrightarrow> dr_flag (reqs w r) AND DRIVER_DMAOK = 0"
  using at_no_dma [of D E c h g w] and_sub [of "dr_flag (reqs w r)" "0x19" 0 "0x08"] by (simp add: no_dma_def)

lemma run_settled: "triple P m settled \<Longrightarrow> P w \<Longrightarrow> run m w = Some (x, w') \<Longrightarrow> settled x w'"
  by (auto simp: run_def dest: tripleD)

lemma data_phase_at:
  assumes a: "nca_at D D c [] [] w" and ret: "nca_data_phase H r ph w = Some (x, w')"
  shows "settled x w'"
proof (cases "xdata_len (reqs w r) \<le> 0")
  case True
  let ?m = "do {
        blk r (msgout_update (\<lambda>_. MSG_ABORT));
        io (SET_5380_REG H NCR5380_ICOM SC_A_ATN);
        _ \<leftarrow> io (reach_msg_out H 100);
        State_Monad.return Again }"
  have m: "triple (nca_at D D c [] []) ?m settled"
    by (intro keeps_then keeps_io keeps_blk return_settled) simp_all
  from ret True have "run ?m w = Some (x, w')" by (simp add: nca_data_phase_def Let_def)
  then show ?thesis by (rule run_settled [OF m a])
next
  case False
  let ?m = "do {
        (_, _, cnt, _) \<leftarrow> io (transfer_pio H ph (Mem (xdata_ptr (reqs w r))) (unat (word_of_int (xdata_len (reqs w r)) :: u32)) False);
        blk r (\<lambda>q. q\<lparr>xdata_ptr := xdata_ptr q + word_of_int (xdata_len q - int cnt), xdata_len := int cnt\<rparr>);
        State_Monad.return Again }"
  have m: "triple (nca_at D D c [] []) ?m settled"
    by (intro keeps_then keeps_io triple_prod keeps_blk return_settled) simp_all
  from ret False at_no_dmaok [OF a] have "run ?m w = Some (x, w')" by (simp add: nca_data_phase_def Let_def)
  then show ?thesis by (rule run_settled [OF m a])
qed

lemma phase_step_at:
  assumes F: "machineid H = ATARI_FALCON" and a: "nca_at D D (Some r) [] [] w" and ret: "phase_step H r ph tmp w = Some (x, w')"
  shows "settled x w'"
proof -
  have out: "ph = PH_DATAOUT \<Longrightarrow> settled x w'"
  proof -
    assume "ph = PH_DATAOUT"
    with ret have d: "nca_data_phase H r ph (snd (run_state (fill_bounce H r) w)) = Some (x, w')"
      by (simp add: phase_step_def run_def split: prod.splits)
    have "nca_at D D (Some r) [] [] (snd (run_state (fill_bounce H r) w))"
      using tripleD [OF keeps_at [OF keeps_fill_bounce] a] by (metis prod.collapse)
    from data_phase_at [OF this d] show ?thesis .
  qed
  have msgin: "triple (nca_at D D (Some r) [] []) (do {
        msg \<leftarrow> read_byte H PH_MSGIN tmp True;
        blk r (message_update (\<lambda>_. msg));
        handle_message H r msg }) settled"
    by (intro keeps_then keeps_read_byte keeps_blk handle_message_at [OF F]) simp
  have cmd: "triple (nca_at D D (Some r) [] []) (do {
        q \<leftarrow> peek (\<lambda>w. reqs w r);
        _ \<leftarrow> io (transfer_pio H PH_CMD (Local (xcmd q)) (xcmd_len q) False);
        State_Monad.return Again }) settled"
    by (intro keeps_then keeps_peek keeps_io return_settled) simp
  have stat: "triple (nca_at D D (Some r) [] []) (do {
        s \<leftarrow> read_byte H PH_STATUS tmp False;
        blk r (status_update (\<lambda>_. s));
        State_Monad.return Again }) settled"
    by (intro keeps_then keeps_read_byte keeps_blk return_settled) simp_all
  show ?thesis
    using ret out data_phase_at [OF a] run_settled [OF msgin a] run_settled [OF msg_out_at [OF F] a] run_settled [OF cmd a] run_settled [OF stat a]
      at_ok [OF a]
    by (auto simp: phase_step_def settled_def split: if_splits)
qed

text \<open>Whatever the target does, a phase leaves the books in order, and the kernel does not panic.\<close>

lemma information_transfer_ok:
  assumes F: "machineid H = ATARI_FALCON" and ok: "nca_ok w" and ret: "information_transfer H w = Some (x, w')"
  shows "settled x w'"
proof (cases "connected w")
  case None
  then show ?thesis using ok ret by (simp add: information_transfer_def settled_def)
next
  case (Some r)
  let ?D = "discon_q w"
  obtain tmp w1 where p: "run_state (io (phase_status H)) w = (tmp, w1)" by fastforce
  have a: "nca_at ?D ?D (Some r) [] [] w1" using tripleD [OF keeps_at [OF keeps_io] ok_at [OF ok] p] Some by simp
  have b: "nca_at ?D ?D (Some r) [] [] (w1\<lparr>reqs := (reqs w1)(r := (reqs w1 r)\<lparr>phase := v\<rparr>)\<rparr>)" for v
    by (rule tripleD [OF keeps_at [OF keeps_blk] a, of "phase_update (\<lambda>_. v)" r "()"]) (simp_all add: run_simps)
  note t = reset_over_at [OF F, THEN run_settled, OF a]
  have t2: "run (do { end_req H r XS_TIMEOUT; scsi_reset H; State_Monad.return Over }) w1 = Some (x, w') \<Longrightarrow> settled x w'"
    using t [of XS_TIMEOUT True x w'] by simp
  show ?thesis
    using ret t t2 phase_step_at [OF F b]
    by (simp add: information_transfer_def Some run_simps p Let_def split: if_splits)
qed

end
