(* ===== verification/Nca_Lock.thy ===== *)
theory Nca_Lock
  imports Nca_Main
begin

text \<open>
  The lock of the ST DMA controller: only \<open>claimed_dma\<close> and \<open>reconsider_dma\<close> touch it, and the latter gives it up with no
  request connected or disconnected. Nor does anything but the main routine touch \<open>main_running\<close>.
\<close>

definition keeps_lock :: "('d nca, 'a) state \<Rightarrow> bool" where
  "keeps_lock m \<longleftrightarrow> (\<forall>w. falcon_lock (snd (run_state m w)) = falcon_lock w \<and> main_running (snd (run_state m w)) = main_running w)"

named_theorems lock_rules

lemma lock_return [lock_rules]: "keeps_lock (State_Monad.return x)"
  by (simp add: keeps_lock_def)

lemma lock_bind [lock_rules]: "keeps_lock m \<Longrightarrow> (\<And>x. keeps_lock (f x)) \<Longrightarrow> keeps_lock (State_Monad.bind m f)"
  unfolding keeps_lock_def by (auto split: prod.splits) (metis snd_conv)+

lemma lock_if [lock_rules]: "keeps_lock m \<Longrightarrow> keeps_lock n \<Longrightarrow> keeps_lock (if b then m else n)"
  by simp

lemma lock_prod [lock_rules]: "(\<And>a b. keeps_lock (f a b)) \<Longrightarrow> keeps_lock (case p of (a, b) \<Rightarrow> f a b)"
  by (cases p) simp

lemma lock_option [lock_rules]: "keeps_lock m \<Longrightarrow> (\<And>a. keeps_lock (f a)) \<Longrightarrow> keeps_lock (case x of None \<Rightarrow> m | Some a \<Rightarrow> f a)"
  by (cases x) simp_all

lemma lock_list [lock_rules]: "keeps_lock m \<Longrightarrow> (\<And>a l. keeps_lock (f a l)) \<Longrightarrow> keeps_lock (case x of [] \<Rightarrow> m | a # l \<Rightarrow> f a l)"
  by (cases x) simp_all

lemma lock_sum [lock_rules]: "(\<And>a. keeps_lock (f a)) \<Longrightarrow> (\<And>a. keeps_lock (g a)) \<Longrightarrow> keeps_lock (case x of Inl a \<Rightarrow> f a | Inr a \<Rightarrow> g a)"
  by (cases x) simp_all

lemma lock_plan [lock_rules]:
  "keeps_lock m \<Longrightarrow> keeps_lock n \<Longrightarrow> (\<And>a. keeps_lock (f a)) \<Longrightarrow> keeps_lock (case x of NoDma \<Rightarrow> m | Bounce \<Rightarrow> n | Chained a \<Rightarrow> f a)"
  by (cases x) simp_all

lemma lock_machine [lock_rules]: "keeps_lock m \<Longrightarrow> keeps_lock n \<Longrightarrow> keeps_lock (case x of ATARI_TT \<Rightarrow> m | ATARI_FALCON \<Rightarrow> n)"
  by (cases x) simp_all

lemma lock_peek [lock_rules]: "keeps_lock (peek f)"
  by (simp add: keeps_lock_def peek_def)

lemma lock_io [lock_rules]: "keeps_lock (io m)"
  by (auto simp: keeps_lock_def io_def split: prod.splits)

lemma lock_blk [lock_rules]: "keeps_lock (blk r f)" and lock_xfer [lock_rules]: "keeps_lock (xfer x g)"
  by (simp_all add: keeps_lock_def blk_def xfer_def poke_def)

lemma lock_poke: "(\<And>w. falcon_lock (f w) = falcon_lock w \<and> main_running (f w) = main_running w) \<Longrightarrow> keeps_lock (poke f)"
  by (simp add: keeps_lock_def poke_def)

text \<open>The routines, from the bottom up.\<close>

lemma lock_helpers [lock_rules]:
  "keeps_lock (set_error r e)" "keeps_lock (has_error r)" "keeps_lock (has_flag r b)" "keeps_lock (nack_message H r m)"
  "keeps_lock (note_result r)" "keeps_lock (read_byte H ph tmp k)" "keeps_lock (log_done x)" "keeps_lock (to_issue r)"
  "keeps_lock (nca_clear_busy r)" "keeps_lock (drop_connected r)" "keeps_lock (unbounce H r n)" "keeps_lock (connect_req r ph)"
  unfolding set_error_def has_error_def has_flag_def nack_message_def note_result_def read_byte_def log_done_def to_issue_def
    nca_clear_busy_def drop_connected_def unbounce_def connect_req_def
  by (auto intro!: lock_rules lock_poke)

lemma lock_submit [lock_rules]: "keeps_lock (submit H x)"
  unfolding submit_def scsi_dmaok_def nca_enqueue_def link_to_def link_check_def Let_def by (auto intro!: lock_rules lock_poke)

lemma lock_submit_all [lock_rules]: "keeps_lock (submit_all H l)"
  by (induction l) (auto intro!: lock_rules)

lemma lock_finish [lock_rules]: "keeps_lock (finish_req H r)"
  unfolding finish_req_def scsipi_done_def hand_over_def by (auto intro!: lock_rules lock_poke)

lemma lock_dma_ready [lock_rules]: "keeps_lock (dma_ready H)"
  unfolding dma_ready_def dma_over_def get_dma_result_def falcon_get_dma_result_def tt_get_dma_result_def Let_def
  by (auto intro!: lock_rules)

lemma lock_give_up [lock_rules]: "keeps_lock (give_up H l)"
  by (induction l) (auto intro!: lock_rules)

lemma lock_reset [lock_rules]: "keeps_lock (scsi_reset H)"
  unfolding scsi_reset_def reset_current_def by (auto intro!: lock_rules lock_poke)

lemma lock_message [lock_rules]: "keeps_lock (handle_message H r msg)"
  unfolding handle_message_def link_complete_def cmd_complete_def check_autosense_def by (auto intro!: lock_rules lock_poke)

lemma lock_phases [lock_rules]: "keeps_lock (msg_out_phase H r)" "keeps_lock (end_req H r e)" "keeps_lock (fill_bounce H r)"
    "keeps_lock (start_dma H r ph poll)" "keeps_lock (poll_edma H r)"
  unfolding msg_out_phase_def end_req_def fill_bounce_def start_dma_def scsi_dma_setup_def poll_edma_def falcon_poll_edma_def tt_poll_edma_def
  by (auto intro!: lock_rules)

lemma lock_select [lock_rules]: "keeps_lock (nca_scsi_select H r)"
  unfolding nca_scsi_select_def select_timeout_def identify_def unidentified_def by (auto intro!: lock_rules lock_poke)

lemma lock_reselect [lock_rules]: "keeps_lock (reselect H)"
  unfolding reselect_def nca_reselect_abort_def by (auto intro!: lock_rules lock_poke)

lemma lock_main_top: "keeps_lock (main_top H)" and lock_main_connected: "keeps_lock main_connected"
  unfolding main_top_def serve_def issue_req_def pick_def main_connected_def by (auto intro!: lock_rules lock_poke)

lemma lock_intr [lock_rules]: "keeps_lock (check_intr H)" "keeps_lock (scsi_ipending H)"
  unfolding check_intr_def scsi_ipending_def scsi_falcon_ipending_def by (auto intro!: lock_rules)

subsection \<open>The routines that may not end\<close>

lemma lockD: "keeps_lock m \<Longrightarrow> run_state m w = (x, w') \<Longrightarrow> falcon_lock w' = falcon_lock w"
  and runningD: "keeps_lock m \<Longrightarrow> run_state m w = (x, w') \<Longrightarrow> main_running w' = main_running w"
  unfolding keeps_lock_def by (metis snd_conv)+

lemma lock_run: "keeps_lock m \<Longrightarrow> run m w = Some (x, w') \<Longrightarrow> falcon_lock w' = falcon_lock w"
  by (auto simp: run_def intro: lockD)

lemma lock_transfer_dma:
  assumes "transfer_dma H r ph poll w = Some (u, w')"
  shows "falcon_lock w' = falcon_lock w"
proof -
  let ?body = "do {
     start_dma H r ph poll;
     if poll then do { poll_edma H r; over \<leftarrow> dma_ready H; State_Monad.return (if over then Some () else None) }
     else State_Monad.return (Some ()) }"
  have k: "keeps_lock ?body" by (intro lock_rules)
  show ?thesis
    by (rule st_loop_partial [OF assms [unfolded transfer_dma_def], where I = "\<lambda>v. falcon_lock v = falcon_lock w"])
      (use lockD [OF k] in auto)
qed

lemma lock_data_phase:
  assumes "nca_data_phase H r ph w = Some (x, w')"
  shows "falcon_lock w' = falcon_lock w"
  using assms unfolding nca_data_phase_def Let_def
  by (auto split: if_splits bind_splits dest!: lock_transfer_dma lock_run [rotated] intro!: lock_rules)

lemma lock_phase_step:
  assumes "phase_step H r ph tmp w = Some (x, w')"
  shows "falcon_lock w' = falcon_lock w"
  using assms unfolding phase_step_def
  by (auto split: if_splits bind_splits dest!: lock_data_phase lock_run [rotated] intro!: lock_rules)

lemma lock_information_transfer:
  assumes "information_transfer H w = Some (x, w')"
  shows "falcon_lock w' = falcon_lock w"
  using assms unfolding information_transfer_def Let_def
  by (auto split: if_splits bind_splits option.splits dest!: lock_phase_step lock_run [rotated] intro!: lock_rules)

end
