(* ===== verification/Nca_Calls.thy ===== *)
theory Nca_Calls
  imports Nca_Steps Nca_Lock
begin

text \<open>
  The main loop and the calls of the kernel keep the books of the Atari driver on a Falcon: selection, reselection, the
  invariant of the loop at its labels, sequences of calls.
\<close>

subsection \<open>Selection\<close>

text \<open>A request in hand whose target is not busy, with nothing connected.\<close>

definition picked :: "nat list \<Rightarrow> nat \<Rightarrow> 'd nca \<Rightarrow> bool" where
  "picked D r w \<longleftrightarrow> nca_at D D None [r] [r] w \<and> busy w AND targ_bit w r = 0"

lemma closed_picked: "closed (picked D r)"
  unfolding closed_def picked_def
proof (intro allI impI, elim conjE)
  fix w v assume a: "nca_at D D None [r] [r] w" and b: "busy w AND targ_bit w r = 0" and s: "same_books w v" "discon_q v = discon_q w"
  have "busy v = busy w" "targ_bit v r = targ_bit w r" using s(1) by (simp_all add: same_books_def targ_bit_def)
  with b closedD [OF closed_at a s] show "nca_at D D None [r] [r] v \<and> busy v AND targ_bit v r = 0" by simp
qed

lemmas picked_then = keeps_then_closed [OF closed_picked]

lemma picked_in_hand: "picked D r w \<Longrightarrow> nca_at D D None [r] [] w"
  by (auto simp: picked_def intro: forget_at)

lemma connect_at: "triple (picked D r) (connect_req r ph) (\<lambda>_. nca_ok)"
proof -
  have c: "triple (picked D r) (poke (\<lambda>w. w\<lparr>sc_selected := sc_selected w OR targ_bit w r, connected := Some r, busy := busy w OR targ_bit w r\<rparr>)) (\<lambda>_. nca_ok)"
  proof (rule tripleI)
    fix w u w' assume p: "picked D r w"
      and "run_state (poke (\<lambda>w. w\<lparr>sc_selected := sc_selected w OR targ_bit w r, connected := Some r, busy := busy w OR targ_bit w r\<rparr>)) w = (u, w')"
    then have w': "w' = w\<lparr>sc_selected := sc_selected w OR targ_bit w r, connected := Some r, busy := busy w OR targ_bit w r\<rparr>"
      by (simp add: run_simps)
    from p have "nca_inv D [] [] w'" unfolding w' by (intro inv_connect) (auto simp: picked_def nca_at_def)
    then show "nca_ok w'" using p by (simp add: nca_ok_def w' picked_def nca_at_def)
  qed
  show ?thesis unfolding connect_req_def by (rule picked_then [OF keeps_blk c]) simp
qed

lemma finish_ok: "machineid H = ATARI_FALCON \<Longrightarrow> triple (nca_at D D c [r] []) (finish_req H r) (\<lambda>_. nca_ok)"
  by (rule triple_cons [OF finish_at]) (auto intro: at_ok)

lemma unidentified_at:
  assumes F: "machineid H = ATARI_FALCON"
  shows "triple (nca_at D D None [r] []) (unidentified H r) (\<lambda>_. nca_ok)"
proof -
  have tail: "triple (nca_at D' D' None [r] []) (do { io (SET_5380_REG H NCR5380_ICOM 0); set_error r XS_DRIVER_STUFFUP; finish_req H r }) (\<lambda>_. nca_ok)" for D'
    by (intro keeps_then keeps_io keeps_set_error finish_ok [OF F])
  show ?thesis
    unfolding unidentified_def
  proof (rule keeps_then [OF keeps_io])
    fix out
    show "triple (nca_at D D None [r] []) (do {
        (if out then do { _ \<leftarrow> io (transfer_pio H PH_MSGOUT (Local [MSG_ABORT]) 1 False); State_Monad.return () } else scsi_reset H);
        io (SET_5380_REG H NCR5380_ICOM 0); set_error r XS_DRIVER_STUFFUP; finish_req H r }) (\<lambda>_. nca_ok)"
    proof (cases out)
      case True
      show ?thesis unfolding if_P [OF True] by (rule keeps_then [OF _ tail]) (intro keeps_rules)
    next
      case False
      show ?thesis unfolding if_not_P [OF False] by (rule triple_bind [OF scsi_reset_at [OF F] tail])
    qed
  qed
qed

lemma keeps_noselatn: "keeps (poke (\<lambda>w. w\<lparr>sc_noselatn := f w\<rparr>))" and keeps_test_link: "keeps (poke (\<lambda>w. w\<lparr>ncr_test_link := f w\<rparr>))"
  by (rule keeps_poke, simp add: same_books_def)+

lemma identify_at:
  assumes F: "machineid H = ATARI_FALCON"
  shows "triple (picked D r) (identify H r) (\<lambda>_. nca_ok)"
  unfolding identify_def
  by (intro picked_then keeps_peek keeps_io keeps_noselatn triple_prod triple_if connect_at triple_pre [OF unidentified_at [OF F] picked_in_hand])

lemma select_timeout_at:
  assumes F: "machineid H = ATARI_FALCON"
  shows "triple (picked D r) (select_timeout H r) (\<lambda>_. nca_ok)"
  unfolding select_timeout_def
  by (intro picked_then keeps_if keeps_set_error keeps_has_flag keeps_test_link keeps_nca_return triple_pre [OF finish_ok [OF F] picked_in_hand])

lemma scsi_select_at:
  assumes F: "machineid H = ATARI_FALCON"
  shows "triple (picked D r) (nca_scsi_select H r) (\<lambda>ok w. if ok then nca_ok w else picked D r w)"
proof -
  have ok: "triple P m (\<lambda>_. nca_ok) \<Longrightarrow> triple P (do { m; State_Monad.return True }) (\<lambda>ok w. if ok then nca_ok w else picked D r w)"
    for P and m :: "('a nca, unit) state" by (erule triple_bind) (auto intro: triple_return)
  show ?thesis
    unfolding nca_scsi_select_def
    by (intro picked_then keeps_peek keeps_io triple_if ok select_timeout_at [OF F] connect_at identify_at [OF F])
      (auto intro: triple_return)
qed

subsection \<open>Reselection\<close>

lemma reset_ok: "machineid H = ATARI_FALCON \<Longrightarrow> triple (nca_at D D c [] []) (scsi_reset H) (\<lambda>_. nca_ok)"
  by (rule triple_cons [OF scsi_reset_at]) (auto intro: at_ok)

lemma return_ok: "triple (nca_at D D c [] []) (State_Monad.return x) (\<lambda>_. nca_ok)"
  by (auto intro: triple_return at_ok)

lemma reselect_abort_at:
  assumes F: "machineid H = ATARI_FALCON"
  shows "triple (nca_at D D None [] []) (nca_reselect_abort H) (\<lambda>_. nca_ok)"
  unfolding nca_reselect_abort_def
  by (intro keeps_then keeps_io triple_prod triple_if reset_ok [OF F] return_ok)

lemma reselect_at:
  assumes F: "machineid H = ATARI_FALCON"
  shows "triple (nca_at D D None [] []) (reselect H) (\<lambda>_. nca_ok)"
proof -
  have resume: "triple (\<lambda>w. nca_at D D None [] [] w \<and> List.find (\<lambda>r. tm = targ_bit w r) (discon_q w) = Some r)
      (poke (\<lambda>w. w\<lparr>discon_q := remove1 r (discon_q w), connected := Some r\<rparr>)) (\<lambda>_. nca_ok)" for tm r
  proof (rule tripleI)
    fix w u w' assume p: "nca_at D D None [] [] w \<and> List.find (\<lambda>r. tm = targ_bit w r) (discon_q w) = Some r"
      and "run_state (poke (\<lambda>w. w\<lparr>discon_q := remove1 r (discon_q w), connected := Some r\<rparr>)) w = (u, w')"
    then have w': "w' = w\<lparr>discon_q := remove1 r D, connected := Some r\<rparr>" by (simp add: run_simps nca_at_def)
    have "r \<in> set D" using p by (auto simp: nca_at_def find_Some_iff)
    then have "nca_inv (remove1 r D) [] [] w'" unfolding w' using p by (intro inv_reselect) (auto simp: nca_at_def)
    then show "nca_ok w'" by (simp add: nca_ok_def w')
  qed
  have search: "triple (nca_at D D None [] []) (do {
       t \<leftarrow> peek (\<lambda>w. List.find (\<lambda>r. tm = targ_bit w r) (discon_q w));
       case t of None \<Rightarrow> nca_reselect_abort H
       | Some r \<Rightarrow> poke (\<lambda>w. w\<lparr>discon_q := remove1 r (discon_q w), connected := Some r\<rparr>) }) (\<lambda>_. nca_ok)" for tm
  proof (rule peek_then)
    fix t
    show "triple (\<lambda>w. nca_at D D None [] [] w \<and> List.find (\<lambda>r. tm = targ_bit w r) (discon_q w) = t) (case t of
         None \<Rightarrow> nca_reselect_abort H
       | Some r \<Rightarrow> poke (\<lambda>w. w\<lparr>discon_q := remove1 r (discon_q w), connected := Some r\<rparr>)) (\<lambda>_. nca_ok)"
      by (cases t) (auto intro: resume triple_pre [OF reselect_abort_at [OF F]])
  qed
  show ?thesis
    unfolding reselect_def
  proof (rule keeps_then [OF keeps_io])
    fix a :: "bool + byte \<times> bool"
    show "triple (nca_at D D None [] []) (case a of Inl rst \<Rightarrow> if rst then scsi_reset H else State_Monad.return ()
       | Inr (tm, ident) \<Rightarrow> if \<not> ident then nca_reselect_abort H
           else do {
             t \<leftarrow> peek (\<lambda>w. List.find (\<lambda>r. tm = targ_bit w r) (discon_q w));
             case t of None \<Rightarrow> nca_reselect_abort H
             | Some r \<Rightarrow> poke (\<lambda>w. w\<lparr>discon_q := remove1 r (discon_q w), connected := Some r\<rparr>) }) (\<lambda>_. nca_ok)"
      by (auto intro!: triple_if reset_ok [OF F] return_ok reselect_abort_at [OF F] search split: sum.split prod.split)
  qed
qed

subsection \<open>The main loop\<close>

text \<open>Between its steps the books are in order; the loop is only left with nothing connected.\<close>

definition main_inv :: "main_pc \<Rightarrow> 'd nca \<Rightarrow> bool" where
  "main_inv pc w \<longleftrightarrow> nca_ok w \<and> (pc = Main_exit \<longrightarrow> connected w = None)"

definition nca_idle :: "'d nca \<Rightarrow> bool" where "nca_idle w \<longleftrightarrow> nca_ok w \<and> connected w = None \<and> \<not> main_running w"

lemma return_main: "pc \<noteq> Main_exit \<or> c = None \<Longrightarrow> triple (nca_at D D c [] []) (State_Monad.return pc) main_inv"
  by (auto intro!: triple_return simp: main_inv_def at_ok) (auto simp: nca_at_def)

lemma ok_return_main: "pc \<noteq> Main_exit \<Longrightarrow> triple nca_ok (State_Monad.return pc) main_inv"
  by (auto intro!: triple_return simp: main_inv_def)

lemma closed_ok: "closed nca_ok"
  unfolding closed_def nca_ok_def using same_books_inv by metis

lemma pick_at: "triple (nca_at D D None [] []) pick (\<lambda>t. case t of None \<Rightarrow> nca_at D D None [] [] | Some r \<Rightarrow> picked D r)"
proof (rule tripleI)
  fix w t w' assume a: "nca_at D D None [] [] w" and run: "run_state pick w = (t, w')"
  show "(case t of None \<Rightarrow> nca_at D D None [] [] | Some r \<Rightarrow> picked D r) w'"
  proof (cases t)
    case None
    with run a show ?thesis by (auto simp: pick_def run_simps split: option.splits)
  next
    case (Some r)
    with run have f: "List.find (\<lambda>r. busy w AND targ_bit w r = 0) (issue_q w) = Some r" and w': "w' = w\<lparr>issue_q := remove1 r (issue_q w)\<rparr>"
      by (auto simp: pick_def run_simps split: option.splits)
    have "nca_inv D [r] [r] w'" unfolding w' using a f by (intro inv_pick) (auto simp: nca_at_def)
    moreover have "busy w AND targ_bit w r = 0" using f by (auto simp: find_Some_iff)
    ultimately show ?thesis using a by (simp add: Some picked_def nca_at_def w' targ_bit_def)
  qed
qed

lemma put_back_at: "triple (picked D r) (to_issue r) (\<lambda>_. nca_at D D None [] [])"
  unfolding to_issue_def by (rule triple_pre [OF to_issue_at]) (auto simp: picked_def)

lemma issue_at:
  assumes F: "machineid H = ATARI_FALCON"
  shows "triple (picked D r) (issue_req H r) main_inv"
  unfolding issue_req_def
proof (rule triple_bind [OF scsi_select_at [OF F]])
  fix ok
  show "triple (\<lambda>w. if ok then nca_ok w else picked D r w) (do { (if ok then State_Monad.return () else to_issue r); State_Monad.return Connected }) main_inv"
    by (cases ok) (auto intro!: ok_return_main return_main triple_bind [OF put_back_at])
qed

lemma take_reselect_at:
  assumes F: "machineid H = ATARI_FALCON"
  shows "triple (nca_at D D None [] []) (do { reselect H; io (scsi_clr_ipend H); State_Monad.return Connected }) main_inv"
  by (rule triple_bind [OF reselect_at [OF F]], rule keeps_then_closed [OF closed_ok keeps_io]) (simp add: ok_return_main)

lemma serve_at:
  assumes F: "machineid H = ATARI_FALCON"
  shows "triple (case t of None \<Rightarrow> nca_at D D None [] [] | Some r \<Rightarrow> picked D r) (serve H t) main_inv"
proof (cases t)
  case None
  show ?thesis unfolding serve_def None option.case
    by (rule keeps_then [OF keeps_io], rule triple_if, rule keeps_then [OF keeps_nca_return], rule take_reselect_at [OF F]) (simp add: return_main)
next
  case (Some r)
  show ?thesis unfolding serve_def Some option.case
    by (rule picked_then [OF keeps_io], rule triple_if, rule triple_bind [OF put_back_at], rule take_reselect_at [OF F]) (rule issue_at [OF F])
qed

lemma main_top_ok:
  assumes F: "machineid H = ATARI_FALCON" and ok: "nca_ok w" and run: "run_state (main_top H) w = (pc, w')"
  shows "main_inv pc w'"
proof (cases "connected w")
  case (Some r)
  with run ok show ?thesis by (auto simp: main_top_def run_simps main_inv_def)
next
  case None
  let ?m = "do { fair \<leftarrow> io (fair_to_keep_dma H); if fair then do { t \<leftarrow> pick; serve H t } else State_Monad.return Main_exit }"
  have m: "triple (nca_at (discon_q w) (discon_q w) None [] []) ?m main_inv"
    by (rule keeps_then [OF keeps_io], rule triple_if, rule triple_bind [OF pick_at serve_at [OF F]]) (simp add: return_main)
  have "run_state ?m w = (pc, w')" using run None by (simp add: main_top_def run_simps)
  then show ?thesis using tripleD [OF m] ok_at [OF ok] None by simp
qed

lemma ok_not_in_dma: "nca_ok w \<Longrightarrow> \<not> in_dma w"
  using at_not_in_dma ok_at by blast

lemma keeps_ipending: "keeps (scsi_ipending H)"
  unfolding scsi_ipending_def scsi_falcon_ipending_def by (cases "machineid H") (auto intro!: keeps_rules)

lemma keeps_reconsider: "keeps (reconsider_dma H)" and keeps_claimed: "keeps (claimed_dma H)"
proof -
  have l: "keeps (poke (\<lambda>w. w\<lparr>falcon_lock := f w\<rparr>))" for f :: "'a nca \<Rightarrow> dma_lock" by (rule keeps_poke) (simp add: same_books_def)
  show "keeps (reconsider_dma H)" "keeps (claimed_dma H)"
    unfolding reconsider_dma_def falcon_reconsider_dma_def claimed_dma_def falcon_claimed_dma_def
    by (cases "machineid H"; auto intro!: keeps_rules l)+
qed

text \<open>Without DMA an interrupt is a reselection, or it is spurious.\<close>

lemma triple_never: "(\<And>s. \<not> P s) \<Longrightarrow> triple P m Q"
  by (simp add: triple_def)

lemma check_intr_at: "triple (nca_at D D c [] []) (check_intr H) (\<lambda>it w. it \<noteq> INTR_DMA \<and> nca_at D D c [] [] w)"
  unfolding check_intr_def
proof (rule keeps_then [OF keeps_io], rule peek_then, rule peek_then, intro triple_if)
  fix sel dma c'
  show "triple (\<lambda>v. (nca_at D D c [] [] v \<and> in_dma v = dma) \<and> connected v = c') (State_Monad.return INTR_RESEL) (\<lambda>it w. it \<noteq> INTR_DMA \<and> nca_at D D c [] [] w)"
    by (rule triple_return) simp
  assume dma
  then show "triple (\<lambda>v. (nca_at D D c [] [] v \<and> in_dma v = dma) \<and> connected v = c')
     (do { blk (the c') (dr_flag_update (\<lambda>f. f AND NOT DRIVER_IN_DMA)); State_Monad.return INTR_DMA })
     (\<lambda>it w. it \<noteq> INTR_DMA \<and> nca_at D D c [] [] w)"
    using at_not_in_dma by (intro triple_never) blast
next
  fix dma c'
  show "triple (\<lambda>v. (nca_at D D c [] [] v \<and> in_dma v = dma) \<and> connected v = c')
     (do { io (scsi_clr_ipend H); State_Monad.return INTR_SPURIOUS }) (\<lambda>it w. it \<noteq> INTR_DMA \<and> nca_at D D c [] [] w)"
    by (rule triple_pre [OF keeps_then [OF keeps_io triple_return]]) auto
qed

lemma main_exit_ok:
  assumes F: "machineid H = ATARI_FALCON" and i: "main_inv Main_exit w" and run: "run_state (main_exit H) w = (back, w')"
  shows "if back then nca_idle w' else nca_ok w'"
proof -
  let ?D = "discon_q w"
  let ?P = "nca_at ?D ?D None [] []"
  let ?Q = "\<lambda>back w. if back then nca_idle w else nca_ok w"
  have a: "?P w" using i ok_at [of w] by (simp add: main_inv_def)
  have leave: "triple ?P (do { reconsider_dma H; poke (\<lambda>w. w\<lparr>main_running := False\<rparr>); State_Monad.return True }) ?Q"
  proof (rule keeps_then [OF keeps_reconsider], rule tripleI)
    fix v x v' assume v: "?P v" and r: "run_state (do { poke (\<lambda>w. w\<lparr>main_running := False\<rparr>); State_Monad.return True }) v = (x, v')"
    then have v': "v' = v\<lparr>main_running := False\<rparr>" "x" by (auto simp: run_simps)
    have "same_books v v'" by (simp add: v' same_books_def)
    then have "?P v'" using closedD [OF closed_at v] by (simp add: v')
    with at_ok [OF this] show "?Q x v'" by (auto simp: v' nca_idle_def nca_at_def)
  qed
  have again: "triple ?P (do { io (do { scsi_idisable H; scsi_clr_ipend H }); reselect H; State_Monad.return False }) ?Q"
    by (rule keeps_then [OF keeps_io], rule triple_bind [OF reselect_at [OF F]]) (auto intro: triple_return)
  have t: "triple ?P (do {
     it \<leftarrow> (if pending then check_intr H else State_Monad.return INTR_SPURIOUS);
     if it \<noteq> INTR_SPURIOUS then do {
       io (do { scsi_idisable H; scsi_clr_ipend H });
       (if it = INTR_RESEL then reselect H else do { _ \<leftarrow> dma_ready H; State_Monad.return () });
       State_Monad.return False }
     else do { reconsider_dma H; poke (\<lambda>w. w\<lparr>main_running := False\<rparr>); State_Monad.return True } }) ?Q" for pending
  proof (rule triple_bind [where R = "\<lambda>it v. it \<noteq> INTR_DMA \<and> ?P v"])
    show "triple ?P (if pending then check_intr H else State_Monad.return INTR_SPURIOUS) (\<lambda>it v. it \<noteq> INTR_DMA \<and> ?P v)"
      by (rule triple_if [OF check_intr_at]) (auto intro: triple_return)
    fix it
    show "triple (\<lambda>v. it \<noteq> INTR_DMA \<and> ?P v) (if it \<noteq> INTR_SPURIOUS then do {
       io (do { scsi_idisable H; scsi_clr_ipend H });
       (if it = INTR_RESEL then reselect H else do { _ \<leftarrow> dma_ready H; State_Monad.return () });
       State_Monad.return False }
     else do { reconsider_dma H; poke (\<lambda>w. w\<lparr>main_running := False\<rparr>); State_Monad.return True }) ?Q"
      using leave again by (cases it) (auto simp: triple_def)
  qed
  have "triple ?P (main_exit H) ?Q"
    unfolding main_exit_def by (intro keeps_then keeps_io keeps_peek keeps_if keeps_nca_return keeps_ipending t)
  from tripleD [OF this a run] show ?thesis .
qed

lemma main_loop_ok:
  assumes F: "machineid H = ATARI_FALCON" and ret: "c_loop (main_step H) (pc, w) = Some (e, w')" and i: "main_inv pc w"
  shows "e = Returned \<and> nca_idle w'"
proof -
  have "(\<lambda>(e, w'). e = Returned \<and> nca_idle w') (e, w')"
  proof (rule c_loop_partial [OF ret, where I = "\<lambda>(pc, w). main_inv pc w"])
    show "case (pc, w) of (pc, w) \<Rightarrow> main_inv pc w" using i by simp
  next
    fix s s' assume s: "case s of (pc, w) \<Rightarrow> main_inv pc w" and step: "main_step H s = Some (Inl s')"
    obtain pc v where sv: "s = (pc, v)" by fastforce
    have ok: "nca_ok v" using s sv by (simp add: main_inv_def)
    show "case s' of (pc, w) \<Rightarrow> main_inv pc w"
    proof (cases pc)
      case Top
      then show ?thesis using step sv main_top_ok [OF F ok] by auto
    next
      case Connected
      then show ?thesis using step sv ok ok_not_in_dma [OF ok] by (auto simp: main_connected_def run_simps main_inv_def split: if_splits)
    next
      case Phases
      then show ?thesis using step sv information_transfer_ok [OF F ok]
        by (auto simp: main_inv_def settled_def split: bind_splits nca_next.splits)
    next
      case Main_exit
      then show ?thesis using step sv s main_exit_ok [OF F, of v] by (auto simp: main_inv_def split: prod.splits if_splits)
    qed
  next
    fix s r assume s: "case s of (pc, w) \<Rightarrow> main_inv pc w" and step: "main_step H s = Some (Inr r)"
    obtain pc v where sv: "s = (pc, v)" by fastforce
    have ok: "nca_ok v" using s sv by (simp add: main_inv_def)
    show "case r of (e, w') \<Rightarrow> e = Returned \<and> nca_idle w'"
      using step sv s information_transfer_ok [OF F ok] main_exit_ok [OF F, of v]
      by (cases pc) (auto simp: settled_def split: bind_splits nca_next.splits prod.splits if_splits)
  qed
  then show ?thesis by simp
qed

subsection \<open>The lock between calls\<close>

definition guarded :: "'d nca \<Rightarrow> bool" where
  "guarded w \<longleftrightarrow> (connected w \<noteq> None \<or> discon_q w \<noteq> [] \<longrightarrow> falcon_lock w = DMA_LOCK_GRANT)"

definition nca_rest :: "'d nca \<Rightarrow> bool" where "nca_rest w \<longleftrightarrow> nca_idle w \<and> guarded w"

text \<open>When the kernel grants the lock, it says so in the variable.\<close>

definition grab_grants :: "'d nca_hw \<Rightarrow> bool" where
  "grab_grants H \<longleftrightarrow> (\<forall>b d l d'. st_dmagrab H b d = ((True, l), d') \<longrightarrow> l = DMA_LOCK_GRANT)"

lemma reconsider_guarded:
  assumes "falcon_lock w = DMA_LOCK_GRANT" "run_state (reconsider_dma H) w = (u, w')"
  shows "guarded w'"
  using assms
  by (cases "machineid H"; cases "connected w = None \<and> discon_q w = []")
    (auto simp: reconsider_dma_def falcon_reconsider_dma_def run_simps guarded_def io_def split: prod.splits if_splits)

lemma main_exit_lock:
  assumes l: "falcon_lock w = DMA_LOCK_GRANT" and run: "run_state (main_exit H) w = (back, w')"
  shows "if back then guarded w' else falcon_lock w' = DMA_LOCK_GRANT"
proof -
  let ?L = "\<lambda>w. falcon_lock w = DMA_LOCK_GRANT"
  let ?Q = "\<lambda>back w. if back then guarded w else ?L w"
  have keep: "preserves ?L m" if "keeps_lock m" for m :: "('a nca, 'b) state" using that by (auto intro!: tripleI dest: lockD)
  have leave: "triple ?L (do { reconsider_dma H; poke (\<lambda>w. w\<lparr>main_running := False\<rparr>); State_Monad.return True }) ?Q"
    by (rule triple_bind [where R = "\<lambda>_. guarded"], rule tripleI, erule (1) reconsider_guarded)
      (auto intro!: tripleI simp: run_simps guarded_def)
  have again: "triple ?L (do { io (do { scsi_idisable H; scsi_clr_ipend H });
      (if b then reselect H else do { _ \<leftarrow> dma_ready H; State_Monad.return () }); State_Monad.return False }) ?Q" for b
    by (rule triple_cons [where P = ?L and Q = "\<lambda>b w. \<not> b \<and> ?L w"], intro triple_bind [where R = "\<lambda>_. ?L"])
      (auto intro!: keep lock_rules triple_return)
  have "triple ?L (main_exit H) ?Q"
    unfolding main_exit_def
    by (rule triple_bind [where R = "\<lambda>_. ?L"], (rule keep, intro lock_rules))+
      (rule triple_if [OF again leave])
  from tripleD [OF this l run] show ?thesis .
qed

lemma main_loop_lock:
  assumes ret: "c_loop (main_step H) (pc, w) = Some (Returned, w')" and l: "falcon_lock w = DMA_LOCK_GRANT"
  shows "guarded w'"
proof -
  have "(\<lambda>(e, w'). e = Returned \<longrightarrow> guarded w') (Returned, w')"
  proof (rule c_loop_partial [OF ret, where I = "\<lambda>(pc, w). falcon_lock w = DMA_LOCK_GRANT"])
    show "case (pc, w) of (pc, w) \<Rightarrow> falcon_lock w = DMA_LOCK_GRANT" using l by simp
  next
    fix s s' assume s: "case s of (pc, w) \<Rightarrow> falcon_lock w = DMA_LOCK_GRANT" and step: "main_step H s = Some (Inl s')"
    obtain pc v where sv: "s = (pc, v)" by fastforce
    show "case s' of (pc, w) \<Rightarrow> falcon_lock w = DMA_LOCK_GRANT"
      using step s sv lockD [OF lock_main_top, of H v] lockD [OF lock_main_connected, of v] lock_information_transfer [of H v] main_exit_lock [of v H]
      by (cases pc) (auto split: bind_splits nca_next.splits prod.splits if_splits)
  next
    fix s r assume s: "case s of (pc, w) \<Rightarrow> falcon_lock w = DMA_LOCK_GRANT" and step: "main_step H s = Some (Inr r)"
    obtain pc v where sv: "s = (pc, v)" by fastforce
    show "case r of (e, w') \<Rightarrow> e = Returned \<longrightarrow> guarded w'"
      using step s sv main_exit_lock [of v H]
      by (cases pc) (auto split: bind_splits nca_next.splits prod.splits if_splits)
  qed
  then show ?thesis by simp
qed

subsection \<open>Calls\<close>

lemma scsi_main_ok:
  assumes F: "machineid H = ATARI_FALCON" and ok: "nca_ok w" and l: "falcon_lock w = DMA_LOCK_GRANT" and ret: "scsi_main H w = Some (e, w')"
  shows "e = Returned \<and> nca_rest w'"
proof -
  obtain u v where v: "run_state (io (scsi_idisable H)) w = (u, v)" by (cases "run_state (io (scsi_idisable H)) w")
  have "nca_ok v" using tripleD [OF keeps_closed [OF closed_ok keeps_io] ok v] .
  moreover have "falcon_lock v = DMA_LOCK_GRANT" using lockD [OF lock_io v] l by simp
  moreover have "c_loop (main_step H) (Top, v) = Some (e, w')" using ret v by (simp add: scsi_main_def)
  ultimately show ?thesis using main_loop_ok [OF F, of Top v e w'] main_loop_lock [of H Top v w'] by (auto simp: main_inv_def nca_rest_def)
qed

lemma run_main_ok:
  assumes F: "machineid H = ATARI_FALCON" "grab_grants H" and w: "nca_ok w" "\<not> main_running w" "guarded w" and ret: "run_main H w = Some (e, w')"
  shows "e = Returned \<and> nca_rest w'"
proof -
  obtain ok v where v: "run_state (claimed_dma H) w = (ok, v)" by fastforce
  have s: "same_books w v" "discon_q v = discon_q w" using keeps_claimed [of H] v unfolding keeps_def by (metis snd_conv)+
  have okv: "nca_ok v" by (rule closedD [OF closed_ok w(1) s])
  have r: "main_running v = main_running w"
    using v F(1) by (auto simp: claimed_dma_def falcon_claimed_dma_def run_simps io_def split: if_splits prod.splits)
  have fal: "connected w = None \<and> discon_q w = []" if "\<not> ok"
    using v F(1) w(3) that by (auto simp: claimed_dma_def falcon_claimed_dma_def run_simps guarded_def split: if_splits)
  show ?thesis
  proof (cases ok)
    case True
    have "falcon_lock v = DMA_LOCK_GRANT"
      using v F True by (auto simp: claimed_dma_def falcon_claimed_dma_def run_simps io_def grab_grants_def split: if_splits prod.splits) blast
    moreover have "nca_ok (v\<lparr>main_running := True\<rparr>)" by (rule closedD [OF closed_ok okv]) (simp_all add: same_books_def)
    moreover have "scsi_main H (v\<lparr>main_running := True\<rparr>) = Some (e, w')" using ret v True w(2) by (simp add: run_main_def)
    ultimately show ?thesis using scsi_main_ok [OF F(1)] by fastforce
  next
    case False
    then have "e = Returned" "w' = v" using ret v w(2) by (simp_all add: run_main_def)
    then show ?thesis using okv r w(2) fal [OF False] s by (simp add: nca_rest_def nca_idle_def guarded_def same_books_connected)
  qed
qed

text \<open>With no request disconnected, a reselection connects none.\<close>

lemma reselect_none_at:
  assumes F: "machineid H = ATARI_FALCON"
  shows "preserves (nca_at [] [] None [] []) (reselect H)"
proof -
  have ab: "preserves (nca_at [] [] None [] []) (nca_reselect_abort H)"
    unfolding nca_reselect_abort_def by (intro keeps_then keeps_io triple_prod triple_if scsi_reset_at [OF F] triple_return)
  have no: "triple (nca_at [] [] None [] []) (do {
       t \<leftarrow> peek (\<lambda>w. List.find (\<lambda>r. tm = targ_bit w r) (discon_q w));
       case t of None \<Rightarrow> nca_reselect_abort H
       | Some r \<Rightarrow> poke (\<lambda>w. w\<lparr>discon_q := remove1 r (discon_q w), connected := Some r\<rparr>) }) (\<lambda>_. nca_at [] [] None [] [])" for tm
    by (rule tripleI, rule tripleD [OF ab]) (auto simp: run_simps nca_at_def)
  show ?thesis
    unfolding reselect_def
    by (rule keeps_then [OF keeps_io]) (auto intro!: triple_if scsi_reset_at [OF F] triple_return ab no split: sum.split prod.split)
qed

text \<open>The state in which \<open>run_main\<close> is called.\<close>

definition ready :: "'d nca \<Rightarrow> bool" where "ready w \<longleftrightarrow> nca_ok w \<and> \<not> main_running w \<and> guarded w"

lemma rest_ready: "nca_rest w \<Longrightarrow> ready w"
  by (simp add: ready_def nca_rest_def nca_idle_def)

lemma keeps_ready:
  assumes "keeps m" "keeps_lock m"
  shows "preserves ready m" "preserves nca_rest m"
proof -
  have "ready w'" if "ready w" "run_state m w = (x, w')" for x w w'
  proof -
    have s: "same_books w w'" "discon_q w' = discon_q w" using assms(1) that(2) unfolding keeps_def by (metis snd_conv)+
    show ?thesis using that(1) closedD [OF closed_ok _ s] lockD [OF assms(2) that(2)] runningD [OF assms(2) that(2)] s same_books_connected [OF s(1)]
      by (auto simp: ready_def guarded_def)
  qed
  then show "preserves ready m" by (rule tripleI)
  have "nca_rest w'" if "nca_rest w" "run_state m w = (x, w')" for x w w'
  proof -
    have "same_books w w'" using assms(1) that(2) unfolding keeps_def by (metis snd_conv)
    then show ?thesis using tripleD [OF \<open>preserves ready m\<close> rest_ready [OF that(1)] that(2)] that(1)
      by (auto simp: nca_rest_def nca_idle_def ready_def same_books_connected)
  qed
  then show "preserves nca_rest m" by (rule tripleI)
qed

lemma reselect_ready:
  assumes F: "machineid H = ATARI_FALCON" and w: "nca_rest w" and run: "run_state (reselect H) w = (u, w')"
  shows "ready w'"
proof (cases "discon_q w = []")
  case True
  then have "nca_at [] [] None [] [] w" using w by (simp add: nca_rest_def nca_idle_def nca_at_def nca_ok_def)
  from tripleD [OF reselect_none_at [OF F] this run] have a: "nca_at [] [] None [] [] w'" .
  then show ?thesis using w runningD [OF lock_reselect run] at_ok [OF a]
    by (simp add: ready_def nca_rest_def nca_idle_def nca_at_def guarded_def)
next
  case False
  have "nca_at (discon_q w) (discon_q w) None [] [] w" using w by (simp add: nca_rest_def nca_idle_def nca_at_def nca_ok_def)
  from tripleD [OF reselect_at [OF F] this run] have "nca_ok w'" .
  moreover have "falcon_lock w' = DMA_LOCK_GRANT" using False w lockD [OF lock_reselect run] by (simp add: nca_rest_def guarded_def)
  ultimately show ?thesis using w runningD [OF lock_reselect run] by (simp add: ready_def nca_rest_def nca_idle_def guarded_def)
qed

lemma run_main_ready:
  "machineid H = ATARI_FALCON \<Longrightarrow> grab_grants H \<Longrightarrow> ready w \<Longrightarrow> run_main H w = Some (e, w') \<Longrightarrow> e = Returned \<and> nca_rest w'"
  by (rule run_main_ok) (simp_all add: ready_def)

lemma check_intr_rest:
  assumes "nca_rest w" "run_state (do { io (scsi_idisable H); check_intr H }) w = (it, w')"
  shows "it \<noteq> INTR_DMA" "nca_rest w'"
proof -
  let ?m = "do { io (scsi_idisable H); check_intr H }"
  have a: "nca_at (discon_q w) (discon_q w) None [] [] w" using assms(1) by (simp add: nca_rest_def nca_idle_def nca_at_def nca_ok_def)
  have "triple (nca_at (discon_q w) (discon_q w) None [] []) ?m (\<lambda>it v. it \<noteq> INTR_DMA \<and> nca_at (discon_q w) (discon_q w) None [] [] v)"
    by (rule keeps_then [OF keeps_io check_intr_at])
  from tripleD [OF this a assms(2)] have r: "it \<noteq> INTR_DMA" "nca_at (discon_q w) (discon_q w) None [] [] w'" by simp_all
  have k: "keeps_lock ?m" by (intro lock_rules)
  show "it \<noteq> INTR_DMA" by (rule r(1))
  show "nca_rest w'" using assms(1) r(2) at_ok [OF r(2)] lockD [OF k assms(2)] runningD [OF k assms(2)]
    by (simp add: nca_rest_def nca_idle_def guarded_def nca_at_def)
qed

lemma ctrl_intr_ok:
  assumes F: "machineid H = ATARI_FALCON" "grab_grants H" and w: "nca_rest w" and ret: "ncr_ctrl_intr H w = Some (e, w')"
  shows "e = Returned \<and> nca_rest w'"
proof -
  obtain p w1 where p: "run_state (scsi_ipending H) w = (p, w1)" by fastforce
  have w1: "nca_rest w1" by (rule tripleD [OF keeps_ready(2) [OF keeps_ipending lock_intr(2)] w p])
  obtain it w2 where c: "run_state (do { io (scsi_idisable H); check_intr H }) w1 = (it, w2)" by fastforce
  note w2 = check_intr_rest [OF w1 c]
  obtain w3 where s: "run_state (reselect H) w2 = ((), w3)" by (rule run_unit)
  obtain w4 where q: "run_state (io (scsi_clr_ipend H)) w3 = ((), w4)" by (rule run_unit)
  have "ready w4" by (rule tripleD [OF keeps_ready(1) [OF keeps_io lock_io] reselect_ready [OF F(1) w2(2) s] q])
  then have resel: "run_main H w4 = Some (e, w') \<Longrightarrow> ?thesis" by (rule run_main_ready [OF F])
  have spur: "run_main H w2 = Some (e, w') \<Longrightarrow> ?thesis" by (rule run_main_ready [OF F rest_ready [OF w2(2)]])
  show ?thesis
    using ret w w1 p c s q w2(1) resel spur
    by (cases it) (auto simp: ncr_ctrl_intr_def nca_rest_def nca_idle_def split: if_splits)
qed

lemma rest_not_in_dma: "nca_rest w \<Longrightarrow> \<not> in_dma w"
  by (simp add: nca_rest_def nca_idle_def in_dma_def)

lemma rest_at: "nca_rest w \<Longrightarrow> nca_at (discon_q w) (discon_q w) None [] [] w"
  by (simp add: nca_rest_def nca_idle_def nca_at_def nca_ok_def)

lemma submit_ready:
  assumes F: "machineid H = ATARI_FALCON" and w: "nca_rest w" and run: "run_state (submit H x) w = (q, w')"
  shows "nca_rest w'"
proof -
  from tripleD [OF submit_at [OF F] rest_at [OF w] run] have a: "nca_at (discon_q w) (discon_q w) None [] [] w'" .
  then show ?thesis using w at_ok [OF a] lockD [OF lock_submit run] runningD [OF lock_submit run]
    by (simp add: nca_rest_def nca_idle_def guarded_def nca_at_def)
qed

lemma reset_call_ok:
  assumes F: "machineid H = ATARI_FALCON" and w: "nca_rest w"
    and run: "run_state (do { scsi_reset H; poke (\<lambda>w. w\<lparr>taken := taken w @ [x]\<rparr>); scsipi_done H x }) w = (u, w')"
  shows "nca_rest w'"
proof -
  obtain v where r: "run_state (scsi_reset H) w = ((), v)" by (rule run_unit)
  have a: "nca_at [] [] None [] [] v" by (rule tripleD [OF scsi_reset_at [OF F] rest_at [OF w] r])
  let ?v = "v\<lparr>taken := taken v @ [x], xfers := xfers v, returned := returned v @ [(x, x_error (xfers v x))]\<rparr>"
  have "nca_inv [] [] [] ?v" using a by (intro inv_shortage) (simp_all add: nca_at_def)
  then have b: "nca_at [] [] None [] [] ?v" using a by (simp add: nca_at_def)
  have v: "v\<lparr>taken := taken v @ [x], returned := returned v @ [(x, x_error (xfers v x))]\<rparr> = ?v" by (cases v) simp
  have h: "run_state (hand_over H) ?v = (u, w')"
    using run r by (simp add: scsipi_done_def log_done_def run_simps flip: v)
  have k: "keeps_lock (hand_over H)" unfolding hand_over_def by (auto intro!: lock_rules lock_poke)
  from tripleD [OF hand_over_at [OF F] b h] have c: "nca_at [] [] None [] [] w'" .
  then show ?thesis using w at_ok [OF c] runningD [OF lock_reset r] runningD [OF k h]
    by (simp add: nca_rest_def nca_idle_def guarded_def nca_at_def)
qed

lemma request_ok:
  assumes F: "machineid H = ATARI_FALCON" "grab_grants H" and w: "nca_rest w" and ret: "ncr5380_scsi_request H x w = Some (e, w')"
  shows "e = Returned \<and> nca_rest w'"
proof (cases "x_reset (xfers w x)")
  case True
  obtain u v where "run_state (do { scsi_reset H; poke (\<lambda>w. w\<lparr>taken := taken w @ [x]\<rparr>); scsipi_done H x }) w = (u, v)"
    by (cases "run_state (do { scsi_reset H; poke (\<lambda>w. w\<lparr>taken := taken w @ [x]\<rparr>); scsipi_done H x }) w")
  with True ret reset_call_ok [OF F(1) w this] show ?thesis by (simp add: ncr5380_scsi_request_def)
next
  case False
  obtain q v where s: "run_state (submit H x) w = (q, v)" by fastforce
  note v = submit_ready [OF F(1) w s]
  show ?thesis
    using ret False s v run_main_ready [OF F rest_ready [OF v]] by (auto simp: ncr5380_scsi_request_def split: if_splits)
qed

fun call_fits :: "nca_call \<Rightarrow> bool" where
  "call_fits (Run_xfer x z) \<longleftrightarrow> x_target z < 8"
| "call_fits _ \<longleftrightarrow> True"

lemma rest_arrivals: "nca_rest w \<Longrightarrow> nca_rest (w\<lparr>arrivals := a\<rparr>)"
proof -
  assume w: "nca_rest w"
  have "keeps_lock (poke (\<lambda>w. w\<lparr>arrivals := a\<rparr>))" by (rule lock_poke) simp
  from tripleD [OF keeps_ready(2) [OF keeps_arrivals this] w] show ?thesis by (simp add: run_simps)
qed

lemma rest_xfers:
  assumes "nca_rest w" "x_target z < 8"
  shows "nca_rest (w\<lparr>xfers := (xfers w)(x := z)\<rparr>)" (is "nca_rest ?v")
proof -
  have o: "owned D h ?v = owned D h w" "conn ?v = conn w" "real_req ?v = real_req w" for D h
    by (simp_all add: conn_def owned_def real_req_def fun_eq_iff)
  show ?thesis using assms
    by (simp add: nca_rest_def nca_idle_def nca_ok_def nca_inv_def guarded_def books_def links_def nexus_def held_def no_dma_def o)
qed

lemma do_call_ok:
  assumes F: "machineid H = ATARI_FALCON" "grab_grants H" and w: "nca_rest w" and c: "call_fits c" and ret: "do_call H c w = Some (e, w')"
  shows "e = Returned \<and> nca_rest w'"
proof (cases c)
  case (Run_xfer x z)
  then show ?thesis using ret c request_ok [OF F rest_xfers [OF w]] by simp
next
  case Ctrl
  then show ?thesis using ret ctrl_intr_ok [OF F w] by simp
next
  case Dma
  then show ?thesis using ret w rest_not_in_dma [OF w] by (auto simp: ncr_dma_intr_def)
next
  case Hard_ctrl
  have "keeps (scsi_ctrl H)" "keeps_lock (scsi_ctrl H)" unfolding scsi_ctrl_def by (rule keeps_io, rule lock_io)
  from tripleD [OF keeps_ready(2) [OF this] w] show ?thesis using ret Hard_ctrl by (metis Pair_inject do_call.simps(6) option.inject prod.collapse)
next
  case Hard_dma
  have "keeps (scsi_dma H)" "keeps_lock (scsi_dma H)" unfolding scsi_dma_def by (intro keeps_rules, intro lock_rules)
  from tripleD [OF keeps_ready(2) [OF this] w] show ?thesis using ret Hard_dma by (metis Pair_inject do_call.simps(7) option.inject prod.collapse)
next
  case Lock_granted
  let ?v = "w\<lparr>falcon_lock := DMA_LOCK_GRANT\<rparr>"
  have "ready ?v"
    using w closedD [OF closed_ok, of w ?v] by (simp add: ready_def nca_rest_def nca_idle_def guarded_def same_books_def)
  then show ?thesis using ret w Lock_granted run_main_ready [OF F, of ?v] by (auto split: if_splits)
qed (use ret w in auto)

lemma do_calls_ok:
  assumes F: "machineid H = ATARI_FALCON" "grab_grants H"
  shows "nca_rest w \<Longrightarrow> \<forall>(a, c)\<in>set cs. call_fits c \<Longrightarrow> do_calls H cs w = Some (e, w') \<Longrightarrow> e = Returned \<and> nca_rest w'"
proof (induction cs arbitrary: w)
  case (Cons ac cs)
  obtain a c where ac: "ac = (a, c)" by fastforce
  from Cons.prems(3) obtain e1 w1 where c: "do_call H c (w\<lparr>arrivals := a\<rparr>) = Some (e1, w1)"
    and r: "(if e1 = Panicked then Some (Panicked, w1) else do_calls H cs w1) = Some (e, w')"
    by (auto simp: ac split: bind_splits)
  have "e1 = Returned \<and> nca_rest w1" by (rule do_call_ok [OF F rest_arrivals [OF Cons.prems(1)] _ c]) (use Cons.prems(2) ac in auto)
  then show ?case using Cons.IH [of w1] Cons.prems(2) r by auto
qed simp

end
