(* ===== verification/Nca_Live.thy ===== *)
theory Nca_Live
  imports Nca_Calls
begin

text \<open>
  The main routine of the Atari driver on hardware that is known well enough to say what it does: a bus on which nobody
  answers, and a target that drops BSY in the middle of a DMA transfer.
\<close>

subsection \<open>Programs with a known result\<close>

definition yields :: "('d, 'a) state \<Rightarrow> 'a \<Rightarrow> bool" where "yields m x \<longleftrightarrow> (\<forall>d. fst (run_state m d) = x)"

lemma yields_return: "yields (State_Monad.return x) x"
  by (simp add: yields_def)

lemma yields_bind: "yields m x \<Longrightarrow> yields (f x) y \<Longrightarrow> yields (State_Monad.bind m f) y"
  by (auto simp: yields_def split: prod.splits) (metis fst_conv)

lemma yields_skip: "(\<And>x. yields (f x) y) \<Longrightarrow> yields (State_Monad.bind m f) y"
  by (auto simp: yields_def split: prod.splits)

lemma yieldsD: "yields m x \<Longrightarrow> run_state m d = (y, d') \<Longrightarrow> y = x"
  unfolding yields_def by (metis fst_conv)

text \<open>A predicate on the driver's state that does not look at the device.\<close>

definition soft :: "('d nca \<Rightarrow> bool) \<Rightarrow> bool" where "soft P \<longleftrightarrow> (\<forall>w d. P w \<longrightarrow> P (w\<lparr>dev := d\<rparr>))"

lemma io_skip: "soft P \<Longrightarrow> (\<And>x. triple P (f x) Q) \<Longrightarrow> triple P (State_Monad.bind (io m) f) Q"
  by (rule triple_bind [where R = "\<lambda>_. P"]) (auto simp: triple_def io_def soft_def split: prod.splits)

lemma io_yields: "yields m x \<Longrightarrow> soft P \<Longrightarrow> triple P (f x) Q \<Longrightarrow> triple P (State_Monad.bind (io m) f) Q"
  by (rule triple_bind [where R = "\<lambda>y w. y = x \<and> P w"])
    (auto simp: triple_def io_def soft_def split: prod.splits dest: yieldsD)

lemma io_last: "soft P \<Longrightarrow> triple P (io m) (\<lambda>_. P)"
  by (auto simp: triple_def io_def soft_def split: prod.splits)

subsection \<open>A bus on which nobody answers\<close>

text \<open>No target sets BSY, none reselects, no interrupt is pending, and nobody else wants the DMA; arbitration is won.\<close>

definition bus_free :: "'d nca_hw \<Rightarrow> bool" where
  "bus_free H \<longleftrightarrow> (\<forall>d. fst (run_state (GET_5380_REG H NCR5380_IDSTAT) d) AND SC_S_BSY = 0 \<and>
     fst (run_state (GET_5380_REG H NCR5380_IDSTAT) d) AND SC_S_SEL = 0 \<and>
     fst (run_state (GET_5380_REG H NCR5380_DMSTAT) d) AND SC_IRQ_SET = 0 \<and> \<not> fst (st_dmawanted H d))"

definition quiet_bus :: "'d nca_hw \<Rightarrow> bool" where
  "quiet_bus H \<longleftrightarrow> bus_free H \<and>
     (\<forall>d. fst (run_state (GET_5380_REG H NCR5380_ICOM) d) AND SC_AIP \<noteq> 0 \<and> fst (run_state (GET_5380_REG H NCR5380_ICOM) d) AND SC_LA = 0)"

lemma yields_test_reg:
  "(\<And>d. (fst (run_state (GET_5380_REG H r) d) AND m \<noteq> 0) = on) \<Longrightarrow> yields (test_reg H r m b) (on = b)"
  unfolding yields_def test_reg_def by (auto split: prod.splits) (metis fst_conv)+

lemma quiet_tests:
  assumes "quiet_bus H"
  shows "yields (test_reg H NCR5380_IDSTAT SC_S_BSY True) False" "yields (test_reg H NCR5380_ICOM SC_AIP True) True"
    "yields (test_reg H NCR5380_ICOM SC_LA True) False"
  using yields_test_reg [of H NCR5380_IDSTAT SC_S_BSY False True] yields_test_reg [of H NCR5380_ICOM SC_AIP True True]
    yields_test_reg [of H NCR5380_ICOM SC_LA False True] assms by (simp_all add: quiet_bus_def bus_free_def)

lemma yields_quit: "\<not> b \<Longrightarrow> yields n y \<Longrightarrow> yields (if b then m else n) y" and yields_go: "b \<Longrightarrow> yields m y \<Longrightarrow> yields (if b then m else n) y"
  by simp_all

lemma quiet_arbitrate:
  assumes q: "quiet_bus H"
  shows "yields (nca_arbitrate H) True"
  unfolding nca_arbitrate_def
  by (rule yields_skip, rule yields_skip, rule yields_skip, rule yields_skip, rule yields_skip,
      rule yields_bind [OF quiet_tests(2) [OF q]], rule yields_quit, simp, rule yields_skip,
      rule yields_bind [OF quiet_tests(3) [OF q]], rule yields_quit, simp, rule yields_skip,
      rule yields_bind [OF quiet_tests(3) [OF q]], rule yields_quit, simp, rule yields_skip,
      rule yields_bind [OF quiet_tests(3) [OF q]], rule yields_quit, simp, rule yields_skip, rule yields_return)

lemma quiet_select:
  assumes q: "quiet_bus H"
  shows "yields (nca_select_target H tb atn) False"
  unfolding nca_select_target_def
  by (rule yields_skip, rule yields_skip, rule yields_skip, rule yields_skip, rule yields_skip, rule yields_skip, rule yields_skip,
      rule yields_bind [OF quiet_tests(1) [OF q]],
      rule yields_bind [OF yields_quit [OF _ yields_skip [OF yields_skip [OF quiet_tests(1) [OF q]]]]], simp,
      rule yields_skip, rule yields_skip, rule yields_return)

lemma sel_io_off: "b AND 0x02 = 0 \<Longrightarrow> b AND (0x02 OR 0x04) \<noteq> 0x02 OR 0x04" for b :: byte
proof
  assume a: "b AND 0x02 = 0" and e: "b AND (0x02 OR 0x04) = 0x02 OR 0x04"
  have "bit (b AND (0x02 OR 0x04)) 1 = bit (0x02 OR 0x04 :: byte) 1" by (simp only: e)
  then have "bit b 1" by (simp add: bit_simps)
  with a show False by (simp add: byte_masks)
qed

lemma yields_map: "(\<And>d. g (fst (run_state m d)) = y) \<Longrightarrow> yields (State_Monad.bind m (\<lambda>x. State_Monad.return (g x))) y"
  unfolding yields_def by (simp split: prod.split) (metis fst_conv)

lemma quiet_resel:
  assumes q: "bus_free H"
  shows "yields (resel_pending H) False"
  unfolding resel_pending_def by (rule yields_map) (use q sel_io_off in \<open>simp add: bus_free_def\<close>)

lemma quiet_fair: "bus_free H \<Longrightarrow> yields (fair_to_keep_dma H) True"
  by (auto simp: yields_def fair_to_keep_dma_def bus_free_def split: machine.splits prod.splits) (metis fst_conv)

text \<open>
  The state on the way: the requests \<open>gone\<close> have come back with a selection timeout, those in \<open>l\<close> wait.
\<close>

definition drained :: "'d nca \<Rightarrow> nat list \<Rightarrow> nat list \<Rightarrow> 'd nca \<Rightarrow> bool" where
  "drained w gone l v \<longleftrightarrow> issue_q v = l \<and> reqs v = reqs w \<and> free_q v = rev gone @ free_q w \<and>
     returned v = returned w @ map (\<lambda>r. (xs (reqs w r), XS_SELTIMEOUT)) (filter (real_req w) gone) \<and>
     connected v = None \<and> busy v = 0 \<and> arrivals v = [] \<and> discon_q v = discon_q w \<and> strayed v = strayed w"

lemma soft_drained: "soft (drained w gone l)"
  by (simp add: soft_def drained_def)

lemma quiet_timeout: "triple (drained w gone l) (select_timeout H r) (\<lambda>_. drained w (gone @ [r]) l)"
proof (rule tripleI)
  fix v u v' assume d: "drained w gone l v" and run: "run_state (select_timeout H r) v = (u, v')"
  have rr: "real_req w r \<longleftrightarrow> dr_flag (reqs v r) AND DRIVER_LINKCHK = 0" using d by (simp add: drained_def real_req_def)
  show "drained w (gone @ [r]) l v'"
    using run d
    by (cases "dr_flag (reqs v r) AND DRIVER_LINKCHK = 0"; cases "dr_flag (reqs v r) AND DRIVER_BOUNCING = 0")
      (auto simp: select_timeout_def set_error_def has_flag_def finish_req_def scsipi_done_def log_done_def hand_over_def run_simps io_def put_def
        drained_def rr split: prod.splits)
qed

lemma peek_known: "(\<And>w. P w \<Longrightarrow> f w = x) \<Longrightarrow> triple P (g x) Q \<Longrightarrow> triple P (State_Monad.bind (peek f) g) Q"
  by (auto simp: triple_def run_simps split: prod.splits)

lemma peek_any: "(\<And>x. triple P (g x) Q) \<Longrightarrow> triple P (State_Monad.bind (peek f) g) Q"
  by (auto simp: triple_def run_simps split: prod.splits)

lemma quiet_scsi_select:
  assumes q: "quiet_bus H"
  shows "triple (drained w gone l) (nca_scsi_select H r) (\<lambda>ok v. ok \<and> drained w (gone @ [r]) l v)"
proof -
  note s = soft_drained [of w gone l]
  have t: "triple (drained w gone l) (do {
      (if \<not> False then select_timeout H r else if atn = 0 then connect_req r PH_CMD else identify H r); State_Monad.return True })
      (\<lambda>ok v. ok \<and> drained w (gone @ [r]) l v)" for atn :: byte
    by (simp, rule triple_bind [OF quiet_timeout]) (auto intro: triple_return)
  show ?thesis
    unfolding nca_scsi_select_def
    by (rule peek_known [where x = None], simp add: drained_def, simp only: simp_thms if_False,
        rule io_yields [OF quiet_arbitrate [OF q] s], simp only: simp_thms if_False, rule peek_any, rule peek_any,
        rule io_yields [OF quiet_select [OF q] s], rule t)
qed

lemma free_main_top:
  assumes q: "bus_free H" and t: "triple (drained w gone l) (do { t \<leftarrow> pick; serve H t }) Q"
  shows "triple (drained w gone l) (main_top H) Q"
  unfolding main_top_def
  by (rule peek_known [where x = None], simp add: drained_def, simp only: simp_thms if_False,
      rule io_yields [OF quiet_fair [OF q] soft_drained]) (simp add: t)

lemma free_main_top_Nil:
  assumes q: "bus_free H"
  shows "triple (drained w gone []) (main_top H) (\<lambda>pc v. pc = Main_exit \<and> drained w gone [] v)"
proof (rule free_main_top [OF q])
  have pn: "triple (drained w gone []) pick (\<lambda>t v. t = None \<and> drained w gone [] v)"
    by (rule tripleI) (auto simp: pick_def run_simps drained_def)
  have sn: "triple (drained w gone []) (serve H None) (\<lambda>pc v. pc = Main_exit \<and> drained w gone [] v)"
    unfolding serve_def option.case
    by (rule io_yields [OF quiet_resel [OF q] soft_drained]) (auto intro: triple_return)
  show "triple (drained w gone []) (do { t \<leftarrow> pick; serve H t }) (\<lambda>pc v. pc = Main_exit \<and> drained w gone [] v)"
    by (rule triple_bind [OF pn]) (use sn in \<open>auto simp: triple_def\<close>)
qed

lemma quiet_main_top:
  assumes q: "quiet_bus H"
  shows "triple (drained w gone (r # l)) (main_top H) (\<lambda>pc v. pc = Connected \<and> drained w (gone @ [r]) l v)"
proof -
  have f: "bus_free H" using q by (simp add: quiet_bus_def)
  have p: "triple (drained w gone (r # l)) pick (\<lambda>t v. t = Some r \<and> drained w gone l v)"
    by (rule tripleI) (auto simp: pick_def run_simps drained_def)
  have i: "triple (drained w gone l) (issue_req H r) (\<lambda>pc v. pc = Connected \<and> drained w (gone @ [r]) l v)"
    unfolding issue_req_def by (rule triple_bind [OF quiet_scsi_select [OF q]]) (auto simp: triple_def)
  have sv: "triple (drained w gone l) (serve H (Some r)) (\<lambda>pc v. pc = Connected \<and> drained w (gone @ [r]) l v)"
    unfolding serve_def option.case
    by (rule io_yields [OF quiet_resel [OF f] soft_drained]) (simp add: i)
  show ?thesis
    by (rule free_main_top [OF f], rule triple_bind [OF p]) (use sv in \<open>auto simp: triple_def\<close>)
qed

lemma reconsider_soft:
  assumes "drained w gone l v" "run_state (reconsider_dma H) v = (u, v')"
  shows "drained w gone l v'"
  using assms
  by (cases "machineid H") (auto simp: reconsider_dma_def falcon_reconsider_dma_def run_simps io_def put_def drained_def split: prod.splits if_splits)

lemma free_ipending:
  assumes q: "bus_free H"
  shows "triple (drained w gone l) (scsi_ipending H) (\<lambda>b v. \<not> b \<and> drained w gone l v)"
proof (cases "machineid H")
  case ATARI_TT
  have "yields (do { v \<leftarrow> get_tt_5380_reg H NCR5380_DMSTAT; State_Monad.return (v AND SC_IRQ_SET \<noteq> 0) }) False"
    by (rule yields_map) (use q ATARI_TT in \<open>simp add: bus_free_def GET_5380_REG_def\<close>)
  then show ?thesis
    by (auto simp: scsi_ipending_def ATARI_TT triple_def io_def drained_def yields_def split: prod.splits)
next
  case ATARI_FALCON
  have y: "fst (run_state (get_falcon_5380_reg H NCR5380_DMSTAT) d) AND SC_IRQ_SET = 0" for d
    using q ATARI_FALCON by (simp add: bus_free_def GET_5380_REG_def)
  show ?thesis
  proof (rule tripleI)
    fix v b v' assume d: "drained w gone l v" and run: "run_state (scsi_ipending H) v = (b, v')"
    have "\<not> in_dma v" using d by (simp add: drained_def in_dma_def)
    then show "\<not> b \<and> drained w gone l v'"
      using run d y [of "dev v"]
      by (auto simp: scsi_ipending_def ATARI_FALCON scsi_falcon_ipending_def run_simps io_def drained_def split: prod.splits)
  qed
qed

lemma free_main_exit:
  assumes q: "bus_free H"
  shows "triple (drained w gone []) (main_exit H) (\<lambda>back v. back \<and> drained w gone [] v \<and> \<not> main_running v)"
proof -
  have leave: "triple (drained w gone []) (do { reconsider_dma H; poke (\<lambda>w. w\<lparr>main_running := False\<rparr>); State_Monad.return True })
      (\<lambda>back v. back \<and> drained w gone [] v \<and> \<not> main_running v)"
    by (rule triple_bind [where R = "\<lambda>_. drained w gone []"], rule tripleI, erule (1) reconsider_soft)
      (auto intro!: tripleI simp: run_simps drained_def)
  have p: "triple (\<lambda>v. \<not> p \<and> drained w gone [] v) (do {
     it \<leftarrow> (if p then check_intr H else State_Monad.return INTR_SPURIOUS);
     if it \<noteq> INTR_SPURIOUS then do {
       io (do { scsi_idisable H; scsi_clr_ipend H });
       (if it = INTR_RESEL then reselect H else do { _ \<leftarrow> dma_ready H; State_Monad.return () });
       State_Monad.return False }
     else do { reconsider_dma H; poke (\<lambda>w. w\<lparr>main_running := False\<rparr>); State_Monad.return True } })
     (\<lambda>back v. back \<and> drained w gone [] v \<and> \<not> main_running v)" for p
    using leave by (cases p) (auto simp: triple_def)
  have idstat: "preserves (drained w gone []) (if c then io (SET_5380_REG H NCR5380_IDSTAT SC_HOST_ID) else State_Monad.return ())" for c
    by (auto intro!: triple_if io_last soft_drained triple_return)
  show ?thesis
    unfolding main_exit_def
    by (rule io_skip [OF soft_drained], rule peek_any, rule triple_bind [OF idstat], rule triple_bind [OF free_ipending [OF q] p])
qed

text \<open>The main routine returns, with every waiting request given back.\<close>

lemma quiet_main_loop:
  assumes q: "quiet_bus H" and w: "drained w [] (issue_q w) w"
  shows "\<exists>w'. c_loop (main_step H) (Top, w) = Some (Returned, w') \<and> drained w (issue_q w) [] w' \<and> \<not> main_running w'"
proof -
  have f: "bus_free H" using q by (simp add: quiet_bus_def)
  let ?I = "\<lambda>(pc, v). \<exists>gone l. issue_q w = gone @ l \<and> drained w gone l v \<and> (pc = Top \<or> pc = Connected \<or> pc = Main_exit \<and> l = [])"
  let ?m = "\<lambda>(pc, v). 2 * length (issue_q v) + (case pc of Connected \<Rightarrow> 2 | Top \<Rightarrow> 1 | _ \<Rightarrow> 0)"
  have "\<exists>x. c_loop (main_step H) (Top, w) = Some x \<and> (\<lambda>(e, w'). e = Returned \<and> drained w (issue_q w) [] w' \<and> \<not> main_running w') x"
  proof (rule c_loop_total [where I = ?I and m = ?m])
    fix s assume "?I s"
    then obtain pc v gone l where s: "s = (pc, v)" "issue_q w = gone @ l" "drained w gone l v"
      and pc: "pc = Top \<or> pc = Connected \<or> pc = Main_exit \<and> l = []" by auto
    have lv: "issue_q v = l" using s(3) by (simp add: drained_def)
    from pc show "\<exists>x. main_step H s = Some x \<and> (case x of Inl s' \<Rightarrow> ?I s' \<and> ?m s' < ?m s
      | Inr r \<Rightarrow> (\<lambda>(e, w'). e = Returned \<and> drained w (issue_q w) [] w' \<and> \<not> main_running w') r)"
    proof (elim disjE conjE)
      assume t: "pc = Top"
      obtain pc' v' where r: "run_state (main_top H) v = (pc', v')" by fastforce
      show ?thesis
      proof (cases l)
        case Nil
        with tripleD [OF free_main_top_Nil [OF f] _ r] s(3) have "pc' = Main_exit" "drained w gone [] v'" by auto
        then show ?thesis using s t r Nil by (auto simp: drained_def)
      next
        case (Cons x k)
        with tripleD [OF quiet_main_top [OF q] _ r] s(3) have n: "pc' = Connected" "drained w (gone @ [x]) k v'" by auto
        then show ?thesis using s(1,2) t r Cons lv by (auto simp: drained_def intro!: exI [of _ "gone @ [x]"])
      qed
    next
      assume t: "pc = Connected"
      have "run_state main_connected v = (Top, v)" using s(3) by (simp add: main_connected_def run_simps drained_def)
      then show ?thesis using s t by auto
    next
      assume t: "pc = Main_exit" "l = []"
      obtain b v' where r: "run_state (main_exit H) v = (b, v')" by fastforce
      with tripleD [OF free_main_exit [OF f] _ r] s(3) t(2) have "b" "drained w gone [] v'" "\<not> main_running v'" by auto
      then show ?thesis using s t r by auto
    qed
  next
    show "?I (Top, w)" using w by auto
  qed
  then show ?thesis by auto
qed

subsection \<open>BSY lost in the middle of a DMA transfer\<close>

text \<open>The request \<open>r\<close> is connected, nothing else is on its way; \<open>R\<close> has been returned, \<open>F\<close> is free,
  the flags \<open>m\<close> of the request are clear.\<close>

definition alone :: "byte \<Rightarrow> nat \<Rightarrow> nat \<Rightarrow> (nat \<times> nca_error) list \<Rightarrow> nat list \<Rightarrow> 'd nca \<Rightarrow> bool" where
  "alone m r x R F v \<longleftrightarrow> connected v = Some r \<and> xs (reqs v r) = x \<and> dr_flag (reqs v r) AND m = 0 \<and>
     busy v = targ_bit v r \<and> issue_q v = [] \<and> discon_q v = [] \<and> arrivals v = [] \<and> returned v = R \<and> free_q v = F"

lemma soft_alone: "soft (alone m r x R F)"
  by (simp add: soft_def alone_def targ_bit_def)

lemma alone_blk:
  "(\<And>q. xs (f q) = xs q \<and> targ_id (f q) = targ_id q \<and> dr_flag (f q) = dr_flag q) \<Longrightarrow> preserves (alone m r x R F) (blk s f)"
  by (rule tripleI) (auto simp: run_simps alone_def targ_bit_def)

lemma alone_peek: "preserves (alone m r x R F) (peek f)" and alone_error: "preserves (alone m r x R F) (set_error s e)"
  and alone_has_error: "preserves (alone m r x R F) (has_error s)"
  by (rule tripleI, auto simp: run_simps set_error_def has_error_def alone_def targ_bit_def)+

lemmas alone_rules = preserves_bind preserves_return preserves_if preserves_prod preserves_option io_last [OF soft_alone]
  alone_peek alone_error alone_has_error

lemma alone_result: "machineid H = ATARI_TT \<Longrightarrow> preserves (alone m r x R F) (get_dma_result H s)"
  unfolding get_dma_result_def by (simp add: tt_get_dma_result_def Let_def) (intro alone_rules)

lemma alone_unbounce: "preserves (alone m r x R F) (unbounce H s n)"
  unfolding unbounce_def by (intro alone_rules alone_blk) simp

text \<open>Neither a link check nor bounced; and, once the transfer is over, not in DMA either.\<close>

abbreviation (input) "plain_req \<equiv> (0x30 :: byte)"
abbreviation (input) "stopped_req \<equiv> (0x31 :: byte)"

lemma plain_flags: "f AND plain_req = 0 \<Longrightarrow> f AND DRIVER_LINKCHK = 0" "f AND plain_req = 0 \<Longrightarrow> f AND DRIVER_BOUNCING = 0"
  "f AND stopped_req = 0 \<Longrightarrow> f AND plain_req = 0" "f AND stopped_req = 0 \<Longrightarrow> f AND DRIVER_IN_DMA = 0" for f :: byte
  using and_sub [of f "0x30" 0 "0x20"] and_sub [of f "0x30" 0 "0x10"] and_sub [of f "0x31" 0 "0x30"] and_sub [of f "0x31" 0 "0x01"] by simp_all

lemma stop_flag: "f AND plain_req = 0 \<Longrightarrow> (f AND NOT DRIVER_IN_DMA) AND stopped_req = 0" for f :: byte
  by (simp add: and.assoc)

lemma alone_finish: "triple (alone stopped_req r x R F) (finish_req H r) (\<lambda>_ v. \<exists>e. alone stopped_req r x (R @ [(x, e)]) (r # F) v)"
proof (rule tripleI)
  fix v u v' assume a: "alone stopped_req r x R F v" and run: "run_state (finish_req H r) v = (u, v')"
  have f: "dr_flag (reqs v r) AND DRIVER_LINKCHK = 0" "dr_flag (reqs v r) AND DRIVER_BOUNCING = 0"
    using a plain_flags [of "dr_flag (reqs v r)"] by (simp_all add: alone_def)
  show "\<exists>e. alone stopped_req r x (R @ [(x, e)]) (r # F) v'"
    using run a f by (auto simp: finish_req_def scsipi_done_def log_done_def hand_over_def run_simps alone_def targ_bit_def)
qed

text \<open>The bus is free and the chip says that BSY was lost.\<close>

definition lost_bsy :: "'d nca_hw \<Rightarrow> bool" where
  "lost_bsy H \<longleftrightarrow> machineid H = ATARI_TT \<and> bus_free H \<and> (\<forall>d. fst (run_state (GET_5380_REG H NCR5380_DMSTAT) d) AND SC_BSY_ERR \<noteq> 0)"

lemma io_result:
  "(\<And>d. S (fst (run_state m d))) \<Longrightarrow> soft P \<Longrightarrow> (\<And>x. S x \<Longrightarrow> triple P (f x) Q) \<Longrightarrow> triple P (State_Monad.bind (io m) f) Q"
  by (rule triple_bind [where R = "\<lambda>x w. S x \<and> P w"])
    (auto simp: triple_def io_def soft_def split: prod.splits dest: spec, metis fst_conv)

lemma alone_over:
  assumes "dmstat AND SC_BSY_ERR \<noteq> 0"
  shows "triple (alone plain_req r x R F) (dma_over H r dmstat) (\<lambda>b v. b \<and> (\<exists>e. alone stopped_req r x (R @ [(x, e)]) (r # F) v))"
proof -
  have b: "triple (alone plain_req r x R F) (blk r (dr_flag_update (\<lambda>f. f AND NOT DRIVER_IN_DMA))) (\<lambda>_. alone stopped_req r x R F)"
    by (rule tripleI) (use stop_flag in \<open>auto simp: run_simps alone_def targ_bit_def\<close>)
  have f: "triple (alone stopped_req r x R F) (do { finish_req H r; State_Monad.return True }) (\<lambda>b v. b \<and> (\<exists>e. alone stopped_req r x (R @ [(x, e)]) (r # F) v))"
    by (rule triple_bind [OF alone_finish]) (auto intro: triple_return)
  have e: "preserves (alone stopped_req r x R F) (if err then State_Monad.return () else set_error r XS_TIMEOUT)" for err
    by (intro alone_rules)
  show ?thesis
    unfolding dma_over_def
    by (rule triple_bind [OF b], rule io_skip [OF soft_alone], rule triple_bind [OF alone_has_error])
      (simp add: assms triple_bind [OF e f])
qed

lemma alone_dma_ready:
  assumes l: "lost_bsy H"
  shows "triple (alone plain_req r x R F) (dma_ready H) (\<lambda>b v. b \<and> (\<exists>e. alone stopped_req r x (R @ [(x, e)]) (r # F) v))"
proof -
  have tt: "machineid H = ATARI_TT" and be: "fst (run_state (GET_5380_REG H NCR5380_DMSTAT) d) AND SC_BSY_ERR \<noteq> 0" for d
    using l by (simp_all add: lost_bsy_def)
  have both: "dmstat AND (SC_END_DMA OR SC_BSY_ERR) \<noteq> 0" if "dmstat AND SC_BSY_ERR \<noteq> 0" for dmstat :: byte
    using that and_sub [of dmstat "0x84" 0 "0x04"] by auto
  have adv: "preserves (alone plain_req r x R F) (blk r (advance_chain n))" for n
    by (rule alone_blk) (simp add: advance_chain_def split: prod.split)
  show ?thesis
    unfolding dma_ready_def
  proof (rule peek_known [where x = "Some r"], simp add: alone_def, unfold option.case, rule triple_bind [OF alone_result [OF tt]], rule triple_prod,
      rule io_result [where S = "\<lambda>dmstat. dmstat AND SC_BSY_ERR \<noteq> 0"], rule be, rule soft_alone)
    fix is_edma bytes_left and dmstat :: byte assume d: "dmstat AND SC_BSY_ERR \<noteq> 0"
    have err: "preserves (alone plain_req r x R F) (if c then set_error r XS_TIMEOUT else State_Monad.return ())" for c by (intro alone_rules)
    show "triple (alone plain_req r x R F) (if \<not> is_edma \<and> dmstat AND (SC_END_DMA OR SC_BSY_ERR) = 0 \<and> dmstat AND SC_PHS_MTCH \<noteq> 0 then State_Monad.return False
         else do {
           io (scsi_clr_ipend H);
           n \<leftarrow> peek (\<lambda>w. fst (cur_chain (reqs w r)) - bytes_left);
           unbounce H r n;
           blk r (advance_chain n);
           q \<leftarrow> peek (\<lambda>w. reqs w r);
           chk \<leftarrow> peek (\<lambda>w. \<not> bit (ncr5380_no_parchk w) (targ_id q));
           (if PH_IN (phase q) \<and> dmstat AND SC_PAR_ERR \<noteq> 0 \<and> chk then set_error r XS_TIMEOUT else State_Monad.return ());
           io (SET_5380_REG H NCR5380_MODE IMODE_BASE);
           err \<leftarrow> has_error r;
           if dmstat AND SC_BSY_ERR \<noteq> 0 \<or> dmstat AND SC_PHS_MTCH = 0 \<or> dm_cur q > dm_last q \<or> err then dma_over H r dmstat
           else State_Monad.return False }) (\<lambda>b v. b \<and> (\<exists>e. alone stopped_req r x (R @ [(x, e)]) (r # F) v))"
      by (simp only: both [OF d] d simp_thms if_False if_True,
          rule io_skip [OF soft_alone], rule peek_any, rule triple_bind [OF alone_unbounce], rule triple_bind [OF adv], rule peek_any, rule peek_any,
          rule triple_bind [OF err], rule io_skip [OF soft_alone], rule triple_bind [OF alone_has_error], rule alone_over [OF d])
  qed
qed

text \<open>Nothing is connected or waits.\<close>

definition ended :: "(nat \<times> nca_error) list \<Rightarrow> nat list \<Rightarrow> 'd nca \<Rightarrow> bool" where
  "ended R F v \<longleftrightarrow> connected v = None \<and> busy v = 0 \<and> issue_q v = [] \<and> discon_q v = [] \<and> arrivals v = [] \<and> returned v = R \<and> free_q v = F"

lemma soft_ended: "soft (ended R F)"
  by (simp add: soft_def ended_def)

lemma ended_drained: "ended R F v \<Longrightarrow> drained v [] [] v"
  by (simp add: ended_def drained_def)

lemma alone_end_req: "triple (alone stopped_req r x R F) (end_req H r e) (\<lambda>_. ended (R @ [(x, e)]) (r # F))"
proof (rule tripleI)
  fix v u v' assume a: "alone stopped_req r x R F v" and run: "run_state (end_req H r e) v = (u, v')"
  have f: "dr_flag (reqs v r) AND DRIVER_LINKCHK = 0" "dr_flag (reqs v r) AND DRIVER_BOUNCING = 0"
    using a plain_flags [of "dr_flag (reqs v r)"] by (simp_all add: alone_def)
  show "ended (R @ [(x, e)]) (r # F) v'"
    using run a f
    by (auto simp: end_req_def drop_connected_def nca_clear_busy_def set_error_def finish_req_def scsipi_done_def log_done_def hand_over_def
        run_simps alone_def ended_def targ_bit_def)
qed

lemma ended_reset: "preserves (ended R F) (scsi_reset H)"
proof -
  have c: "preserves (ended R F) (reset_current H)"
    by (rule tripleI) (auto simp: reset_current_def run_simps ended_def in_dma_def)
  have p: "preserves (ended R F) (poke (\<lambda>w. w\<lparr>discon_q := []\<rparr>))"
    by (rule tripleI) (auto simp: run_simps ended_def)
  have r: "preserves (ended R F) (do { give_up H []; poke (\<lambda>w. w\<lparr>discon_q := []\<rparr>); reset_current H; io (nca_delay H 100000) })"
    by (simp, rule triple_bind [OF p], rule triple_bind [OF c], rule io_last [OF soft_ended])
  show ?thesis
    unfolding scsi_reset_def by (rule io_skip [OF soft_ended], rule peek_known [where x = "[]"], simp add: ended_def, rule r)
qed

lemma no_bsy: "b AND 0x40 = 0 \<Longrightarrow> b AND (0x40 OR 0x20) \<noteq> 0x40 OR 0x20" for b :: byte
proof
  assume a: "b AND 0x40 = 0" and e: "b AND (0x40 OR 0x20) = 0x40 OR 0x20"
  have "bit (b AND (0x40 OR 0x20)) 6 = bit (0x40 OR 0x20 :: byte) 6" by (simp only: e)
  then have "bit b 6" by (simp add: bit_simps)
  with a show False by (simp add: byte_masks)
qed

lemma lost_information_transfer:
  assumes l: "lost_bsy H" and a: "alone stopped_req r x R F v"
  shows "\<exists>v'. information_transfer H v = Some (Over, v') \<and> ended (R @ [(x, XS_TIMEOUT)]) (r # F) v'"
proof -
  obtain tmp v1 where p: "run_state (io (phase_status H)) v = (tmp, v1)" by fastforce
  have a1: "alone stopped_req r x R F v1" by (rule tripleD [OF io_last [OF soft_alone] a p])
  have nb: "tmp AND SC_S_BSY = 0"
  proof -
    have "fst (run_state (GET_5380_REG H NCR5380_IDSTAT) d) AND SC_S_BSY = 0" for d using l by (simp add: lost_bsy_def bus_free_def)
    then have "fst (run_state (phase_status H) d) AND SC_S_BSY = 0" for d by (simp add: phase_status_def split: prod.split)
    then show ?thesis using p by (auto simp: io_def split: prod.splits) (metis fst_conv)
  qed
  let ?m = "do { end_req H r XS_TIMEOUT; (if tmp AND SC_S_REQ = 0 then scsi_reset H else State_Monad.return ()); State_Monad.return Over }"
  have t: "triple (alone stopped_req r x R F) ?m (\<lambda>y v. y = Over \<and> ended (R @ [(x, XS_TIMEOUT)]) (r # F) v)"
    by (rule triple_bind [OF alone_end_req], rule triple_bind [where R = "\<lambda>_. ended (R @ [(x, XS_TIMEOUT)]) (r # F)"])
      (auto intro!: triple_if ended_reset triple_return)
  obtain y v2 where r: "run_state ?m v1 = (y, v2)" by fastforce
  have "connected v = Some r" using a by (simp add: alone_def)
  then have "information_transfer H v = Some (y, v2)"
    using no_bsy [OF nb] p r unfolding information_transfer_def by (simp add: run_def Let_def)
  with tripleD [OF t a1 r] show ?thesis by auto
qed

lemma lost_scsi_main:
  assumes l: "lost_bsy H" and a: "alone stopped_req r x R F v"
  shows "\<exists>v'. scsi_main H v = Some (Returned, v') \<and> returned v' = R @ [(x, XS_TIMEOUT)] \<and> free_q v' = r # F"
proof -
  have f: "bus_free H" using l by (simp add: lost_bsy_def)
  obtain v0 where i: "run_state (io (scsi_idisable H)) v = ((), v0)" by (rule run_unit)
  have a0: "alone stopped_req r x R F v0" by (rule tripleD [OF io_last [OF soft_alone] a i])
  have c: "connected v0 = Some r" and nd: "\<not> in_dma v0"
    using a0 plain_flags(4) [of "dr_flag (reqs v0 r)"] by (simp_all add: alone_def in_dma_def)
  obtain v1 where t: "information_transfer H v0 = Some (Over, v1)" and e: "ended (R @ [(x, XS_TIMEOUT)]) (r # F) v1"
    using lost_information_transfer [OF l a0] by blast
  obtain pc v2 where m: "run_state (main_top H) v1 = (pc, v2)" by fastforce
  have d2: "pc = Main_exit" "drained v1 [] [] v2" using tripleD [OF free_main_top_Nil [OF f] ended_drained [OF e] m] by simp_all
  obtain b v3 where x: "run_state (main_exit H) v2 = (b, v3)" by fastforce
  have d3: "b" "drained v1 [] [] v3" using tripleD [OF free_main_exit [OF f] d2(2) x] by simp_all
  have "main_step H (Top, v0) = Some (Inl (Connected, v0))" using c by (simp add: main_top_def run_simps)
  moreover have "main_step H (Connected, v0) = Some (Inl (Phases, v0))" using c nd by (simp add: main_connected_def run_simps)
  moreover have "main_step H (Phases, v0) = Some (Inl (Top, v1))" using t by simp
  moreover have "main_step H (Top, v1) = Some (Inl (Main_exit, v2))" using m d2(1) by simp
  moreover have "main_step H (Main_exit, v2) = Some (Inr (Returned, v3))" using x d3(1) by simp
  ultimately have "c_loop (main_step H) (Top, v0) = Some (Returned, v3)"
    by (subst c_loop.simps, simp, subst c_loop.simps, simp, subst c_loop.simps, simp, subst c_loop.simps, simp, subst c_loop.simps, simp)
  then show ?thesis using i e d3(2) by (simp add: scsi_main_def drained_def ended_def)
qed

end
