(* ===== verification/Nca_Chain.thy ===== *)
theory Nca_Chain
  imports Nca_Mach
begin

text \<open>
  The DMA chain of a request: which physical addresses it covers, and that it fits into its array.
\<close>

text \<open>The addresses of a range, and of the ranges up to \<open>n\<close>, in the order of the transfer.\<close>

definition range_addrs :: "u32 \<times> u32 \<Rightarrow> u32 list" where
  "range_addrs ca = map (\<lambda>j. snd ca + word_of_nat j) [0..<unat (fst ca)]"

definition chain_addrs :: "(nat \<Rightarrow> u32 \<times> u32) \<Rightarrow> nat \<Rightarrow> u32 list" where
  "chain_addrs ch n = concat (map (\<lambda>i. range_addrs (ch i)) [0..<Suc n])"

definition buffer_addrs :: "'d nca_hw \<Rightarrow> u32 \<Rightarrow> nat \<Rightarrow> u32 list" where
  "buffer_addrs H a n = map (\<lambda>k. kvtop H (a + word_of_nat k)) [0..<n]"

text \<open>A page is contiguous in physical memory.\<close>

definition paged :: "'d nca_hw \<Rightarrow> bool" where
  "paged H \<longleftrightarrow> 0 < PAGE_SIZE H \<and> (\<forall>a k. k < PAGE_SIZE H - unat a mod PAGE_SIZE H \<longrightarrow> kvtop H (a + word_of_nat k) = kvtop H a + word_of_nat k)"

lemma chain_addrs_upd: "chain_addrs (ch(Suc n := p)) n = chain_addrs ch n"
  by (auto simp: chain_addrs_def intro!: arg_cong [where f = concat])

lemma chain_addrs_Suc: "chain_addrs ch (Suc n) = chain_addrs ch n @ range_addrs (ch (Suc n))"
  by (simp add: chain_addrs_def)

lemma chain_addrs_grow:
  assumes "unat (fst (ch n)) + m < 2 ^ 32"
  shows "chain_addrs (ch(n := (fst (ch n) + word_of_nat m, snd (ch n)))) n
    = chain_addrs ch n @ map (\<lambda>j. snd (ch n) + fst (ch n) + word_of_nat j) [0..<m]"
proof -
  have u: "unat (fst (ch n) + word_of_nat m) = unat (fst (ch n)) + m"
    using assms by (simp add: unat_word_ariths unat_of_nat)
  have r: "range_addrs (fst (ch n) + word_of_nat m, snd (ch n)) = range_addrs (ch n) @ map (\<lambda>j. snd (ch n) + fst (ch n) + word_of_nat j) [0..<m]"
    unfolding range_addrs_def fst_conv snd_conv u
  proof -
    let ?a = "unat (fst (ch n))"
    have "[0..<?a + m] = [0..<?a] @ map (\<lambda>j. j + ?a) [0..<m]"
      using upt_add_eq_append [of 0 ?a m] by (simp add: map_add_upt add.commute)
    then show "map (\<lambda>j. snd (ch n) + word_of_nat j) [0..<?a + m]
        = map (\<lambda>j. snd (ch n) + word_of_nat j) [0..<?a] @ map (\<lambda>j. snd (ch n) + fst (ch n) + word_of_nat j) [0..<m]"
      by (simp add: ac_simps)
  qed
  have "chain_addrs c n = concat (map (\<lambda>i. range_addrs (c i)) [0..<n]) @ range_addrs (c n)" for c by (simp add: chain_addrs_def)
  then show ?thesis using r by (auto intro!: arg_cong [where f = concat])
qed

text \<open>
  Along the loop: \<open>got\<close> bytes of the buffer at \<open>a\<close> are covered, \<open>req_len\<close> are left, and the range being built ends where the
  rest begins.
\<close>

definition covering :: "'d nca_hw \<Rightarrow> u32 \<Rightarrow> nat \<Rightarrow> nat \<Rightarrow> u32 \<Rightarrow> nat \<Rightarrow> (nat \<Rightarrow> u32 \<times> u32) \<Rightarrow> bool" where
  "covering H a got req_len phy_buf dm ch \<longleftrightarrow>
     unat a + got + req_len \<le> 2 ^ 32 \<and> got + req_len < 2 ^ 32 \<and> unat (fst (ch dm)) \<le> got \<and> dm < MAXDMAIO H \<and>
     chain_addrs ch dm = buffer_addrs H a got \<and>
     (req_len > 0 \<longrightarrow> phy_buf = kvtop H (a + word_of_nat got) \<and> snd (ch dm) + fst (ch dm) = phy_buf)"

lemma buffer_addrs_add: "buffer_addrs H a (m + n) = buffer_addrs H a m @ buffer_addrs H (a + word_of_nat m) n"
proof -
  have "[0..<m + n] = [0..<m] @ map (\<lambda>j. j + m) [0..<n]" using upt_add_eq_append [of 0 m n] by (simp add: map_add_upt add.commute)
  then show ?thesis by (simp add: buffer_addrs_def ac_simps)
qed

lemma page_addrs:
  assumes "paged H" "n \<le> PAGE_SIZE H - unat a mod PAGE_SIZE H"
  shows "buffer_addrs H a n = map (\<lambda>j. kvtop H a + word_of_nat j) [0..<n]"
  using assms unfolding paged_def buffer_addrs_def by auto

lemma covering_grow:
  assumes c: "covering H a got req_len phy_buf dm ch" and p: "paged H" and l: "0 < req_len"
    and n: "n \<le> req_len" "n \<le> PAGE_SIZE H - unat (a + word_of_nat got) mod PAGE_SIZE H"
  defines "ch1 \<equiv> ch(dm := (fst (ch dm) + word_of_nat n, snd (ch dm)))"
  shows "chain_addrs ch1 dm = buffer_addrs H a (got + n)" "unat (fst (ch1 dm)) \<le> got + n" "snd (ch1 dm) + fst (ch1 dm) = phy_buf + word_of_nat n"
proof -
  have b: "unat (fst (ch dm)) + n < 2 ^ 32" using c n(1) by (auto simp: covering_def)
  show "chain_addrs ch1 dm = buffer_addrs H a (got + n)"
    using c l chain_addrs_grow [of ch dm n, OF b] page_addrs [OF p n(2)] unfolding ch1_def covering_def buffer_addrs_add by simp
  have "unat (fst (ch dm) + word_of_nat n) = unat (fst (ch dm)) + n" using b by (simp add: unat_word_ariths unat_of_nat)
  then show "unat (fst (ch1 dm)) \<le> got + n" using c by (simp add: ch1_def covering_def)
  show "snd (ch1 dm) + fst (ch1 dm) = phy_buf + word_of_nat n" using c l by (simp add: ch1_def covering_def ac_simps)
qed

lemma range_plan_tt: "machineid H = ATARI_TT \<Longrightarrow> range_plan H i ca = None"
  by (simp add: range_plan_def wrong_dma_range_def)

lemma chain_loop_covers:
  assumes tt: "machineid H = ATARI_TT" and p: "paged H"
  shows "covering H a got req_len phy_buf dm ch \<Longrightarrow> chain_loop H k (a + word_of_nat got) req_len phy_buf dm ch = (Chained n, ch') \<Longrightarrow>
     n < MAXDMAIO H \<and> chain_addrs ch' n = buffer_addrs H a (got + req_len)"
proof (induction k arbitrary: got req_len phy_buf dm ch)
  case 0
  then show ?case by (subst (asm) chain_loop.simps) (auto simp: range_plan_tt [OF tt] covering_def split: if_splits)
next
  case (Suc k)
  show ?case
  proof (cases "req_len = 0")
    case True
    with Suc.prems show ?thesis by (subst (asm) chain_loop.simps) (auto simp: range_plan_tt [OF tt] covering_def)
  next
    case False
    define ad where "ad = a + word_of_nat got"
    define m where "m = min req_len (PAGE_SIZE H - unat ad mod PAGE_SIZE H)"
    define ch1 where "ch1 = ch(dm := (fst (ch dm) + word_of_nat m, snd (ch dm)))"
    define tmp where "tmp = kvtop H (ad + word_of_nat m)"
    have l: "0 < req_len" and m: "m \<le> req_len" "m \<le> PAGE_SIZE H - unat (a + word_of_nat got) mod PAGE_SIZE H"
      using False by (auto simp: m_def ad_def)
    note g = covering_grow [OF Suc.prems(1) p l m, folded ch1_def]
    have ad1: "ad + word_of_nat m = a + word_of_nat (got + m)" by (simp add: ad_def)
    have step: "chain_loop H (Suc k) ad req_len phy_buf dm ch =
       (if req_len - m = 0 then chain_loop H k (ad + word_of_nat m) (req_len - m) phy_buf dm ch1
        else if phy_buf + word_of_nat m = tmp then chain_loop H k (ad + word_of_nat m) (req_len - m) tmp dm ch1
        else if Suc dm \<ge> MAXDMAIO H then (NoDma, ch1)
        else chain_loop H k (ad + word_of_nat m) (req_len - m) tmp (Suc dm) (ch1(Suc dm := (0, tmp))))"
      using False by (subst chain_loop.simps) (simp add: Let_def range_plan_tt [OF tt] m_def ch1_def tmp_def cong: if_cong)
    have base: "unat a + (got + m) + (req_len - m) \<le> 2 ^ 32" "(got + m) + (req_len - m) < 2 ^ 32" "dm < MAXDMAIO H"
      using Suc.prems(1) m(1) by (auto simp: covering_def)
    have same: "covering H a (got + m) (req_len - m) pb dm ch1" if "req_len - m > 0 \<Longrightarrow> phy_buf + word_of_nat m = tmp \<and> pb = tmp" for pb
      using base g that unfolding covering_def by (auto simp: tmp_def ad1)
    have fresh: "covering H a (got + m) (req_len - m) tmp (Suc dm) (ch1(Suc dm := (0, tmp)))" if "Suc dm < MAXDMAIO H"
      using base g that unfolding covering_def chain_addrs_Suc chain_addrs_upd by (simp add: range_addrs_def tmp_def ad1)
    have IH: "n < MAXDMAIO H \<and> chain_addrs ch' n = buffer_addrs H a (got + req_len)"
      if "covering H a (got + m) (req_len - m) pb d c" "chain_loop H k (ad + word_of_nat m) (req_len - m) pb d c = (Chained n, ch')" for pb d c
      using Suc.IH [OF that(1)] that(2) m(1) by (simp add: ad1)
    from Suc.prems(2) [folded ad_def] step show ?thesis
      using IH [OF same] IH [OF fresh] by (auto split: if_splits)
  qed
qed

text \<open>The rounds are enough: more do not change the result.\<close>

lemma chain_loop_fuel:
  assumes p: "0 < PAGE_SIZE H"
  shows "req_len \<le> k \<Longrightarrow> req_len \<le> k' \<Longrightarrow> chain_loop H k ad req_len phy_buf dm ch = chain_loop H k' ad req_len phy_buf dm ch"
proof (induction k arbitrary: k' ad req_len phy_buf dm ch)
  case 0
  then show ?case by (subst (1 2) chain_loop.simps) simp
next
  case (Suc k)
  show ?case
  proof (cases "req_len = 0")
    case True
    then show ?thesis by (subst (1 2) chain_loop.simps) simp
  next
    case False
    then obtain k1 where k1: "k' = Suc k1" using Suc.prems by (cases k') auto
    define m where "m = min req_len (PAGE_SIZE H - unat ad mod PAGE_SIZE H)"
    have "0 < m" using False p by (simp add: m_def)
    then have le: "req_len - m \<le> k" "req_len - m \<le> k1" using Suc.prems k1 by auto
    show ?thesis unfolding k1
      by (subst (1 2) chain_loop.simps) (simp only: False if_False nat.case Let_def m_def [symmetric] Suc.IH [OF le])
  qed
qed

end
