(* ===== verification/Nca_Props.thy ===== *)
theory Nca_Props
  imports Nca_Live Nca_Chain
begin

text \<open>
  The properties of the Atari driver, with concrete machines on which their hypotheses hold.
\<close>

subsection \<open>Sequences of calls\<close>

text \<open>Before attachment: nothing is queued, no block uses DMA, the lock is not held.\<close>

definition nca_fresh :: "'d nca \<Rightarrow> bool" where
  "nca_fresh w \<longleftrightarrow> free_q w = [] \<and> issue_q w = [] \<and> discon_q w = [] \<and> connected w = None \<and> \<not> main_running w \<and>
     falcon_lock w = Unlocked \<and> no_dma w \<and> taken w = [] \<and> returned w = [] \<and> (\<forall>x. x_target (xfers w x) < 8)"

definition attached :: "'d nca_hw \<Rightarrow> 'd nca \<Rightarrow> 'd nca" where "attached H w = snd (run_state (ncr_attach H) w)"

lemma attached_eq: "\<exists>d. attached H w = w\<lparr>sc_noselatn := 0, sc_selected := 0, free_q := rev [0..<NREQ] @ free_q w, dev := d\<rparr>"
  by (simp add: attached_def ncr_attach_def run_simps io_def split: prod.split) (cases w, auto)

lemma attach_rest:
  assumes "nca_fresh w"
  shows "nca_rest (attached H w)"
proof -
  obtain d where a: "attached H w = w\<lparr>sc_noselatn := 0, sc_selected := 0, free_q := rev [0..<NREQ] @ free_q w, dev := d\<rparr>"
    using attached_eq [of H w] by auto
  show ?thesis using assms
    by (simp add: a nca_rest_def nca_idle_def nca_ok_def nca_inv_def guarded_def books_def links_def nexus_def held_def owned_def conn_def
        no_dma_def nca_fresh_def)
qed

text \<open>C4: On a Falcon, from attachment on and whatever the hardware does, after every sequence of calls that return (requests, bus
  resets, both kinds of interrupts, the grant of the DMA lock) every request block is in exactly one place (the free list, the
  issue queue or the queue of disconnected requests), none is connected, and every transfer that was taken over has either
  come back exactly once or is held by exactly one block. Two conditions: a successful \<open>st_dmagrab\<close> has granted the lock, and the
  mid-layer does not stray, that is, from within \<open>scsipi_done\<close> it hands transfers over only while the main routine runs, and no
  bus resets. (Handing one over from within a bus reset outside the main routine does lose it: the queue of disconnected
  requests is cleared afterwards.)\<close>

theorem falcon_calls_keep_books:
  assumes "machineid H = ATARI_FALCON" "grab_grants H" "nca_fresh w" "\<forall>(a, c)\<in>set cs. call_fits c"
    and "do_calls H cs (attached H w) = Some (e, w')" "\<not> strayed w'"
  shows "mset (free_q w' @ issue_q w' @ discon_q w') = mset [0..<NREQ] \<and> connected w' = None \<and>
     mset (taken w') = mset (map (\<lambda>r. xs (reqs w' r)) (filter (real_req w') (issue_q w' @ discon_q w'))) + mset (map fst (returned w'))"
proof -
  have r: "nca_rest w'" using do_calls_ok [OF assms(1,2) attach_rest [OF assms(3)] assms(4,5)] by simp
  then have c: "connected w' = None" by (simp add: nca_rest_def nca_idle_def)
  have b: "books (discon_q w') [] w'" using r by (simp add: nca_rest_def nca_idle_def nca_ok_def nca_inv_def)
  have o: "owned (discon_q w') [] w' = issue_q w' @ discon_q w'" using c by (simp add: owned_def conn_def)
  show ?thesis using b c unfolding books_def held_def o by simp
qed

text \<open>C8: On a Falcon no sequence of calls, whatever the targets answer, ends in the panic of the code that takes a linked request off
  the issue queue; and while a request is disconnected the driver holds the lock of the ST DMA controller. Two
  conditions: a successful \<open>st_dmagrab\<close> has granted the lock, and the mid-layer does not stray, that is, from within
  \<open>scsipi_done\<close> it hands transfers over only while the main routine runs, and no bus resets.\<close>

theorem falcon_never_panics:
  assumes "machineid H = ATARI_FALCON" "grab_grants H" "nca_fresh w" "\<forall>(a, c)\<in>set cs. call_fits c"
    and "do_calls H cs (attached H w) = Some (e, w')" "\<not> strayed w'"
  shows "e = Returned \<and> (discon_q w' \<noteq> [] \<longrightarrow> falcon_lock w' = DMA_LOCK_GRANT)"
  using do_calls_ok [OF assms(1,2) attach_rest [OF assms(3)] assms(4,5)] by (simp add: nca_rest_def guarded_def)

subsection \<open>Nobody answers\<close>

lemma quiet_scsi_main:
  assumes q: "quiet_bus H" and w: "connected w = None" "busy w = 0" "arrivals w = []"
  shows "\<exists>w'. scsi_main H w = Some (Returned, w') \<and> drained w (issue_q w) [] w' \<and> \<not> main_running w'"
proof -
  obtain d where i: "run_state (io (scsi_idisable H)) w = ((), w\<lparr>dev := d\<rparr>)"
    by (cases "run_state (scsi_idisable H) (dev w)") (simp add: io_def)
  let ?v = "w\<lparr>dev := d\<rparr>"
  have "drained ?v [] (issue_q ?v) ?v" using w by (simp add: drained_def)
  from quiet_main_loop [OF q this] obtain w' where "c_loop (main_step H) (Top, ?v) = Some (Returned, w')"
    "drained ?v (issue_q w) [] w'" "\<not> main_running w'" by auto
  moreover have "real_req ?v = real_req w" by (simp add: real_req_def fun_eq_iff)
  ultimately show ?thesis by (auto simp: scsi_main_def i drained_def)
qed

text \<open>C22: On a bus where arbitration is won and no target answers, the main routine returns: every request that waited has come back, in
  the order of the queue, with a selection timeout (the link checks without a word to the mid-layer), and its block is free.\<close>

theorem quiet_bus_drains:
  assumes "quiet_bus H" "connected w = None" "busy w = 0" "arrivals w = []"
  shows "\<exists>w'. scsi_main H w = Some (Returned, w') \<and> issue_q w' = [] \<and> free_q w' = rev (issue_q w) @ free_q w \<and>
     returned w' = returned w @ map (\<lambda>r. (xs (reqs w r), XS_SELTIMEOUT)) (filter (real_req w) (issue_q w)) \<and> \<not> main_running w'"
  using quiet_scsi_main [OF assms] by (auto simp: drained_def)

subsection \<open>BSY lost\<close>

text \<open>C21: When a target on a TT drops BSY in the middle of a DMA transfer and leaves the bus free, the driver gives the request back twice:
  \<open>dma_ready\<close> finishes it but leaves it connected, and the main routine then finishes it again. Its block is on the free list twice.\<close>

theorem lost_bsy_completes_twice:
  assumes "lost_bsy H" "in_dma w" "connected w = Some r" "dr_flag (reqs w r) AND (DRIVER_LINKCHK OR DRIVER_BOUNCING) = 0"
    and "busy w = targ_bit w r" "issue_q w = []" "discon_q w = []" "arrivals w = []" "\<not> main_running w"
  shows "\<exists>e w'. ncr_dma_intr H w = Some (Returned, w') \<and>
     returned w' = returned w @ [(xs (reqs w r), e), (xs (reqs w r), XS_TIMEOUT)] \<and> free_q w' = r # r # free_q w"
proof -
  let ?x = "xs (reqs w r)"
  have tt: "machineid H = ATARI_TT" using assms(1) by (simp add: lost_bsy_def)
  have a: "alone plain_req r ?x (returned w) (free_q w) w" using assms by (simp add: alone_def)
  let ?m = "do { io (scsi_idisable H); dma_ready H }"
  have t: "triple (alone plain_req r ?x (returned w) (free_q w)) ?m (\<lambda>b v. b \<and> (\<exists>e. alone stopped_req r ?x (returned w @ [(?x, e)]) (r # free_q w) v))"
    by (rule io_skip [OF soft_alone alone_dma_ready [OF assms(1)]])
  have k: "keeps_lock ?m" by (intro lock_rules)
  obtain b v where m: "run_state ?m w = (b, v)" by fastforce
  from tripleD [OF t a m] obtain e where b: b and v: "alone stopped_req r ?x (returned w @ [(?x, e)]) (r # free_q w) v" by auto
  have "\<not> main_running v" using runningD [OF k m] assms(9) by simp
  then have rm: "run_main H v = scsi_main H (v\<lparr>main_running := True\<rparr>)" by (simp add: run_main_def claimed_dma_def tt)
  have "alone stopped_req r ?x (returned w @ [(?x, e)]) (r # free_q w) (v\<lparr>main_running := True\<rparr>)" using v by (simp add: alone_def targ_bit_def)
  from lost_scsi_main [OF assms(1) this] show ?thesis
    using m b assms(2) by (auto simp: ncr_dma_intr_def rm)
qed

subsection \<open>DMA chains\<close>

text \<open>C9: The DMA chain of a request on a TT covers exactly the physical addresses of its buffer, byte for byte and in order, and fits
  into its array, provided that pages are contiguous and the buffer does not wrap around.\<close>

theorem dma_chain_covers:
  assumes "machineid H = ATARI_TT" "paged H" "unat addr + unat len \<le> 2 ^ 32" "build_chain H addr len ch0 = (Chained n, ch)"
  shows "n < MAXDMAIO H \<and> chain_addrs ch n = buffer_addrs H addr (unat len)"
proof -
  have l: "len \<noteq> 0" and c: "chain_loop H (unat len) addr (unat len) (kvtop H addr) 0 (ch0(0 := (0, kvtop H addr))) = (Chained n, ch)"
    using assms(4) by (auto simp: build_chain_def split: if_splits)
  have "unat len < 2 ^ 32" using unsigned_less [of len] by simp
  then have "covering H addr 0 (unat len) (kvtop H addr) 0 (ch0(0 := (0, kvtop H addr)))"
    using assms(3) by (simp add: covering_def chain_addrs_def range_addrs_def buffer_addrs_def MAXDMAIO_def)
  from chain_loop_covers [OF assms(1,2) this, of "unat len" n ch] c show ?thesis by simp
qed

subsection \<open>Concrete machines\<close>

text \<open>
  A Falcon with no target on its bus: the device is the last value of the mode register of the DMA controller, and the register
  that it selects reads as 0, but for AIP.
\<close>

definition empty_falcon :: "u32 nca_hw" where
  "empty_falcon = \<lparr>machineid = ATARI_FALCON, FALCON_SCSI = True,
     rd_port = (\<lambda>p d. (if p = Dma_data \<and> d = 0x89 then 0x40 else 0, d)), wr_port = (\<lambda>p v d. if p = Dma_mode then v else d),
     mem_rd = (\<lambda>a d. (0, d)), mem_wr = (\<lambda>a v d. d), delay = (\<lambda>n d. d),
     st_dmagrab = (\<lambda>b d. ((True, DMA_LOCK_GRANT), d)), st_dmafree = (\<lambda>d. (Unlocked, d)), st_dmawanted = (\<lambda>d. (False, d)),
     st_dmaaddr_set = (\<lambda>a d. d), st_dmaaddr_get = (\<lambda>d. (0, d)), add_sicallback = (\<lambda>f d. d), rem_sicallback = (\<lambda>f d. d),
     kvtop = (\<lambda>a. a), alloc_stmem = (\<lambda>n d. (None, d)), free_stmem = (\<lambda>a d. d), PAGE_SIZE = 4096, MAXPHYS = 65536, sense_size = 32,
     DMA_SCSI = 0x88, DMA_WRBIT = 0x100, IB_DINT = 0x80, IO_DINT = 0x20, IA_SCSI = 0x80, IB_SCDM = 0x80\<rparr>"

text \<open>A TT whose chip says that BSY was lost, with the bus free.\<close>

definition bsyless_tt :: "unit nca_hw" where
  "bsyless_tt = \<lparr>machineid = ATARI_TT, FALCON_SCSI = False,
     rd_port = (\<lambda>p d. (if p = Scsi_5380 5 then 0x04 else 0, d)), wr_port = (\<lambda>p v d. d),
     mem_rd = (\<lambda>a d. (0, d)), mem_wr = (\<lambda>a v d. d), delay = (\<lambda>n d. d),
     st_dmagrab = (\<lambda>b d. ((True, DMA_LOCK_GRANT), d)), st_dmafree = (\<lambda>d. (Unlocked, d)), st_dmawanted = (\<lambda>d. (False, d)),
     st_dmaaddr_set = (\<lambda>a d. d), st_dmaaddr_get = (\<lambda>d. (0, d)), add_sicallback = (\<lambda>f d. d), rem_sicallback = (\<lambda>f d. d),
     kvtop = (\<lambda>a. if a < 16 then a + 0x400 else a + 0x800), alloc_stmem = (\<lambda>n d. (None, d)), free_stmem = (\<lambda>a d. d),
     PAGE_SIZE = 16, MAXPHYS = 64, sense_size = 32,
     DMA_SCSI = 0x88, DMA_WRBIT = 0x100, IB_DINT = 0x80, IO_DINT = 0x20, IA_SCSI = 0x80, IB_SCDM = 0x80\<rparr>"

definition blank_req :: sc_req_blk where
  "blank_req = \<lparr>link = None, xs = 0, dr_flag = 0, phase = 8, msgout = 8, targ_id = 0, targ_lun = 0, status = 0, message = 0, bounceb = 0,
     bouncerp = 0, dm_chain = (\<lambda>_. (0, 0)), dm_cur = 0, dm_last = 0, xdata_len = 0, xdata_ptr = 0, xcmd = [0, 0, 0, 0, 0, 0], xcmd_len = 6\<rparr>"

definition blank_xfer :: nca_xfer where
  "blank_xfer = \<lparr>x_target = 3, x_lun = 0, x_poll = False, x_reset = False, x_data = 0, x_datalen = 0, x_cmd = [0, 0, 0, 0, 0, 0], sense = 0,
     x_error = XS_NOERROR, x_resid = 0\<rparr>"

definition blank :: "'d \<Rightarrow> 'd nca" where
  "blank d = \<lparr>free_q = [], issue_q = [], discon_q = [], connected = None, busy = 0, main_running = False, sc_noselatn = 0, sc_selected = 0,
     ncr_test_link = 0x7f, ncr_will_link = 0, ncr5380_no_parchk = 0xff, falcon_lock = Unlocked, reqs = (\<lambda>_. blank_req), xfers = (\<lambda>_. blank_xfer),
     taken = [], returned = [], arrivals = [], strayed = False, dev = d\<rparr>"

lemma quiet_falcon: "quiet_bus empty_falcon" and free_tt: "lost_bsy bsyless_tt"
  by (simp_all add: quiet_bus_def lost_bsy_def bus_free_def GET_5380_REG_def get_falcon_5380_reg_def get_tt_5380_reg_def wrp_def rdp_def put_def
      empty_falcon_def bsyless_tt_def)

lemma falcon_grants: "machineid empty_falcon = ATARI_FALCON" "grab_grants empty_falcon"
  by (simp_all add: empty_falcon_def grab_grants_def)

lemma blank_fresh: "nca_fresh (blank d)"
  by (simp add: nca_fresh_def blank_def no_dma_def blank_req_def blank_xfer_def)

text \<open>One transfer on the empty Falcon.\<close>

abbreviation (input) "one_call \<equiv> [([] :: nat list list, Run_xfer 7 blank_xfer)]"

lemma one_call_returns:
  "\<exists>w'. do_calls empty_falcon one_call (attached empty_falcon (blank 0)) = Some (Returned, w') \<and> \<not> strayed w'"
proof -
  from attached_eq [of empty_falcon "blank 0"] obtain d where
    a: "attached empty_falcon (blank 0) = (blank 0)\<lparr>sc_noselatn := 0, sc_selected := 0, free_q := rev [0..<NREQ] @ free_q (blank (0 :: u32)), dev := d\<rparr>" ..
  let ?w = "(attached empty_falcon (blank 0))\<lparr>arrivals := [], xfers := (xfers (attached empty_falcon (blank 0)))(7 := blank_xfer)\<rparr>"
  have n: "rev [0..<NREQ] = 17 # 16 # rev [0..<16]" by (simp add: NREQ_def upt_conv_Cons numeral_nat)
  obtain w1 where s: "run_state (submit empty_falcon 7) ?w = (True, w1)" and c: "connected w1 = None" "busy w1 = 0" "arrivals w1 = []"
      "falcon_lock w1 = Unlocked" "\<not> main_running w1" "\<not> strayed w1"
    by (simp add: submit_def run_simps scsi_dmaok_def falcon_grants nca_enqueue_def link_check_def a n)
      (simp add: blank_def init_req_def blank_req_def blank_xfer_def or_cmd_def run_simps link_check_def)
  obtain w2 where "run_state (claimed_dma empty_falcon) w1 = (True, w2)" "connected w2 = None" "busy w2 = 0" "arrivals w2 = []" "\<not> strayed w2"
    using c by (simp add: claimed_dma_def falcon_claimed_dma_def falcon_grants run_simps io_def) (simp add: empty_falcon_def run_simps)
  moreover from calculation obtain w' where "scsi_main empty_falcon (w2\<lparr>main_running := True\<rparr>) = Some (Returned, w')" "\<not> strayed w'"
    using quiet_scsi_main [OF quiet_falcon, of "w2\<lparr>main_running := True\<rparr>"] by (auto simp: drained_def)
  ultimately have "run_main empty_falcon w1 = Some (Returned, w')" "\<not> strayed w'" using c(5) by (simp_all add: run_main_def)
  then show ?thesis using s by (auto simp: ncr5380_scsi_request_def blank_xfer_def)
qed

theorem falcon_calls_keep_books_witness:
  "\<exists>w'. do_calls empty_falcon one_call (attached empty_falcon (blank 0)) = Some (Returned, w') \<and>
     mset (free_q w' @ issue_q w' @ discon_q w') = mset [0..<NREQ] \<and> connected w' = None \<and>
     mset (taken w') = mset (map (\<lambda>r. xs (reqs w' r)) (filter (real_req w') (issue_q w' @ discon_q w'))) + mset (map fst (returned w'))"
proof -
  obtain w' where w': "do_calls empty_falcon one_call (attached empty_falcon (blank 0)) = Some (Returned, w')" "\<not> strayed w'"
    using one_call_returns by blast
  have "\<forall>(a, c)\<in>set one_call. call_fits c" by (simp add: blank_xfer_def)
  from falcon_calls_keep_books [OF falcon_grants blank_fresh this w'] w'(1) show ?thesis by blast
qed

theorem falcon_never_panics_witness:
  "\<exists>e w'. do_calls empty_falcon one_call (attached empty_falcon (blank 0)) = Some (e, w') \<and>
     e = Returned \<and> (discon_q w' \<noteq> [] \<longrightarrow> falcon_lock w' = DMA_LOCK_GRANT)"
proof -
  obtain w' where w': "do_calls empty_falcon one_call (attached empty_falcon (blank 0)) = Some (Returned, w')" "\<not> strayed w'"
    using one_call_returns by blast
  have "\<forall>(a, c)\<in>set one_call. call_fits c" by (simp add: blank_xfer_def)
  from falcon_never_panics [OF falcon_grants blank_fresh this w'] w'(1) show ?thesis by blast
qed

text \<open>Two requests wait, one of them a link check.\<close>

definition two_waiting :: "u32 nca" where
  "two_waiting = (blank 0)\<lparr>issue_q := [4, 2], reqs := (\<lambda>_. blank_req)(4 := blank_req\<lparr>dr_flag := DRIVER_LINKCHK\<rparr>, 2 := blank_req\<lparr>xs := 9\<rparr>)\<rparr>"

theorem quiet_bus_drains_witness:
  "\<exists>w'. scsi_main empty_falcon two_waiting = Some (Returned, w') \<and> issue_q w' = [] \<and> free_q w' = [2, 4] \<and> returned w' = [(9, XS_SELTIMEOUT)]"
  using quiet_bus_drains [OF quiet_falcon, of two_waiting] by (auto simp: two_waiting_def blank_def real_req_def blank_req_def)

text \<open>Block 5 is in the middle of a DMA transfer for the transfer 9.\<close>

definition in_transfer :: "unit nca" where
  "in_transfer = (blank ())\<lparr>connected := Some 5, busy := 1, reqs := (\<lambda>_. blank_req)(5 := blank_req\<lparr>dr_flag := DRIVER_IN_DMA, xs := 9\<rparr>)\<rparr>"

theorem lost_bsy_completes_twice_witness:
  "\<exists>e w'. ncr_dma_intr bsyless_tt in_transfer = Some (Returned, w') \<and> returned w' = [(9, e), (9, XS_TIMEOUT)] \<and> free_q w' = [5, 5]"
  using lost_bsy_completes_twice [OF free_tt, of in_transfer 5]
  by (auto simp: in_transfer_def blank_def blank_req_def in_dma_def targ_bit_def)

lemma two_pages: "paged bsyless_tt"
proof -
  have "(a + word_of_nat k < (16 :: u32)) = (a < 16)" if "k < 16 - unat a mod 16" for a :: u32 and k
  proof -
    have lt: "unat a < 2 ^ 32" using unsigned_less [of a] by simp
    have "unat a = 16 * (unat a div 16) + unat a mod 16" by simp
    then have "unat a + k < 16 * (unat a div 16) + 16" using that by linarith
    moreover have "16 * (unat a div 16) + 16 \<le> 2 ^ 32" using lt by auto
    ultimately have "unat (a + word_of_nat k) = unat a + k" by (simp add: unat_word_ariths unat_of_nat)
    moreover have "unat a + k < 16 \<longleftrightarrow> unat a < 16" using that by auto
    ultimately show ?thesis by (simp add: word_less_nat_alt)
  qed
  then show ?thesis by (simp add: paged_def bsyless_tt_def)
qed

text \<open>Twenty-four bytes from address 4 on, over two pages that are not adjacent in physical memory.\<close>

lemma two_page_chain: "fst (build_chain bsyless_tt 4 24 (\<lambda>_. (0, 0))) = Chained 1"
  by code_simp

theorem dma_chain_covers_witness:
  "\<exists>ch. build_chain bsyless_tt 4 24 (\<lambda>_. (0, 0)) = (Chained 1, ch) \<and> 1 < MAXDMAIO bsyless_tt \<and>
     chain_addrs ch 1 = buffer_addrs bsyless_tt 4 24"
proof -
  obtain ch where ch: "build_chain bsyless_tt 4 24 (\<lambda>_. (0, 0)) = (Chained 1, ch)" using two_page_chain by (metis prod.collapse)
  have "machineid bsyless_tt = ATARI_TT" by (simp add: bsyless_tt_def)
  from dma_chain_covers [OF this two_pages _ ch] ch show ?thesis by simp
qed

end
