(* ===== verification/Spec2Isabelle.thy ===== *)
theory Spec2Isabelle
  imports Chip_Props Sun_Dma Emu_Frame Sdmm_Props Mmc_Props Ncr_Pio Sbc_Props Nca_Props
begin

text \<open>
  Wish5380: a synthesizable replica of the NCR 5380 SCSI chip and the drivers it has to serve.

  \<^bold>\<open>The program.\<close> The repository holds the chip in SystemVerilog (\<^verbatim>\<open>src/src\<close>) and, as its
  specification by use, the drivers of real systems for the chip and for SD cards
  (\<^verbatim>\<open>src/doc/drivers\<close>). The drivers poll and write the eight registers of the chip; the chip
  drives and watches a wired-OR bus on which initiators and targets shake hands.

  \<^bold>\<open>The parts and their theories.\<close>

  \<^item> \<open>Prelude\<close>: the machine types, bits of registers, loops that may run forever (\<open>c_loop\<close>,
  \<open>st_loop\<close>, where \<open>None\<close> is not returning) with rules for total and partial correctness, and triples
  \<open>triple P m Q\<close> over the state monad.

  \<^item> The chip. \<open>Sci_Regs\<close> is \<^verbatim>\<open>sci_regs.sv\<close> (registers, read multiplexer, strobes), \<open>Sci_Bus\<close> is
  \<^verbatim>\<open>sci_bus.sv\<close> and \<^verbatim>\<open>scsi_fabric.sv\<close> (what the chip drives, arbitration, the DMA handshake,
  interrupts), \<open>Wish5380\<close> joins them as \<^verbatim>\<open>wish5380.sv\<close> does; one application of \<open>wish5380_step\<close> is
  one clock. \<open>Chip_Pair\<close> puts two chips on one bus,
  each with a host that answers its DRQ when it likes, and states as the locale \<open>byte_link\<close> what a link
  of bytes needs for nothing to be lost. \<open>Chip_Props\<close>: the bus settles in one way,
  registers read back, arbitration begins on a free bus and is lost only to another device, an
  invariant of all reachable states, DMA transfers between two chips in both directions and under
  any timing of the hosts, the effect of a bus reset.

  \<^item> EmuTOS, \<^verbatim>\<open>doc/drivers/EmuTOS/scsi.c\<close>. \<open>Emu_Hw\<close> (registers of TT and Falcon, DMA), \<open>Emu_Scsi\<close>
  (timed waits, phases, arbitration, selection), \<open>Emu_Cmd\<close> (commands, entry points). \<open>Emu_Clock\<close> states
  as the locale \<open>clocked\<close> that time passes on a machine, and shows there that every timed wait returns. \<open>Emu_Chip\<close>
  interprets it on an example machine, a TT whose 5380 is the model of the chip (\<open>tt_hw\<close>; its counter ticks at each
  read and its DMA chip does nothing, which are choices of the example), and shows there that a
  lost arbitration hangs the driver. \<open>Emu_Props\<close>: \<open>scsi_rw\<close> refines an abstract list of
  requests, read and write commands decode to what they were built from. \<open>Emu_Frame\<close>: a command
  touches one variable only, and leaves the bus released.

  \<^item> The Sun drivers, \<^verbatim>\<open>doc/drivers/SunOS34/sunstand/si.c\<close> and \<^verbatim>\<open>mon3/si.c\<close>. \<open>Sun_Si\<close> (waits and
  bytes), \<open>Sun_Cmd\<close> (probe, open, a command; the record \<open>flavour\<close> tells the two apart), \<open>Sun_Trace\<close>
  (accesses as a trace), \<open>Sun_Props\<close> (every command ends complete, with the bytes moved as its result, or in a reset, bytes are
  handshaken in order, when the status loop returns), \<open>Sun_Dma\<close> (counts, and where the leftover bytes of a receive are stored).

  \<^item> FatFs, \<^verbatim>\<open>doc/drivers/SD/FatFs/sdmm.c\<close>. \<open>Sdmm\<close> (pins, serial bytes, commands, blocks), \<open>Sdmm_Disk\<close>
  (disk functions), \<open>Sdmm_Props\<close> (bits on the wire, command packets, the blocks behind a
  successful read, capacities).

  \<^item> U-Boot, \<^verbatim>\<open>doc/drivers/SD/u-boot/mmc_spi.c\<close>. \<open>Mmc_Spi\<close>, and \<open>Mmc_Props\<close> (the transfers behind a successful read, which
  requests release the bus, errors that are dropped).

  \<^item> Linux, \<^verbatim>\<open>doc/drivers/Linux/NCR5380.c\<close>. \<open>Ncr_Base\<close> (data, access, polling, programmed transfer,
  start-up), \<open>Ncr_Queue\<close> (queues, error handlers, DMA), \<open>Ncr_Nexus\<close> (reselection, interrupts, selection,
  information transfer, the main loop). \<open>Ncr_Blind\<close> and \<open>Ncr_Frame\<close> are locales of invariants, by
  what they do not look at, with the routines that keep them; \<open>Ncr_Books\<close>, \<open>Ncr_Flow\<close>, \<open>Ncr_Sched\<close>
  and \<open>Ncr_Main\<close> interpret them on the books of the commands and carry these through every
  routine; \<open>Ncr_Props\<close> and \<open>Ncr_Pio\<close> state the results: no command is lost or handed back twice, a
  reset returns everything, an abort forgets exactly its command, transfers count their bytes,
  and a count of 0 overruns the buffer.

  \<^item> NetBSD, \<^verbatim>\<open>doc/drivers/NetBSD/ncr5380sbc.c\<close>. \<open>Sbc_Base\<close> (data, waits, programmed transfer), \<open>Sbc_Phase\<close>
  (message, command, data and status phases), \<open>Sbc_Machine\<close> (completion, reset, abort, the phase machine), \<open>Sbc_Sched\<close>
  (reselection, selection, the scheduler, the entry points). \<open>Sbc_Keep\<close> holds locales of invariants, each with the routines that
  keep it; \<open>Sbc_Books\<close> states the tables and the books and interprets the locales; \<open>Sbc_Flow\<close> carries them through the machine,
  with the locale \<open>aborter\<close> for what the machine needs of the abort that calls it; \<open>Sbc_Entry\<close> through reselection, selection and
  the scheduler. \<open>Sbc_Calls\<close> and \<open>Sbc_Props\<close>: every sequence of calls keeps tables and books, the model solves the recursion of
  machine and abort, an abort ends idle, message out ends, and two ways in which the driver goes wrong.

  \<^item> NetBSD on the Atari, \<^verbatim>\<open>doc/drivers/NetBSD-atari/ncr5380.c\<close> and the file that includes it, \<^verbatim>\<open>atari5380.c\<close>. \<open>Nca_Base\<close> (data, register
  access, programmed transfer), \<open>Nca_Mach\<close> (interrupt masks, DMA and its lock on TT and Falcon, DMA chains), \<open>Nca_Req\<close> (taking requests over and
  giving them back, command linking, the end of a DMA transfer, the bus reset), \<open>Nca_Phase\<close> (DMA transfer, automatic sense, messages, phases),
  \<open>Nca_Main\<close> (selection, reselection, the main loop, interrupts, entry points, attachment). \<open>Nca_Keep\<close> states the books, the links and the nexus
  and collects the programs that do not touch them; \<open>Nca_Books\<close> has the moves of blocks between the queues, \<open>Nca_Flow\<close>, \<open>Nca_Steps\<close> and
  \<open>Nca_Calls\<close> carry the invariant through the routines, the labels of the main loop and sequences of calls; \<open>Nca_Lock\<close> is about the DMA lock,
  \<open>Nca_Chain\<close> about DMA chains, \<open>Nca_Live\<close> about what happens on a dead bus and when BSY is lost. \<open>Nca_Props\<close>: on a Falcon every sequence of calls
  keeps the books and never panics, on a dead bus all requests come back, a DMA chain covers its buffer, and on a TT a lost BSY
  completes a request twice.

  \<^bold>\<open>How code becomes definitions.\<close> A driver is a program of the state monad over its own variables
  and a device state of any type; the machine, memory, time and the operating system are records of
  functions that the definitions take (\<open>emu_hw\<close>, \<open>si_hw\<close>, \<open>sd_hw\<close>, \<open>spi_hw\<close>, \<open>ncr_hw\<close>, \<open>sbc_hw\<close>, \<open>nca_hw\<close>), so a theorem
  without hypotheses about them holds on every machine. Integers are words of their width where the
  code can wrap. Results that report errors keep the source's codes or are \<open>option\<close> or a datatype.

  Concurrency of the Linux driver: code that holds \<open>hostdata->lock\<close> runs undisturbed; code that has
  released it runs an entry of a schedule (\<open>yields\<close>) before every access to the chip, any list
  of interrupts, new commands, aborts and resets. Theorems quantify over the schedule.

  NetBSD's driver runs at \<open>splbio\<close>, so a call runs undisturbed; what happens between calls is any sequence of requests, interrupts
  and timeouts, and requests that arrive from within \<open>scsipi_done\<close> are an input of the model. Its machine and its abort call each other;
  \<open>machine_at\<close> counts the levels, and two are shown to be all there are.

  The Atari driver protects its queues with \<open>splbio\<close>, and its interrupts are masked or ignored while the main routine runs, so calls are
  a sequence here, too: requests, bus resets, the interrupts, and the callback of \<open>st_dmagrab\<close> when the lock of the ST DMA controller is granted. Requests that
  \<open>scsipi_done\<close> brings are an input (\<open>arrivals\<close>), as are the fields of each request. The model takes them over while the main routine runs; when the mid-layer
  brings one at another time, or a bus reset, the model notes it in \<open>strayed\<close>, and the theorems over sequences of calls say nothing of such a run (the code does lose a request that
  arrives inside a bus reset outside the main routine). They also assume that a successful \<open>st_dmagrab\<close> has granted the lock (\<open>grab_grants\<close>). The Falcon uses no DMA (\<open>scsi_dmaok\<close>), which is what makes its books balance; on a TT they do not, as is shown.

  \<^bold>\<open>Bounds and fuel.\<close> Loops that the source bounds are structural recursion on the bound. \<open>poll_sleep\<close>
  gets as many rounds as there are ticks to the deadline, which is enough since each round sleeps a tick
  or more; \<open>pio_loop\<close> gets the exact number of rounds of \<open>do ... while (--c)\<close>, \<open>2 ^ 32\<close> for a count of
  0. Loops on which the source sets no bound are \<open>c_loop\<close> or \<open>st_loop\<close>, with theorems on when they
  return where they do. The clock (jiffies) of the Linux driver does not wrap.

  \<^bold>\<open>What the strict books leave out.\<close> Without interrupts in the schedule the Linux books balance; with
  them they are shown to balance for the routines that hold the lock, and for the main loop it is
  shown that nothing is made up. That no reconnection is overwritten by a selection rests on the
  chip clearing ARBITRATE, which the general board does not promise.

  \<^bold>\<open>Not modelled.\<close> The Hades among the Ataris, whose DMA is emulated by \<^verbatim>\<open>ncr5380_drq_intr\<close> under a bus error handler with \<open>setjmp\<close>; \<^verbatim>\<open>ncr5380_minphys\<close>, matching
  and the printing routines of the Atari driver, and requests that its \<open>scsipi_done\<close> brings outside the main routine, or that are resets; the front ends of \<^verbatim>\<open>ncr5380sbc.c\<close>, whose hooks are parameters; the kernel drivers of SunOS
  (\<^verbatim>\<open>SunOS34/sundev\<close>, \<^verbatim>\<open>SunOS412\<close>) and Linux's \<^verbatim>\<open>mmc_spi.c\<close>, which are written against kernel services that the repository does not hold (page maps, SPI messages); the board files
  of Linux (\<^verbatim>\<open>mac_scsi.c\<close> and others), which are parameters of its model; debugging code and the
  \<open>CONFIG_SUN3\<close> branches of \<^verbatim>\<open>NCR5380.c\<close>; \<^verbatim>\<open>NCR5380_info\<close> and \<^verbatim>\<open>NCR5380_exit\<close>, which only talk to
  the kernel; the SystemVerilog around the chip (target, SD back end, bus wrappers) and the test
  benches.
\<close>

end
